(* ===== verification/P9_Prelude.thy ===== *)
theory P9_Prelude
  imports Main "HOL-Library.Word"
begin

text \<open>
  Prelude of the development: the machine integers, the error values of
  \<^verbatim>\<open>std::io\<close>, the result type of a Rust call and the state monad
  \<^verbatim>\<open>io\<close> that every component shares.  A call of type \<open>('s, 'a) io\<close> runs in a
  state \<open>'s\<close> (the bytes still to be read, the bytes written so far, the kernel's state,
  the server together with the kernel) and yields a Rust result: \<open>Ok\<close>, \<open>Err\<close> or a
  panic.  The operator \<open>io_bind\<close> is the early return of Rust's \<^verbatim>\<open>?\<close>.  The
  collections \<open>io_simps\<close> and \<open>wp_rules\<close> carry the component proofs: \<open>wp\<close>
  is the weakest precondition of a call for a normal, an error and a panic postcondition.
\<close>

unbundle bit_operations_syntax

type_synonym u8 = "8 word"
type_synonym u16 = "16 word"
type_synonym u32 = "32 word"
type_synonym u64 = "64 word"

text \<open>The kinds of \<^verbatim>\<open>std::io::ErrorKind\<close> the sources name, and one for all others.\<close>

datatype error_kind =
    NotFound | PermissionDenied | ConnectionRefused | ConnectionReset | ConnectionAborted
  | NotConnected | AddrInUse | AddrNotAvailable | BrokenPipe | AlreadyExists | WouldBlock
  | InvalidInput | InvalidData | TimedOut | WriteZero | Interrupted | OtherError
  | UnexpectedEof | UnlistedKind

text \<open>
  An \<^verbatim>\<open>io::Error\<close>: either made from an errno (\<^verbatim>\<open>from_raw_os_error\<close>,
  \<^verbatim>\<open>last_os_error\<close>) or from a kind and a message, of which the message is left out.
\<close>

datatype io_error = Os int | Kinded error_kind

datatype 'a io_result = Ok 'a | Err io_error | Panic

type_synonym ('s, 'a) io = "'s \<Rightarrow> 'a io_result \<times> 's"

named_theorems io_simps
named_theorems wp_rules

definition io_return :: "'a \<Rightarrow> ('s, 'a) io" where
  "io_return x = (\<lambda>s. (Ok x, s))"

definition io_throw :: "io_error \<Rightarrow> ('s, 'a) io" where
  "io_throw e = (\<lambda>s. (Err e, s))"

definition io_panic :: "('s, 'a) io" where
  "io_panic = (\<lambda>s. (Panic, s))"

definition io_bind :: "('s, 'a) io \<Rightarrow> ('a \<Rightarrow> ('s, 'b) io) \<Rightarrow> ('s, 'b) io" where
  "io_bind m f = (\<lambda>s. case m s of
     (Ok x, t) \<Rightarrow> f x t
   | (Err e, t) \<Rightarrow> (Err e, t)
   | (Panic, t) \<Rightarrow> (Panic, t))"

text \<open>\<^verbatim>\<open>Result::or_else\<close>: the handler runs on an error only.\<close>

definition io_or_else :: "('s, 'a) io \<Rightarrow> (io_error \<Rightarrow> ('s, 'a) io) \<Rightarrow> ('s, 'a) io" where
  "io_or_else m h = (\<lambda>s. case m s of
     (Ok x, t) \<Rightarrow> (Ok x, t)
   | (Err e, t) \<Rightarrow> h e t
   | (Panic, t) \<Rightarrow> (Panic, t))"

text \<open>
  Rust drops the owned values of a scope on every exit.  \<open>io_finally m d\<close> runs \<open>d\<close>
  after \<open>m\<close>, whatever \<open>m\<close> returned; \<open>io_on_error m d\<close> runs it when \<open>m\<close>
  returns an error or panics, which is the case of a value that is moved out on success.
\<close>

definition io_finally :: "('s, 'a) io \<Rightarrow> ('s, unit) io \<Rightarrow> ('s, 'a) io" where
  "io_finally m d = (\<lambda>s. case m s of (r, t) \<Rightarrow> (r, snd (d t)))"

definition io_on_error :: "('s, 'a) io \<Rightarrow> ('s, unit) io \<Rightarrow> ('s, 'a) io" where
  "io_on_error m d = (\<lambda>s. case m s of
     (Ok x, t) \<Rightarrow> (Ok x, t)
   | (Err e, t) \<Rightarrow> (Err e, snd (d t))
   | (Panic, t) \<Rightarrow> (Panic, snd (d t)))"

text \<open>The result of a pure fallible computation as a call.\<close>

definition io_result :: "'a io_result \<Rightarrow> ('s, 'a) io" where
  "io_result r = (\<lambda>s. (r, s))"

text \<open>A result kept as a value instead of returned early (\<^verbatim>\<open>let r = f();\<close>), and \<^verbatim>\<open>Result::map\<close>.\<close>

definition io_attempt :: "('s, 'a) io \<Rightarrow> ('s, 'a io_result) io" where
  "io_attempt m = (\<lambda>s. case m s of
     (Ok x, t) \<Rightarrow> (Ok (Ok x), t)
   | (Err e, t) \<Rightarrow> (Ok (Err e), t)
   | (Panic, t) \<Rightarrow> (Panic, t))"

definition io_map :: "('a \<Rightarrow> 'b) \<Rightarrow> ('s, 'a) io \<Rightarrow> ('s, 'b) io" where
  "io_map f m = io_bind m (\<lambda>x. io_return (f x))"

lemmas io_defs = io_return_def io_throw_def io_panic_def io_bind_def io_or_else_def
  io_finally_def io_on_error_def io_result_def io_attempt_def io_map_def

lemma io_return_apply [io_simps]: "io_return x s = (Ok x, s)"
  by (simp add: io_return_def)

lemma io_throw_apply [io_simps]: "io_throw e s = (Err e, s)"
  by (simp add: io_throw_def)

lemma io_panic_apply [io_simps]: "io_panic s = (Panic, s)"
  by (simp add: io_panic_def)

lemma io_result_apply [io_simps]: "io_result r s = (r, s)"
  by (simp add: io_result_def)

lemmas io_apply [io_simps] =
  io_bind_def [THEN fun_cong] io_or_else_def [THEN fun_cong] io_finally_def [THEN fun_cong]
  io_on_error_def [THEN fun_cong] io_attempt_def [THEN fun_cong]

lemma io_map_apply [io_simps]:
  "io_map f m s = (case m s of
     (Ok x, t) \<Rightarrow> (Ok (f x), t) | (Err e, t) \<Rightarrow> (Err e, t) | (Panic, t) \<Rightarrow> (Panic, t))"
  by (auto simp: io_map_def io_bind_def io_return_def split: prod.splits io_result.splits)

lemma io_bind_Ok: "m s = (Ok x, t) \<Longrightarrow> io_bind m f s = f x t"
  by (simp add: io_bind_def)

lemma io_bind_Err: "m s = (Err e, t) \<Longrightarrow> io_bind m f s = (Err e, t)"
  by (simp add: io_bind_def)

lemma io_bind_Panic: "m s = (Panic, t) \<Longrightarrow> io_bind m f s = (Panic, t)"
  by (simp add: io_bind_def)

lemma io_bind_OkE:
  assumes "io_bind m f s = (Ok y, u)"
  obtains x t where "m s = (Ok x, t)" and "f x t = (Ok y, u)"
  using assms by (cases "m s") (auto simp: io_bind_def split: io_result.splits)

lemma io_bind_eq_Ok:
  "io_bind m f s = (Ok y, u) \<longleftrightarrow> (\<exists>x t. m s = (Ok x, t) \<and> f x t = (Ok y, u))"
  by (cases "m s") (auto simp: io_bind_def split: io_result.splits)

lemma io_bind_assoc: "io_bind (io_bind m f) g = io_bind m (\<lambda>x. io_bind (f x) g)"
  by (auto simp: io_bind_def fun_eq_iff split: prod.splits io_result.splits)

subsection \<open>Weakest preconditions\<close>

definition wp :: "('s, 'a) io \<Rightarrow> ('a \<Rightarrow> 's \<Rightarrow> bool) \<Rightarrow> (io_error \<Rightarrow> 's \<Rightarrow> bool) \<Rightarrow> ('s \<Rightarrow> bool)
    \<Rightarrow> 's \<Rightarrow> bool" where
  "wp m Q E X s = (case m s of (Ok x, t) \<Rightarrow> Q x t | (Err e, t) \<Rightarrow> E e t | (Panic, t) \<Rightarrow> X t)"

lemma wp_return [wp_rules]: "wp (io_return x) Q E X s = Q x s"
  by (simp add: wp_def io_simps)

lemma wp_throw [wp_rules]: "wp (io_throw e) Q E X s = E e s"
  by (simp add: wp_def io_simps)

lemma wp_panic [wp_rules]: "wp io_panic Q E X s = X s"
  by (simp add: wp_def io_simps)

lemma wp_result [wp_rules]:
  "wp (io_result r) Q E X s = (case r of Ok x \<Rightarrow> Q x s | Err e \<Rightarrow> E e s | Panic \<Rightarrow> X s)"
  by (simp add: wp_def io_simps split: io_result.splits)

lemma wp_bind [wp_rules]: "wp (io_bind m f) Q E X s = wp m (\<lambda>x. wp (f x) Q E X) E X s"
  by (auto simp: wp_def io_bind_def split: prod.splits io_result.splits)

lemma wp_or_else [wp_rules]:
  "wp (io_or_else m h) Q E X s = wp m Q (\<lambda>e. wp (h e) Q E X) X s"
  by (auto simp: wp_def io_or_else_def split: prod.splits io_result.splits)

lemma wp_finally [wp_rules]:
  "wp (io_finally m d) Q E X s
    = wp m (\<lambda>x t. Q x (snd (d t))) (\<lambda>e t. E e (snd (d t))) (\<lambda>t. X (snd (d t))) s"
  by (auto simp: wp_def io_finally_def split: prod.splits io_result.splits)

lemma wp_on_error [wp_rules]:
  "wp (io_on_error m d) Q E X s
    = wp m Q (\<lambda>e t. E e (snd (d t))) (\<lambda>t. X (snd (d t))) s"
  by (auto simp: wp_def io_on_error_def split: prod.splits io_result.splits)

lemma wp_attempt [wp_rules]:
  "wp (io_attempt m) Q E X s = wp m (\<lambda>x. Q (Ok x)) (\<lambda>e. Q (Err e)) X s"
  by (auto simp: wp_def io_attempt_def split: prod.splits io_result.splits)

lemma wp_map [wp_rules]: "wp (io_map f m) Q E X s = wp m (\<lambda>x. Q (f x)) E X s"
  by (auto simp: wp_def io_map_apply split: prod.splits io_result.splits)

lemma wp_mono:
  assumes "wp m Q E X s"
    and "\<And>x t. Q x t \<Longrightarrow> Q' x t" and "\<And>e t. E e t \<Longrightarrow> E' e t" and "\<And>t. X t \<Longrightarrow> X' t"
  shows "wp m Q' E' X' s"
  using assms by (auto simp: wp_def split: prod.splits io_result.splits)

lemma wp_same: "wp m (\<lambda>_. I) (\<lambda>_. I) I s = I (snd (m s))"
  by (auto simp: wp_def split: prod.splits io_result.splits)

lemma wp_Ok_D: "wp m Q E X s \<Longrightarrow> m s = (Ok x, t) \<Longrightarrow> Q x t"
  by (simp add: wp_def)

subsection \<open>Lists\<close>

lemma prefix_split_eq: "xs @ ys = zs \<Longrightarrow> length xs = n \<Longrightarrow> take n zs = xs \<and> drop n zs = ys"
  by auto

lemma sum_list_of_nat: "sum_list (map (\<lambda>x. of_nat (f x)) xs) = of_nat (sum_list (map f xs))"
  by (induction xs) auto

end
