(* ===== verification/Text_Strings.thy ===== *)
theory Text_Strings
  imports P9_Prelude
begin

text \<open>
  Rust's strings as the sources use them.  A \<^verbatim>\<open>String\<close> is its bytes; the type's
  invariant, well-formed UTF-8, is the predicate \<open>utf8_valid\<close>, which is the check that
  \<^verbatim>\<open>read_to_string\<close>, \<^verbatim>\<open>String::from_utf8\<close> and \<^verbatim>\<open>CStr::to_str\<close> make.  A
  \<^verbatim>\<open>CString\<close> is its bytes without the final nul, and its invariant is that it holds no
  other nul byte.
\<close>

type_synonym rust_string = "u8 list"
type_synonym cstring = "u8 list"

definition in_range :: "u8 \<Rightarrow> u8 \<Rightarrow> u8 \<Rightarrow> bool" where
  "in_range lo hi b = (lo \<le> b \<and> b \<le> hi)"

abbreviation continuation :: "u8 \<Rightarrow> bool" where
  "continuation \<equiv> in_range 0x80 0xBF"

text \<open>
  The well-formed byte sequences of the Unicode standard: no overlong forms, no surrogates,
  nothing above U+10FFFF.
\<close>

fun utf8_valid :: "u8 list \<Rightarrow> bool" where
  "utf8_valid [] = True"
| "utf8_valid (a # s) =
    (if a \<le> 0x7F then utf8_valid s
     else case s of
       [] \<Rightarrow> False
     | b # s2 \<Rightarrow>
        if in_range 0xC2 0xDF a then continuation b \<and> utf8_valid s2
        else case s2 of
          [] \<Rightarrow> False
        | c # s3 \<Rightarrow>
           if in_range 0xE0 0xEF a then
             (if a = 0xE0 then in_range 0xA0 0xBF b
              else if a = 0xED then in_range 0x80 0x9F b
              else continuation b) \<and> continuation c \<and> utf8_valid s3
           else case s3 of
             [] \<Rightarrow> False
           | d # s4 \<Rightarrow>
              in_range 0xF0 0xF4 a \<and>
              (if a = 0xF0 then in_range 0x90 0xBF b
               else if a = 0xF4 then in_range 0x80 0x8F b
               else continuation b) \<and> continuation c \<and> continuation d \<and> utf8_valid s4)"

text \<open>\<^verbatim>\<open>String::from_utf8\<close>, \<^verbatim>\<open>CStr::to_str\<close>: the bytes, or an error of the caller's kind.\<close>

definition string_from_utf8 :: "u8 list \<Rightarrow> rust_string option" where
  "string_from_utf8 bs = (if utf8_valid bs then Some bs else None)"

text \<open>\<^verbatim>\<open>CString::new\<close>: refused when the bytes hold a nul.\<close>

definition cstring_new :: "u8 list \<Rightarrow> cstring option" where
  "cstring_new bs = (if 0 \<in> set bs then None else Some bs)"

definition cstring_ok :: "cstring \<Rightarrow> bool" where
  "cstring_ok c = (0 \<notin> set c)"

lemma cstring_new_Some: "cstring_new bs = Some c \<longleftrightarrow> c = bs \<and> cstring_ok bs"
  by (auto simp: cstring_new_def cstring_ok_def)

lemma cstring_new_None: "cstring_new bs = None \<longleftrightarrow> 0 \<in> set bs"
  by (simp add: cstring_new_def)

text \<open>ASCII text as bytes.\<close>

definition ascii :: "string \<Rightarrow> u8 list" where
  "ascii s = map (\<lambda>c. of_nat (of_char c)) s"

text \<open>The decimal digits \<^verbatim>\<open>format!("{}", n)\<close> prints for an integer.\<close>

fun nat_digits :: "nat \<Rightarrow> u8 list" where
  "nat_digits n = (if n < 10 then [of_nat (48 + n)] else nat_digits (n div 10) @ [of_nat (48 + n mod 10)])"

declare nat_digits.simps [simp del]

definition int_digits :: "int \<Rightarrow> u8 list" where
  "int_digits i = (if i < 0 then of_nat 45 # nat_digits (nat (- i)) else nat_digits (nat i))"

lemma nat_digits_ascii: "b \<in> set (nat_digits n) \<Longrightarrow> \<exists>d<10. b = of_nat (48 + d)"
proof (induction n rule: nat_digits.induct)
  case (1 n)
  show ?case
  proof (cases "n < 10")
    case True
    with "1.prems" show ?thesis by (subst (asm) nat_digits.simps) auto
  next
    case False
    with "1.prems" have "b \<in> set (nat_digits (n div 10)) \<or> b = of_nat (48 + n mod 10)"
      by (subst (asm) nat_digits.simps) auto
    with "1.IH" False show ?thesis by (metis mod_less_divisor zero_less_numeral)
  qed
qed

lemma nat_digits_no_nul: "0 \<notin> set (nat_digits n)"
proof
  assume "0 \<in> set (nat_digits n)"
  then obtain d where d: "d < 10" and eq: "(0::u8) = of_nat (48 + d)" by (blast dest: nat_digits_ascii)
  from d have "unat (of_nat (48 + d) :: u8) = 48 + d" by (simp add: unat_of_nat del: of_nat_add)
  with eq show False by (metis add_is_0 unat_0 zero_neq_numeral)
qed

lemma int_digits_no_nul: "0 \<notin> set (int_digits i)"
  by (auto simp: int_digits_def nat_digits_no_nul)

end
