(* ===== verification/Wire_Format.thy ===== *)
theory Wire_Format
  imports Text_Strings
begin

text \<open>
  \<^verbatim>\<open>p9/src/protocol/wire_format.rs\<close>: the trait \<^verbatim>\<open>WireFormat\<close> and its
  implementations for the unsigned integers, strings, vectors and data buffers, and the
  combinators that the derive macro amounts to.  A reader is the list of bytes it delivers
  before end of file; a decoder consumes a prefix of it, also when it fails.  A writer is the
  list of bytes it has accepted.  The trait is the record \<open>wire\<close>; its contract is the
  locale \<open>wire_format\<close>, over the predicate \<open>wf\<close> that says which values go on the
  wire and the byte string \<open>bytes\<close> the protocol prescribes for them.
\<close>

type_synonym 'a reader = "(u8 list, 'a) io"
type_synonym writer = "(u8 list, unit) io"

subsection \<open>std::io::Read and std::io::Write on byte lists\<close>

text \<open>\<^verbatim>\<open>read_exact\<close>: at end of file it has consumed what there was.\<close>

definition read_exact :: "nat \<Rightarrow> u8 list reader" where
  "read_exact n = (\<lambda>s. if n \<le> length s then (Ok (take n s), drop n s)
                        else (Err (Kinded UnexpectedEof), []))"

text \<open>\<^verbatim>\<open>reader.take(n)\<close>: the decoder sees \<open>n\<close> bytes; what it leaves of them stays in the reader.\<close>

definition reader_take :: "nat \<Rightarrow> 'a reader \<Rightarrow> 'a reader" where
  "reader_take n m = (\<lambda>s. case m (take n s) of (r, left) \<Rightarrow> (r, left @ drop n s))"

text \<open>\<^verbatim>\<open>read_to_end\<close>: everything up to end of file, which is no error.\<close>

definition read_to_end :: "u8 list reader" where
  "read_to_end = (\<lambda>s. (Ok s, []))"

definition read_to_string :: "rust_string reader" where
  "read_to_string = (\<lambda>s. case string_from_utf8 s of
     Some t \<Rightarrow> (Ok t, []) | None \<Rightarrow> (Err (Kinded InvalidData), []))"

definition write_all :: "u8 list \<Rightarrow> writer" where
  "write_all bs = (\<lambda>out. (Ok (), out @ bs))"

subsection \<open>The trait\<close>

record 'a wire =
  byte_size :: "'a \<Rightarrow> u32"
  encode :: "'a \<Rightarrow> writer"
  decode :: "'a reader"

subsection \<open>Unsigned integers\<close>

text \<open>\<^verbatim>\<open>mem::size_of::<T>()\<close> of an unsigned integer type.\<close>

definition size_of :: "'a::len itself \<Rightarrow> nat" where
  "size_of _ = LENGTH('a) div 8"

definition uint_byte_size :: "'a::len word \<Rightarrow> u32" where
  "uint_byte_size _ = of_nat (size_of TYPE('a))"

definition uint_encode :: "'a::len word \<Rightarrow> writer" where
  "uint_encode x = write_all (map (\<lambda>idx. ucast (drop_bit (8 * idx) x)) [0..<size_of TYPE('a)])"

definition uint_decode :: "'a::len word reader" where
  "uint_decode = io_bind (read_exact (size_of TYPE('a))) (\<lambda>buf.
     io_return (foldl (\<lambda>result idx. result OR push_bit (8 * idx) (ucast (buf ! idx))) 0
       [0..<size_of TYPE('a)]))"

definition wire_uint :: "'a::len word wire" where
  "wire_uint = \<lparr>byte_size = uint_byte_size, encode = uint_encode, decode = uint_decode\<rparr>"

abbreviation wire_u8 :: "u8 wire" where "wire_u8 \<equiv> wire_uint"
abbreviation wire_u16 :: "u16 wire" where "wire_u16 \<equiv> wire_uint"
abbreviation wire_u32 :: "u32 wire" where "wire_u32 \<equiv> wire_uint"
abbreviation wire_u64 :: "u64 wire" where "wire_u64 \<equiv> wire_uint"

subsection \<open>Strings\<close>

definition string_byte_size :: "rust_string \<Rightarrow> u32" where
  "string_byte_size s = of_nat (size_of TYPE(16) + length s)"

definition string_encode :: "rust_string \<Rightarrow> writer" where
  "string_encode s =
    (if length s > 0xFFFF then io_throw (Kinded InvalidInput)
     else io_bind (uint_encode (of_nat (length s) :: u16)) (\<lambda>_. write_all s))"

definition string_decode :: "rust_string reader" where
  "string_decode = io_bind uint_decode (\<lambda>len :: u16. reader_take (unat len) read_to_string)"

definition wire_string :: "rust_string wire" where
  "wire_string = \<lparr>byte_size = string_byte_size, encode = string_encode, decode = string_decode\<rparr>"

subsection \<open>Vectors\<close>

definition vec_byte_size :: "'a wire \<Rightarrow> 'a list \<Rightarrow> u32" where
  "vec_byte_size W xs = of_nat (size_of TYPE(16)) + sum_list (map (byte_size W) xs)"

fun encode_elems :: "'a wire \<Rightarrow> 'a list \<Rightarrow> writer" where
  "encode_elems W [] = io_return ()"
| "encode_elems W (x # xs) = io_bind (encode W x) (\<lambda>_. encode_elems W xs)"

definition vec_encode :: "'a wire \<Rightarrow> 'a list \<Rightarrow> writer" where
  "vec_encode W xs =
    (if length xs > 0xFFFF then io_throw (Kinded InvalidInput)
     else io_bind (uint_encode (of_nat (length xs) :: u16)) (\<lambda>_. encode_elems W xs))"

fun decode_elems :: "'a wire \<Rightarrow> nat \<Rightarrow> 'a list reader" where
  "decode_elems W 0 = io_return []"
| "decode_elems W (Suc n) =
     io_bind (decode W) (\<lambda>x. io_bind (decode_elems W n) (\<lambda>xs. io_return (x # xs)))"

definition vec_decode :: "'a wire \<Rightarrow> 'a list reader" where
  "vec_decode W = io_bind uint_decode (\<lambda>len :: u16. decode_elems W (unat len))"

definition wire_vec :: "'a wire \<Rightarrow> 'a list wire" where
  "wire_vec W = \<lparr>byte_size = vec_byte_size W, encode = vec_encode W, decode = vec_decode W\<rparr>"

subsection \<open>Data buffers\<close>

type_synonym data = "u8 list"

definition MAX_DATA_LENGTH :: u32 where
  "MAX_DATA_LENGTH = 32 * 1024 * 1024"

definition data_byte_size :: "data \<Rightarrow> u32" where
  "data_byte_size d = of_nat (size_of TYPE(32)) + sum_list (map uint_byte_size d)"

definition data_encode :: "data \<Rightarrow> writer" where
  "data_encode d =
    (if length d > 0xFFFFFFFF then io_throw (Kinded InvalidInput)
     else io_bind (uint_encode (of_nat (length d) :: u32)) (\<lambda>_. write_all d))"

definition data_decode :: "data reader" where
  "data_decode = io_bind uint_decode (\<lambda>len :: u32.
     if len > MAX_DATA_LENGTH then io_throw (Kinded InvalidData)
     else io_bind (reader_take (unat len) read_to_end) (\<lambda>buf.
       if length buf = unat len then io_return buf else io_throw (Kinded UnexpectedEof)))"

definition wire_data :: "data wire" where
  "wire_data = \<lparr>byte_size = data_byte_size, encode = data_encode, decode = data_decode\<rparr>"

subsection \<open>derive(P9WireFormat)\<close>

text \<open>
  The derived implementation for a struct adds the sizes of its fields, encodes them and
  decodes them in order: \<open>wire_pair\<close> is two fields one after the other, and
  \<open>wire_struct\<close> reads a struct as the tuple of its fields and builds it from them.
\<close>

definition wire_pair :: "'a wire \<Rightarrow> 'b wire \<Rightarrow> ('a \<times> 'b) wire" where
  "wire_pair A B = \<lparr>
     byte_size = (\<lambda>(a, b). byte_size A a + byte_size B b),
     encode = (\<lambda>(a, b). io_bind (encode A a) (\<lambda>_. encode B b)),
     decode = io_bind (decode A) (\<lambda>a. io_bind (decode B) (\<lambda>b. io_return (a, b)))\<rparr>"

definition wire_struct :: "('s \<Rightarrow> 't) \<Rightarrow> ('t \<Rightarrow> 's) \<Rightarrow> 't wire \<Rightarrow> 's wire" where
  "wire_struct tuple build W = \<lparr>
     byte_size = (\<lambda>s. byte_size W (tuple s)),
     encode = (\<lambda>s. encode W (tuple s)),
     decode = io_bind (decode W) (\<lambda>t. io_return (build t))\<rparr>"

subsection \<open>The contract of the trait\<close>

text \<open>
  A decoder's soundness has one exception the sources force on it: \<^verbatim>\<open>String::decode\<close>
  accepts a string cut short by end of file, so what was consumed is the prescribed encoding
  only if something was left, or for a type that does not end in a string
  (\<open>wire_strict\<close>).
\<close>

locale wire_format =
  fixes W :: "'a wire" and wf :: "'a \<Rightarrow> bool" and bytes :: "'a \<Rightarrow> u8 list"
  assumes encode_wf: "wf x \<Longrightarrow> encode W x out = (Ok (), out @ bytes x)"
    and encode_appends: "\<exists>r bs. r \<noteq> Panic \<and> (\<forall>out. encode W x out = (r, out @ bs))"
    and byte_size_wf: "wf x \<Longrightarrow> byte_size W x = of_nat (length (bytes x))"
    and decode_bytes: "wf x \<Longrightarrow> decode W (bytes x @ rest) = (Ok x, rest)"
    and decode_sound: "decode W inp = (Ok x, rest) \<Longrightarrow>
      wf x \<and> (\<exists>pre. inp = pre @ rest \<and> length pre = length (bytes x) \<and> (rest \<noteq> [] \<longrightarrow> pre = bytes x))"
    and decode_suffix: "\<exists>pre. inp = pre @ snd (decode W inp)"
    and decode_no_panic: "fst (decode W inp) \<noteq> Panic"
    and decode_nil: "decode W [] = (Err (Kinded UnexpectedEof), [])"
begin

lemma bytes_nonempty: "wf x \<Longrightarrow> bytes x \<noteq> []"
  using decode_bytes [of x "[]"] decode_nil by auto

lemma encode_decode: "wf x \<Longrightarrow> encode W x [] = (Ok (), bs) \<Longrightarrow> decode W (bs @ rest) = (Ok x, rest)"
  using decode_bytes [of x rest] by (auto simp: encode_wf)

lemma bytes_prefix_free:
  "wf x \<Longrightarrow> wf y \<Longrightarrow> bytes x @ r = bytes y @ s \<Longrightarrow> x = y \<and> r = s"
  by (metis decode_bytes io_result.inject(1) prod.inject)

lemma decode_shrinks: "decode W inp = (Ok x, rest) \<Longrightarrow> length rest < length inp"
proof -
  assume d: "decode W inp = (Ok x, rest)"
  from decode_sound [OF d] obtain pre
    where wf: "wf x" and inp: "inp = pre @ rest" and len: "length pre = length (bytes x)" by blast
  from bytes_nonempty [OF wf] len have "0 < length pre" by simp
  with inp show ?thesis by simp
qed

lemma decode_canonical_if_more:
  "decode W inp = (Ok x, rest) \<Longrightarrow> rest \<noteq> [] \<Longrightarrow> inp = bytes x @ rest"
  using decode_sound by blast

lemma decode_length: "decode W inp = (Ok x, rest) \<Longrightarrow> length inp = length (bytes x) + length rest"
  using decode_sound by fastforce

lemma decode_wf: "decode W inp = (Ok x, rest) \<Longrightarrow> wf x"
  using decode_sound by blast

lemma decode_cases:
  obtains x rest where "decode W inp = (Ok x, rest)"
  | e rest where "decode W inp = (Err e, rest)"
  using decode_no_panic [of inp] by (cases "decode W inp"; cases "fst (decode W inp)") auto

lemma encode_no_panic: "fst (encode W x out) \<noteq> Panic"
  using encode_appends [of x] by fastforce

end

locale wire_strict = wire_format +
  assumes decode_canonical: "decode W inp = (Ok x, rest) \<Longrightarrow> inp = bytes x @ rest"
begin

lemma decode_iff: "decode W inp = (Ok x, rest) \<longleftrightarrow> wf x \<and> inp = bytes x @ rest"
  using decode_canonical decode_wf decode_bytes by blast

text \<open>A strict type never takes less than its whole encoding: cut short, it is an error.\<close>

lemma decode_cut:
  assumes "wf x" and "bytes x = a @ b" and "b \<noteq> []"
  shows "\<exists>e rest. decode W a = (Err e, rest)"
proof (rule decode_cases [of a])
  fix y rest
  assume "decode W a = (Ok y, rest)"
  then have "wf y" and "a = bytes y @ rest" by (auto dest: decode_wf decode_canonical)
  with assms(1,2) bytes_prefix_free [of x y "[]" "rest @ b"] have "rest @ b = []" by simp
  with assms(3) show ?thesis by simp
qed blast

end

named_theorems wire_intros

subsection \<open>Integers keep it\<close>

definition wf_uint :: "'a::len word \<Rightarrow> bool" where
  "wf_uint x = True"

text \<open>The bytes of an integer, least significant first.\<close>

definition uint_bytes :: "'a::len word \<Rightarrow> u8 list" where
  "uint_bytes x = map (\<lambda>idx. ucast (drop_bit (8 * idx) x)) [0..<size_of TYPE('a)]"

lemma length_uint_bytes [simp]: "length (uint_bytes (x :: 'a::len word)) = size_of TYPE('a)"
  by (simp add: uint_bytes_def)

definition uint_of_bytes :: "u8 list \<Rightarrow> 'a::len word" where
  "uint_of_bytes buf = foldl (\<lambda>result idx. result OR push_bit (8 * idx) (ucast (buf ! idx))) 0
     [0..<size_of TYPE('a)]"

lemma bit_foldl_or:
  "bit (foldl (\<lambda>r i. r OR f i) (a :: 'a::len word) is) n \<longleftrightarrow> bit a n \<or> (\<exists>i\<in>set is. bit (f i) n)"
  by (induction "is" arbitrary: a) (auto simp: bit_or_iff)

lemma bit_uint_of_bytes:
  assumes "LENGTH('a::len) = 8 * size_of TYPE('a)"
  shows "bit (uint_of_bytes buf :: 'a word) n \<longleftrightarrow> n < LENGTH('a) \<and> bit (buf ! (n div 8)) (n mod 8)"
proof -
  have "bit (uint_of_bytes buf :: 'a word) n \<longleftrightarrow>
    (\<exists>i < size_of TYPE('a). 8 * i \<le> n \<and> n < LENGTH('a) \<and> bit (buf ! i) (n - 8 * i))"
    unfolding uint_of_bytes_def bit_foldl_or
    by (auto simp: bit_push_bit_iff bit_ucast_iff dest: bit_imp_le_length)
  also have "\<dots> \<longleftrightarrow> n < LENGTH('a) \<and> bit (buf ! (n div 8)) (n mod 8)"
  proof
    assume "\<exists>i < size_of TYPE('a). 8 * i \<le> n \<and> n < LENGTH('a) \<and> bit (buf ! i) (n - 8 * i)"
    then obtain i where i: "8 * i \<le> n" "n < LENGTH('a)" "bit (buf ! i) (n - 8 * i)" by blast
    from i(1) obtain m where m: "n = 8 * i + m" using le_Suc_ex by blast
    from bit_imp_le_length [OF i(3)] m have "m < 8" by simp
    with m have "n div 8 = i" and "n mod 8 = n - 8 * i" by simp_all
    with i show "n < LENGTH('a) \<and> bit (buf ! (n div 8)) (n mod 8)" by simp
  next
    assume "n < LENGTH('a) \<and> bit (buf ! (n div 8)) (n mod 8)"
    with assms show "\<exists>i < size_of TYPE('a). 8 * i \<le> n \<and> n < LENGTH('a) \<and> bit (buf ! i) (n - 8 * i)"
      by (auto intro!: exI [of _ "n div 8"] simp: minus_mult_div_eq_mod)
  qed
  finally show ?thesis .
qed

lemma uint_of_bytes_inverse:
  assumes "LENGTH('a::len) = 8 * size_of TYPE('a)"
  shows "uint_of_bytes (uint_bytes x) = (x :: 'a word)"
proof (rule bit_word_eqI)
  fix n
  assume n: "n < LENGTH('a)"
  with assms have "n div 8 < size_of TYPE('a)" by auto
  then show "bit (uint_of_bytes (uint_bytes x) :: 'a word) n = bit x n"
    using n by (simp add: bit_uint_of_bytes [OF assms] uint_bytes_def bit_ucast_iff bit_drop_bit_eq)
qed

lemma uint_bytes_inverse:
  assumes "LENGTH('a::len) = 8 * size_of TYPE('a)" and "length buf = size_of TYPE('a)"
  shows "uint_bytes (uint_of_bytes buf :: 'a word) = buf"
proof (rule nth_equalityI)
  fix i
  assume "i < length (uint_bytes (uint_of_bytes buf :: 'a word))"
  then have i: "i < size_of TYPE('a)" by simp
  show "uint_bytes (uint_of_bytes buf :: 'a word) ! i = buf ! i"
  proof (rule bit_word_eqI)
    fix n
    assume "n < LENGTH(8)"
    with i assms show "bit (uint_bytes (uint_of_bytes buf :: 'a word) ! i) n = bit (buf ! i) n"
      by (simp add: uint_bytes_def bit_ucast_iff bit_drop_bit_eq bit_uint_of_bytes)
  qed
qed (use assms in simp)

end
