(* ===== verification/Wire_Laws.thy ===== *)
theory Wire_Laws
  imports Wire_Format
begin

text \<open>
  The implementations of \<^verbatim>\<open>WireFormat\<close> keep the contract of the trait: integers,
  data buffers and structs ending in one of them are strict, strings and vectors keep the
  weaker contract.  \<open>wire_intros\<close> collects the rules that derive it for a struct from
  its fields.
\<close>

lemma write_all_apply [io_simps]: "write_all bs out = (Ok (), out @ bs)"
  by (simp add: write_all_def)

lemma size_of_uints [simp]:
  "size_of TYPE(8) = 1" "size_of TYPE(16) = 2" "size_of TYPE(32) = 4" "size_of TYPE(64) = 8"
  by (simp_all add: size_of_def)

subsection \<open>Integers\<close>

lemma uint_encode_apply [io_simps]: "uint_encode x out = (Ok (), out @ uint_bytes x)"
  by (simp add: uint_encode_def uint_bytes_def io_simps)

lemma uint_decode_apply:
  "(uint_decode :: 'a::len word reader) inp =
    (if size_of TYPE('a) \<le> length inp
     then (Ok (uint_of_bytes (take (size_of TYPE('a)) inp)), drop (size_of TYPE('a)) inp)
     else (Err (Kinded UnexpectedEof), []))"
  by (simp add: uint_decode_def read_exact_def uint_of_bytes_def io_bind_def io_simps)

lemma wire_uint_strict:
  assumes "LENGTH('a::len) = 8 * size_of TYPE('a)"
  shows "wire_strict (wire_uint :: 'a word wire) wf_uint uint_bytes"
proof -
  from assms have pos: "0 < size_of TYPE('a)" using len_gt_0 [where 'a = 'a] by linarith
  show ?thesis
  proof unfold_locales
    fix x :: "'a word" and inp out rest :: "u8 list"
    show "encode wire_uint x out = (Ok (), out @ uint_bytes x)"
      by (simp add: wire_uint_def io_simps)
    show "\<exists>r bs. r \<noteq> Panic \<and> (\<forall>out. encode wire_uint x out = (r, out @ bs))"
      by (auto simp: wire_uint_def io_simps)
    show "byte_size wire_uint x = of_nat (length (uint_bytes x))"
      by (simp add: wire_uint_def uint_byte_size_def)
    show "decode wire_uint (uint_bytes x @ rest) = (Ok x, rest)"
      by (simp add: wire_uint_def uint_decode_apply uint_of_bytes_inverse [OF assms])
    show "\<exists>pre. inp = pre @ snd (decode (wire_uint :: 'a word wire) inp)"
      by (auto simp: wire_uint_def uint_decode_apply intro: exI [of _ "take (size_of TYPE('a)) inp"])
    show "fst (decode (wire_uint :: 'a word wire) inp) \<noteq> Panic"
      by (simp add: wire_uint_def uint_decode_apply)
    show "decode (wire_uint :: 'a word wire) [] = (Err (Kinded UnexpectedEof), [])"
      using pos by (simp add: wire_uint_def uint_decode_apply)
    assume d: "decode wire_uint inp = (Ok x, rest)"
    then have le: "size_of TYPE('a) \<le> length inp"
      and x: "x = uint_of_bytes (take (size_of TYPE('a)) inp)"
      and rest: "rest = drop (size_of TYPE('a)) inp"
      by (auto simp: wire_uint_def uint_decode_apply split: if_splits)
    from le have take: "uint_bytes x = take (size_of TYPE('a)) inp"
      unfolding x by (intro uint_bytes_inverse [OF assms]) simp
    with rest show canonical: "inp = uint_bytes x @ rest" by simp
    then show "wf_uint x \<and> (\<exists>pre. inp = pre @ rest \<and> length pre = length (uint_bytes x) \<and>
        (rest \<noteq> [] \<longrightarrow> pre = uint_bytes x))"
      by (auto simp: wf_uint_def)
  qed
qed

interpretation u8: wire_strict wire_u8 wf_uint uint_bytes
  by (rule wire_uint_strict) simp

interpretation u16: wire_strict wire_u16 wf_uint uint_bytes
  by (rule wire_uint_strict) simp

interpretation u32: wire_strict wire_u32 wf_uint uint_bytes
  by (rule wire_uint_strict) simp

interpretation u64: wire_strict wire_u64 wf_uint uint_bytes
  by (rule wire_uint_strict) simp

lemmas uint_formats [wire_intros] =
  u8.wire_format_axioms u16.wire_format_axioms u32.wire_format_axioms u64.wire_format_axioms
lemmas uint_stricts [wire_intros] =
  u8.wire_strict_axioms u16.wire_strict_axioms u32.wire_strict_axioms u64.wire_strict_axioms

subsection \<open>Readers that take a part\<close>

lemma reader_take_read_to_end [io_simps]:
  "reader_take n read_to_end inp = (Ok (take n inp), drop n inp)"
  by (simp add: reader_take_def read_to_end_def)

lemma reader_take_read_to_string [io_simps]:
  "reader_take n read_to_string inp =
    (if utf8_valid (take n inp) then Ok (take n inp) else Err (Kinded InvalidData), drop n inp)"
  by (simp add: reader_take_def read_to_string_def string_from_utf8_def)

subsection \<open>Strings\<close>

definition wf_string :: "rust_string \<Rightarrow> bool" where
  "wf_string s = (length s \<le> 0xFFFF \<and> utf8_valid s)"

definition string_bytes :: "rust_string \<Rightarrow> u8 list" where
  "string_bytes s = uint_bytes (of_nat (length s) :: u16) @ s"

lemma unat_of_nat_u16: "n \<le> 0xFFFF \<Longrightarrow> unat (of_nat n :: u16) = n"
  by (simp add: unat_of_nat)

lemma unat_of_nat_u32: "n \<le> 0xFFFFFFFF \<Longrightarrow> unat (of_nat n :: u32) = n"
  by (simp add: unat_of_nat)

lemma unat_u16_le: "unat (w :: u16) \<le> 0xFFFF"
proof -
  have "unat w < 2 ^ LENGTH(16)" by (rule unsigned_less)
  then show ?thesis by simp
qed

lemma u16_decode_bytes [io_simps]:
  "(uint_decode :: u16 reader) (uint_bytes w @ rest) = (Ok w, rest)"
  using u16.decode_bytes [of w rest] by (simp add: wf_uint_def wire_uint_def)

lemma u32_decode_bytes [io_simps]:
  "(uint_decode :: u32 reader) (uint_bytes w @ rest) = (Ok w, rest)"
  using u32.decode_bytes [of w rest] by (simp add: wf_uint_def wire_uint_def)

lemma u16_decode_Ok_iff:
  "(uint_decode :: u16 reader) inp = (Ok w, rest) \<longleftrightarrow> inp = uint_bytes w @ rest"
  using u16.decode_iff [of inp w rest] by (simp add: wf_uint_def wire_uint_def)

lemma u32_decode_Ok_iff:
  "(uint_decode :: u32 reader) inp = (Ok w, rest) \<longleftrightarrow> inp = uint_bytes w @ rest"
  using u32.decode_iff [of inp w rest] by (simp add: wf_uint_def wire_uint_def)

lemma u16_decode_cases:
  obtains (ok) w rest where "inp = uint_bytes (w :: u16) @ rest" "uint_decode inp = (Ok w, rest)"
  | (eof) "(uint_decode :: u16 reader) inp = (Err (Kinded UnexpectedEof), [])"
  by (cases "(uint_decode :: u16 reader) inp")
    (auto simp: uint_decode_apply u16_decode_Ok_iff [symmetric] split: if_splits)

lemma u32_decode_cases:
  obtains (ok) w rest where "inp = uint_bytes (w :: u32) @ rest" "uint_decode inp = (Ok w, rest)"
  | (eof) "(uint_decode :: u32 reader) inp = (Err (Kinded UnexpectedEof), [])"
  by (cases "(uint_decode :: u32 reader) inp")
    (auto simp: uint_decode_apply u32_decode_Ok_iff [symmetric] split: if_splits)

lemma string_decode_after_len:
  "string_decode (uint_bytes (w :: u16) @ rest) =
    (if utf8_valid (take (unat w) rest) then Ok (take (unat w) rest) else Err (Kinded InvalidData),
     drop (unat w) rest)"
  by (simp add: string_decode_def io_simps)

lemma string_decode_eof:
  "(uint_decode :: u16 reader) inp = (Err e, rest) \<Longrightarrow> string_decode inp = (Err e, rest)"
  by (simp add: string_decode_def io_simps)

interpretation string: wire_format wire_string wf_string string_bytes
proof unfold_locales
  fix x :: rust_string and inp out rest :: "u8 list"
  show "wf_string x \<Longrightarrow> encode wire_string x out = (Ok (), out @ string_bytes x)"
    by (simp add: wire_string_def string_encode_def wf_string_def string_bytes_def io_simps)
  show "\<exists>r bs. r \<noteq> Panic \<and> (\<forall>out. encode wire_string x out = (r, out @ bs))"
    by (auto simp: wire_string_def string_encode_def io_simps intro: exI [of _ "[]"])
  show "byte_size wire_string x = of_nat (length (string_bytes x))"
    by (simp add: wire_string_def string_byte_size_def string_bytes_def)
  show "wf_string x \<Longrightarrow> decode wire_string (string_bytes x @ rest) = (Ok x, rest)"
    by (simp add: wire_string_def string_bytes_def wf_string_def string_decode_after_len
        unat_of_nat_u16)
  show "\<exists>pre. inp = pre @ snd (decode wire_string inp)"
  proof (cases inp rule: u16_decode_cases)
    case (ok w r)
    then have "inp = (uint_bytes w @ take (unat w) r) @ snd (decode wire_string inp)"
      by (simp add: wire_string_def string_decode_after_len)
    then show ?thesis by blast
  qed (simp add: wire_string_def string_decode_eof)
  show "fst (decode wire_string inp) \<noteq> Panic"
    by (cases inp rule: u16_decode_cases)
      (auto simp: wire_string_def string_decode_after_len string_decode_eof)
  show "decode wire_string [] = (Err (Kinded UnexpectedEof), [])"
    by (simp add: wire_string_def string_decode_eof uint_decode_apply)
  assume d: "decode wire_string inp = (Ok x, rest)"
  show "wf_string x \<and> (\<exists>pre. inp = pre @ rest \<and> length pre = length (string_bytes x) \<and>
      (rest \<noteq> [] \<longrightarrow> pre = string_bytes x))"
  proof (cases inp rule: u16_decode_cases)
    case (ok w r)
    with d have x: "x = take (unat w) r" "rest = drop (unat w) r" "utf8_valid x"
      by (auto simp: wire_string_def string_decode_after_len split: if_splits)
    then have "inp = (uint_bytes w @ x) @ rest" using ok by simp
    moreover have "length x \<le> 0xFFFF" using x unat_u16_le [of w] by simp
    moreover have "rest \<noteq> [] \<Longrightarrow> of_nat (length x) = w" using x by (simp add: min_def)
    ultimately show ?thesis using x
      by (intro conjI exI [of _ "uint_bytes w @ x"]) (auto simp: wf_string_def string_bytes_def)
  next
    case eof
    with d show ?thesis by (simp add: wire_string_def string_decode_eof)
  qed
qed

lemmas [wire_intros] = string.wire_format_axioms

subsection \<open>Data buffers\<close>

definition wf_data :: "data \<Rightarrow> bool" where
  "wf_data d = (length d \<le> unat MAX_DATA_LENGTH)"

definition data_bytes :: "data \<Rightarrow> u8 list" where
  "data_bytes d = uint_bytes (of_nat (length d) :: u32) @ d"

lemma MAX_DATA_LENGTH_nat: "unat MAX_DATA_LENGTH = 33554432"
  by (simp add: MAX_DATA_LENGTH_def)

lemma data_decode_after_len:
  "data_decode (uint_bytes (w :: u32) @ rest) =
    (if w > MAX_DATA_LENGTH then (Err (Kinded InvalidData), rest)
     else if unat w \<le> length rest then (Ok (take (unat w) rest), drop (unat w) rest)
     else (Err (Kinded UnexpectedEof), []))"
  by (auto simp: data_decode_def io_simps io_bind_def min_def)

lemma data_decode_eof:
  "(uint_decode :: u32 reader) inp = (Err e, rest) \<Longrightarrow> data_decode inp = (Err e, rest)"
  by (simp add: data_decode_def io_simps)

lemma sum_list_uint_byte_size: "sum_list (map (uint_byte_size :: u8 \<Rightarrow> u32) d) = of_nat (length d)"
  by (induction d) (simp_all add: uint_byte_size_def)

interpretation data: wire_strict wire_data wf_data data_bytes
proof unfold_locales
  fix x :: data and inp out rest :: "u8 list"
  show "wf_data x \<Longrightarrow> encode wire_data x out = (Ok (), out @ data_bytes x)"
    by (simp add: wire_data_def data_encode_def wf_data_def data_bytes_def io_simps
        MAX_DATA_LENGTH_nat)
  show "\<exists>r bs. r \<noteq> Panic \<and> (\<forall>out. encode wire_data x out = (r, out @ bs))"
    by (auto simp: wire_data_def data_encode_def io_simps intro: exI [of _ "[]"])
  show "byte_size wire_data x = of_nat (length (data_bytes x))"
    by (simp add: wire_data_def data_byte_size_def data_bytes_def sum_list_uint_byte_size)
  show "wf_data x \<Longrightarrow> decode wire_data (data_bytes x @ rest) = (Ok x, rest)"
    by (simp add: wire_data_def data_bytes_def wf_data_def data_decode_after_len
        word_less_nat_alt MAX_DATA_LENGTH_nat unat_of_nat_u32)
  show "\<exists>pre. inp = pre @ snd (decode wire_data inp)"
  proof (cases inp rule: u32_decode_cases)
    case (ok w r)
    then have "inp = (if w > MAX_DATA_LENGTH then uint_bytes w else if unat w \<le> length r
        then uint_bytes w @ take (unat w) r else inp) @ snd (decode wire_data inp)"
      by (simp add: wire_data_def data_decode_after_len)
    then show ?thesis by blast
  qed (simp add: wire_data_def data_decode_eof)
  show "fst (decode wire_data inp) \<noteq> Panic"
    by (cases inp rule: u32_decode_cases)
      (auto simp: wire_data_def data_decode_after_len data_decode_eof)
  show "decode wire_data [] = (Err (Kinded UnexpectedEof), [])"
    by (simp add: wire_data_def data_decode_eof uint_decode_apply)
  assume d: "decode wire_data inp = (Ok x, rest)"
  have "inp = data_bytes x @ rest \<and> wf_data x"
  proof (cases inp rule: u32_decode_cases)
    case (ok w r)
    with d have "unat w \<le> length r" "x = take (unat w) r" "rest = drop (unat w) r"
      "unat w \<le> unat MAX_DATA_LENGTH"
      by (auto simp: wire_data_def data_decode_after_len word_less_nat_alt split: if_splits)
    with ok show ?thesis by (simp add: data_bytes_def wf_data_def min_def)
  next
    case eof
    with d show ?thesis by (simp add: wire_data_def data_decode_eof)
  qed
  then show "inp = data_bytes x @ rest" and "wf_data x \<and> (\<exists>pre. inp = pre @ rest \<and>
      length pre = length (data_bytes x) \<and> (rest \<noteq> [] \<longrightarrow> pre = data_bytes x))" by auto
qed

lemmas [wire_intros] = data.wire_format_axioms data.wire_strict_axioms

subsection \<open>Vectors\<close>

definition wf_vec :: "('a \<Rightarrow> bool) \<Rightarrow> 'a list \<Rightarrow> bool" where
  "wf_vec p xs = (length xs \<le> 0xFFFF \<and> list_all p xs)"

definition vec_bytes :: "('a \<Rightarrow> u8 list) \<Rightarrow> 'a list \<Rightarrow> u8 list" where
  "vec_bytes bytes xs = uint_bytes (of_nat (length xs) :: u16) @ concat (map bytes xs)"

context wire_format begin

lemma encode_elems_wf:
  "list_all wf xs \<Longrightarrow> encode_elems W xs out = (Ok (), out @ concat (map bytes xs))"
  by (induction xs arbitrary: out) (simp_all add: io_simps encode_wf)

lemma encode_elems_appends:
  "\<exists>r bs. r \<noteq> Panic \<and> (\<forall>out. encode_elems W xs out = (r, out @ bs))"
proof (induction xs)
  case (Cons x xs)
  from encode_appends [of x] obtain r bs
    where x: "r \<noteq> Panic" "\<And>out. encode W x out = (r, out @ bs)" by blast
  from Cons.IH obtain r' bs'
    where xs: "r' \<noteq> Panic" "\<And>out. encode_elems W xs out = (r', out @ bs')" by blast
  show ?case
  proof (cases r)
    case (Ok u)
    with x xs have "\<forall>out. encode_elems W (x # xs) out = (r', out @ (bs @ bs'))"
      by (simp add: io_simps)
    with xs(1) show ?thesis by blast
  next
    case (Err e)
    with x have "\<forall>out. encode_elems W (x # xs) out = (Err e, out @ bs)" by (simp add: io_simps)
    then show ?thesis by blast
  qed (use x in simp)
qed (auto simp: io_simps)

lemma sum_byte_size_wf:
  "list_all wf xs \<Longrightarrow> sum_list (map (byte_size W) xs) = of_nat (length (concat (map bytes xs)))"
  by (induction xs) (simp_all add: byte_size_wf)

lemma decode_elems_bytes:
  "list_all wf xs \<Longrightarrow>
    decode_elems W (length xs) (concat (map bytes xs) @ rest) = (Ok xs, rest)"
  by (induction xs) (simp_all add: io_simps decode_bytes)

lemma decode_elems_sound:
  "decode_elems W n inp = (Ok xs, rest) \<Longrightarrow>
    length xs = n \<and> list_all wf xs \<and> (\<exists>pre. inp = pre @ rest \<and>
      length pre = length (concat (map bytes xs)) \<and> (rest \<noteq> [] \<longrightarrow> pre = concat (map bytes xs)))"
proof (induction n arbitrary: inp xs)
  case (Suc n)
  then obtain x mid ys where x: "decode W inp = (Ok x, mid)"
    and ys: "decode_elems W n mid = (Ok ys, rest)" and xs: "xs = x # ys"
    by (auto simp: io_bind_eq_Ok io_return_apply)
  from decode_sound [OF x] obtain p where p: "wf x" "inp = p @ mid" "length p = length (bytes x)"
    "mid \<noteq> [] \<longrightarrow> p = bytes x" by blast
  from Suc.IH [OF ys] obtain q where q: "length ys = n" "list_all wf ys" "mid = q @ rest"
    "length q = length (concat (map bytes ys))" "rest \<noteq> [] \<longrightarrow> q = concat (map bytes ys)" by blast
  from p q xs show ?case by (auto intro!: exI [of _ "p @ q"])
qed (simp add: io_simps)

lemma decode_elems_suffix: "\<exists>pre. inp = pre @ snd (decode_elems W n inp)"
proof (induction n arbitrary: inp)
  case (Suc n)
  show ?case
  proof (cases inp rule: decode_cases)
    case (1 x mid)
    from decode_suffix [of inp] 1 obtain p where p: "inp = p @ mid" by auto
    from Suc [of mid] obtain q where q: "mid = q @ snd (decode_elems W n mid)" by blast
    from 1 have "snd (decode_elems W (Suc n) inp) = snd (decode_elems W n mid)"
      by (auto simp: io_simps split: prod.splits io_result.splits)
    with p q show ?thesis by (metis append.assoc)
  next
    case (2 e mid)
    with decode_suffix [of inp] show ?thesis by (simp add: io_simps)
  qed
qed (simp add: io_simps)

lemma decode_elems_no_panic: "fst (decode_elems W n inp) \<noteq> Panic"
proof (induction n arbitrary: inp)
  case (Suc n)
  show ?case
  proof (cases inp rule: decode_cases)
    case (1 x mid)
    with Suc [of mid] show ?thesis
      by (auto simp: io_simps split: prod.splits io_result.splits)
  qed (simp add: io_simps)
qed (simp add: io_simps)

lemma vec_decode_after_len:
  "vec_decode W (uint_bytes (w :: u16) @ rest) = decode_elems W (unat w) rest"
  by (simp add: vec_decode_def io_simps)

lemma vec_format: "wire_format (wire_vec W) (wf_vec wf) (vec_bytes bytes)"
proof unfold_locales
  fix xs and inp out rest :: "u8 list"
  show "wf_vec wf xs \<Longrightarrow> encode (wire_vec W) xs out = (Ok (), out @ vec_bytes bytes xs)"
    by (simp add: wire_vec_def vec_encode_def wf_vec_def vec_bytes_def io_simps encode_elems_wf)
  show "\<exists>r bs. r \<noteq> Panic \<and> (\<forall>out. encode (wire_vec W) xs out = (r, out @ bs))"
  proof (cases "length xs > 0xFFFF")
    case True
    then show ?thesis by (auto simp: wire_vec_def vec_encode_def io_simps intro: exI [of _ "[]"])
  next
    case False
    from encode_elems_appends [of xs] obtain r bs
      where "r \<noteq> Panic" "\<And>out. encode_elems W xs out = (r, out @ bs)" by blast
    with False have "r \<noteq> Panic \<and> (\<forall>out. encode (wire_vec W) xs out
        = (r, out @ (uint_bytes (of_nat (length xs) :: u16) @ bs)))"
      by (simp add: wire_vec_def vec_encode_def io_simps)
    then show ?thesis by blast
  qed
  show "wf_vec wf xs \<Longrightarrow> byte_size (wire_vec W) xs = of_nat (length (vec_bytes bytes xs))"
    by (simp add: wire_vec_def vec_byte_size_def wf_vec_def vec_bytes_def sum_byte_size_wf)
  show "wf_vec wf xs \<Longrightarrow> decode (wire_vec W) (vec_bytes bytes xs @ rest) = (Ok xs, rest)"
    by (simp add: wire_vec_def vec_bytes_def wf_vec_def vec_decode_after_len unat_of_nat_u16
        decode_elems_bytes)
  show "\<exists>pre. inp = pre @ snd (decode (wire_vec W) inp)"
  proof (cases inp rule: u16_decode_cases)
    case (ok w r)
    from decode_elems_suffix [of r "unat w"] obtain p
      where "r = p @ snd (decode_elems W (unat w) r)" by blast
    with ok have "inp = (uint_bytes w @ p) @ snd (decode (wire_vec W) inp)"
      by (simp add: wire_vec_def vec_decode_after_len)
    then show ?thesis by blast
  qed (simp add: wire_vec_def vec_decode_def io_simps)
  show "fst (decode (wire_vec W) inp) \<noteq> Panic"
    by (cases inp rule: u16_decode_cases)
      (simp_all add: wire_vec_def vec_decode_after_len decode_elems_no_panic vec_decode_def io_simps)
  show "decode (wire_vec W) [] = (Err (Kinded UnexpectedEof), [])"
    by (simp add: wire_vec_def vec_decode_def io_simps uint_decode_apply)
  assume d: "decode (wire_vec W) inp = (Ok xs, rest)"
  show "wf_vec wf xs \<and> (\<exists>pre. inp = pre @ rest \<and> length pre = length (vec_bytes bytes xs) \<and>
      (rest \<noteq> [] \<longrightarrow> pre = vec_bytes bytes xs))"
  proof (cases inp rule: u16_decode_cases)
    case (ok w r)
    with d have "decode_elems W (unat w) r = (Ok xs, rest)"
      by (simp add: wire_vec_def vec_decode_after_len)
    from decode_elems_sound [OF this] obtain p where p: "length xs = unat w" "list_all wf xs"
      "r = p @ rest" "length p = length (concat (map bytes xs))"
      "rest \<noteq> [] \<longrightarrow> p = concat (map bytes xs)" by blast
    with ok unat_u16_le [of w] show ?thesis
      by (intro conjI exI [of _ "uint_bytes w @ p"]) (auto simp: wf_vec_def vec_bytes_def)
  next
    case eof
    with d show ?thesis by (simp add: wire_vec_def vec_decode_def io_simps)
  qed
qed

end

context wire_strict begin

lemma decode_elems_canonical:
  "decode_elems W n inp = (Ok xs, rest) \<Longrightarrow> inp = concat (map bytes xs) @ rest"
proof (induction n arbitrary: inp xs)
  case (Suc n)
  then obtain x mid ys where "decode W inp = (Ok x, mid)"
    and ys: "decode_elems W n mid = (Ok ys, rest)" and "xs = x # ys"
    by (auto simp: io_bind_eq_Ok io_return_apply)
  with Suc.IH [OF ys] decode_canonical show ?case by simp
qed (simp add: io_simps)

lemma vec_strict: "wire_strict (wire_vec W) (wf_vec wf) (vec_bytes bytes)"
proof (intro wire_strict.intro vec_format wire_strict_axioms.intro)
  fix inp xs rest
  assume d: "decode (wire_vec W) inp = (Ok xs, rest)"
  show "inp = vec_bytes bytes xs @ rest"
  proof (cases inp rule: u16_decode_cases)
    case (ok w r)
    with d have e: "decode_elems W (unat w) r = (Ok xs, rest)"
      by (simp add: wire_vec_def vec_decode_after_len)
    with decode_elems_sound [OF e] decode_elems_canonical [OF e] ok show ?thesis
      by (auto simp: vec_bytes_def)
  next
    case eof
    with d show ?thesis by (simp add: wire_vec_def vec_decode_def io_simps)
  qed
qed

end

lemmas [wire_intros] = wire_format.vec_format wire_strict.vec_strict

subsection \<open>Structs\<close>

definition wf_pair :: "('a \<Rightarrow> bool) \<Rightarrow> ('b \<Rightarrow> bool) \<Rightarrow> 'a \<times> 'b \<Rightarrow> bool" where
  "wf_pair p q = (\<lambda>(a, b). p a \<and> q b)"

definition pair_bytes :: "('a \<Rightarrow> u8 list) \<Rightarrow> ('b \<Rightarrow> u8 list) \<Rightarrow> 'a \<times> 'b \<Rightarrow> u8 list" where
  "pair_bytes f g = (\<lambda>(a, b). f a @ g b)"

lemma wire_pair_format [wire_intros]:
  assumes A: "wire_format (A :: 'a wire) wa ba" and B: "wire_format (B :: 'b wire) wb bb"
  shows "wire_format (wire_pair A B) (wf_pair wa wb) (pair_bytes ba bb)"
proof unfold_locales
  fix x :: "'a \<times> 'b" and inp out rest :: "u8 list"
  obtain a b where x: "x = (a, b)" by (cases x)
  show "wf_pair wa wb x \<Longrightarrow> encode (wire_pair A B) x out = (Ok (), out @ pair_bytes ba bb x)"
    by (simp add: x wire_pair_def wf_pair_def pair_bytes_def io_simps
        wire_format.encode_wf [OF A] wire_format.encode_wf [OF B])
  show "wf_pair wa wb x \<Longrightarrow> byte_size (wire_pair A B) x = of_nat (length (pair_bytes ba bb x))"
    by (simp add: x wire_pair_def wf_pair_def pair_bytes_def
        wire_format.byte_size_wf [OF A] wire_format.byte_size_wf [OF B])
  show "wf_pair wa wb x \<Longrightarrow> decode (wire_pair A B) (pair_bytes ba bb x @ rest) = (Ok x, rest)"
    by (simp add: x wire_pair_def wf_pair_def pair_bytes_def io_simps
        wire_format.decode_bytes [OF A] wire_format.decode_bytes [OF B])
  show "decode (wire_pair A B) [] = (Err (Kinded UnexpectedEof), [])"
    by (simp add: wire_pair_def io_simps wire_format.decode_nil [OF A])
  show "\<exists>r bs. r \<noteq> Panic \<and> (\<forall>out. encode (wire_pair A B) x out = (r, out @ bs))"
  proof -
    from wire_format.encode_appends [OF A, of a] obtain r bs
      where a: "r \<noteq> Panic" "\<And>out. encode A a out = (r, out @ bs)" by blast
    from wire_format.encode_appends [OF B, of b] obtain r' bs'
      where b: "r' \<noteq> Panic" "\<And>out. encode B b out = (r', out @ bs')" by blast
    from a b have "(case r of Ok _ \<Rightarrow> r' | _ \<Rightarrow> r) \<noteq> Panic \<and>
        (\<forall>out. encode (wire_pair A B) x out = (case r of Ok _ \<Rightarrow> r' | _ \<Rightarrow> r,
          out @ (case r of Ok _ \<Rightarrow> bs @ bs' | _ \<Rightarrow> bs)))"
      by (cases r) (simp_all add: x wire_pair_def io_simps)
    then show ?thesis by blast
  qed
  show "\<exists>pre. inp = pre @ snd (decode (wire_pair A B) inp)"
  proof (cases inp rule: wire_format.decode_cases [OF A])
    case (1 y mid)
    from wire_format.decode_suffix [OF A, of inp] 1 obtain p where "inp = p @ mid" by auto
    moreover from wire_format.decode_suffix [OF B, of mid] obtain q
      where "mid = q @ snd (decode B mid)" by blast
    moreover from 1 have "snd (decode (wire_pair A B) inp) = snd (decode B mid)"
      by (auto simp: wire_pair_def io_simps split: prod.splits io_result.splits)
    ultimately show ?thesis by (metis append.assoc)
  next
    case (2 e mid)
    with wire_format.decode_suffix [OF A, of inp] show ?thesis by (simp add: wire_pair_def io_simps)
  qed
  show "fst (decode (wire_pair A B) inp) \<noteq> Panic"
    using wire_format.decode_no_panic [OF A, of inp] wire_format.decode_no_panic [OF B]
    by (auto simp: wire_pair_def io_simps split: prod.splits io_result.splits) (metis fst_conv)+
  assume "decode (wire_pair A B) inp = (Ok x, rest)"
  then obtain mid where a: "decode A inp = (Ok a, mid)" and b: "decode B mid = (Ok b, rest)"
    by (auto simp: x wire_pair_def io_bind_eq_Ok io_return_apply)
  from b wire_format.decode_nil [OF B] have "mid \<noteq> []" by auto
  with wire_format.decode_sound [OF A a] have "wa a" "inp = ba a @ mid" by auto
  with wire_format.decode_sound [OF B b]
  show "wf_pair wa wb x \<and> (\<exists>pre. inp = pre @ rest \<and> length pre = length (pair_bytes ba bb x) \<and>
      (rest \<noteq> [] \<longrightarrow> pre = pair_bytes ba bb x))"
    by (auto simp: x wf_pair_def pair_bytes_def)
qed

lemma wire_pair_strict [wire_intros]:
  assumes A: "wire_format A wa ba" and B: "wire_strict B wb bb"
  shows "wire_strict (wire_pair A B) (wf_pair wa wb) (pair_bytes ba bb)"
proof (intro wire_strict.intro wire_strict_axioms.intro)
  from B have B': "wire_format B wb bb" by (simp add: wire_strict_def)
  with A show "wire_format (wire_pair A B) (wf_pair wa wb) (pair_bytes ba bb)"
    by (rule wire_pair_format)
  fix inp x rest
  assume "decode (wire_pair A B) inp = (Ok x, rest)"
  then obtain a b mid where x: "x = (a, b)" and a: "decode A inp = (Ok a, mid)"
    and b: "decode B mid = (Ok b, rest)"
    by (auto simp: wire_pair_def io_bind_eq_Ok io_return_apply)
  from b wire_format.decode_nil [OF B'] have "mid \<noteq> []" by auto
  with wire_format.decode_sound [OF A a] wire_strict.decode_canonical [OF B b] x
  show "inp = pair_bytes ba bb x @ rest" by (auto simp: pair_bytes_def)
qed

lemma wire_struct_format:
  assumes P: "wire_format P wq bp"
    and "\<And>s. build (tuple s) = s" and "\<And>t. tuple (build t) = t"
    and "\<And>s. w s = wq (tuple s)" and "\<And>s. bytes s = bp (tuple s)"
  shows "wire_format (wire_struct tuple build P) w bytes"
proof unfold_locales
  fix s and inp out rest :: "u8 list"
  show "\<exists>r bs. r \<noteq> Panic \<and> (\<forall>out. encode (wire_struct tuple build P) s out = (r, out @ bs))"
    using wire_format.encode_appends [OF P] by (simp add: wire_struct_def)
  show "\<exists>pre. inp = pre @ snd (decode (wire_struct tuple build P) inp)"
    using wire_format.decode_suffix [OF P, of inp]
    by (auto simp: wire_struct_def io_simps split: prod.splits io_result.splits)
  show "fst (decode (wire_struct tuple build P) inp) \<noteq> Panic"
    using wire_format.decode_no_panic [OF P, of inp]
    by (auto simp: wire_struct_def io_simps split: prod.splits io_result.splits)
  assume "decode (wire_struct tuple build P) inp = (Ok s, rest)"
  then have "decode P inp = (Ok (tuple s), rest)"
    by (auto simp: wire_struct_def io_bind_eq_Ok io_return_apply assms)
  from wire_format.decode_sound [OF P this]
  show "w s \<and> (\<exists>pre. inp = pre @ rest \<and> length pre = length (bytes s) \<and>
      (rest \<noteq> [] \<longrightarrow> pre = bytes s))" by (simp add: assms)
qed (simp_all add: wire_struct_def io_simps assms wire_format.encode_wf [OF P]
      wire_format.byte_size_wf [OF P] wire_format.decode_bytes [OF P] wire_format.decode_nil [OF P])

lemma wire_struct_strict:
  assumes P: "wire_strict P wq bp"
    and "\<And>s. build (tuple s) = s" and "\<And>t. tuple (build t) = t"
    and "\<And>s. w s = wq (tuple s)" and "\<And>s. bytes s = bp (tuple s)"
  shows "wire_strict (wire_struct tuple build P) w bytes"
proof (intro wire_strict.intro wire_strict_axioms.intro)
  from P have "wire_format P wq bp" by (simp add: wire_strict_def)
  then show "wire_format (wire_struct tuple build P) w bytes"
    by (rule wire_struct_format) (rule assms)+
  fix inp s rest
  assume "decode (wire_struct tuple build P) inp = (Ok s, rest)"
  then have "decode P inp = (Ok (tuple s), rest)"
    by (auto simp: wire_struct_def io_bind_eq_Ok io_return_apply assms)
  from wire_strict.decode_canonical [OF P this] show "inp = bytes s @ rest" by (simp add: assms)
qed

subsection \<open>Well-behaved readers\<close>

text \<open>A reader that never panics and leaves a suffix of its input; every decoder is one.\<close>

definition reader_ok :: "'a reader \<Rightarrow> bool" where
  "reader_ok m = (\<forall>inp. fst (m inp) \<noteq> Panic \<and> (\<exists>pre. inp = pre @ snd (m inp)))"

named_theorems reader_intros

lemma reader_ok_return [reader_intros]: "reader_ok (io_return x)"
  by (simp add: reader_ok_def io_simps)

lemma reader_ok_throw [reader_intros]: "reader_ok (io_throw e)"
  by (simp add: reader_ok_def io_simps)

lemma reader_ok_read_exact [reader_intros]: "reader_ok (read_exact n)"
  by (auto simp: reader_ok_def read_exact_def) (metis append_take_drop_id)

lemma reader_ok_bind [reader_intros]:
  assumes m: "reader_ok m" and f: "\<And>x. reader_ok (f x)"
  shows "reader_ok (io_bind m f)"
  unfolding reader_ok_def
proof
  fix inp
  obtain r t where mt: "m inp = (r, t)" by (cases "m inp")
  from m have "fst (m inp) \<noteq> Panic" "\<exists>p. inp = p @ snd (m inp)" unfolding reader_ok_def by blast+
  with mt obtain p where p: "r \<noteq> Panic" "inp = p @ t" by auto
  show "fst (io_bind m f inp) \<noteq> Panic \<and> (\<exists>pre. inp = pre @ snd (io_bind m f inp))"
  proof (cases r)
    case (Ok x)
    from f [of x] obtain q where "fst (f x t) \<noteq> Panic" "t = q @ snd (f x t)"
      unfolding reader_ok_def by blast
    with mt p Ok show ?thesis by (simp add: io_simps) (metis append.assoc)
  qed (use mt p in \<open>simp_all add: io_simps\<close>)
qed

lemma reader_ok_map [reader_intros]: "reader_ok m \<Longrightarrow> reader_ok (io_map f m)"
  unfolding io_map_def by (intro reader_intros)

lemma reader_ok_attempt [reader_intros]:
  assumes "reader_ok m"
  shows "reader_ok (io_attempt m)"
  unfolding reader_ok_def
proof
  fix inp
  from assms have "fst (m inp) \<noteq> Panic" "\<exists>p. inp = p @ snd (m inp)" unfolding reader_ok_def by blast+
  then show "fst (io_attempt m inp) \<noteq> Panic \<and> (\<exists>p. inp = p @ snd (io_attempt m inp))"
    by (auto simp: io_simps split: prod.splits io_result.splits)
qed

lemma reader_ok_take [reader_intros]: "reader_ok m \<Longrightarrow> reader_ok (reader_take n m)"
  unfolding reader_ok_def
proof
  fix inp
  assume "\<forall>inp. fst (m inp) \<noteq> Panic \<and> (\<exists>pre. inp = pre @ snd (m inp))"
  then obtain p where "fst (m (take n inp)) \<noteq> Panic" "take n inp = p @ snd (m (take n inp))" by blast
  then have "fst (reader_take n m inp) \<noteq> Panic"
    and "inp = p @ snd (reader_take n m inp)"
    by (auto simp: reader_take_def split: prod.splits) (metis append.assoc append_take_drop_id snd_conv)
  then show "fst (reader_take n m inp) \<noteq> Panic \<and> (\<exists>pre. inp = pre @ snd (reader_take n m inp))"
    by blast
qed

lemma reader_ok_if [reader_intros]: "reader_ok m \<Longrightarrow> reader_ok n \<Longrightarrow> reader_ok (if b then m else n)"
  by simp

lemma reader_ok_uint_decode [reader_intros]: "reader_ok uint_decode"
  unfolding uint_decode_def by (intro reader_intros)

lemma reader_ok_no_panic: "reader_ok m \<Longrightarrow> fst (m inp) \<noteq> Panic"
  by (simp add: reader_ok_def)

lemma reader_ok_shrinks: "reader_ok m \<Longrightarrow> m inp = (r, rest) \<Longrightarrow> length rest \<le> length inp"
  unfolding reader_ok_def by (metis le_add2 length_append snd_conv)

context wire_format begin

lemma decode_reader_ok: "reader_ok (decode W)"
  using decode_no_panic decode_suffix by (simp add: reader_ok_def)

end

end
