(* ===== verification/T_Messages.thy ===== *)
theory T_Messages
  imports Wire_Laws
begin

text \<open>
  The request structs of \<^verbatim>\<open>p9/src/protocol/messages.rs\<close>, each as a record with its derived
  implementation of \<^verbatim>\<open>WireFormat\<close> (\<open>wire_\<close>), the condition under which it goes on
  the wire (\<open>wf_\<close>: its strings and buffers are within the protocol's limits), its bytes on
  the wire as the protocol prescribes them (\<open>bytes_\<close>), and the proof, an interpretation of
  the trait's contract, that the derived code produces and reads exactly these.
\<close>

lemmas struct_simps = wf_pair_def pair_bytes_def wf_uint_def

record Tversion =
  tversion_msize :: u32
  tversion_version :: rust_string

definition wire_Tversion :: "Tversion wire" where
  "wire_Tversion = wire_struct
    (\<lambda>m. (tversion_msize m, tversion_version m))
    (\<lambda>(msize, version).
      \<lparr>tversion_msize = msize, tversion_version = version\<rparr>)
    (wire_pair wire_u32 wire_string)"

definition wf_Tversion :: "Tversion \<Rightarrow> bool" where
  "wf_Tversion m = (wf_string (tversion_version m))"

definition bytes_Tversion :: "Tversion \<Rightarrow> u8 list" where
  "bytes_Tversion m =
    uint_bytes (tversion_msize m) @ string_bytes (tversion_version m)"

interpretation Tversion: wire_format wire_Tversion wf_Tversion bytes_Tversion
  unfolding wire_Tversion_def
  by (rule wire_struct_format, (rule wire_intros)+)
    (auto simp: wf_Tversion_def bytes_Tversion_def struct_simps)

record Tflush =
  tflush_oldtag :: u16

definition wire_Tflush :: "Tflush wire" where
  "wire_Tflush = wire_struct
    (\<lambda>m. tflush_oldtag m)
    (\<lambda>oldtag. \<lparr>tflush_oldtag = oldtag\<rparr>)
    wire_u16"

definition wf_Tflush :: "Tflush \<Rightarrow> bool" where
  "wf_Tflush m = True"

definition bytes_Tflush :: "Tflush \<Rightarrow> u8 list" where
  "bytes_Tflush m =
    uint_bytes (tflush_oldtag m)"

interpretation Tflush: wire_strict wire_Tflush wf_Tflush bytes_Tflush
  unfolding wire_Tflush_def
  by (rule wire_struct_strict, (rule wire_intros)+)
    (auto simp: wf_Tflush_def bytes_Tflush_def struct_simps)

record Twalk =
  twalk_fid :: u32
  twalk_newfid :: u32
  twalk_wnames :: "rust_string list"

definition wire_Twalk :: "Twalk wire" where
  "wire_Twalk = wire_struct
    (\<lambda>m. (twalk_fid m, twalk_newfid m, twalk_wnames m))
    (\<lambda>(fid, newfid, wnames).
      \<lparr>twalk_fid = fid, twalk_newfid = newfid, twalk_wnames = wnames\<rparr>)
    (wire_pair wire_u32 (wire_pair wire_u32 (wire_vec wire_string)))"

definition wf_Twalk :: "Twalk \<Rightarrow> bool" where
  "wf_Twalk m = (wf_vec wf_string (twalk_wnames m))"

definition bytes_Twalk :: "Twalk \<Rightarrow> u8 list" where
  "bytes_Twalk m =
    uint_bytes (twalk_fid m) @ uint_bytes (twalk_newfid m) @
    vec_bytes string_bytes (twalk_wnames m)"

interpretation Twalk: wire_format wire_Twalk wf_Twalk bytes_Twalk
  unfolding wire_Twalk_def
  by (rule wire_struct_format, (rule wire_intros)+)
    (auto simp: wf_Twalk_def bytes_Twalk_def struct_simps)

record Tread =
  tread_fid :: u32
  tread_offset :: u64
  tread_count :: u32

definition wire_Tread :: "Tread wire" where
  "wire_Tread = wire_struct
    (\<lambda>m. (tread_fid m, tread_offset m, tread_count m))
    (\<lambda>(fid, offset, count).
      \<lparr>tread_fid = fid, tread_offset = offset, tread_count = count\<rparr>)
    (wire_pair wire_u32 (wire_pair wire_u64 wire_u32))"

definition wf_Tread :: "Tread \<Rightarrow> bool" where
  "wf_Tread m = True"

definition bytes_Tread :: "Tread \<Rightarrow> u8 list" where
  "bytes_Tread m =
    uint_bytes (tread_fid m) @ uint_bytes (tread_offset m) @ uint_bytes (tread_count m)"

interpretation Tread: wire_strict wire_Tread wf_Tread bytes_Tread
  unfolding wire_Tread_def
  by (rule wire_struct_strict, (rule wire_intros)+)
    (auto simp: wf_Tread_def bytes_Tread_def struct_simps)

record Twrite =
  twrite_fid :: u32
  twrite_offset :: u64
  twrite_data :: data

definition wire_Twrite :: "Twrite wire" where
  "wire_Twrite = wire_struct
    (\<lambda>m. (twrite_fid m, twrite_offset m, twrite_data m))
    (\<lambda>(fid, offset, data').
      \<lparr>twrite_fid = fid, twrite_offset = offset, twrite_data = data'\<rparr>)
    (wire_pair wire_u32 (wire_pair wire_u64 wire_data))"

definition wf_Twrite :: "Twrite \<Rightarrow> bool" where
  "wf_Twrite m = (wf_data (twrite_data m))"

definition bytes_Twrite :: "Twrite \<Rightarrow> u8 list" where
  "bytes_Twrite m =
    uint_bytes (twrite_fid m) @ uint_bytes (twrite_offset m) @ data_bytes (twrite_data m)"

interpretation Twrite: wire_strict wire_Twrite wf_Twrite bytes_Twrite
  unfolding wire_Twrite_def
  by (rule wire_struct_strict, (rule wire_intros)+)
    (auto simp: wf_Twrite_def bytes_Twrite_def struct_simps)

record Tclunk =
  tclunk_fid :: u32

definition wire_Tclunk :: "Tclunk wire" where
  "wire_Tclunk = wire_struct
    (\<lambda>m. tclunk_fid m)
    (\<lambda>fid. \<lparr>tclunk_fid = fid\<rparr>)
    wire_u32"

definition wf_Tclunk :: "Tclunk \<Rightarrow> bool" where
  "wf_Tclunk m = True"

definition bytes_Tclunk :: "Tclunk \<Rightarrow> u8 list" where
  "bytes_Tclunk m =
    uint_bytes (tclunk_fid m)"

interpretation Tclunk: wire_strict wire_Tclunk wf_Tclunk bytes_Tclunk
  unfolding wire_Tclunk_def
  by (rule wire_struct_strict, (rule wire_intros)+)
    (auto simp: wf_Tclunk_def bytes_Tclunk_def struct_simps)

record Tremove =
  tremove_fid :: u32

definition wire_Tremove :: "Tremove wire" where
  "wire_Tremove = wire_struct
    (\<lambda>m. tremove_fid m)
    (\<lambda>fid. \<lparr>tremove_fid = fid\<rparr>)
    wire_u32"

definition wf_Tremove :: "Tremove \<Rightarrow> bool" where
  "wf_Tremove m = True"

definition bytes_Tremove :: "Tremove \<Rightarrow> u8 list" where
  "bytes_Tremove m =
    uint_bytes (tremove_fid m)"

interpretation Tremove: wire_strict wire_Tremove wf_Tremove bytes_Tremove
  unfolding wire_Tremove_def
  by (rule wire_struct_strict, (rule wire_intros)+)
    (auto simp: wf_Tremove_def bytes_Tremove_def struct_simps)

record Tauth =
  tauth_afid :: u32
  tauth_uname :: rust_string
  tauth_aname :: rust_string
  tauth_n_uname :: u32

definition wire_Tauth :: "Tauth wire" where
  "wire_Tauth = wire_struct
    (\<lambda>m. (tauth_afid m, tauth_uname m, tauth_aname m, tauth_n_uname m))
    (\<lambda>(afid, uname, aname, n_uname).
      \<lparr>tauth_afid = afid, tauth_uname = uname, tauth_aname = aname, tauth_n_uname = n_uname\<rparr>)
    (wire_pair wire_u32 (wire_pair wire_string (wire_pair wire_string wire_u32)))"

definition wf_Tauth :: "Tauth \<Rightarrow> bool" where
  "wf_Tauth m = (wf_string (tauth_uname m) \<and> wf_string (tauth_aname m))"

definition bytes_Tauth :: "Tauth \<Rightarrow> u8 list" where
  "bytes_Tauth m =
    uint_bytes (tauth_afid m) @ string_bytes (tauth_uname m) @
    string_bytes (tauth_aname m) @ uint_bytes (tauth_n_uname m)"

interpretation Tauth: wire_strict wire_Tauth wf_Tauth bytes_Tauth
  unfolding wire_Tauth_def
  by (rule wire_struct_strict, (rule wire_intros)+)
    (auto simp: wf_Tauth_def bytes_Tauth_def struct_simps)

record Tattach =
  tattach_fid :: u32
  tattach_afid :: u32
  tattach_uname :: rust_string
  tattach_aname :: rust_string
  tattach_n_uname :: u32

definition wire_Tattach :: "Tattach wire" where
  "wire_Tattach = wire_struct
    (\<lambda>m. (tattach_fid m, tattach_afid m, tattach_uname m, tattach_aname m, tattach_n_uname m))
    (\<lambda>(fid, afid, uname, aname, n_uname).
      \<lparr>tattach_fid = fid, tattach_afid = afid, tattach_uname = uname, tattach_aname = aname,
       tattach_n_uname = n_uname\<rparr>)
    (wire_pair wire_u32 (wire_pair wire_u32 (wire_pair wire_string (wire_pair wire_string
     wire_u32))))"

definition wf_Tattach :: "Tattach \<Rightarrow> bool" where
  "wf_Tattach m = (wf_string (tattach_uname m) \<and> wf_string (tattach_aname m))"

definition bytes_Tattach :: "Tattach \<Rightarrow> u8 list" where
  "bytes_Tattach m =
    uint_bytes (tattach_fid m) @ uint_bytes (tattach_afid m) @
    string_bytes (tattach_uname m) @ string_bytes (tattach_aname m) @
    uint_bytes (tattach_n_uname m)"

interpretation Tattach: wire_strict wire_Tattach wf_Tattach bytes_Tattach
  unfolding wire_Tattach_def
  by (rule wire_struct_strict, (rule wire_intros)+)
    (auto simp: wf_Tattach_def bytes_Tattach_def struct_simps)

record Tstatfs =
  tstatfs_fid :: u32

definition wire_Tstatfs :: "Tstatfs wire" where
  "wire_Tstatfs = wire_struct
    (\<lambda>m. tstatfs_fid m)
    (\<lambda>fid. \<lparr>tstatfs_fid = fid\<rparr>)
    wire_u32"

definition wf_Tstatfs :: "Tstatfs \<Rightarrow> bool" where
  "wf_Tstatfs m = True"

definition bytes_Tstatfs :: "Tstatfs \<Rightarrow> u8 list" where
  "bytes_Tstatfs m =
    uint_bytes (tstatfs_fid m)"

interpretation Tstatfs: wire_strict wire_Tstatfs wf_Tstatfs bytes_Tstatfs
  unfolding wire_Tstatfs_def
  by (rule wire_struct_strict, (rule wire_intros)+)
    (auto simp: wf_Tstatfs_def bytes_Tstatfs_def struct_simps)

record Tlopen =
  tlopen_fid :: u32
  tlopen_flags :: u32

definition wire_Tlopen :: "Tlopen wire" where
  "wire_Tlopen = wire_struct
    (\<lambda>m. (tlopen_fid m, tlopen_flags m))
    (\<lambda>(fid, flags').
      \<lparr>tlopen_fid = fid, tlopen_flags = flags'\<rparr>)
    (wire_pair wire_u32 wire_u32)"

definition wf_Tlopen :: "Tlopen \<Rightarrow> bool" where
  "wf_Tlopen m = True"

definition bytes_Tlopen :: "Tlopen \<Rightarrow> u8 list" where
  "bytes_Tlopen m =
    uint_bytes (tlopen_fid m) @ uint_bytes (tlopen_flags m)"

interpretation Tlopen: wire_strict wire_Tlopen wf_Tlopen bytes_Tlopen
  unfolding wire_Tlopen_def
  by (rule wire_struct_strict, (rule wire_intros)+)
    (auto simp: wf_Tlopen_def bytes_Tlopen_def struct_simps)

record Tlcreate =
  tlcreate_fid :: u32
  tlcreate_name :: rust_string
  tlcreate_flags :: u32
  tlcreate_mode :: u32
  tlcreate_gid :: u32

definition wire_Tlcreate :: "Tlcreate wire" where
  "wire_Tlcreate = wire_struct
    (\<lambda>m. (tlcreate_fid m, tlcreate_name m, tlcreate_flags m, tlcreate_mode m, tlcreate_gid m))
    (\<lambda>(fid, name, flags', mode, gid).
      \<lparr>tlcreate_fid = fid, tlcreate_name = name, tlcreate_flags = flags',
       tlcreate_mode = mode, tlcreate_gid = gid\<rparr>)
    (wire_pair wire_u32 (wire_pair wire_string (wire_pair wire_u32 (wire_pair wire_u32
     wire_u32))))"

definition wf_Tlcreate :: "Tlcreate \<Rightarrow> bool" where
  "wf_Tlcreate m = (wf_string (tlcreate_name m))"

definition bytes_Tlcreate :: "Tlcreate \<Rightarrow> u8 list" where
  "bytes_Tlcreate m =
    uint_bytes (tlcreate_fid m) @ string_bytes (tlcreate_name m) @
    uint_bytes (tlcreate_flags m) @ uint_bytes (tlcreate_mode m) @
    uint_bytes (tlcreate_gid m)"

interpretation Tlcreate: wire_strict wire_Tlcreate wf_Tlcreate bytes_Tlcreate
  unfolding wire_Tlcreate_def
  by (rule wire_struct_strict, (rule wire_intros)+)
    (auto simp: wf_Tlcreate_def bytes_Tlcreate_def struct_simps)

record Tsymlink =
  tsymlink_fid :: u32
  tsymlink_name :: rust_string
  tsymlink_symtgt :: rust_string
  tsymlink_gid :: u32

definition wire_Tsymlink :: "Tsymlink wire" where
  "wire_Tsymlink = wire_struct
    (\<lambda>m. (tsymlink_fid m, tsymlink_name m, tsymlink_symtgt m, tsymlink_gid m))
    (\<lambda>(fid, name, symtgt, gid).
      \<lparr>tsymlink_fid = fid, tsymlink_name = name, tsymlink_symtgt = symtgt,
       tsymlink_gid = gid\<rparr>)
    (wire_pair wire_u32 (wire_pair wire_string (wire_pair wire_string wire_u32)))"

definition wf_Tsymlink :: "Tsymlink \<Rightarrow> bool" where
  "wf_Tsymlink m = (wf_string (tsymlink_name m) \<and> wf_string (tsymlink_symtgt m))"

definition bytes_Tsymlink :: "Tsymlink \<Rightarrow> u8 list" where
  "bytes_Tsymlink m =
    uint_bytes (tsymlink_fid m) @ string_bytes (tsymlink_name m) @
    string_bytes (tsymlink_symtgt m) @ uint_bytes (tsymlink_gid m)"

interpretation Tsymlink: wire_strict wire_Tsymlink wf_Tsymlink bytes_Tsymlink
  unfolding wire_Tsymlink_def
  by (rule wire_struct_strict, (rule wire_intros)+)
    (auto simp: wf_Tsymlink_def bytes_Tsymlink_def struct_simps)

record Tmknod =
  tmknod_dfid :: u32
  tmknod_name :: rust_string
  tmknod_mode :: u32
  tmknod_major :: u32
  tmknod_minor :: u32
  tmknod_gid :: u32

definition wire_Tmknod :: "Tmknod wire" where
  "wire_Tmknod = wire_struct
    (\<lambda>m. (tmknod_dfid m, tmknod_name m, tmknod_mode m, tmknod_major m, tmknod_minor m,
         tmknod_gid m))
    (\<lambda>(dfid, name, mode, major, minor, gid).
      \<lparr>tmknod_dfid = dfid, tmknod_name = name, tmknod_mode = mode, tmknod_major = major,
       tmknod_minor = minor, tmknod_gid = gid\<rparr>)
    (wire_pair wire_u32 (wire_pair wire_string (wire_pair wire_u32 (wire_pair wire_u32
     (wire_pair wire_u32 wire_u32)))))"

definition wf_Tmknod :: "Tmknod \<Rightarrow> bool" where
  "wf_Tmknod m = (wf_string (tmknod_name m))"

definition bytes_Tmknod :: "Tmknod \<Rightarrow> u8 list" where
  "bytes_Tmknod m =
    uint_bytes (tmknod_dfid m) @ string_bytes (tmknod_name m) @ uint_bytes (tmknod_mode m) @
    uint_bytes (tmknod_major m) @ uint_bytes (tmknod_minor m) @ uint_bytes (tmknod_gid m)"

interpretation Tmknod: wire_strict wire_Tmknod wf_Tmknod bytes_Tmknod
  unfolding wire_Tmknod_def
  by (rule wire_struct_strict, (rule wire_intros)+)
    (auto simp: wf_Tmknod_def bytes_Tmknod_def struct_simps)

record Trename =
  trename_fid :: u32
  trename_dfid :: u32
  trename_name :: rust_string

definition wire_Trename :: "Trename wire" where
  "wire_Trename = wire_struct
    (\<lambda>m. (trename_fid m, trename_dfid m, trename_name m))
    (\<lambda>(fid, dfid, name).
      \<lparr>trename_fid = fid, trename_dfid = dfid, trename_name = name\<rparr>)
    (wire_pair wire_u32 (wire_pair wire_u32 wire_string))"

definition wf_Trename :: "Trename \<Rightarrow> bool" where
  "wf_Trename m = (wf_string (trename_name m))"

definition bytes_Trename :: "Trename \<Rightarrow> u8 list" where
  "bytes_Trename m =
    uint_bytes (trename_fid m) @ uint_bytes (trename_dfid m) @ string_bytes (trename_name m)"

interpretation Trename: wire_format wire_Trename wf_Trename bytes_Trename
  unfolding wire_Trename_def
  by (rule wire_struct_format, (rule wire_intros)+)
    (auto simp: wf_Trename_def bytes_Trename_def struct_simps)

record Treadlink =
  treadlink_fid :: u32

definition wire_Treadlink :: "Treadlink wire" where
  "wire_Treadlink = wire_struct
    (\<lambda>m. treadlink_fid m)
    (\<lambda>fid. \<lparr>treadlink_fid = fid\<rparr>)
    wire_u32"

definition wf_Treadlink :: "Treadlink \<Rightarrow> bool" where
  "wf_Treadlink m = True"

definition bytes_Treadlink :: "Treadlink \<Rightarrow> u8 list" where
  "bytes_Treadlink m =
    uint_bytes (treadlink_fid m)"

interpretation Treadlink: wire_strict wire_Treadlink wf_Treadlink bytes_Treadlink
  unfolding wire_Treadlink_def
  by (rule wire_struct_strict, (rule wire_intros)+)
    (auto simp: wf_Treadlink_def bytes_Treadlink_def struct_simps)

record Tgetattr =
  tgetattr_fid :: u32
  tgetattr_request_mask :: u64

definition wire_Tgetattr :: "Tgetattr wire" where
  "wire_Tgetattr = wire_struct
    (\<lambda>m. (tgetattr_fid m, tgetattr_request_mask m))
    (\<lambda>(fid, request_mask).
      \<lparr>tgetattr_fid = fid, tgetattr_request_mask = request_mask\<rparr>)
    (wire_pair wire_u32 wire_u64)"

definition wf_Tgetattr :: "Tgetattr \<Rightarrow> bool" where
  "wf_Tgetattr m = True"

definition bytes_Tgetattr :: "Tgetattr \<Rightarrow> u8 list" where
  "bytes_Tgetattr m =
    uint_bytes (tgetattr_fid m) @ uint_bytes (tgetattr_request_mask m)"

interpretation Tgetattr: wire_strict wire_Tgetattr wf_Tgetattr bytes_Tgetattr
  unfolding wire_Tgetattr_def
  by (rule wire_struct_strict, (rule wire_intros)+)
    (auto simp: wf_Tgetattr_def bytes_Tgetattr_def struct_simps)

record Tsetattr =
  tsetattr_fid :: u32
  tsetattr_valid :: u32
  tsetattr_mode :: u32
  tsetattr_uid :: u32
  tsetattr_gid :: u32
  tsetattr_size :: u64
  tsetattr_atime_sec :: u64
  tsetattr_atime_nsec :: u64
  tsetattr_mtime_sec :: u64
  tsetattr_mtime_nsec :: u64

definition wire_Tsetattr :: "Tsetattr wire" where
  "wire_Tsetattr = wire_struct
    (\<lambda>m. (tsetattr_fid m, tsetattr_valid m, tsetattr_mode m, tsetattr_uid m, tsetattr_gid m,
         tsetattr_size m, tsetattr_atime_sec m, tsetattr_atime_nsec m, tsetattr_mtime_sec m,
         tsetattr_mtime_nsec m))
    (\<lambda>(fid, valid, mode, uid, gid, size', atime_sec, atime_nsec, mtime_sec, mtime_nsec).
      \<lparr>tsetattr_fid = fid, tsetattr_valid = valid, tsetattr_mode = mode, tsetattr_uid = uid,
       tsetattr_gid = gid, tsetattr_size = size', tsetattr_atime_sec = atime_sec,
       tsetattr_atime_nsec = atime_nsec, tsetattr_mtime_sec = mtime_sec,
       tsetattr_mtime_nsec = mtime_nsec\<rparr>)
    (wire_pair wire_u32 (wire_pair wire_u32 (wire_pair wire_u32 (wire_pair wire_u32
     (wire_pair wire_u32 (wire_pair wire_u64 (wire_pair wire_u64 (wire_pair wire_u64
     (wire_pair wire_u64 wire_u64)))))))))"

definition wf_Tsetattr :: "Tsetattr \<Rightarrow> bool" where
  "wf_Tsetattr m = True"

definition bytes_Tsetattr :: "Tsetattr \<Rightarrow> u8 list" where
  "bytes_Tsetattr m =
    uint_bytes (tsetattr_fid m) @ uint_bytes (tsetattr_valid m) @
    uint_bytes (tsetattr_mode m) @ uint_bytes (tsetattr_uid m) @
    uint_bytes (tsetattr_gid m) @ uint_bytes (tsetattr_size m) @
    uint_bytes (tsetattr_atime_sec m) @ uint_bytes (tsetattr_atime_nsec m) @
    uint_bytes (tsetattr_mtime_sec m) @ uint_bytes (tsetattr_mtime_nsec m)"

interpretation Tsetattr: wire_strict wire_Tsetattr wf_Tsetattr bytes_Tsetattr
  unfolding wire_Tsetattr_def
  by (rule wire_struct_strict, (rule wire_intros)+)
    (auto simp: wf_Tsetattr_def bytes_Tsetattr_def struct_simps)

record Txattrwalk =
  txattrwalk_fid :: u32
  txattrwalk_newfid :: u32
  txattrwalk_name :: rust_string

definition wire_Txattrwalk :: "Txattrwalk wire" where
  "wire_Txattrwalk = wire_struct
    (\<lambda>m. (txattrwalk_fid m, txattrwalk_newfid m, txattrwalk_name m))
    (\<lambda>(fid, newfid, name).
      \<lparr>txattrwalk_fid = fid, txattrwalk_newfid = newfid, txattrwalk_name = name\<rparr>)
    (wire_pair wire_u32 (wire_pair wire_u32 wire_string))"

definition wf_Txattrwalk :: "Txattrwalk \<Rightarrow> bool" where
  "wf_Txattrwalk m = (wf_string (txattrwalk_name m))"

definition bytes_Txattrwalk :: "Txattrwalk \<Rightarrow> u8 list" where
  "bytes_Txattrwalk m =
    uint_bytes (txattrwalk_fid m) @ uint_bytes (txattrwalk_newfid m) @
    string_bytes (txattrwalk_name m)"

interpretation Txattrwalk: wire_format wire_Txattrwalk wf_Txattrwalk bytes_Txattrwalk
  unfolding wire_Txattrwalk_def
  by (rule wire_struct_format, (rule wire_intros)+)
    (auto simp: wf_Txattrwalk_def bytes_Txattrwalk_def struct_simps)

record Txattrcreate =
  txattrcreate_fid :: u32
  txattrcreate_name :: rust_string
  txattrcreate_attr_size :: u64
  txattrcreate_flags :: u32

definition wire_Txattrcreate :: "Txattrcreate wire" where
  "wire_Txattrcreate = wire_struct
    (\<lambda>m. (txattrcreate_fid m, txattrcreate_name m, txattrcreate_attr_size m,
         txattrcreate_flags m))
    (\<lambda>(fid, name, attr_size, flags').
      \<lparr>txattrcreate_fid = fid, txattrcreate_name = name, txattrcreate_attr_size = attr_size,
       txattrcreate_flags = flags'\<rparr>)
    (wire_pair wire_u32 (wire_pair wire_string (wire_pair wire_u64 wire_u32)))"

definition wf_Txattrcreate :: "Txattrcreate \<Rightarrow> bool" where
  "wf_Txattrcreate m = (wf_string (txattrcreate_name m))"

definition bytes_Txattrcreate :: "Txattrcreate \<Rightarrow> u8 list" where
  "bytes_Txattrcreate m =
    uint_bytes (txattrcreate_fid m) @ string_bytes (txattrcreate_name m) @
    uint_bytes (txattrcreate_attr_size m) @ uint_bytes (txattrcreate_flags m)"

interpretation Txattrcreate: wire_strict wire_Txattrcreate wf_Txattrcreate bytes_Txattrcreate
  unfolding wire_Txattrcreate_def
  by (rule wire_struct_strict, (rule wire_intros)+)
    (auto simp: wf_Txattrcreate_def bytes_Txattrcreate_def struct_simps)

record Treaddir =
  treaddir_fid :: u32
  treaddir_offset :: u64
  treaddir_count :: u32

definition wire_Treaddir :: "Treaddir wire" where
  "wire_Treaddir = wire_struct
    (\<lambda>m. (treaddir_fid m, treaddir_offset m, treaddir_count m))
    (\<lambda>(fid, offset, count).
      \<lparr>treaddir_fid = fid, treaddir_offset = offset, treaddir_count = count\<rparr>)
    (wire_pair wire_u32 (wire_pair wire_u64 wire_u32))"

definition wf_Treaddir :: "Treaddir \<Rightarrow> bool" where
  "wf_Treaddir m = True"

definition bytes_Treaddir :: "Treaddir \<Rightarrow> u8 list" where
  "bytes_Treaddir m =
    uint_bytes (treaddir_fid m) @ uint_bytes (treaddir_offset m) @
    uint_bytes (treaddir_count m)"

interpretation Treaddir: wire_strict wire_Treaddir wf_Treaddir bytes_Treaddir
  unfolding wire_Treaddir_def
  by (rule wire_struct_strict, (rule wire_intros)+)
    (auto simp: wf_Treaddir_def bytes_Treaddir_def struct_simps)

record Tfsync =
  tfsync_fid :: u32
  tfsync_datasync :: u32

definition wire_Tfsync :: "Tfsync wire" where
  "wire_Tfsync = wire_struct
    (\<lambda>m. (tfsync_fid m, tfsync_datasync m))
    (\<lambda>(fid, datasync).
      \<lparr>tfsync_fid = fid, tfsync_datasync = datasync\<rparr>)
    (wire_pair wire_u32 wire_u32)"

definition wf_Tfsync :: "Tfsync \<Rightarrow> bool" where
  "wf_Tfsync m = True"

definition bytes_Tfsync :: "Tfsync \<Rightarrow> u8 list" where
  "bytes_Tfsync m =
    uint_bytes (tfsync_fid m) @ uint_bytes (tfsync_datasync m)"

interpretation Tfsync: wire_strict wire_Tfsync wf_Tfsync bytes_Tfsync
  unfolding wire_Tfsync_def
  by (rule wire_struct_strict, (rule wire_intros)+)
    (auto simp: wf_Tfsync_def bytes_Tfsync_def struct_simps)

record Tlock =
  tlock_fid :: u32
  tlock_type :: u8
  tlock_flags :: u32
  tlock_start :: u64
  tlock_length :: u64
  tlock_proc_id :: u32
  tlock_client_id :: rust_string

definition wire_Tlock :: "Tlock wire" where
  "wire_Tlock = wire_struct
    (\<lambda>m. (tlock_fid m, tlock_type m, tlock_flags m, tlock_start m, tlock_length m,
         tlock_proc_id m, tlock_client_id m))
    (\<lambda>(fid, type, flags', start, length, proc_id, client_id).
      \<lparr>tlock_fid = fid, tlock_type = type, tlock_flags = flags', tlock_start = start,
       tlock_length = length, tlock_proc_id = proc_id, tlock_client_id = client_id\<rparr>)
    (wire_pair wire_u32 (wire_pair wire_u8 (wire_pair wire_u32 (wire_pair wire_u64
     (wire_pair wire_u64 (wire_pair wire_u32 wire_string))))))"

definition wf_Tlock :: "Tlock \<Rightarrow> bool" where
  "wf_Tlock m = (wf_string (tlock_client_id m))"

definition bytes_Tlock :: "Tlock \<Rightarrow> u8 list" where
  "bytes_Tlock m =
    uint_bytes (tlock_fid m) @ uint_bytes (tlock_type m) @ uint_bytes (tlock_flags m) @
    uint_bytes (tlock_start m) @ uint_bytes (tlock_length m) @
    uint_bytes (tlock_proc_id m) @ string_bytes (tlock_client_id m)"

interpretation Tlock: wire_format wire_Tlock wf_Tlock bytes_Tlock
  unfolding wire_Tlock_def
  by (rule wire_struct_format, (rule wire_intros)+)
    (auto simp: wf_Tlock_def bytes_Tlock_def struct_simps)

record Tgetlock =
  tgetlock_fid :: u32
  tgetlock_type :: u8
  tgetlock_start :: u64
  tgetlock_length :: u64
  tgetlock_proc_id :: u32
  tgetlock_client_id :: rust_string

definition wire_Tgetlock :: "Tgetlock wire" where
  "wire_Tgetlock = wire_struct
    (\<lambda>m. (tgetlock_fid m, tgetlock_type m, tgetlock_start m, tgetlock_length m,
         tgetlock_proc_id m, tgetlock_client_id m))
    (\<lambda>(fid, type, start, length, proc_id, client_id).
      \<lparr>tgetlock_fid = fid, tgetlock_type = type, tgetlock_start = start,
       tgetlock_length = length, tgetlock_proc_id = proc_id, tgetlock_client_id = client_id\<rparr>)
    (wire_pair wire_u32 (wire_pair wire_u8 (wire_pair wire_u64 (wire_pair wire_u64
     (wire_pair wire_u32 wire_string)))))"

definition wf_Tgetlock :: "Tgetlock \<Rightarrow> bool" where
  "wf_Tgetlock m = (wf_string (tgetlock_client_id m))"

definition bytes_Tgetlock :: "Tgetlock \<Rightarrow> u8 list" where
  "bytes_Tgetlock m =
    uint_bytes (tgetlock_fid m) @ uint_bytes (tgetlock_type m) @
    uint_bytes (tgetlock_start m) @ uint_bytes (tgetlock_length m) @
    uint_bytes (tgetlock_proc_id m) @ string_bytes (tgetlock_client_id m)"

interpretation Tgetlock: wire_format wire_Tgetlock wf_Tgetlock bytes_Tgetlock
  unfolding wire_Tgetlock_def
  by (rule wire_struct_format, (rule wire_intros)+)
    (auto simp: wf_Tgetlock_def bytes_Tgetlock_def struct_simps)

record Tlink =
  tlink_dfid :: u32
  tlink_fid :: u32
  tlink_name :: rust_string

definition wire_Tlink :: "Tlink wire" where
  "wire_Tlink = wire_struct
    (\<lambda>m. (tlink_dfid m, tlink_fid m, tlink_name m))
    (\<lambda>(dfid, fid, name).
      \<lparr>tlink_dfid = dfid, tlink_fid = fid, tlink_name = name\<rparr>)
    (wire_pair wire_u32 (wire_pair wire_u32 wire_string))"

definition wf_Tlink :: "Tlink \<Rightarrow> bool" where
  "wf_Tlink m = (wf_string (tlink_name m))"

definition bytes_Tlink :: "Tlink \<Rightarrow> u8 list" where
  "bytes_Tlink m =
    uint_bytes (tlink_dfid m) @ uint_bytes (tlink_fid m) @ string_bytes (tlink_name m)"

interpretation Tlink: wire_format wire_Tlink wf_Tlink bytes_Tlink
  unfolding wire_Tlink_def
  by (rule wire_struct_format, (rule wire_intros)+)
    (auto simp: wf_Tlink_def bytes_Tlink_def struct_simps)

record Tmkdir =
  tmkdir_dfid :: u32
  tmkdir_name :: rust_string
  tmkdir_mode :: u32
  tmkdir_gid :: u32

definition wire_Tmkdir :: "Tmkdir wire" where
  "wire_Tmkdir = wire_struct
    (\<lambda>m. (tmkdir_dfid m, tmkdir_name m, tmkdir_mode m, tmkdir_gid m))
    (\<lambda>(dfid, name, mode, gid).
      \<lparr>tmkdir_dfid = dfid, tmkdir_name = name, tmkdir_mode = mode, tmkdir_gid = gid\<rparr>)
    (wire_pair wire_u32 (wire_pair wire_string (wire_pair wire_u32 wire_u32)))"

definition wf_Tmkdir :: "Tmkdir \<Rightarrow> bool" where
  "wf_Tmkdir m = (wf_string (tmkdir_name m))"

definition bytes_Tmkdir :: "Tmkdir \<Rightarrow> u8 list" where
  "bytes_Tmkdir m =
    uint_bytes (tmkdir_dfid m) @ string_bytes (tmkdir_name m) @ uint_bytes (tmkdir_mode m) @
    uint_bytes (tmkdir_gid m)"

interpretation Tmkdir: wire_strict wire_Tmkdir wf_Tmkdir bytes_Tmkdir
  unfolding wire_Tmkdir_def
  by (rule wire_struct_strict, (rule wire_intros)+)
    (auto simp: wf_Tmkdir_def bytes_Tmkdir_def struct_simps)

record Trenameat =
  trenameat_olddirfid :: u32
  trenameat_oldname :: rust_string
  trenameat_newdirfid :: u32
  trenameat_newname :: rust_string

definition wire_Trenameat :: "Trenameat wire" where
  "wire_Trenameat = wire_struct
    (\<lambda>m. (trenameat_olddirfid m, trenameat_oldname m, trenameat_newdirfid m,
         trenameat_newname m))
    (\<lambda>(olddirfid, oldname, newdirfid, newname).
      \<lparr>trenameat_olddirfid = olddirfid, trenameat_oldname = oldname,
       trenameat_newdirfid = newdirfid, trenameat_newname = newname\<rparr>)
    (wire_pair wire_u32 (wire_pair wire_string (wire_pair wire_u32 wire_string)))"

definition wf_Trenameat :: "Trenameat \<Rightarrow> bool" where
  "wf_Trenameat m = (wf_string (trenameat_oldname m) \<and> wf_string (trenameat_newname m))"

definition bytes_Trenameat :: "Trenameat \<Rightarrow> u8 list" where
  "bytes_Trenameat m =
    uint_bytes (trenameat_olddirfid m) @ string_bytes (trenameat_oldname m) @
    uint_bytes (trenameat_newdirfid m) @ string_bytes (trenameat_newname m)"

interpretation Trenameat: wire_format wire_Trenameat wf_Trenameat bytes_Trenameat
  unfolding wire_Trenameat_def
  by (rule wire_struct_format, (rule wire_intros)+)
    (auto simp: wf_Trenameat_def bytes_Trenameat_def struct_simps)

record Tunlinkat =
  tunlinkat_dirfd :: u32
  tunlinkat_name :: rust_string
  tunlinkat_flags :: u32

definition wire_Tunlinkat :: "Tunlinkat wire" where
  "wire_Tunlinkat = wire_struct
    (\<lambda>m. (tunlinkat_dirfd m, tunlinkat_name m, tunlinkat_flags m))
    (\<lambda>(dirfd, name, flags').
      \<lparr>tunlinkat_dirfd = dirfd, tunlinkat_name = name, tunlinkat_flags = flags'\<rparr>)
    (wire_pair wire_u32 (wire_pair wire_string wire_u32))"

definition wf_Tunlinkat :: "Tunlinkat \<Rightarrow> bool" where
  "wf_Tunlinkat m = (wf_string (tunlinkat_name m))"

definition bytes_Tunlinkat :: "Tunlinkat \<Rightarrow> u8 list" where
  "bytes_Tunlinkat m =
    uint_bytes (tunlinkat_dirfd m) @ string_bytes (tunlinkat_name m) @
    uint_bytes (tunlinkat_flags m)"

interpretation Tunlinkat: wire_strict wire_Tunlinkat wf_Tunlinkat bytes_Tunlinkat
  unfolding wire_Tunlinkat_def
  by (rule wire_struct_strict, (rule wire_intros)+)
    (auto simp: wf_Tunlinkat_def bytes_Tunlinkat_def struct_simps)

end
