(* ===== verification/R_Messages.thy ===== *)
theory R_Messages
  imports T_Messages
begin

text \<open>
  The reply structs of \<^verbatim>\<open>p9/src/protocol/messages.rs\<close>, with the qid and the directory entry
  they are made of, in the same form as the requests.
\<close>

record Qid =
  qid_ty :: u8
  qid_version :: u32
  qid_path :: u64

definition wire_Qid :: "Qid wire" where
  "wire_Qid = wire_struct
    (\<lambda>m. (qid_ty m, qid_version m, qid_path m))
    (\<lambda>(ty, version, path).
      \<lparr>qid_ty = ty, qid_version = version, qid_path = path\<rparr>)
    (wire_pair wire_u8 (wire_pair wire_u32 wire_u64))"

definition wf_Qid :: "Qid \<Rightarrow> bool" where
  "wf_Qid m = True"

definition bytes_Qid :: "Qid \<Rightarrow> u8 list" where
  "bytes_Qid m =
    uint_bytes (qid_ty m) @ uint_bytes (qid_version m) @ uint_bytes (qid_path m)"

interpretation Qid: wire_strict wire_Qid wf_Qid bytes_Qid
  unfolding wire_Qid_def
  by (rule wire_struct_strict, (rule wire_intros)+)
    (auto simp: wf_Qid_def bytes_Qid_def struct_simps)

lemmas [wire_intros] = Qid.wire_format_axioms Qid.wire_strict_axioms

record Dirent =
  dirent_qid :: Qid
  dirent_offset :: u64
  dirent_ty :: u8
  dirent_name :: rust_string

definition wire_Dirent :: "Dirent wire" where
  "wire_Dirent = wire_struct
    (\<lambda>m. (dirent_qid m, dirent_offset m, dirent_ty m, dirent_name m))
    (\<lambda>(qid, offset, ty, name).
      \<lparr>dirent_qid = qid, dirent_offset = offset, dirent_ty = ty, dirent_name = name\<rparr>)
    (wire_pair wire_Qid (wire_pair wire_u64 (wire_pair wire_u8 wire_string)))"

definition wf_Dirent :: "Dirent \<Rightarrow> bool" where
  "wf_Dirent m = (wf_Qid (dirent_qid m) \<and> wf_string (dirent_name m))"

definition bytes_Dirent :: "Dirent \<Rightarrow> u8 list" where
  "bytes_Dirent m =
    bytes_Qid (dirent_qid m) @ uint_bytes (dirent_offset m) @ uint_bytes (dirent_ty m) @
    string_bytes (dirent_name m)"

interpretation Dirent: wire_format wire_Dirent wf_Dirent bytes_Dirent
  unfolding wire_Dirent_def
  by (rule wire_struct_format, (rule wire_intros)+)
    (auto simp: wf_Dirent_def bytes_Dirent_def struct_simps)

record Rversion =
  rversion_msize :: u32
  rversion_version :: rust_string

definition wire_Rversion :: "Rversion wire" where
  "wire_Rversion = wire_struct
    (\<lambda>m. (rversion_msize m, rversion_version m))
    (\<lambda>(msize, version).
      \<lparr>rversion_msize = msize, rversion_version = version\<rparr>)
    (wire_pair wire_u32 wire_string)"

definition wf_Rversion :: "Rversion \<Rightarrow> bool" where
  "wf_Rversion m = (wf_string (rversion_version m))"

definition bytes_Rversion :: "Rversion \<Rightarrow> u8 list" where
  "bytes_Rversion m =
    uint_bytes (rversion_msize m) @ string_bytes (rversion_version m)"

interpretation Rversion: wire_format wire_Rversion wf_Rversion bytes_Rversion
  unfolding wire_Rversion_def
  by (rule wire_struct_format, (rule wire_intros)+)
    (auto simp: wf_Rversion_def bytes_Rversion_def struct_simps)

record Rwalk =
  rwalk_wqids :: "Qid list"

definition wire_Rwalk :: "Rwalk wire" where
  "wire_Rwalk = wire_struct
    (\<lambda>m. rwalk_wqids m)
    (\<lambda>wqids. \<lparr>rwalk_wqids = wqids\<rparr>)
    (wire_vec wire_Qid)"

definition wf_Rwalk :: "Rwalk \<Rightarrow> bool" where
  "wf_Rwalk m = (wf_vec wf_Qid (rwalk_wqids m))"

definition bytes_Rwalk :: "Rwalk \<Rightarrow> u8 list" where
  "bytes_Rwalk m =
    vec_bytes bytes_Qid (rwalk_wqids m)"

interpretation Rwalk: wire_strict wire_Rwalk wf_Rwalk bytes_Rwalk
  unfolding wire_Rwalk_def
  by (rule wire_struct_strict, (rule wire_intros)+)
    (auto simp: wf_Rwalk_def bytes_Rwalk_def struct_simps)

record Rread =
  rread_data :: data

definition wire_Rread :: "Rread wire" where
  "wire_Rread = wire_struct
    (\<lambda>m. rread_data m)
    (\<lambda>data'. \<lparr>rread_data = data'\<rparr>)
    wire_data"

definition wf_Rread :: "Rread \<Rightarrow> bool" where
  "wf_Rread m = (wf_data (rread_data m))"

definition bytes_Rread :: "Rread \<Rightarrow> u8 list" where
  "bytes_Rread m =
    data_bytes (rread_data m)"

interpretation Rread: wire_strict wire_Rread wf_Rread bytes_Rread
  unfolding wire_Rread_def
  by (rule wire_struct_strict, (rule wire_intros)+)
    (auto simp: wf_Rread_def bytes_Rread_def struct_simps)

record Rwrite =
  rwrite_count :: u32

definition wire_Rwrite :: "Rwrite wire" where
  "wire_Rwrite = wire_struct
    (\<lambda>m. rwrite_count m)
    (\<lambda>count. \<lparr>rwrite_count = count\<rparr>)
    wire_u32"

definition wf_Rwrite :: "Rwrite \<Rightarrow> bool" where
  "wf_Rwrite m = True"

definition bytes_Rwrite :: "Rwrite \<Rightarrow> u8 list" where
  "bytes_Rwrite m =
    uint_bytes (rwrite_count m)"

interpretation Rwrite: wire_strict wire_Rwrite wf_Rwrite bytes_Rwrite
  unfolding wire_Rwrite_def
  by (rule wire_struct_strict, (rule wire_intros)+)
    (auto simp: wf_Rwrite_def bytes_Rwrite_def struct_simps)

record Rauth =
  rauth_aqid :: Qid

definition wire_Rauth :: "Rauth wire" where
  "wire_Rauth = wire_struct
    (\<lambda>m. rauth_aqid m)
    (\<lambda>aqid. \<lparr>rauth_aqid = aqid\<rparr>)
    wire_Qid"

definition wf_Rauth :: "Rauth \<Rightarrow> bool" where
  "wf_Rauth m = (wf_Qid (rauth_aqid m))"

definition bytes_Rauth :: "Rauth \<Rightarrow> u8 list" where
  "bytes_Rauth m =
    bytes_Qid (rauth_aqid m)"

interpretation Rauth: wire_strict wire_Rauth wf_Rauth bytes_Rauth
  unfolding wire_Rauth_def
  by (rule wire_struct_strict, (rule wire_intros)+)
    (auto simp: wf_Rauth_def bytes_Rauth_def struct_simps)

record Rattach =
  rattach_qid :: Qid

definition wire_Rattach :: "Rattach wire" where
  "wire_Rattach = wire_struct
    (\<lambda>m. rattach_qid m)
    (\<lambda>qid. \<lparr>rattach_qid = qid\<rparr>)
    wire_Qid"

definition wf_Rattach :: "Rattach \<Rightarrow> bool" where
  "wf_Rattach m = (wf_Qid (rattach_qid m))"

definition bytes_Rattach :: "Rattach \<Rightarrow> u8 list" where
  "bytes_Rattach m =
    bytes_Qid (rattach_qid m)"

interpretation Rattach: wire_strict wire_Rattach wf_Rattach bytes_Rattach
  unfolding wire_Rattach_def
  by (rule wire_struct_strict, (rule wire_intros)+)
    (auto simp: wf_Rattach_def bytes_Rattach_def struct_simps)

record Rlerror =
  rlerror_ecode :: u32

definition wire_Rlerror :: "Rlerror wire" where
  "wire_Rlerror = wire_struct
    (\<lambda>m. rlerror_ecode m)
    (\<lambda>ecode. \<lparr>rlerror_ecode = ecode\<rparr>)
    wire_u32"

definition wf_Rlerror :: "Rlerror \<Rightarrow> bool" where
  "wf_Rlerror m = True"

definition bytes_Rlerror :: "Rlerror \<Rightarrow> u8 list" where
  "bytes_Rlerror m =
    uint_bytes (rlerror_ecode m)"

interpretation Rlerror: wire_strict wire_Rlerror wf_Rlerror bytes_Rlerror
  unfolding wire_Rlerror_def
  by (rule wire_struct_strict, (rule wire_intros)+)
    (auto simp: wf_Rlerror_def bytes_Rlerror_def struct_simps)

record Rstatfs =
  rstatfs_ty :: u32
  rstatfs_bsize :: u32
  rstatfs_blocks :: u64
  rstatfs_bfree :: u64
  rstatfs_bavail :: u64
  rstatfs_files :: u64
  rstatfs_ffree :: u64
  rstatfs_fsid :: u64
  rstatfs_namelen :: u32

definition wire_Rstatfs :: "Rstatfs wire" where
  "wire_Rstatfs = wire_struct
    (\<lambda>m. (rstatfs_ty m, rstatfs_bsize m, rstatfs_blocks m, rstatfs_bfree m, rstatfs_bavail m,
         rstatfs_files m, rstatfs_ffree m, rstatfs_fsid m, rstatfs_namelen m))
    (\<lambda>(ty, bsize, blocks, bfree, bavail, files, ffree, fsid, namelen).
      \<lparr>rstatfs_ty = ty, rstatfs_bsize = bsize, rstatfs_blocks = blocks,
       rstatfs_bfree = bfree, rstatfs_bavail = bavail, rstatfs_files = files,
       rstatfs_ffree = ffree, rstatfs_fsid = fsid, rstatfs_namelen = namelen\<rparr>)
    (wire_pair wire_u32 (wire_pair wire_u32 (wire_pair wire_u64 (wire_pair wire_u64
     (wire_pair wire_u64 (wire_pair wire_u64 (wire_pair wire_u64 (wire_pair wire_u64
     wire_u32))))))))"

definition wf_Rstatfs :: "Rstatfs \<Rightarrow> bool" where
  "wf_Rstatfs m = True"

definition bytes_Rstatfs :: "Rstatfs \<Rightarrow> u8 list" where
  "bytes_Rstatfs m =
    uint_bytes (rstatfs_ty m) @ uint_bytes (rstatfs_bsize m) @
    uint_bytes (rstatfs_blocks m) @ uint_bytes (rstatfs_bfree m) @
    uint_bytes (rstatfs_bavail m) @ uint_bytes (rstatfs_files m) @
    uint_bytes (rstatfs_ffree m) @ uint_bytes (rstatfs_fsid m) @
    uint_bytes (rstatfs_namelen m)"

interpretation Rstatfs: wire_strict wire_Rstatfs wf_Rstatfs bytes_Rstatfs
  unfolding wire_Rstatfs_def
  by (rule wire_struct_strict, (rule wire_intros)+)
    (auto simp: wf_Rstatfs_def bytes_Rstatfs_def struct_simps)

record Rlopen =
  rlopen_qid :: Qid
  rlopen_iounit :: u32

definition wire_Rlopen :: "Rlopen wire" where
  "wire_Rlopen = wire_struct
    (\<lambda>m. (rlopen_qid m, rlopen_iounit m))
    (\<lambda>(qid, iounit).
      \<lparr>rlopen_qid = qid, rlopen_iounit = iounit\<rparr>)
    (wire_pair wire_Qid wire_u32)"

definition wf_Rlopen :: "Rlopen \<Rightarrow> bool" where
  "wf_Rlopen m = (wf_Qid (rlopen_qid m))"

definition bytes_Rlopen :: "Rlopen \<Rightarrow> u8 list" where
  "bytes_Rlopen m =
    bytes_Qid (rlopen_qid m) @ uint_bytes (rlopen_iounit m)"

interpretation Rlopen: wire_strict wire_Rlopen wf_Rlopen bytes_Rlopen
  unfolding wire_Rlopen_def
  by (rule wire_struct_strict, (rule wire_intros)+)
    (auto simp: wf_Rlopen_def bytes_Rlopen_def struct_simps)

record Rlcreate =
  rlcreate_qid :: Qid
  rlcreate_iounit :: u32

definition wire_Rlcreate :: "Rlcreate wire" where
  "wire_Rlcreate = wire_struct
    (\<lambda>m. (rlcreate_qid m, rlcreate_iounit m))
    (\<lambda>(qid, iounit).
      \<lparr>rlcreate_qid = qid, rlcreate_iounit = iounit\<rparr>)
    (wire_pair wire_Qid wire_u32)"

definition wf_Rlcreate :: "Rlcreate \<Rightarrow> bool" where
  "wf_Rlcreate m = (wf_Qid (rlcreate_qid m))"

definition bytes_Rlcreate :: "Rlcreate \<Rightarrow> u8 list" where
  "bytes_Rlcreate m =
    bytes_Qid (rlcreate_qid m) @ uint_bytes (rlcreate_iounit m)"

interpretation Rlcreate: wire_strict wire_Rlcreate wf_Rlcreate bytes_Rlcreate
  unfolding wire_Rlcreate_def
  by (rule wire_struct_strict, (rule wire_intros)+)
    (auto simp: wf_Rlcreate_def bytes_Rlcreate_def struct_simps)

record Rsymlink =
  rsymlink_qid :: Qid

definition wire_Rsymlink :: "Rsymlink wire" where
  "wire_Rsymlink = wire_struct
    (\<lambda>m. rsymlink_qid m)
    (\<lambda>qid. \<lparr>rsymlink_qid = qid\<rparr>)
    wire_Qid"

definition wf_Rsymlink :: "Rsymlink \<Rightarrow> bool" where
  "wf_Rsymlink m = (wf_Qid (rsymlink_qid m))"

definition bytes_Rsymlink :: "Rsymlink \<Rightarrow> u8 list" where
  "bytes_Rsymlink m =
    bytes_Qid (rsymlink_qid m)"

interpretation Rsymlink: wire_strict wire_Rsymlink wf_Rsymlink bytes_Rsymlink
  unfolding wire_Rsymlink_def
  by (rule wire_struct_strict, (rule wire_intros)+)
    (auto simp: wf_Rsymlink_def bytes_Rsymlink_def struct_simps)

record Rmknod =
  rmknod_qid :: Qid

definition wire_Rmknod :: "Rmknod wire" where
  "wire_Rmknod = wire_struct
    (\<lambda>m. rmknod_qid m)
    (\<lambda>qid. \<lparr>rmknod_qid = qid\<rparr>)
    wire_Qid"

definition wf_Rmknod :: "Rmknod \<Rightarrow> bool" where
  "wf_Rmknod m = (wf_Qid (rmknod_qid m))"

definition bytes_Rmknod :: "Rmknod \<Rightarrow> u8 list" where
  "bytes_Rmknod m =
    bytes_Qid (rmknod_qid m)"

interpretation Rmknod: wire_strict wire_Rmknod wf_Rmknod bytes_Rmknod
  unfolding wire_Rmknod_def
  by (rule wire_struct_strict, (rule wire_intros)+)
    (auto simp: wf_Rmknod_def bytes_Rmknod_def struct_simps)

record Rreadlink =
  rreadlink_target :: rust_string

definition wire_Rreadlink :: "Rreadlink wire" where
  "wire_Rreadlink = wire_struct
    (\<lambda>m. rreadlink_target m)
    (\<lambda>target. \<lparr>rreadlink_target = target\<rparr>)
    wire_string"

definition wf_Rreadlink :: "Rreadlink \<Rightarrow> bool" where
  "wf_Rreadlink m = (wf_string (rreadlink_target m))"

definition bytes_Rreadlink :: "Rreadlink \<Rightarrow> u8 list" where
  "bytes_Rreadlink m =
    string_bytes (rreadlink_target m)"

interpretation Rreadlink: wire_format wire_Rreadlink wf_Rreadlink bytes_Rreadlink
  unfolding wire_Rreadlink_def
  by (rule wire_struct_format, (rule wire_intros)+)
    (auto simp: wf_Rreadlink_def bytes_Rreadlink_def struct_simps)

record Rgetattr =
  rgetattr_valid :: u64
  rgetattr_qid :: Qid
  rgetattr_mode :: u32
  rgetattr_uid :: u32
  rgetattr_gid :: u32
  rgetattr_nlink :: u64
  rgetattr_rdev :: u64
  rgetattr_size :: u64
  rgetattr_blksize :: u64
  rgetattr_blocks :: u64
  rgetattr_atime_sec :: u64
  rgetattr_atime_nsec :: u64
  rgetattr_mtime_sec :: u64
  rgetattr_mtime_nsec :: u64
  rgetattr_ctime_sec :: u64
  rgetattr_ctime_nsec :: u64
  rgetattr_btime_sec :: u64
  rgetattr_btime_nsec :: u64
  rgetattr_gen :: u64
  rgetattr_data_version :: u64

definition wire_Rgetattr :: "Rgetattr wire" where
  "wire_Rgetattr = wire_struct
    (\<lambda>m. (rgetattr_valid m, rgetattr_qid m, rgetattr_mode m, rgetattr_uid m, rgetattr_gid m,
         rgetattr_nlink m, rgetattr_rdev m, rgetattr_size m, rgetattr_blksize m,
         rgetattr_blocks m, rgetattr_atime_sec m, rgetattr_atime_nsec m,
         rgetattr_mtime_sec m, rgetattr_mtime_nsec m, rgetattr_ctime_sec m,
         rgetattr_ctime_nsec m, rgetattr_btime_sec m, rgetattr_btime_nsec m, rgetattr_gen m,
         rgetattr_data_version m))
    (\<lambda>(valid, qid, mode, uid, gid, nlink, rdev, size', blksize, blocks, atime_sec,
         atime_nsec, mtime_sec, mtime_nsec, ctime_sec, ctime_nsec, btime_sec, btime_nsec,
         gen', data_version).
      \<lparr>rgetattr_valid = valid, rgetattr_qid = qid, rgetattr_mode = mode, rgetattr_uid = uid,
       rgetattr_gid = gid, rgetattr_nlink = nlink, rgetattr_rdev = rdev,
       rgetattr_size = size', rgetattr_blksize = blksize, rgetattr_blocks = blocks,
       rgetattr_atime_sec = atime_sec, rgetattr_atime_nsec = atime_nsec,
       rgetattr_mtime_sec = mtime_sec, rgetattr_mtime_nsec = mtime_nsec,
       rgetattr_ctime_sec = ctime_sec, rgetattr_ctime_nsec = ctime_nsec,
       rgetattr_btime_sec = btime_sec, rgetattr_btime_nsec = btime_nsec,
       rgetattr_gen = gen', rgetattr_data_version = data_version\<rparr>)
    (wire_pair wire_u64 (wire_pair wire_Qid (wire_pair wire_u32 (wire_pair wire_u32
     (wire_pair wire_u32 (wire_pair wire_u64 (wire_pair wire_u64 (wire_pair wire_u64
     (wire_pair wire_u64 (wire_pair wire_u64 (wire_pair wire_u64 (wire_pair wire_u64
     (wire_pair wire_u64 (wire_pair wire_u64 (wire_pair wire_u64 (wire_pair wire_u64
     (wire_pair wire_u64 (wire_pair wire_u64 (wire_pair wire_u64 wire_u64)))))))))))))))))))"

definition wf_Rgetattr :: "Rgetattr \<Rightarrow> bool" where
  "wf_Rgetattr m = (wf_Qid (rgetattr_qid m))"

definition bytes_Rgetattr :: "Rgetattr \<Rightarrow> u8 list" where
  "bytes_Rgetattr m =
    uint_bytes (rgetattr_valid m) @ bytes_Qid (rgetattr_qid m) @
    uint_bytes (rgetattr_mode m) @ uint_bytes (rgetattr_uid m) @
    uint_bytes (rgetattr_gid m) @ uint_bytes (rgetattr_nlink m) @
    uint_bytes (rgetattr_rdev m) @ uint_bytes (rgetattr_size m) @
    uint_bytes (rgetattr_blksize m) @ uint_bytes (rgetattr_blocks m) @
    uint_bytes (rgetattr_atime_sec m) @ uint_bytes (rgetattr_atime_nsec m) @
    uint_bytes (rgetattr_mtime_sec m) @ uint_bytes (rgetattr_mtime_nsec m) @
    uint_bytes (rgetattr_ctime_sec m) @ uint_bytes (rgetattr_ctime_nsec m) @
    uint_bytes (rgetattr_btime_sec m) @ uint_bytes (rgetattr_btime_nsec m) @
    uint_bytes (rgetattr_gen m) @ uint_bytes (rgetattr_data_version m)"

interpretation Rgetattr: wire_strict wire_Rgetattr wf_Rgetattr bytes_Rgetattr
  unfolding wire_Rgetattr_def
  by (rule wire_struct_strict, (rule wire_intros)+)
    (auto simp: wf_Rgetattr_def bytes_Rgetattr_def struct_simps)

record Rxattrwalk =
  rxattrwalk_size :: u64

definition wire_Rxattrwalk :: "Rxattrwalk wire" where
  "wire_Rxattrwalk = wire_struct
    (\<lambda>m. rxattrwalk_size m)
    (\<lambda>size'. \<lparr>rxattrwalk_size = size'\<rparr>)
    wire_u64"

definition wf_Rxattrwalk :: "Rxattrwalk \<Rightarrow> bool" where
  "wf_Rxattrwalk m = True"

definition bytes_Rxattrwalk :: "Rxattrwalk \<Rightarrow> u8 list" where
  "bytes_Rxattrwalk m =
    uint_bytes (rxattrwalk_size m)"

interpretation Rxattrwalk: wire_strict wire_Rxattrwalk wf_Rxattrwalk bytes_Rxattrwalk
  unfolding wire_Rxattrwalk_def
  by (rule wire_struct_strict, (rule wire_intros)+)
    (auto simp: wf_Rxattrwalk_def bytes_Rxattrwalk_def struct_simps)

record Rreaddir =
  rreaddir_data :: data

definition wire_Rreaddir :: "Rreaddir wire" where
  "wire_Rreaddir = wire_struct
    (\<lambda>m. rreaddir_data m)
    (\<lambda>data'. \<lparr>rreaddir_data = data'\<rparr>)
    wire_data"

definition wf_Rreaddir :: "Rreaddir \<Rightarrow> bool" where
  "wf_Rreaddir m = (wf_data (rreaddir_data m))"

definition bytes_Rreaddir :: "Rreaddir \<Rightarrow> u8 list" where
  "bytes_Rreaddir m =
    data_bytes (rreaddir_data m)"

interpretation Rreaddir: wire_strict wire_Rreaddir wf_Rreaddir bytes_Rreaddir
  unfolding wire_Rreaddir_def
  by (rule wire_struct_strict, (rule wire_intros)+)
    (auto simp: wf_Rreaddir_def bytes_Rreaddir_def struct_simps)

record Rlock =
  rlock_status :: u8

definition wire_Rlock :: "Rlock wire" where
  "wire_Rlock = wire_struct
    (\<lambda>m. rlock_status m)
    (\<lambda>status. \<lparr>rlock_status = status\<rparr>)
    wire_u8"

definition wf_Rlock :: "Rlock \<Rightarrow> bool" where
  "wf_Rlock m = True"

definition bytes_Rlock :: "Rlock \<Rightarrow> u8 list" where
  "bytes_Rlock m =
    uint_bytes (rlock_status m)"

interpretation Rlock: wire_strict wire_Rlock wf_Rlock bytes_Rlock
  unfolding wire_Rlock_def
  by (rule wire_struct_strict, (rule wire_intros)+)
    (auto simp: wf_Rlock_def bytes_Rlock_def struct_simps)

record Rgetlock =
  rgetlock_type :: u8
  rgetlock_start :: u64
  rgetlock_length :: u64
  rgetlock_proc_id :: u32
  rgetlock_client_id :: rust_string

definition wire_Rgetlock :: "Rgetlock wire" where
  "wire_Rgetlock = wire_struct
    (\<lambda>m. (rgetlock_type m, rgetlock_start m, rgetlock_length m, rgetlock_proc_id m,
         rgetlock_client_id m))
    (\<lambda>(type, start, length, proc_id, client_id).
      \<lparr>rgetlock_type = type, rgetlock_start = start, rgetlock_length = length,
       rgetlock_proc_id = proc_id, rgetlock_client_id = client_id\<rparr>)
    (wire_pair wire_u8 (wire_pair wire_u64 (wire_pair wire_u64 (wire_pair wire_u32
     wire_string))))"

definition wf_Rgetlock :: "Rgetlock \<Rightarrow> bool" where
  "wf_Rgetlock m = (wf_string (rgetlock_client_id m))"

definition bytes_Rgetlock :: "Rgetlock \<Rightarrow> u8 list" where
  "bytes_Rgetlock m =
    uint_bytes (rgetlock_type m) @ uint_bytes (rgetlock_start m) @
    uint_bytes (rgetlock_length m) @ uint_bytes (rgetlock_proc_id m) @
    string_bytes (rgetlock_client_id m)"

interpretation Rgetlock: wire_format wire_Rgetlock wf_Rgetlock bytes_Rgetlock
  unfolding wire_Rgetlock_def
  by (rule wire_struct_format, (rule wire_intros)+)
    (auto simp: wf_Rgetlock_def bytes_Rgetlock_def struct_simps)

record Rmkdir =
  rmkdir_qid :: Qid

definition wire_Rmkdir :: "Rmkdir wire" where
  "wire_Rmkdir = wire_struct
    (\<lambda>m. rmkdir_qid m)
    (\<lambda>qid. \<lparr>rmkdir_qid = qid\<rparr>)
    wire_Qid"

definition wf_Rmkdir :: "Rmkdir \<Rightarrow> bool" where
  "wf_Rmkdir m = (wf_Qid (rmkdir_qid m))"

definition bytes_Rmkdir :: "Rmkdir \<Rightarrow> u8 list" where
  "bytes_Rmkdir m =
    bytes_Qid (rmkdir_qid m)"

interpretation Rmkdir: wire_strict wire_Rmkdir wf_Rmkdir bytes_Rmkdir
  unfolding wire_Rmkdir_def
  by (rule wire_struct_strict, (rule wire_intros)+)
    (auto simp: wf_Rmkdir_def bytes_Rmkdir_def struct_simps)

end
