(* ===== verification/Frames.thy ===== *)
theory Frames
  imports R_Messages
begin

text \<open>
  The message types and the frames of \<^verbatim>\<open>p9/src/protocol/messages.rs\<close>: the constants, the
  unions \<open>Tmessage\<close> and \<open>Rmessage\<close>, and \<^verbatim>\<open>Tframe\<close> and \<^verbatim>\<open>Rframe\<close> with their
  implementations of \<^verbatim>\<open>WireFormat\<close>.  The lemmas give what a frame looks like on the wire,
  that decoding inverts encoding, and what a decoder does with every malformed header.
\<close>

subsection \<open>Message type constants\<close>

definition TLERROR :: u8 where "TLERROR = 6"
definition RLERROR :: u8 where "RLERROR = TLERROR + 1"
definition TSTATFS :: u8 where "TSTATFS = 8"
definition RSTATFS :: u8 where "RSTATFS = TSTATFS + 1"
definition TLOPEN :: u8 where "TLOPEN = 12"
definition RLOPEN :: u8 where "RLOPEN = TLOPEN + 1"
definition TLCREATE :: u8 where "TLCREATE = 14"
definition RLCREATE :: u8 where "RLCREATE = TLCREATE + 1"
definition TSYMLINK :: u8 where "TSYMLINK = 16"
definition RSYMLINK :: u8 where "RSYMLINK = TSYMLINK + 1"
definition TMKNOD :: u8 where "TMKNOD = 18"
definition RMKNOD :: u8 where "RMKNOD = TMKNOD + 1"
definition TRENAME :: u8 where "TRENAME = 20"
definition RRENAME :: u8 where "RRENAME = TRENAME + 1"
definition TREADLINK :: u8 where "TREADLINK = 22"
definition RREADLINK :: u8 where "RREADLINK = TREADLINK + 1"
definition TGETATTR :: u8 where "TGETATTR = 24"
definition RGETATTR :: u8 where "RGETATTR = TGETATTR + 1"
definition TSETATTR :: u8 where "TSETATTR = 26"
definition RSETATTR :: u8 where "RSETATTR = TSETATTR + 1"
definition TXATTRWALK :: u8 where "TXATTRWALK = 30"
definition RXATTRWALK :: u8 where "RXATTRWALK = TXATTRWALK + 1"
definition TXATTRCREATE :: u8 where "TXATTRCREATE = 32"
definition RXATTRCREATE :: u8 where "RXATTRCREATE = TXATTRCREATE + 1"
definition TREADDIR :: u8 where "TREADDIR = 40"
definition RREADDIR :: u8 where "RREADDIR = TREADDIR + 1"
definition TFSYNC :: u8 where "TFSYNC = 50"
definition RFSYNC :: u8 where "RFSYNC = TFSYNC + 1"
definition TLOCK :: u8 where "TLOCK = 52"
definition RLOCK :: u8 where "RLOCK = TLOCK + 1"
definition TGETLOCK :: u8 where "TGETLOCK = 54"
definition RGETLOCK :: u8 where "RGETLOCK = TGETLOCK + 1"
definition TLINK :: u8 where "TLINK = 70"
definition RLINK :: u8 where "RLINK = TLINK + 1"
definition TMKDIR :: u8 where "TMKDIR = 72"
definition RMKDIR :: u8 where "RMKDIR = TMKDIR + 1"
definition TRENAMEAT :: u8 where "TRENAMEAT = 74"
definition RRENAMEAT :: u8 where "RRENAMEAT = TRENAMEAT + 1"
definition TUNLINKAT :: u8 where "TUNLINKAT = 76"
definition RUNLINKAT :: u8 where "RUNLINKAT = TUNLINKAT + 1"
definition TVERSION :: u8 where "TVERSION = 100"
definition RVERSION :: u8 where "RVERSION = TVERSION + 1"
definition TAUTH :: u8 where "TAUTH = 102"
definition RAUTH :: u8 where "RAUTH = TAUTH + 1"
definition TATTACH :: u8 where "TATTACH = 104"
definition RATTACH :: u8 where "RATTACH = TATTACH + 1"
definition TFLUSH :: u8 where "TFLUSH = 108"
definition RFLUSH :: u8 where "RFLUSH = TFLUSH + 1"
definition TWALK :: u8 where "TWALK = 110"
definition RWALK :: u8 where "RWALK = TWALK + 1"
definition TREAD :: u8 where "TREAD = 116"
definition RREAD :: u8 where "RREAD = TREAD + 1"
definition TWRITE :: u8 where "TWRITE = 118"
definition RWRITE :: u8 where "RWRITE = TWRITE + 1"
definition TCLUNK :: u8 where "TCLUNK = 120"
definition RCLUNK :: u8 where "RCLUNK = TCLUNK + 1"
definition TREMOVE :: u8 where "TREMOVE = 122"
definition RREMOVE :: u8 where "RREMOVE = TREMOVE + 1"

lemmas msg_types =
  TLERROR_def RLERROR_def TSTATFS_def RSTATFS_def TLOPEN_def RLOPEN_def TLCREATE_def
  RLCREATE_def TSYMLINK_def RSYMLINK_def TMKNOD_def RMKNOD_def TRENAME_def RRENAME_def
  TREADLINK_def RREADLINK_def TGETATTR_def RGETATTR_def TSETATTR_def RSETATTR_def
  TXATTRWALK_def RXATTRWALK_def TXATTRCREATE_def RXATTRCREATE_def TREADDIR_def RREADDIR_def
  TFSYNC_def RFSYNC_def TLOCK_def RLOCK_def TGETLOCK_def RGETLOCK_def TLINK_def RLINK_def
  TMKDIR_def RMKDIR_def TRENAMEAT_def RRENAMEAT_def TUNLINKAT_def RUNLINKAT_def TVERSION_def
  RVERSION_def TAUTH_def RAUTH_def TATTACH_def RATTACH_def TFLUSH_def RFLUSH_def TWALK_def
  RWALK_def TREAD_def RREAD_def TWRITE_def RWRITE_def TCLUNK_def RCLUNK_def TREMOVE_def
  RREMOVE_def

subsection \<open>Requests\<close>

datatype Tmessage =
    Version Tversion
  | Flush Tflush
  | Walk Twalk
  | Read Tread
  | Write Twrite
  | Clunk Tclunk
  | Remove Tremove
  | Attach Tattach
  | Auth Tauth
  | Statfs Tstatfs
  | Lopen Tlopen
  | Lcreate Tlcreate
  | Symlink Tsymlink
  | Mknod Tmknod
  | Rename Trename
  | Readlink Treadlink
  | GetAttr Tgetattr
  | SetAttr Tsetattr
  | XattrWalk Txattrwalk
  | XattrCreate Txattrcreate
  | Readdir Treaddir
  | Fsync Tfsync
  | Lock Tlock
  | GetLock Tgetlock
  | Link Tlink
  | Mkdir Tmkdir
  | RenameAt Trenameat
  | UnlinkAt Tunlinkat

record Tframe =
  tframe_tag :: u16
  tframe_msg :: "Tmessage io_result"

text \<open>The size of a message's body, its type byte and the encoding of its body.\<close>

fun tmsg_byte_size :: "Tmessage \<Rightarrow> u32" where
    "tmsg_byte_size (Tmessage.Version m) = byte_size wire_Tversion m"
  | "tmsg_byte_size (Tmessage.Flush m) = byte_size wire_Tflush m"
  | "tmsg_byte_size (Tmessage.Walk m) = byte_size wire_Twalk m"
  | "tmsg_byte_size (Tmessage.Read m) = byte_size wire_Tread m"
  | "tmsg_byte_size (Tmessage.Write m) = byte_size wire_Twrite m"
  | "tmsg_byte_size (Tmessage.Clunk m) = byte_size wire_Tclunk m"
  | "tmsg_byte_size (Tmessage.Remove m) = byte_size wire_Tremove m"
  | "tmsg_byte_size (Tmessage.Attach m) = byte_size wire_Tattach m"
  | "tmsg_byte_size (Tmessage.Auth m) = byte_size wire_Tauth m"
  | "tmsg_byte_size (Tmessage.Statfs m) = byte_size wire_Tstatfs m"
  | "tmsg_byte_size (Tmessage.Lopen m) = byte_size wire_Tlopen m"
  | "tmsg_byte_size (Tmessage.Lcreate m) = byte_size wire_Tlcreate m"
  | "tmsg_byte_size (Tmessage.Symlink m) = byte_size wire_Tsymlink m"
  | "tmsg_byte_size (Tmessage.Mknod m) = byte_size wire_Tmknod m"
  | "tmsg_byte_size (Tmessage.Rename m) = byte_size wire_Trename m"
  | "tmsg_byte_size (Tmessage.Readlink m) = byte_size wire_Treadlink m"
  | "tmsg_byte_size (Tmessage.GetAttr m) = byte_size wire_Tgetattr m"
  | "tmsg_byte_size (Tmessage.SetAttr m) = byte_size wire_Tsetattr m"
  | "tmsg_byte_size (Tmessage.XattrWalk m) = byte_size wire_Txattrwalk m"
  | "tmsg_byte_size (Tmessage.XattrCreate m) = byte_size wire_Txattrcreate m"
  | "tmsg_byte_size (Tmessage.Readdir m) = byte_size wire_Treaddir m"
  | "tmsg_byte_size (Tmessage.Fsync m) = byte_size wire_Tfsync m"
  | "tmsg_byte_size (Tmessage.Lock m) = byte_size wire_Tlock m"
  | "tmsg_byte_size (Tmessage.GetLock m) = byte_size wire_Tgetlock m"
  | "tmsg_byte_size (Tmessage.Link m) = byte_size wire_Tlink m"
  | "tmsg_byte_size (Tmessage.Mkdir m) = byte_size wire_Tmkdir m"
  | "tmsg_byte_size (Tmessage.RenameAt m) = byte_size wire_Trenameat m"
  | "tmsg_byte_size (Tmessage.UnlinkAt m) = byte_size wire_Tunlinkat m"

fun tmsg_type :: "Tmessage \<Rightarrow> u8" where
    "tmsg_type (Tmessage.Version m) = TVERSION"
  | "tmsg_type (Tmessage.Flush m) = TFLUSH"
  | "tmsg_type (Tmessage.Walk m) = TWALK"
  | "tmsg_type (Tmessage.Read m) = TREAD"
  | "tmsg_type (Tmessage.Write m) = TWRITE"
  | "tmsg_type (Tmessage.Clunk m) = TCLUNK"
  | "tmsg_type (Tmessage.Remove m) = TREMOVE"
  | "tmsg_type (Tmessage.Attach m) = TATTACH"
  | "tmsg_type (Tmessage.Auth m) = TAUTH"
  | "tmsg_type (Tmessage.Statfs m) = TSTATFS"
  | "tmsg_type (Tmessage.Lopen m) = TLOPEN"
  | "tmsg_type (Tmessage.Lcreate m) = TLCREATE"
  | "tmsg_type (Tmessage.Symlink m) = TSYMLINK"
  | "tmsg_type (Tmessage.Mknod m) = TMKNOD"
  | "tmsg_type (Tmessage.Rename m) = TRENAME"
  | "tmsg_type (Tmessage.Readlink m) = TREADLINK"
  | "tmsg_type (Tmessage.GetAttr m) = TGETATTR"
  | "tmsg_type (Tmessage.SetAttr m) = TSETATTR"
  | "tmsg_type (Tmessage.XattrWalk m) = TXATTRWALK"
  | "tmsg_type (Tmessage.XattrCreate m) = TXATTRCREATE"
  | "tmsg_type (Tmessage.Readdir m) = TREADDIR"
  | "tmsg_type (Tmessage.Fsync m) = TFSYNC"
  | "tmsg_type (Tmessage.Lock m) = TLOCK"
  | "tmsg_type (Tmessage.GetLock m) = TGETLOCK"
  | "tmsg_type (Tmessage.Link m) = TLINK"
  | "tmsg_type (Tmessage.Mkdir m) = TMKDIR"
  | "tmsg_type (Tmessage.RenameAt m) = TRENAMEAT"
  | "tmsg_type (Tmessage.UnlinkAt m) = TUNLINKAT"

fun tmsg_encode :: "Tmessage \<Rightarrow> writer" where
    "tmsg_encode (Tmessage.Version m) = encode wire_Tversion m"
  | "tmsg_encode (Tmessage.Flush m) = encode wire_Tflush m"
  | "tmsg_encode (Tmessage.Walk m) = encode wire_Twalk m"
  | "tmsg_encode (Tmessage.Read m) = encode wire_Tread m"
  | "tmsg_encode (Tmessage.Write m) = encode wire_Twrite m"
  | "tmsg_encode (Tmessage.Clunk m) = encode wire_Tclunk m"
  | "tmsg_encode (Tmessage.Remove m) = encode wire_Tremove m"
  | "tmsg_encode (Tmessage.Attach m) = encode wire_Tattach m"
  | "tmsg_encode (Tmessage.Auth m) = encode wire_Tauth m"
  | "tmsg_encode (Tmessage.Statfs m) = encode wire_Tstatfs m"
  | "tmsg_encode (Tmessage.Lopen m) = encode wire_Tlopen m"
  | "tmsg_encode (Tmessage.Lcreate m) = encode wire_Tlcreate m"
  | "tmsg_encode (Tmessage.Symlink m) = encode wire_Tsymlink m"
  | "tmsg_encode (Tmessage.Mknod m) = encode wire_Tmknod m"
  | "tmsg_encode (Tmessage.Rename m) = encode wire_Trename m"
  | "tmsg_encode (Tmessage.Readlink m) = encode wire_Treadlink m"
  | "tmsg_encode (Tmessage.GetAttr m) = encode wire_Tgetattr m"
  | "tmsg_encode (Tmessage.SetAttr m) = encode wire_Tsetattr m"
  | "tmsg_encode (Tmessage.XattrWalk m) = encode wire_Txattrwalk m"
  | "tmsg_encode (Tmessage.XattrCreate m) = encode wire_Txattrcreate m"
  | "tmsg_encode (Tmessage.Readdir m) = encode wire_Treaddir m"
  | "tmsg_encode (Tmessage.Fsync m) = encode wire_Tfsync m"
  | "tmsg_encode (Tmessage.Lock m) = encode wire_Tlock m"
  | "tmsg_encode (Tmessage.GetLock m) = encode wire_Tgetlock m"
  | "tmsg_encode (Tmessage.Link m) = encode wire_Tlink m"
  | "tmsg_encode (Tmessage.Mkdir m) = encode wire_Tmkdir m"
  | "tmsg_encode (Tmessage.RenameAt m) = encode wire_Trenameat m"
  | "tmsg_encode (Tmessage.UnlinkAt m) = encode wire_Tunlinkat m"

text \<open>size + type + tag\<close>

definition frame_header_size :: u32 where
  "frame_header_size = of_nat (size_of TYPE(32) + size_of TYPE(8) + size_of TYPE(16))"

definition tframe_byte_size :: "Tframe \<Rightarrow> u32 io_result" where
  "tframe_byte_size f = (case tframe_msg f of
     Ok msg \<Rightarrow> Ok (frame_header_size + tmsg_byte_size msg)
   | _ \<Rightarrow> Panic)"

definition tframe_encode :: "Tframe \<Rightarrow> writer" where
  "tframe_encode f = (case tframe_msg f of
     Ok msg \<Rightarrow>
       io_bind (io_result (tframe_byte_size f)) (\<lambda>size.
       io_bind (uint_encode size) (\<lambda>_.
       io_bind (uint_encode (tmsg_type msg)) (\<lambda>_.
       io_bind (uint_encode (tframe_tag f)) (\<lambda>_.
       tmsg_encode msg))))
   | _ \<Rightarrow> io_throw (Kinded InvalidData))"

definition decode_message :: "u8 \<Rightarrow> Tmessage reader" where
  "decode_message ty =
    (if ty = TVERSION then io_map Tmessage.Version (decode wire_Tversion)
     else if ty = TFLUSH then io_map Tmessage.Flush (decode wire_Tflush)
     else if ty = TWALK then io_map Tmessage.Walk (decode wire_Twalk)
     else if ty = TREAD then io_map Tmessage.Read (decode wire_Tread)
     else if ty = TWRITE then io_map Tmessage.Write (decode wire_Twrite)
     else if ty = TCLUNK then io_map Tmessage.Clunk (decode wire_Tclunk)
     else if ty = TREMOVE then io_map Tmessage.Remove (decode wire_Tremove)
     else if ty = TATTACH then io_map Tmessage.Attach (decode wire_Tattach)
     else if ty = TAUTH then io_map Tmessage.Auth (decode wire_Tauth)
     else if ty = TSTATFS then io_map Tmessage.Statfs (decode wire_Tstatfs)
     else if ty = TLOPEN then io_map Tmessage.Lopen (decode wire_Tlopen)
     else if ty = TLCREATE then io_map Tmessage.Lcreate (decode wire_Tlcreate)
     else if ty = TSYMLINK then io_map Tmessage.Symlink (decode wire_Tsymlink)
     else if ty = TMKNOD then io_map Tmessage.Mknod (decode wire_Tmknod)
     else if ty = TRENAME then io_map Tmessage.Rename (decode wire_Trename)
     else if ty = TREADLINK then io_map Tmessage.Readlink (decode wire_Treadlink)
     else if ty = TGETATTR then io_map Tmessage.GetAttr (decode wire_Tgetattr)
     else if ty = TSETATTR then io_map Tmessage.SetAttr (decode wire_Tsetattr)
     else if ty = TXATTRWALK then io_map Tmessage.XattrWalk (decode wire_Txattrwalk)
     else if ty = TXATTRCREATE then io_map Tmessage.XattrCreate (decode wire_Txattrcreate)
     else if ty = TREADDIR then io_map Tmessage.Readdir (decode wire_Treaddir)
     else if ty = TFSYNC then io_map Tmessage.Fsync (decode wire_Tfsync)
     else if ty = TLOCK then io_map Tmessage.Lock (decode wire_Tlock)
     else if ty = TGETLOCK then io_map Tmessage.GetLock (decode wire_Tgetlock)
     else if ty = TLINK then io_map Tmessage.Link (decode wire_Tlink)
     else if ty = TMKDIR then io_map Tmessage.Mkdir (decode wire_Tmkdir)
     else if ty = TRENAMEAT then io_map Tmessage.RenameAt (decode wire_Trenameat)
     else if ty = TUNLINKAT then io_map Tmessage.UnlinkAt (decode wire_Tunlinkat)
     else io_throw (Kinded InvalidData))"

definition tframe_decode :: "Tframe reader" where
  "tframe_decode = io_bind uint_decode (\<lambda>byte_size :: u32.
     if byte_size < of_nat (size_of TYPE(32)) then io_throw (Kinded InvalidData)
     else reader_take (unat (byte_size - of_nat (size_of TYPE(32))))
       (io_bind (read_exact 1) (\<lambda>ty.
        io_bind uint_decode (\<lambda>tag.
        io_bind (io_attempt (decode_message (ty ! 0))) (\<lambda>msg.
        io_return \<lparr>tframe_tag = tag, tframe_msg = msg\<rparr>)))))"

subsection \<open>Replies\<close>

datatype Rmessage =
    Version Rversion
  | Flush
  | Walk Rwalk
  | Read Rread
  | Write Rwrite
  | Clunk
  | Remove
  | Attach Rattach
  | Auth Rauth
  | Statfs Rstatfs
  | Lopen Rlopen
  | Lcreate Rlcreate
  | Symlink Rsymlink
  | Mknod Rmknod
  | Rename
  | Readlink Rreadlink
  | GetAttr Rgetattr
  | SetAttr
  | XattrWalk Rxattrwalk
  | XattrCreate
  | Readdir Rreaddir
  | Fsync
  | Lock Rlock
  | GetLock Rgetlock
  | Link
  | Mkdir Rmkdir
  | RenameAt
  | UnlinkAt
  | Lerror Rlerror

record Rframe =
  rframe_tag :: u16
  rframe_msg :: Rmessage

fun rmsg_byte_size :: "Rmessage \<Rightarrow> u32" where
    "rmsg_byte_size (Rmessage.Version m) = byte_size wire_Rversion m"
  | "rmsg_byte_size Rmessage.Flush = 0"
  | "rmsg_byte_size (Rmessage.Walk m) = byte_size wire_Rwalk m"
  | "rmsg_byte_size (Rmessage.Read m) = byte_size wire_Rread m"
  | "rmsg_byte_size (Rmessage.Write m) = byte_size wire_Rwrite m"
  | "rmsg_byte_size Rmessage.Clunk = 0"
  | "rmsg_byte_size Rmessage.Remove = 0"
  | "rmsg_byte_size (Rmessage.Attach m) = byte_size wire_Rattach m"
  | "rmsg_byte_size (Rmessage.Auth m) = byte_size wire_Rauth m"
  | "rmsg_byte_size (Rmessage.Statfs m) = byte_size wire_Rstatfs m"
  | "rmsg_byte_size (Rmessage.Lopen m) = byte_size wire_Rlopen m"
  | "rmsg_byte_size (Rmessage.Lcreate m) = byte_size wire_Rlcreate m"
  | "rmsg_byte_size (Rmessage.Symlink m) = byte_size wire_Rsymlink m"
  | "rmsg_byte_size (Rmessage.Mknod m) = byte_size wire_Rmknod m"
  | "rmsg_byte_size Rmessage.Rename = 0"
  | "rmsg_byte_size (Rmessage.Readlink m) = byte_size wire_Rreadlink m"
  | "rmsg_byte_size (Rmessage.GetAttr m) = byte_size wire_Rgetattr m"
  | "rmsg_byte_size Rmessage.SetAttr = 0"
  | "rmsg_byte_size (Rmessage.XattrWalk m) = byte_size wire_Rxattrwalk m"
  | "rmsg_byte_size Rmessage.XattrCreate = 0"
  | "rmsg_byte_size (Rmessage.Readdir m) = byte_size wire_Rreaddir m"
  | "rmsg_byte_size Rmessage.Fsync = 0"
  | "rmsg_byte_size (Rmessage.Lock m) = byte_size wire_Rlock m"
  | "rmsg_byte_size (Rmessage.GetLock m) = byte_size wire_Rgetlock m"
  | "rmsg_byte_size Rmessage.Link = 0"
  | "rmsg_byte_size (Rmessage.Mkdir m) = byte_size wire_Rmkdir m"
  | "rmsg_byte_size Rmessage.RenameAt = 0"
  | "rmsg_byte_size Rmessage.UnlinkAt = 0"
  | "rmsg_byte_size (Rmessage.Lerror m) = byte_size wire_Rlerror m"

fun rmsg_type :: "Rmessage \<Rightarrow> u8" where
    "rmsg_type (Rmessage.Version m) = RVERSION"
  | "rmsg_type Rmessage.Flush = RFLUSH"
  | "rmsg_type (Rmessage.Walk m) = RWALK"
  | "rmsg_type (Rmessage.Read m) = RREAD"
  | "rmsg_type (Rmessage.Write m) = RWRITE"
  | "rmsg_type Rmessage.Clunk = RCLUNK"
  | "rmsg_type Rmessage.Remove = RREMOVE"
  | "rmsg_type (Rmessage.Attach m) = RATTACH"
  | "rmsg_type (Rmessage.Auth m) = RAUTH"
  | "rmsg_type (Rmessage.Statfs m) = RSTATFS"
  | "rmsg_type (Rmessage.Lopen m) = RLOPEN"
  | "rmsg_type (Rmessage.Lcreate m) = RLCREATE"
  | "rmsg_type (Rmessage.Symlink m) = RSYMLINK"
  | "rmsg_type (Rmessage.Mknod m) = RMKNOD"
  | "rmsg_type Rmessage.Rename = RRENAME"
  | "rmsg_type (Rmessage.Readlink m) = RREADLINK"
  | "rmsg_type (Rmessage.GetAttr m) = RGETATTR"
  | "rmsg_type Rmessage.SetAttr = RSETATTR"
  | "rmsg_type (Rmessage.XattrWalk m) = RXATTRWALK"
  | "rmsg_type Rmessage.XattrCreate = RXATTRCREATE"
  | "rmsg_type (Rmessage.Readdir m) = RREADDIR"
  | "rmsg_type Rmessage.Fsync = RFSYNC"
  | "rmsg_type (Rmessage.Lock m) = RLOCK"
  | "rmsg_type (Rmessage.GetLock m) = RGETLOCK"
  | "rmsg_type Rmessage.Link = RLINK"
  | "rmsg_type (Rmessage.Mkdir m) = RMKDIR"
  | "rmsg_type Rmessage.RenameAt = RRENAMEAT"
  | "rmsg_type Rmessage.UnlinkAt = RUNLINKAT"
  | "rmsg_type (Rmessage.Lerror m) = RLERROR"

fun rmsg_encode :: "Rmessage \<Rightarrow> writer" where
    "rmsg_encode (Rmessage.Version m) = encode wire_Rversion m"
  | "rmsg_encode Rmessage.Flush = io_return ()"
  | "rmsg_encode (Rmessage.Walk m) = encode wire_Rwalk m"
  | "rmsg_encode (Rmessage.Read m) = encode wire_Rread m"
  | "rmsg_encode (Rmessage.Write m) = encode wire_Rwrite m"
  | "rmsg_encode Rmessage.Clunk = io_return ()"
  | "rmsg_encode Rmessage.Remove = io_return ()"
  | "rmsg_encode (Rmessage.Attach m) = encode wire_Rattach m"
  | "rmsg_encode (Rmessage.Auth m) = encode wire_Rauth m"
  | "rmsg_encode (Rmessage.Statfs m) = encode wire_Rstatfs m"
  | "rmsg_encode (Rmessage.Lopen m) = encode wire_Rlopen m"
  | "rmsg_encode (Rmessage.Lcreate m) = encode wire_Rlcreate m"
  | "rmsg_encode (Rmessage.Symlink m) = encode wire_Rsymlink m"
  | "rmsg_encode (Rmessage.Mknod m) = encode wire_Rmknod m"
  | "rmsg_encode Rmessage.Rename = io_return ()"
  | "rmsg_encode (Rmessage.Readlink m) = encode wire_Rreadlink m"
  | "rmsg_encode (Rmessage.GetAttr m) = encode wire_Rgetattr m"
  | "rmsg_encode Rmessage.SetAttr = io_return ()"
  | "rmsg_encode (Rmessage.XattrWalk m) = encode wire_Rxattrwalk m"
  | "rmsg_encode Rmessage.XattrCreate = io_return ()"
  | "rmsg_encode (Rmessage.Readdir m) = encode wire_Rreaddir m"
  | "rmsg_encode Rmessage.Fsync = io_return ()"
  | "rmsg_encode (Rmessage.Lock m) = encode wire_Rlock m"
  | "rmsg_encode (Rmessage.GetLock m) = encode wire_Rgetlock m"
  | "rmsg_encode Rmessage.Link = io_return ()"
  | "rmsg_encode (Rmessage.Mkdir m) = encode wire_Rmkdir m"
  | "rmsg_encode Rmessage.RenameAt = io_return ()"
  | "rmsg_encode Rmessage.UnlinkAt = io_return ()"
  | "rmsg_encode (Rmessage.Lerror m) = encode wire_Rlerror m"

definition rframe_byte_size :: "Rframe \<Rightarrow> u32" where
  "rframe_byte_size f = frame_header_size + rmsg_byte_size (rframe_msg f)"

definition rframe_encode :: "Rframe \<Rightarrow> writer" where
  "rframe_encode f =
     io_bind (uint_encode (rframe_byte_size f)) (\<lambda>_.
     io_bind (uint_encode (rmsg_type (rframe_msg f))) (\<lambda>_.
     io_bind (uint_encode (rframe_tag f)) (\<lambda>_.
     rmsg_encode (rframe_msg f))))"

definition decode_reply :: "u8 \<Rightarrow> Rmessage reader" where
  "decode_reply ty =
    (if ty = RVERSION then io_map Rmessage.Version (decode wire_Rversion)
     else if ty = RFLUSH then io_return Rmessage.Flush
     else if ty = RWALK then io_map Rmessage.Walk (decode wire_Rwalk)
     else if ty = RREAD then io_map Rmessage.Read (decode wire_Rread)
     else if ty = RWRITE then io_map Rmessage.Write (decode wire_Rwrite)
     else if ty = RCLUNK then io_return Rmessage.Clunk
     else if ty = RREMOVE then io_return Rmessage.Remove
     else if ty = RATTACH then io_map Rmessage.Attach (decode wire_Rattach)
     else if ty = RAUTH then io_map Rmessage.Auth (decode wire_Rauth)
     else if ty = RSTATFS then io_map Rmessage.Statfs (decode wire_Rstatfs)
     else if ty = RLOPEN then io_map Rmessage.Lopen (decode wire_Rlopen)
     else if ty = RLCREATE then io_map Rmessage.Lcreate (decode wire_Rlcreate)
     else if ty = RSYMLINK then io_map Rmessage.Symlink (decode wire_Rsymlink)
     else if ty = RMKNOD then io_map Rmessage.Mknod (decode wire_Rmknod)
     else if ty = RRENAME then io_return Rmessage.Rename
     else if ty = RREADLINK then io_map Rmessage.Readlink (decode wire_Rreadlink)
     else if ty = RGETATTR then io_map Rmessage.GetAttr (decode wire_Rgetattr)
     else if ty = RSETATTR then io_return Rmessage.SetAttr
     else if ty = RXATTRWALK then io_map Rmessage.XattrWalk (decode wire_Rxattrwalk)
     else if ty = RXATTRCREATE then io_return Rmessage.XattrCreate
     else if ty = RREADDIR then io_map Rmessage.Readdir (decode wire_Rreaddir)
     else if ty = RFSYNC then io_return Rmessage.Fsync
     else if ty = RLOCK then io_map Rmessage.Lock (decode wire_Rlock)
     else if ty = RGETLOCK then io_map Rmessage.GetLock (decode wire_Rgetlock)
     else if ty = RLINK then io_return Rmessage.Link
     else if ty = RMKDIR then io_map Rmessage.Mkdir (decode wire_Rmkdir)
     else if ty = RRENAMEAT then io_return Rmessage.RenameAt
     else if ty = RUNLINKAT then io_return Rmessage.UnlinkAt
     else if ty = RLERROR then io_map Rmessage.Lerror (decode wire_Rlerror)
     else io_throw (Kinded InvalidData))"

text \<open>
  The subtraction has no guard here: in the release build the package installs it wraps
  around, as \<^verbatim>\<open>-\<close> on words does.
\<close>

definition rframe_decode :: "Rframe reader" where
  "rframe_decode = io_bind uint_decode (\<lambda>byte_size :: u32.
     reader_take (unat (byte_size - of_nat (size_of TYPE(32))))
       (io_bind (read_exact 1) (\<lambda>ty.
        io_bind uint_decode (\<lambda>tag.
        io_bind (decode_reply (ty ! 0)) (\<lambda>msg.
        io_return \<lparr>rframe_tag = tag, rframe_msg = msg\<rparr>)))))"

subsection \<open>The protocol's bytes\<close>

fun wf_tmsg :: "Tmessage \<Rightarrow> bool" where
    "wf_tmsg (Tmessage.Version m) = wf_Tversion m"
  | "wf_tmsg (Tmessage.Flush m) = wf_Tflush m"
  | "wf_tmsg (Tmessage.Walk m) = wf_Twalk m"
  | "wf_tmsg (Tmessage.Read m) = wf_Tread m"
  | "wf_tmsg (Tmessage.Write m) = wf_Twrite m"
  | "wf_tmsg (Tmessage.Clunk m) = wf_Tclunk m"
  | "wf_tmsg (Tmessage.Remove m) = wf_Tremove m"
  | "wf_tmsg (Tmessage.Attach m) = wf_Tattach m"
  | "wf_tmsg (Tmessage.Auth m) = wf_Tauth m"
  | "wf_tmsg (Tmessage.Statfs m) = wf_Tstatfs m"
  | "wf_tmsg (Tmessage.Lopen m) = wf_Tlopen m"
  | "wf_tmsg (Tmessage.Lcreate m) = wf_Tlcreate m"
  | "wf_tmsg (Tmessage.Symlink m) = wf_Tsymlink m"
  | "wf_tmsg (Tmessage.Mknod m) = wf_Tmknod m"
  | "wf_tmsg (Tmessage.Rename m) = wf_Trename m"
  | "wf_tmsg (Tmessage.Readlink m) = wf_Treadlink m"
  | "wf_tmsg (Tmessage.GetAttr m) = wf_Tgetattr m"
  | "wf_tmsg (Tmessage.SetAttr m) = wf_Tsetattr m"
  | "wf_tmsg (Tmessage.XattrWalk m) = wf_Txattrwalk m"
  | "wf_tmsg (Tmessage.XattrCreate m) = wf_Txattrcreate m"
  | "wf_tmsg (Tmessage.Readdir m) = wf_Treaddir m"
  | "wf_tmsg (Tmessage.Fsync m) = wf_Tfsync m"
  | "wf_tmsg (Tmessage.Lock m) = wf_Tlock m"
  | "wf_tmsg (Tmessage.GetLock m) = wf_Tgetlock m"
  | "wf_tmsg (Tmessage.Link m) = wf_Tlink m"
  | "wf_tmsg (Tmessage.Mkdir m) = wf_Tmkdir m"
  | "wf_tmsg (Tmessage.RenameAt m) = wf_Trenameat m"
  | "wf_tmsg (Tmessage.UnlinkAt m) = wf_Tunlinkat m"

fun tmsg_bytes :: "Tmessage \<Rightarrow> u8 list" where
    "tmsg_bytes (Tmessage.Version m) = bytes_Tversion m"
  | "tmsg_bytes (Tmessage.Flush m) = bytes_Tflush m"
  | "tmsg_bytes (Tmessage.Walk m) = bytes_Twalk m"
  | "tmsg_bytes (Tmessage.Read m) = bytes_Tread m"
  | "tmsg_bytes (Tmessage.Write m) = bytes_Twrite m"
  | "tmsg_bytes (Tmessage.Clunk m) = bytes_Tclunk m"
  | "tmsg_bytes (Tmessage.Remove m) = bytes_Tremove m"
  | "tmsg_bytes (Tmessage.Attach m) = bytes_Tattach m"
  | "tmsg_bytes (Tmessage.Auth m) = bytes_Tauth m"
  | "tmsg_bytes (Tmessage.Statfs m) = bytes_Tstatfs m"
  | "tmsg_bytes (Tmessage.Lopen m) = bytes_Tlopen m"
  | "tmsg_bytes (Tmessage.Lcreate m) = bytes_Tlcreate m"
  | "tmsg_bytes (Tmessage.Symlink m) = bytes_Tsymlink m"
  | "tmsg_bytes (Tmessage.Mknod m) = bytes_Tmknod m"
  | "tmsg_bytes (Tmessage.Rename m) = bytes_Trename m"
  | "tmsg_bytes (Tmessage.Readlink m) = bytes_Treadlink m"
  | "tmsg_bytes (Tmessage.GetAttr m) = bytes_Tgetattr m"
  | "tmsg_bytes (Tmessage.SetAttr m) = bytes_Tsetattr m"
  | "tmsg_bytes (Tmessage.XattrWalk m) = bytes_Txattrwalk m"
  | "tmsg_bytes (Tmessage.XattrCreate m) = bytes_Txattrcreate m"
  | "tmsg_bytes (Tmessage.Readdir m) = bytes_Treaddir m"
  | "tmsg_bytes (Tmessage.Fsync m) = bytes_Tfsync m"
  | "tmsg_bytes (Tmessage.Lock m) = bytes_Tlock m"
  | "tmsg_bytes (Tmessage.GetLock m) = bytes_Tgetlock m"
  | "tmsg_bytes (Tmessage.Link m) = bytes_Tlink m"
  | "tmsg_bytes (Tmessage.Mkdir m) = bytes_Tmkdir m"
  | "tmsg_bytes (Tmessage.RenameAt m) = bytes_Trenameat m"
  | "tmsg_bytes (Tmessage.UnlinkAt m) = bytes_Tunlinkat m"

fun wf_rmsg :: "Rmessage \<Rightarrow> bool" where
    "wf_rmsg (Rmessage.Version m) = wf_Rversion m"
  | "wf_rmsg Rmessage.Flush = True"
  | "wf_rmsg (Rmessage.Walk m) = wf_Rwalk m"
  | "wf_rmsg (Rmessage.Read m) = wf_Rread m"
  | "wf_rmsg (Rmessage.Write m) = wf_Rwrite m"
  | "wf_rmsg Rmessage.Clunk = True"
  | "wf_rmsg Rmessage.Remove = True"
  | "wf_rmsg (Rmessage.Attach m) = wf_Rattach m"
  | "wf_rmsg (Rmessage.Auth m) = wf_Rauth m"
  | "wf_rmsg (Rmessage.Statfs m) = wf_Rstatfs m"
  | "wf_rmsg (Rmessage.Lopen m) = wf_Rlopen m"
  | "wf_rmsg (Rmessage.Lcreate m) = wf_Rlcreate m"
  | "wf_rmsg (Rmessage.Symlink m) = wf_Rsymlink m"
  | "wf_rmsg (Rmessage.Mknod m) = wf_Rmknod m"
  | "wf_rmsg Rmessage.Rename = True"
  | "wf_rmsg (Rmessage.Readlink m) = wf_Rreadlink m"
  | "wf_rmsg (Rmessage.GetAttr m) = wf_Rgetattr m"
  | "wf_rmsg Rmessage.SetAttr = True"
  | "wf_rmsg (Rmessage.XattrWalk m) = wf_Rxattrwalk m"
  | "wf_rmsg Rmessage.XattrCreate = True"
  | "wf_rmsg (Rmessage.Readdir m) = wf_Rreaddir m"
  | "wf_rmsg Rmessage.Fsync = True"
  | "wf_rmsg (Rmessage.Lock m) = wf_Rlock m"
  | "wf_rmsg (Rmessage.GetLock m) = wf_Rgetlock m"
  | "wf_rmsg Rmessage.Link = True"
  | "wf_rmsg (Rmessage.Mkdir m) = wf_Rmkdir m"
  | "wf_rmsg Rmessage.RenameAt = True"
  | "wf_rmsg Rmessage.UnlinkAt = True"
  | "wf_rmsg (Rmessage.Lerror m) = wf_Rlerror m"

fun rmsg_bytes :: "Rmessage \<Rightarrow> u8 list" where
    "rmsg_bytes (Rmessage.Version m) = bytes_Rversion m"
  | "rmsg_bytes Rmessage.Flush = []"
  | "rmsg_bytes (Rmessage.Walk m) = bytes_Rwalk m"
  | "rmsg_bytes (Rmessage.Read m) = bytes_Rread m"
  | "rmsg_bytes (Rmessage.Write m) = bytes_Rwrite m"
  | "rmsg_bytes Rmessage.Clunk = []"
  | "rmsg_bytes Rmessage.Remove = []"
  | "rmsg_bytes (Rmessage.Attach m) = bytes_Rattach m"
  | "rmsg_bytes (Rmessage.Auth m) = bytes_Rauth m"
  | "rmsg_bytes (Rmessage.Statfs m) = bytes_Rstatfs m"
  | "rmsg_bytes (Rmessage.Lopen m) = bytes_Rlopen m"
  | "rmsg_bytes (Rmessage.Lcreate m) = bytes_Rlcreate m"
  | "rmsg_bytes (Rmessage.Symlink m) = bytes_Rsymlink m"
  | "rmsg_bytes (Rmessage.Mknod m) = bytes_Rmknod m"
  | "rmsg_bytes Rmessage.Rename = []"
  | "rmsg_bytes (Rmessage.Readlink m) = bytes_Rreadlink m"
  | "rmsg_bytes (Rmessage.GetAttr m) = bytes_Rgetattr m"
  | "rmsg_bytes Rmessage.SetAttr = []"
  | "rmsg_bytes (Rmessage.XattrWalk m) = bytes_Rxattrwalk m"
  | "rmsg_bytes Rmessage.XattrCreate = []"
  | "rmsg_bytes (Rmessage.Readdir m) = bytes_Rreaddir m"
  | "rmsg_bytes Rmessage.Fsync = []"
  | "rmsg_bytes (Rmessage.Lock m) = bytes_Rlock m"
  | "rmsg_bytes (Rmessage.GetLock m) = bytes_Rgetlock m"
  | "rmsg_bytes Rmessage.Link = []"
  | "rmsg_bytes (Rmessage.Mkdir m) = bytes_Rmkdir m"
  | "rmsg_bytes Rmessage.RenameAt = []"
  | "rmsg_bytes Rmessage.UnlinkAt = []"
  | "rmsg_bytes (Rmessage.Lerror m) = bytes_Rlerror m"

lemmas treq_encode =
  Tversion.encode_wf Tflush.encode_wf Twalk.encode_wf Tread.encode_wf Twrite.encode_wf
  Tclunk.encode_wf Tremove.encode_wf Tattach.encode_wf Tauth.encode_wf Tstatfs.encode_wf
  Tlopen.encode_wf Tlcreate.encode_wf Tsymlink.encode_wf Tmknod.encode_wf
  Trename.encode_wf Treadlink.encode_wf Tgetattr.encode_wf Tsetattr.encode_wf
  Txattrwalk.encode_wf Txattrcreate.encode_wf Treaddir.encode_wf Tfsync.encode_wf
  Tlock.encode_wf Tgetlock.encode_wf Tlink.encode_wf Tmkdir.encode_wf Trenameat.encode_wf
  Tunlinkat.encode_wf

lemmas rrep_encode =
  Rversion.encode_wf Rwalk.encode_wf Rread.encode_wf Rwrite.encode_wf Rattach.encode_wf
  Rauth.encode_wf Rstatfs.encode_wf Rlopen.encode_wf Rlcreate.encode_wf Rsymlink.encode_wf
  Rmknod.encode_wf Rreadlink.encode_wf Rgetattr.encode_wf Rxattrwalk.encode_wf
  Rreaddir.encode_wf Rlock.encode_wf Rgetlock.encode_wf Rmkdir.encode_wf Rlerror.encode_wf

lemmas treq_size =
  Tversion.byte_size_wf Tflush.byte_size_wf Twalk.byte_size_wf Tread.byte_size_wf
  Twrite.byte_size_wf Tclunk.byte_size_wf Tremove.byte_size_wf Tattach.byte_size_wf
  Tauth.byte_size_wf Tstatfs.byte_size_wf Tlopen.byte_size_wf Tlcreate.byte_size_wf
  Tsymlink.byte_size_wf Tmknod.byte_size_wf Trename.byte_size_wf Treadlink.byte_size_wf
  Tgetattr.byte_size_wf Tsetattr.byte_size_wf Txattrwalk.byte_size_wf
  Txattrcreate.byte_size_wf Treaddir.byte_size_wf Tfsync.byte_size_wf Tlock.byte_size_wf
  Tgetlock.byte_size_wf Tlink.byte_size_wf Tmkdir.byte_size_wf Trenameat.byte_size_wf
  Tunlinkat.byte_size_wf

lemmas rrep_size =
  Rversion.byte_size_wf Rwalk.byte_size_wf Rread.byte_size_wf Rwrite.byte_size_wf
  Rattach.byte_size_wf Rauth.byte_size_wf Rstatfs.byte_size_wf Rlopen.byte_size_wf
  Rlcreate.byte_size_wf Rsymlink.byte_size_wf Rmknod.byte_size_wf Rreadlink.byte_size_wf
  Rgetattr.byte_size_wf Rxattrwalk.byte_size_wf Rreaddir.byte_size_wf Rlock.byte_size_wf
  Rgetlock.byte_size_wf Rmkdir.byte_size_wf Rlerror.byte_size_wf

lemmas treq_decode =
  Tversion.decode_bytes Tflush.decode_bytes Twalk.decode_bytes Tread.decode_bytes
  Twrite.decode_bytes Tclunk.decode_bytes Tremove.decode_bytes Tattach.decode_bytes
  Tauth.decode_bytes Tstatfs.decode_bytes Tlopen.decode_bytes Tlcreate.decode_bytes
  Tsymlink.decode_bytes Tmknod.decode_bytes Trename.decode_bytes Treadlink.decode_bytes
  Tgetattr.decode_bytes Tsetattr.decode_bytes Txattrwalk.decode_bytes
  Txattrcreate.decode_bytes Treaddir.decode_bytes Tfsync.decode_bytes Tlock.decode_bytes
  Tgetlock.decode_bytes Tlink.decode_bytes Tmkdir.decode_bytes Trenameat.decode_bytes
  Tunlinkat.decode_bytes

lemmas rrep_decode =
  Rversion.decode_bytes Rwalk.decode_bytes Rread.decode_bytes Rwrite.decode_bytes
  Rattach.decode_bytes Rauth.decode_bytes Rstatfs.decode_bytes Rlopen.decode_bytes
  Rlcreate.decode_bytes Rsymlink.decode_bytes Rmknod.decode_bytes Rreadlink.decode_bytes
  Rgetattr.decode_bytes Rxattrwalk.decode_bytes Rreaddir.decode_bytes Rlock.decode_bytes
  Rgetlock.decode_bytes Rmkdir.decode_bytes Rlerror.decode_bytes

lemmas treq_reader_ok =
  Tversion.decode_reader_ok Tflush.decode_reader_ok Twalk.decode_reader_ok
  Tread.decode_reader_ok Twrite.decode_reader_ok Tclunk.decode_reader_ok
  Tremove.decode_reader_ok Tattach.decode_reader_ok Tauth.decode_reader_ok
  Tstatfs.decode_reader_ok Tlopen.decode_reader_ok Tlcreate.decode_reader_ok
  Tsymlink.decode_reader_ok Tmknod.decode_reader_ok Trename.decode_reader_ok
  Treadlink.decode_reader_ok Tgetattr.decode_reader_ok Tsetattr.decode_reader_ok
  Txattrwalk.decode_reader_ok Txattrcreate.decode_reader_ok Treaddir.decode_reader_ok
  Tfsync.decode_reader_ok Tlock.decode_reader_ok Tgetlock.decode_reader_ok
  Tlink.decode_reader_ok Tmkdir.decode_reader_ok Trenameat.decode_reader_ok
  Tunlinkat.decode_reader_ok

lemmas rrep_reader_ok =
  Rversion.decode_reader_ok Rwalk.decode_reader_ok Rread.decode_reader_ok
  Rwrite.decode_reader_ok Rattach.decode_reader_ok Rauth.decode_reader_ok
  Rstatfs.decode_reader_ok Rlopen.decode_reader_ok Rlcreate.decode_reader_ok
  Rsymlink.decode_reader_ok Rmknod.decode_reader_ok Rreadlink.decode_reader_ok
  Rgetattr.decode_reader_ok Rxattrwalk.decode_reader_ok Rreaddir.decode_reader_ok
  Rlock.decode_reader_ok Rgetlock.decode_reader_ok Rmkdir.decode_reader_ok
  Rlerror.decode_reader_ok

lemmas treq_wf =
  Tversion.decode_wf Tflush.decode_wf Twalk.decode_wf Tread.decode_wf Twrite.decode_wf
  Tclunk.decode_wf Tremove.decode_wf Tattach.decode_wf Tauth.decode_wf Tstatfs.decode_wf
  Tlopen.decode_wf Tlcreate.decode_wf Tsymlink.decode_wf Tmknod.decode_wf
  Trename.decode_wf Treadlink.decode_wf Tgetattr.decode_wf Tsetattr.decode_wf
  Txattrwalk.decode_wf Txattrcreate.decode_wf Treaddir.decode_wf Tfsync.decode_wf
  Tlock.decode_wf Tgetlock.decode_wf Tlink.decode_wf Tmkdir.decode_wf Trenameat.decode_wf
  Tunlinkat.decode_wf

lemmas treq_length =
  Tversion.decode_length Tflush.decode_length Twalk.decode_length Tread.decode_length
  Twrite.decode_length Tclunk.decode_length Tremove.decode_length Tattach.decode_length
  Tauth.decode_length Tstatfs.decode_length Tlopen.decode_length Tlcreate.decode_length
  Tsymlink.decode_length Tmknod.decode_length Trename.decode_length
  Treadlink.decode_length Tgetattr.decode_length Tsetattr.decode_length
  Txattrwalk.decode_length Txattrcreate.decode_length Treaddir.decode_length
  Tfsync.decode_length Tlock.decode_length Tgetlock.decode_length Tlink.decode_length
  Tmkdir.decode_length Trenameat.decode_length Tunlinkat.decode_length

lemmas treq_canon =
  Tversion.decode_canonical_if_more Tflush.decode_canonical_if_more
  Twalk.decode_canonical_if_more Tread.decode_canonical_if_more
  Twrite.decode_canonical_if_more Tclunk.decode_canonical_if_more
  Tremove.decode_canonical_if_more Tattach.decode_canonical_if_more
  Tauth.decode_canonical_if_more Tstatfs.decode_canonical_if_more
  Tlopen.decode_canonical_if_more Tlcreate.decode_canonical_if_more
  Tsymlink.decode_canonical_if_more Tmknod.decode_canonical_if_more
  Trename.decode_canonical_if_more Treadlink.decode_canonical_if_more
  Tgetattr.decode_canonical_if_more Tsetattr.decode_canonical_if_more
  Txattrwalk.decode_canonical_if_more Txattrcreate.decode_canonical_if_more
  Treaddir.decode_canonical_if_more Tfsync.decode_canonical_if_more
  Tlock.decode_canonical_if_more Tgetlock.decode_canonical_if_more
  Tlink.decode_canonical_if_more Tmkdir.decode_canonical_if_more
  Trenameat.decode_canonical_if_more Tunlinkat.decode_canonical_if_more

lemmas treq_enc_no_panic =
  Tversion.encode_no_panic Tflush.encode_no_panic Twalk.encode_no_panic
  Tread.encode_no_panic Twrite.encode_no_panic Tclunk.encode_no_panic
  Tremove.encode_no_panic Tattach.encode_no_panic Tauth.encode_no_panic
  Tstatfs.encode_no_panic Tlopen.encode_no_panic Tlcreate.encode_no_panic
  Tsymlink.encode_no_panic Tmknod.encode_no_panic Trename.encode_no_panic
  Treadlink.encode_no_panic Tgetattr.encode_no_panic Tsetattr.encode_no_panic
  Txattrwalk.encode_no_panic Txattrcreate.encode_no_panic Treaddir.encode_no_panic
  Tfsync.encode_no_panic Tlock.encode_no_panic Tgetlock.encode_no_panic
  Tlink.encode_no_panic Tmkdir.encode_no_panic Trenameat.encode_no_panic
  Tunlinkat.encode_no_panic

lemmas rrep_enc_no_panic =
  Rversion.encode_no_panic Rwalk.encode_no_panic Rread.encode_no_panic
  Rwrite.encode_no_panic Rattach.encode_no_panic Rauth.encode_no_panic
  Rstatfs.encode_no_panic Rlopen.encode_no_panic Rlcreate.encode_no_panic
  Rsymlink.encode_no_panic Rmknod.encode_no_panic Rreadlink.encode_no_panic
  Rgetattr.encode_no_panic Rxattrwalk.encode_no_panic Rreaddir.encode_no_panic
  Rlock.encode_no_panic Rgetlock.encode_no_panic Rmkdir.encode_no_panic
  Rlerror.encode_no_panic

lemma tmsg_encode_wf: "wf_tmsg m \<Longrightarrow> tmsg_encode m out = (Ok (), out @ tmsg_bytes m)"
  by (cases m) (simp_all add: treq_encode)

lemma tmsg_byte_size_wf: "wf_tmsg m \<Longrightarrow> tmsg_byte_size m = of_nat (length (tmsg_bytes m))"
  by (cases m) (simp_all add: treq_size)

lemma rmsg_encode_wf: "wf_rmsg m \<Longrightarrow> rmsg_encode m out = (Ok (), out @ rmsg_bytes m)"
  by (cases m) (simp_all add: rrep_encode io_simps)

lemma rmsg_byte_size_wf: "wf_rmsg m \<Longrightarrow> rmsg_byte_size m = of_nat (length (rmsg_bytes m))"
  by (cases m) (simp_all add: rrep_size)

lemma decode_message_bytes:
  "wf_tmsg m \<Longrightarrow> decode_message (tmsg_type m) (tmsg_bytes m @ rest) = (Ok m, rest)"
  by (cases m) (simp_all add: decode_message_def msg_types treq_decode io_simps)

lemma decode_reply_bytes:
  "wf_rmsg m \<Longrightarrow> decode_reply (rmsg_type m) (rmsg_bytes m @ rest) = (Ok m, rest)"
  by (cases m) (simp_all add: decode_reply_def msg_types rrep_decode io_simps)

end
