(* ===== verification/Frame_Correct.thy ===== *)
theory Frame_Correct
  imports Frames
begin

text \<open>
  What the codec of \<^verbatim>\<open>Tframe\<close> and \<^verbatim>\<open>Rframe\<close> guarantees: a frame on the wire is its
  size, type, tag and body (\<open>frame_bytes\<close>), decoding inverts encoding, a decoder stays
  inside the declared size, and what it does with bad sizes, unknown types and bodies that do
  not decode.
\<close>

definition frame_bytes :: "u8 \<Rightarrow> u16 \<Rightarrow> u8 list \<Rightarrow> u8 list" where
  "frame_bytes ty tag body = uint_bytes (of_nat (7 + length body) :: u32) @ ty # uint_bytes tag @ body"

lemma length_frame_bytes [simp]: "length (frame_bytes ty tag body) = 7 + length body"
  by (simp add: frame_bytes_def)

lemma uint_bytes_u8 [simp]: "uint_bytes (w :: u8) = [w]"
  by (simp add: uint_bytes_def)

lemma frame_header_size_7: "frame_header_size = 7"
  by (simp add: frame_header_size_def)

lemma read_exact_Cons: "read_exact 1 (b # s) = (Ok [b], s)"
  by (simp add: read_exact_def)

subsection \<open>Encoding\<close>

lemma tframe_encode_bytes:
  assumes "wf_tmsg m"
  shows "tframe_encode \<lparr>tframe_tag = tag, tframe_msg = Ok m\<rparr> out
    = (Ok (), out @ frame_bytes (tmsg_type m) tag (tmsg_bytes m))"
  using assms
  by (simp add: tframe_encode_def tframe_byte_size_def frame_bytes_def tmsg_encode_wf
      tmsg_byte_size_wf frame_header_size_7 io_simps)

lemma rframe_encode_bytes:
  assumes "wf_rmsg m"
  shows "rframe_encode \<lparr>rframe_tag = tag, rframe_msg = m\<rparr> out
    = (Ok (), out @ frame_bytes (rmsg_type m) tag (rmsg_bytes m))"
  using assms
  by (simp add: rframe_encode_def rframe_byte_size_def frame_bytes_def rmsg_encode_wf
      rmsg_byte_size_wf frame_header_size_7 io_simps)

lemma rmsg_encode_no_panic: "fst (rmsg_encode m out) \<noteq> Panic"
  by (cases m) (simp_all add: rrep_enc_no_panic io_simps)

lemma rframe_encode_no_panic: "fst (rframe_encode f out) \<noteq> Panic"
  using rmsg_encode_no_panic by (simp add: rframe_encode_def io_simps)

subsection \<open>Decoding\<close>

text \<open>The decoder on a header that is all there.\<close>

lemma take_header:
  assumes "7 \<le> n"
  shows "take (n - 4) (ty # uint_bytes (tag :: u16) @ s) = ty # uint_bytes tag @ take (n - 7) s"
proof -
  from assms obtain k where k: "n = 7 + k" using le_Suc_ex by blast
  then have "n - 4 = Suc (2 + k)" "n - 7 = k" by simp_all
  then show ?thesis by (simp only: take_Suc_Cons take_append) simp
qed

lemma drop_header:
  assumes "7 \<le> n"
  shows "drop (n - 4) (ty # uint_bytes (tag :: u16) @ s) = drop (n - 7) s"
proof -
  from assms obtain k where k: "n = 7 + k" using le_Suc_ex by blast
  then have "n - 4 = Suc (2 + k)" "n - 7 = k" by simp_all
  then show ?thesis by (simp only: drop_Suc_Cons drop_append) simp
qed

lemma u32_minus_4: "4 \<le> n \<Longrightarrow> unat ((n :: u32) - 4) = unat n - 4"
  by (simp add: unat_sub word_le_nat_alt)

lemma decode_message_reader_ok [reader_intros]: "reader_ok (decode_message ty)"
  unfolding decode_message_def by (intro reader_ok_if reader_ok_map reader_ok_throw treq_reader_ok)

lemma decode_message_no_panic: "fst (decode_message ty s) \<noteq> Panic"
  by (rule reader_ok_no_panic [OF decode_message_reader_ok])

lemma tframe_decode_frame:
  assumes "7 \<le> unat (n :: u32)"
  shows "tframe_decode (uint_bytes n @ ty # uint_bytes (tag :: u16) @ s) =
    (case decode_message ty (take (unat n - 7) s) of (r, left) \<Rightarrow>
      (Ok \<lparr>tframe_tag = tag, tframe_msg = r\<rparr>, left @ drop (unat n - 7) s))"
proof -
  from assms have "4 \<le> n" by (simp add: word_le_nat_alt)
  then have n: "\<not> n < 4" "unat (n - 4) = unat n - 4" by (simp_all add: u32_minus_4)
  show ?thesis
    using n(1) decode_message_no_panic [of ty "take (unat n - 7) s"]
    by (auto simp: tframe_decode_def io_simps n(2) reader_take_def take_header [OF assms]
        drop_header [OF assms] read_exact_Cons [simplified] split: prod.splits io_result.splits)
qed

lemma decode_reply_reader_ok [reader_intros]: "reader_ok (decode_reply ty)"
  unfolding decode_reply_def
  by (intro reader_ok_if reader_ok_map reader_ok_throw reader_ok_return rrep_reader_ok)

lemma tframe_decode_reader_ok [reader_intros]: "reader_ok tframe_decode"
  unfolding tframe_decode_def by (intro reader_intros)

lemma rframe_decode_reader_ok [reader_intros]: "reader_ok rframe_decode"
  unfolding rframe_decode_def by (intro reader_intros)

lemma unat_frame_size: "k < 2 ^ 32 \<Longrightarrow> unat (of_nat k :: u32) = k"
  by (simp add: unat_of_nat take_bit_nat_eq_self)

lemma frame_bytes_append:
  "frame_bytes ty tag body @ rest = uint_bytes (of_nat (7 + length body) :: u32) @ ty # uint_bytes tag @ (body @ rest)"
  by (simp add: frame_bytes_def)

lemma tframe_decode_bytes:
  assumes "wf_tmsg m" and "7 + length (tmsg_bytes m) < 2 ^ 32"
  shows "tframe_decode (frame_bytes (tmsg_type m) tag (tmsg_bytes m) @ rest)
    = (Ok \<lparr>tframe_tag = tag, tframe_msg = Ok m\<rparr>, rest)"
  using assms decode_message_bytes [of m "[]"]
  by (simp add: frame_bytes_append tframe_decode_frame unat_frame_size del: of_nat_add)

lemma rframe_decode_frame:
  assumes "7 \<le> unat (n :: u32)"
  shows "rframe_decode (uint_bytes n @ ty # uint_bytes (tag :: u16) @ s) =
    (case decode_reply ty (take (unat n - 7) s) of
       (Ok m, left) \<Rightarrow> (Ok \<lparr>rframe_tag = tag, rframe_msg = m\<rparr>, left @ drop (unat n - 7) s)
     | (Err e, left) \<Rightarrow> (Err e, left @ drop (unat n - 7) s)
     | (Panic, left) \<Rightarrow> (Panic, left @ drop (unat n - 7) s))"
proof -
  from assms have "4 \<le> n" by (simp add: word_le_nat_alt)
  then have n: "unat (n - 4) = unat n - 4" by (simp add: u32_minus_4)
  show ?thesis
    by (auto simp: rframe_decode_def io_simps n reader_take_def take_header [OF assms]
        drop_header [OF assms] read_exact_Cons [simplified] split: prod.splits io_result.splits)
qed

lemma rframe_decode_bytes:
  assumes "wf_rmsg m" and "7 + length (rmsg_bytes m) < 2 ^ 32"
  shows "rframe_decode (frame_bytes (rmsg_type m) tag (rmsg_bytes m) @ rest)
    = (Ok \<lparr>rframe_tag = tag, rframe_msg = m\<rparr>, rest)"
  using assms decode_reply_bytes [of m "[]"]
  by (simp add: frame_bytes_append rframe_decode_frame unat_frame_size del: of_nat_add)

text \<open>A frame that decodes has a whole header in front, and the bytes after it are untouched.\<close>

lemma u8_bytes_Cons: "length buf = Suc 0 \<Longrightarrow> \<exists>b. buf = [b]"
  by (cases buf) auto

lemma read_exact_1_Ok: "read_exact (Suc 0) s = (Ok b, t) \<longleftrightarrow> (\<exists>ty. b = [ty] \<and> s = ty # t)"
  by (cases s) (auto simp: read_exact_def)

lemma u16_uint_decode_Ok: "uint_decode s = (Ok (w :: u16), t) \<longleftrightarrow> s = uint_bytes w @ t"
  using u16.decode_iff [of s w t] by (simp add: wire_uint_def wf_uint_def)

lemma u32_uint_decode_Ok: "uint_decode s = (Ok (w :: u32), t) \<longleftrightarrow> s = uint_bytes w @ t"
  using u32.decode_iff [of s w t] by (simp add: wire_uint_def wf_uint_def)

lemma reader_take_Ok: "reader_take n m s = (r, rest) \<longleftrightarrow> (\<exists>left. m (take n s) = (r, left) \<and> rest = left @ drop n s)"
  by (auto simp: reader_take_def split: prod.splits)

lemma tframe_decode_header:
  assumes "tframe_decode inp = (Ok f, rest)"
  obtains n ty s left where "inp = uint_bytes (n :: u32) @ ty # uint_bytes (tframe_tag f) @ s"
    and "7 \<le> unat n" and "decode_message ty (take (unat n - 7) s) = (tframe_msg f, left)"
    and "rest = left @ drop (unat n - 7) s"
proof -
  from assms obtain n :: u32 and t where inp: "inp = uint_bytes n @ t" and n4: "\<not> n < 4"
    and t: "reader_take (unat (n - 4)) (io_bind (read_exact 1) (\<lambda>ty.
        io_bind uint_decode (\<lambda>tag. io_bind (io_attempt (decode_message (ty ! 0))) (\<lambda>msg.
        io_return \<lparr>tframe_tag = tag, tframe_msg = msg\<rparr>)))) t = (Ok f, rest)"
    by (auto simp: tframe_decode_def io_bind_eq_Ok u32_uint_decode_Ok io_throw_apply split: if_splits)
  have n: "unat (n - 4) = unat n - 4" using n4 by (simp add: u32_minus_4)
  from t obtain ty tag u left where tt: "take (unat n - 4) t = ty # uint_bytes (tag :: u16) @ u"
    and f: "tframe_tag f = tag" and d: "decode_message ty u = (tframe_msg f, left)"
    and r: "rest = left @ drop (unat n - 4) t"
    by (auto simp: n reader_take_Ok io_bind_eq_Ok read_exact_1_Ok u16_uint_decode_Ok io_simps
        split: prod.splits io_result.splits)
  from tt have "length (take (unat n - 4) t) = 3 + length u" by simp
  then have n7: "7 \<le> unat n" by auto
  from tt have "t = ty # uint_bytes tag @ u @ drop (unat n - 4) t"
    by (metis append_Cons append_assoc append_take_drop_id)
  then obtain s where s: "t = ty # uint_bytes tag @ s" by blast
  from tt n7 s have u: "u = take (unat n - 7) s" by (simp add: take_header)
  have "drop (unat n - 4) t = drop (unat n - 7) s" using n7 s by (simp add: drop_header)
  with inp s f d n7 u r show ?thesis using that [of n ty s left] by simp
qed

lemma tframe_decode_shrinks:
  assumes "tframe_decode inp = (Ok f, rest)"
  shows "7 + length rest \<le> length inp"
proof -
  from assms obtain n ty s left where i: "inp = uint_bytes (n :: u32) @ ty # uint_bytes (tframe_tag f) @ s"
    and dm: "decode_message ty (take (unat n - 7) s) = (tframe_msg f, left)"
    and rest: "rest = left @ drop (unat n - 7) s" by (rule tframe_decode_header)
  from reader_ok_shrinks [OF decode_message_reader_ok dm]
  have "length left \<le> length (take (unat n - 7) s)" .
  moreover have "length (take (unat n - 7) s) + length (drop (unat n - 7) s) = length s"
    by (metis append_take_drop_id length_append)
  moreover have "length rest = length left + length (drop (unat n - 7) s)"
    by (simp only: rest length_append)
  moreover have "length inp = 7 + length s" using i by simp
  ultimately show ?thesis by linarith
qed

lemma decode_message_wf: "decode_message ty s = (Ok m, left) \<Longrightarrow> wf_tmsg m \<and> tmsg_type m = ty"
  by (auto simp: decode_message_def io_map_def io_bind_eq_Ok io_return_apply io_throw_apply treq_wf
      split: if_splits)

lemma decode_message_length:
  "decode_message ty s = (Ok m, left) \<Longrightarrow> length s = length (tmsg_bytes m) + length left"
  by (auto simp: decode_message_def io_map_def io_bind_eq_Ok io_return_apply io_throw_apply treq_length
      split: if_splits)

lemma tframe_decode_message:
  assumes "tframe_decode inp = (Ok f, rest)" and "tframe_msg f = Ok m"
  shows "wf_tmsg m \<and> 7 + length (tmsg_bytes m) \<le> length inp"
proof -
  from assms(1) obtain n ty s left where i: "inp = uint_bytes (n :: u32) @ ty # uint_bytes (tframe_tag f) @ s"
    and dm: "decode_message ty (take (unat n - 7) s) = (tframe_msg f, left)"
    by (rule tframe_decode_header)
  from decode_message_length [OF dm [unfolded assms(2)]]
  have "length (tmsg_bytes m) \<le> length (take (unat n - 7) s)" by simp
  also have "\<dots> \<le> length s" by simp
  finally show ?thesis using i decode_message_wf [OF dm [unfolded assms(2)]] by simp
qed

end
