(* ===== verification/Codec_Properties.thy ===== *)
theory Codec_Properties
  imports Frame_Correct
begin

text \<open>
  The properties of the wire format and of the frames: exact round trips, what the size field
  says, what a decoder consumes, and the inputs on which the two frame decoders and
  \<^verbatim>\<open>String::decode\<close> are more liberal than the format they document.
\<close>

subsection \<open>Integers, strings and buffers\<close>

lemma unat_ucast_byte: "unat (ucast (drop_bit k x) :: u8) = unat (x :: 'a::len word) div 2 ^ k mod 256"
proof -
  have "unat (ucast (drop_bit k x) :: u8) = take_bit LENGTH(8) (unat (drop_bit k x))"
    by (rule unsigned_ucast_eq)
  also have "unat (drop_bit k x) = unat x div 2 ^ k"
    by (simp only: unat_drop_bit_eq) (simp only: drop_bit_eq_div)
  finally show ?thesis by (simp add: take_bit_eq_mod)
qed

lemma pow_256: "(2 :: nat) ^ (8 * i) = 256 ^ i"
  by (simp add: power_mult)

lemma little_endian_sum:
  "(\<Sum>i<k. (n div 256 ^ i mod 256) * 256 ^ i) = n mod (256 ^ k :: nat)"
proof (induction k)
  case (Suc k)
  have "n mod 256 ^ Suc k = 256 ^ k * (n div 256 ^ k mod 256) + n mod 256 ^ k"
    by (metis mod_mult2_eq power_Suc2)
  with Suc show ?case by (simp add: algebra_simps)
qed simp

lemma unat_uint_bytes_sum:
  assumes "LENGTH('a::len) = 8 * size_of TYPE('a)"
  shows "unat (x :: 'a word) = (\<Sum>i < size_of TYPE('a). unat (uint_bytes x ! i) * 256 ^ i)"
proof -
  have "(\<Sum>i < size_of TYPE('a). unat (uint_bytes x ! i) * 256 ^ i)
      = (\<Sum>i < size_of TYPE('a). (unat x div 256 ^ i mod 256) * 256 ^ i)"
    by (rule sum.cong) (simp_all add: uint_bytes_def unat_ucast_byte pow_256)
  also have "\<dots> = unat x mod 256 ^ size_of TYPE('a)" by (rule little_endian_sum)
  also have "\<dots> = unat x"
  proof -
    have "unat x < 2 ^ LENGTH('a)" by (rule unsigned_less)
    then have "unat x < 256 ^ size_of TYPE('a)" by (simp only: assms pow_256)
    then show ?thesis by simp
  qed
  finally show ?thesis by simp
qed

text \<open>
  An unsigned integer of a whole number of bytes is written least significant
  byte first, in as many bytes as it says it takes, and reads back as itself whatever follows.
\<close>

lemma uint_little_endian_roundtrip:
  assumes "LENGTH('a::len) = 8 * size_of TYPE('a)"
  shows "\<exists>bs. encode wire_uint (x :: 'a word) out = (Ok (), out @ bs)
    \<and> length bs = size_of TYPE('a) \<and> byte_size wire_uint x = of_nat (length bs)
    \<and> unat x = (\<Sum>i < size_of TYPE('a). unat (bs ! i) * 256 ^ i)
    \<and> (\<forall>rest. decode wire_uint (bs @ rest) = (Ok x, rest))"
  by (intro exI [of _ "uint_bytes x"] conjI unat_uint_bytes_sum [OF assms])
    (simp_all add: wire_uint_def uint_encode_apply uint_decode_apply uint_byte_size_def
      uint_of_bytes_inverse [OF assms])

lemma uint_little_endian_roundtrip_witness:
  "\<exists>bs. encode wire_u32 0x01020304 [] = (Ok (), bs) \<and> length bs = 4
    \<and> decode wire_u32 (bs @ [9]) = (Ok 0x01020304, [9])"
  using uint_little_endian_roundtrip [where 'a = 32 and x = "0x01020304" and out = "[]"] by auto

text \<open>
  \<^verbatim>\<open>Data::decode\<close> in full: a length over 32 MiB is refused before any
  payload is read, a payload cut short is an end-of-file error, and otherwise exactly the
  declared bytes are taken.
\<close>

lemma data_decode_spec:
  "decode wire_data (uint_bytes (n :: u32) @ s) =
    (if unat n > 32 * 1024 * 1024 then (Err (Kinded InvalidData), s)
     else if unat n \<le> length s then (Ok (take (unat n) s), drop (unat n) s)
     else (Err (Kinded UnexpectedEof), []))"
  by (simp add: wire_data_def data_decode_after_len word_less_nat_alt MAX_DATA_LENGTH_nat)

text \<open>
  The two encoders that check a length write nothing when it does not fit the
  16-bit length field: the caller gets \<^verbatim>\<open>InvalidInput\<close> and the output is as it was.
\<close>

lemma oversized_string_or_vector_not_written:
  assumes "length s > 0xFFFF" and "length xs > 0xFFFF"
  shows "encode wire_string s out = (Err (Kinded InvalidInput), out)
    \<and> encode (wire_vec W) xs out = (Err (Kinded InvalidInput), out)"
  using assms by (simp add: wire_string_def string_encode_def wire_vec_def vec_encode_def io_simps)

lemma oversized_string_or_vector_not_written_witness:
  "encode wire_string (replicate 65536 65) [1] = (Err (Kinded InvalidInput), [1])
    \<and> encode (wire_vec wire_u8) (replicate 65536 7) [1] = (Err (Kinded InvalidInput), [1])"
  by (rule oversized_string_or_vector_not_written; simp only: length_replicate; simp)

text \<open>
  Property C39.  \<^verbatim>\<open>String::decode\<close> accepts a string that ends before its declared length:
  what is there becomes the string.  (\<^verbatim>\<open>Data::decode\<close> rejects that, and
  the comment over the implementations says that as many bytes as declared follow.)
\<close>

theorem string_decode_accepts_short:
  assumes "length s < unat (n :: u16)" and "utf8_valid s"
  shows "decode wire_string (uint_bytes n @ s) = (Ok s, [])"
  using assms by (simp add: wire_string_def string_decode_after_len)

theorem string_decode_accepts_short_witness:
  "decode wire_string [200, 0, 104, 105] = (Ok [104, 105], [])"
proof -
  have "decode wire_string (uint_bytes (200 :: u16) @ [104, 105]) = (Ok [104, 105], [])"
    by (rule string_decode_accepts_short) (simp, code_simp)
  moreover have "uint_bytes (200 :: u16) = [200, 0]" by code_simp
  ultimately show ?thesis by simp
qed

subsection \<open>Frames\<close>

text \<open>
  Property C7.  A request frame that goes on the wire: the encoder writes exactly
  \<^verbatim>\<open>byte_size\<close> bytes, the first four hold that number, and the decoder returns tag and
  message and leaves whatever follows the frame.
\<close>

theorem tframe_roundtrip:
  assumes "wf_tmsg m" and "7 + length (tmsg_bytes m) < 2 ^ 32"
  shows "\<exists>bs. tframe_encode \<lparr>tframe_tag = tag, tframe_msg = Ok m\<rparr> out = (Ok (), out @ bs)
    \<and> tframe_byte_size \<lparr>tframe_tag = tag, tframe_msg = Ok m\<rparr> = Ok (of_nat (length bs))
    \<and> take 4 bs = uint_bytes (of_nat (length bs) :: u32)
    \<and> (\<forall>rest. tframe_decode (bs @ rest) = (Ok \<lparr>tframe_tag = tag, tframe_msg = Ok m\<rparr>, rest))"
  using assms
  by (intro exI [of _ "frame_bytes (tmsg_type m) tag (tmsg_bytes m)"])
    (simp add: tframe_encode_bytes tframe_decode_bytes tframe_byte_size_def tmsg_byte_size_wf
      frame_header_size_7, simp add: frame_bytes_def)

theorem tframe_roundtrip_witness:
  "\<exists>bs. tframe_encode \<lparr>tframe_tag = 5, tframe_msg = Ok (Tmessage.Walk
      \<lparr>twalk_fid = 1, twalk_newfid = 2, twalk_wnames = [[97], [98, 99]]\<rparr>)\<rparr> [] = (Ok (), bs)
    \<and> tframe_decode (bs @ [42]) = (Ok \<lparr>tframe_tag = 5, tframe_msg = Ok (Tmessage.Walk
      \<lparr>twalk_fid = 1, twalk_newfid = 2, twalk_wnames = [[97], [98, 99]]\<rparr>)\<rparr>, [42])"
  (is "\<exists>bs. tframe_encode \<lparr>tframe_tag = 5, tframe_msg = Ok ?m\<rparr> [] = _ \<and> _")
proof -
  have v: "utf8_valid [97]" "utf8_valid [98, 99]" by code_simp+
  have "wf_tmsg ?m" by (simp add: wf_Twalk_def wf_vec_def wf_string_def v)
  moreover have "7 + length (tmsg_bytes ?m) < 2 ^ 32"
    by (simp add: bytes_Twalk_def vec_bytes_def string_bytes_def)
  ultimately show ?thesis using tframe_roundtrip [of ?m 5 "[]"] by auto
qed

text \<open>Property C8.  The same for a reply frame.\<close>

theorem rframe_roundtrip:
  assumes "wf_rmsg m" and "7 + length (rmsg_bytes m) < 2 ^ 32"
  shows "\<exists>bs. rframe_encode \<lparr>rframe_tag = tag, rframe_msg = m\<rparr> out = (Ok (), out @ bs)
    \<and> rframe_byte_size \<lparr>rframe_tag = tag, rframe_msg = m\<rparr> = of_nat (length bs)
    \<and> take 4 bs = uint_bytes (of_nat (length bs) :: u32)
    \<and> (\<forall>rest. rframe_decode (bs @ rest) = (Ok \<lparr>rframe_tag = tag, rframe_msg = m\<rparr>, rest))"
  using assms
  by (intro exI [of _ "frame_bytes (rmsg_type m) tag (rmsg_bytes m)"])
    (simp add: rframe_encode_bytes rframe_decode_bytes rframe_byte_size_def rmsg_byte_size_wf
      frame_header_size_7, simp add: frame_bytes_def)

theorem rframe_roundtrip_witness:
  "\<exists>bs. rframe_encode \<lparr>rframe_tag = 9, rframe_msg = Rmessage.Read \<lparr>rread_data = [1, 2, 3]\<rparr>\<rparr> []
      = (Ok (), bs)
    \<and> rframe_decode (bs @ [42])
      = (Ok \<lparr>rframe_tag = 9, rframe_msg = Rmessage.Read \<lparr>rread_data = [1, 2, 3]\<rparr>\<rparr>, [42])"
  using rframe_roundtrip [of "Rmessage.Read \<lparr>rread_data = [1, 2, 3]\<rparr>" 9 "[]"]
  by (auto simp: wf_Rread_def wf_data_def MAX_DATA_LENGTH_nat bytes_Rread_def data_bytes_def)



text \<open>
  A declared size that does not cover the frame's own header is an error for
  every content: below 4 it is \<^verbatim>\<open>InvalidData\<close> right after the size, from 4 to 6 it is an
  end of file inside the frame, and the bytes after the declared size stay unread.
\<close>

lemma tframe_decode_size_too_small:
  assumes "unat (n :: u32) < 7"
  shows "tframe_decode (uint_bytes n @ s) =
    (if unat n < 4 then (Err (Kinded InvalidData), s)
     else (Err (Kinded UnexpectedEof), drop (unat n - 4) s))"
proof (cases "unat n < 4")
  case True
  then show ?thesis by (simp add: tframe_decode_def io_simps word_less_nat_alt)
next
  case False
  then have n: "\<not> n < 4" "unat (n - 4) = unat n - 4"
    by (simp_all add: u32_minus_4 word_less_nat_alt word_le_nat_alt)
  define k where "k = unat n - 4"
  with False assms have k: "unat n = 4 + k" "k < 3" by simp_all
  have short: "\<lbrakk>length t < 3\<rbrakk> \<Longrightarrow> io_bind (read_exact 1) (\<lambda>ty. io_bind uint_decode (\<lambda>tag.
      io_bind (io_attempt (decode_message (ty ! 0))) (\<lambda>msg.
      io_return \<lparr>tframe_tag = tag, tframe_msg = msg\<rparr>))) t = (Err (Kinded UnexpectedEof), [])" for t
    by (cases t) (simp_all add: io_apply read_exact_def uint_decode_def)
  from k(2) have "length (take k s) < 3" by simp
  from short [OF this] have tk: "reader_take k (io_bind (read_exact 1) (\<lambda>ty. io_bind uint_decode (\<lambda>tag.
      io_bind (io_attempt (decode_message (ty ! 0))) (\<lambda>msg.
      io_return \<lparr>tframe_tag = tag, tframe_msg = msg\<rparr>)))) s
      = (Err (Kinded UnexpectedEof), drop k s)" by (simp only: reader_take_def) simp
  have "io_bind uint_decode f (uint_bytes n @ s) = f n s" for f :: "u32 \<Rightarrow> Tframe reader"
    by (rule io_bind_Ok) (simp add: u32_uint_decode_Ok)
  then have "tframe_decode (uint_bytes n @ s) = (Err (Kinded UnexpectedEof), drop k s)"
    using tk n k(1) by (simp only: tframe_decode_def) simp
  with k(1) False show ?thesis by simp
qed

lemma tframe_decode_size_too_small_witness:
  "tframe_decode [3, 0, 0, 0, 1, 2] = (Err (Kinded InvalidData), [1, 2])
    \<and> tframe_decode [6, 0, 0, 0, 100, 2, 77] = (Err (Kinded UnexpectedEof), [77])"
proof -
  have "uint_bytes (3 :: u32) = [3, 0, 0, 0]" "uint_bytes (6 :: u32) = [6, 0, 0, 0]" by code_simp+
  then show ?thesis
    using tframe_decode_size_too_small [of 3 "[1, 2]"] tframe_decode_size_too_small [of 6 "[100, 2, 77]"]
    by simp
qed

text \<open>
  Property C36.  A request of a type the server does not know: the frame decodes, with its tag
  and an error in place of the message, but nothing of its body has been consumed although the
  frame declares it, so the next frame is read from the middle of this one.
\<close>

theorem unknown_type_leaves_body:
  assumes "7 \<le> unat (n :: u32)" and "\<nexists>m. tmsg_type m = ty"
  shows "tframe_decode (uint_bytes n @ ty # uint_bytes (tag :: u16) @ s)
    = (Ok \<lparr>tframe_tag = tag, tframe_msg = Err (Kinded InvalidData)\<rparr>, s)"
proof -
  from assms(2) have "tmsg_type m \<noteq> ty" for m by blast
  note no = this [of "Tmessage.Version undefined"] this [of "Tmessage.Flush undefined"]
    this [of "Tmessage.Walk undefined"] this [of "Tmessage.Read undefined"]
    this [of "Tmessage.Write undefined"] this [of "Tmessage.Clunk undefined"]
    this [of "Tmessage.Remove undefined"] this [of "Tmessage.Attach undefined"]
    this [of "Tmessage.Auth undefined"] this [of "Tmessage.Statfs undefined"]
    this [of "Tmessage.Lopen undefined"] this [of "Tmessage.Lcreate undefined"]
    this [of "Tmessage.Symlink undefined"] this [of "Tmessage.Mknod undefined"]
    this [of "Tmessage.Rename undefined"] this [of "Tmessage.Readlink undefined"]
    this [of "Tmessage.GetAttr undefined"] this [of "Tmessage.SetAttr undefined"]
    this [of "Tmessage.XattrWalk undefined"] this [of "Tmessage.XattrCreate undefined"]
    this [of "Tmessage.Readdir undefined"] this [of "Tmessage.Fsync undefined"]
    this [of "Tmessage.Lock undefined"] this [of "Tmessage.GetLock undefined"]
    this [of "Tmessage.Link undefined"] this [of "Tmessage.Mkdir undefined"]
    this [of "Tmessage.RenameAt undefined"] this [of "Tmessage.UnlinkAt undefined"]
  from no [unfolded tmsg_type.simps, THEN not_sym] have "decode_message ty = io_throw (Kinded InvalidData)"
    by (simp only: decode_message_def if_False)
  then show ?thesis by (simp add: tframe_decode_frame [OF assms(1)] io_throw_apply)
qed

theorem unknown_type_leaves_body_witness:
  "tframe_decode [9, 0, 0, 0, 200, 5, 0, 1, 2, 3]
    = (Ok \<lparr>tframe_tag = 5, tframe_msg = Err (Kinded InvalidData)\<rparr>, [1, 2, 3])"
proof -
  have "uint_bytes (9 :: u32) = [9, 0, 0, 0]" "uint_bytes (5 :: u16) = [5, 0]" by code_simp+
  moreover have "tmsg_type m \<noteq> 200" for m by (cases m) (simp_all add: msg_types)
  ultimately show ?thesis using unknown_type_leaves_body [of 9 200 5 "[1, 2, 3]"] by simp
qed

text \<open>
  Property C37.  \<^verbatim>\<open>Rframe::decode\<close> lacks the size check of \<^verbatim>\<open>Tframe::decode\<close>: with a
  declared size below 4 the subtraction wraps around, so a reply whose size field is wrong is
  accepted, where the same header of a request is refused.
\<close>

theorem rframe_decode_accepts_wrapped_size:
  assumes "unat (n :: u32) < 4" and "wf_rmsg m"
    and "7 + length (rmsg_bytes m) + length rest < 2 ^ 32"
  shows "rframe_decode (uint_bytes n @ rmsg_type m # uint_bytes tag @ rmsg_bytes m @ rest)
      = (Ok \<lparr>rframe_tag = tag, rframe_msg = m\<rparr>, rest)
    \<and> tframe_decode (uint_bytes n @ s) = (Err (Kinded InvalidData), s)"
proof
  let ?s = "rmsg_type m # uint_bytes tag @ rmsg_bytes m @ rest"
  have len: "length ?s = 3 + length (rmsg_bytes m) + length rest" by simp
  have "unat (n - 4) = unat n + 2 ^ 32 - 4"
    using assms(1) by (simp add: unat_sub_if')
  then have "length ?s \<le> unat (n - 4)" using assms(3) len by linarith
  then have take: "take (unat (n - 4)) ?s = ?s" "drop (unat (n - 4)) ?s = []" by (simp_all del: length_Cons)
  have "io_bind uint_decode f (uint_bytes n @ t) = f n t" for f :: "u32 \<Rightarrow> Rframe reader" and t
    by (rule io_bind_Ok) (simp add: u32_uint_decode_Ok)
  moreover have "reader_take (unat (n - 4)) M ?s = (case M ?s of (r, left) \<Rightarrow> (r, left))" for M :: "Rframe reader"
    by (simp only: reader_take_def take append_Nil2)
  ultimately show "rframe_decode (uint_bytes n @ ?s) = (Ok \<lparr>rframe_tag = tag, rframe_msg = m\<rparr>, rest)"
    using decode_reply_bytes [OF assms(2), of rest]
    by (simp add: rframe_decode_def io_apply io_return_apply read_exact_Cons [simplified] u16_decode_bytes)
  show "tframe_decode (uint_bytes n @ s) = (Err (Kinded InvalidData), s)"
    using assms(1) by (simp add: tframe_decode_def io_simps word_less_nat_alt)
qed

theorem rframe_decode_accepts_wrapped_size_witness:
  "rframe_decode [0, 0, 0, 0, 121, 5, 0, 88] = (Ok \<lparr>rframe_tag = 5, rframe_msg = Rmessage.Clunk\<rparr>, [88])"
proof -
  have "uint_bytes (0 :: u32) = [0, 0, 0, 0]" "uint_bytes (5 :: u16) = [5, 0]" by code_simp+
  then show ?thesis using rframe_decode_accepts_wrapped_size [of 0 "Rmessage.Clunk" "[88]" 5 "[]"]
    by (simp add: msg_types)
qed

end
