(* ===== verification/BTree_Map.thy ===== *)
theory BTree_Map
  imports P9_Prelude
begin

text \<open>
  The part of \<^verbatim>\<open>std::collections::BTreeMap\<close> the server uses, as a list of key and
  value pairs in ascending key order: \<^verbatim>\<open>get\<close>, \<^verbatim>\<open>contains_key\<close>,
  \<^verbatim>\<open>insert\<close>, the removal of an occupied entry, and the iteration in key order that
  dropping or clearing the map performs.  The locale \<open>ordered_map\<close> is the contract the
  server relies on; it is interpreted on the operations of this theory.
\<close>

type_synonym ('k, 'v) btree_map = "('k \<times> 'v) list"

definition bt_new :: "('k, 'v) btree_map" where
  "bt_new = []"

fun bt_get :: "('k::linorder, 'v) btree_map \<Rightarrow> 'k \<Rightarrow> 'v option" where
  "bt_get [] k = None"
| "bt_get ((j, v) # m) k = (if k = j then Some v else bt_get m k)"

definition bt_contains_key :: "('k::linorder, 'v) btree_map \<Rightarrow> 'k \<Rightarrow> bool" where
  "bt_contains_key m k = (bt_get m k \<noteq> None)"

fun bt_insert :: "('k::linorder, 'v) btree_map \<Rightarrow> 'k \<Rightarrow> 'v \<Rightarrow> ('k, 'v) btree_map" where
  "bt_insert [] k v = [(k, v)]"
| "bt_insert ((j, w) # m) k v =
     (if k < j then (k, v) # (j, w) # m
      else if k = j then (k, v) # m
      else (j, w) # bt_insert m k v)"

fun bt_remove :: "('k::linorder, 'v) btree_map \<Rightarrow> 'k \<Rightarrow> ('k, 'v) btree_map" where
  "bt_remove [] k = []"
| "bt_remove ((j, w) # m) k = (if k = j then m else (j, w) # bt_remove m k)"

definition bt_values :: "('k, 'v) btree_map \<Rightarrow> 'v list" where
  "bt_values m = map snd m"

definition bt_ok :: "('k::linorder, 'v) btree_map \<Rightarrow> bool" where
  "bt_ok m = sorted_wrt (<) (map fst m)"

subsection \<open>The contract\<close>

locale ordered_map =
  fixes new :: 'm
    and get :: "'m \<Rightarrow> 'k::linorder \<Rightarrow> 'v option"
    and insert :: "'m \<Rightarrow> 'k \<Rightarrow> 'v \<Rightarrow> 'm"
    and remove :: "'m \<Rightarrow> 'k \<Rightarrow> 'm"
    and vals :: "'m \<Rightarrow> 'v list"
    and inv :: "'m \<Rightarrow> bool"
  assumes inv_new: "inv new"
    and inv_insert: "inv m \<Longrightarrow> inv (insert m k v)"
    and inv_remove: "inv m \<Longrightarrow> inv (remove m k)"
    and get_new: "get new k = None"
    and get_insert: "inv m \<Longrightarrow> get (insert m k v) j = (if j = k then Some v else get m j)"
    and get_remove: "inv m \<Longrightarrow> get (remove m k) j = (if j = k then None else get m j)"
    and vals_new: "vals new = []"
    and vals_insert_new:
      "inv m \<Longrightarrow> get m k = None \<Longrightarrow> \<exists>a b. vals m = a @ b \<and> vals (insert m k v) = a @ v # b"
    and vals_insert_old:
      "inv m \<Longrightarrow> get m k = Some w \<Longrightarrow>
        \<exists>a b. vals m = a @ w # b \<and> vals (insert m k v) = a @ v # b"
    and vals_remove:
      "inv m \<Longrightarrow> get m k = Some w \<Longrightarrow> \<exists>a b. vals m = a @ w # b \<and> vals (remove m k) = a @ b"
begin

lemma get_vals: "inv m \<Longrightarrow> get m k = Some v \<Longrightarrow> v \<in> set (vals m)"
  using vals_remove by fastforce

lemma dom_insert: "inv m \<Longrightarrow> dom (get (insert m k v)) = Set.insert k (dom (get m))"
  by (auto simp: get_insert dom_def)

lemma dom_remove: "inv m \<Longrightarrow> dom (get (remove m k)) = dom (get m) - {k}"
  by (auto simp: get_remove dom_def)

lemma all_vals_insert:
  assumes "inv m" and "\<forall>x\<in>set (vals m). P x" and "P v"
  shows "\<forall>x\<in>set (vals (insert m k v)). P x"
proof (cases "get m k")
  case None
  from vals_insert_new [OF assms(1) None, of v] assms(2,3) show ?thesis by fastforce
next
  case (Some w)
  from vals_insert_old [OF assms(1) Some, of v] assms(2,3) show ?thesis by fastforce
qed

lemma all_vals_remove:
  assumes "inv m" and "\<forall>x\<in>set (vals m). P x" and "get m k \<noteq> None"
  shows "\<forall>x\<in>set (vals (remove m k)). P x"
  using assms vals_remove by fastforce

end

subsection \<open>The list model keeps it\<close>

lemma bt_get_map_of: "bt_get m = map_of m"
  by (rule ext, induct_tac m) auto

lemma fst_bt_insert: "set (map fst (bt_insert m k v)) = insert k (set (map fst m))"
  by (induction m k v rule: bt_insert.induct) auto

lemma fst_bt_remove: "set (map fst (bt_remove m k)) \<subseteq> set (map fst m)"
  by (induction m k rule: bt_remove.induct) auto

lemma bt_ok_insert: "bt_ok m \<Longrightarrow> bt_ok (bt_insert m k v)"
proof (induction m k v rule: bt_insert.induct)
  case (2 j w m k v)
  have "set (map fst (bt_insert m k v)) = insert k (set (map fst m))" by (rule fst_bt_insert)
  with 2 show ?case by (auto simp: bt_ok_def simp del: set_map)
qed (simp add: bt_ok_def)

lemma bt_ok_remove: "bt_ok m \<Longrightarrow> bt_ok (bt_remove m k)"
proof (induction m k rule: bt_remove.induct)
  case (2 j w m k)
  then show ?case using fst_bt_remove [of m k] by (auto simp: bt_ok_def simp del: set_map)
qed (simp add: bt_ok_def)

lemma bt_get_insert: "bt_get (bt_insert m k v) j = (if j = k then Some v else bt_get m j)"
  by (induction m k v rule: bt_insert.induct) auto

lemma bt_get_notin: "k \<notin> set (map fst m) \<Longrightarrow> bt_get m k = None"
  by (induction m) auto

lemma bt_get_remove: "bt_ok m \<Longrightarrow> bt_get (bt_remove m k) j = (if j = k then None else bt_get m j)"
proof (induction m k rule: bt_remove.induct)
  case (2 l w m k)
  show ?case
  proof (cases "k = l")
    case True
    from "2.prems" have "l \<notin> set (map fst m)" by (force simp: bt_ok_def)
    with True show ?thesis by (simp add: bt_get_notin)
  next
    case False
    with 2 show ?thesis by (auto simp: bt_ok_def)
  qed
qed simp

lemma bt_vals_insert_old:
  "bt_ok m \<Longrightarrow> bt_get m k = Some w \<Longrightarrow>
    \<exists>a b. bt_values m = a @ w # b \<and> bt_values (bt_insert m k v) = a @ v # b"
proof (induction m k v rule: bt_insert.induct)
  case (2 j w' m k v)
  show ?case
  proof (cases "k = j")
    case True
    with 2 show ?thesis by (auto simp: bt_values_def intro: exI [of _ "[]"])
  next
    case False
    with "2.prems" have get: "bt_get m k = Some w" and ok: "bt_ok m" by (auto simp: bt_ok_def)
    have "\<not> k < j"
    proof
      assume "k < j"
      with "2.prems"(1) have "k \<notin> set (map fst m)" by (force simp: bt_ok_def)
      with get show False by (simp add: bt_get_notin)
    qed
    with False "2.IH" [OF this False ok get] show ?thesis
      by (auto simp: bt_values_def) (metis append_Cons)
  qed
qed simp

lemma bt_vals_insert_new:
  "bt_get m k = None \<Longrightarrow>
    \<exists>a b. bt_values m = a @ b \<and> bt_values (bt_insert m k v) = a @ v # b"
proof (induction m k v rule: bt_insert.induct)
  case (1 k v)
  then show ?case by (simp add: bt_values_def)
next
  case (2 j w m k v)
  show ?case
  proof (cases "k < j")
    case True
    then show ?thesis by (auto simp: bt_values_def intro: exI [of _ "[]"])
  next
    case False
    with "2.prems" have "k \<noteq> j" and "bt_get m k = None" by (auto split: if_splits)
    with "2.IH" [OF False] False show ?thesis
      by (auto simp: bt_values_def) (metis append_Cons)
  qed
qed

lemma bt_vals_remove:
  "bt_get m k = Some w \<Longrightarrow> \<exists>a b. bt_values m = a @ w # b \<and> bt_values (bt_remove m k) = a @ b"
proof (induction m k rule: bt_remove.induct)
  case (2 j v m k)
  show ?case
  proof (cases "k = j")
    case True
    with 2 show ?thesis by (auto simp: bt_values_def intro: exI [of _ "[]"])
  next
    case False
    with 2 show ?thesis by (auto simp: bt_values_def) (metis append_Cons)
  qed
qed simp

interpretation bt: ordered_map bt_new bt_get bt_insert bt_remove bt_values bt_ok
proof unfold_locales
  show "bt_ok bt_new" by (simp add: bt_ok_def bt_new_def)
qed (auto simp: bt_ok_insert bt_ok_remove bt_get_insert bt_get_remove bt_new_def bt_values_def [of "[]"]
       intro: bt_vals_insert_new bt_vals_insert_old bt_vals_remove)

end
