(* ===== verification/Kernel.thy ===== *)
theory Kernel
  imports BTree_Map Text_Strings
begin

text \<open>
  The operating system as the server sees it.  The kernel is a parameter of every definition
  that makes a system call: a function that takes the call with its arguments and the kernel's
  state to the C return value, the errno and the buffers the call fills.  Nothing is assumed of
  it here; theorems that need a law of it state it as a hypothesis.  File descriptors are
  integers, C flags and signed 64-bit fields are words (their bit patterns), a
  \<^verbatim>\<open>File\<close> is its descriptor, and dropping it is an explicit \<open>Close\<close>.  The
  repetition of interrupted calls inside the standard library (\<^verbatim>\<open>cvt_r\<close>, in
  \<^verbatim>\<open>set_len\<close> and the two sync calls) belongs to the call here: its answer is that of
  the attempt that was not interrupted.
\<close>

subsection \<open>Constants of libc on x86-64 Linux\<close>

definition O_WRONLY :: u32 where "O_WRONLY = 1"
definition O_RDWR :: u32 where "O_RDWR = 2"
definition O_RDONLY :: u32 where "O_RDONLY = 0"
definition O_CREAT :: u32 where "O_CREAT = 0x40"
definition O_EXCL :: u32 where "O_EXCL = 0x80"
definition O_NOCTTY :: u32 where "O_NOCTTY = 0x100"
definition O_TRUNC :: u32 where "O_TRUNC = 0x200"
definition O_APPEND :: u32 where "O_APPEND = 0x400"
definition O_NONBLOCK :: u32 where "O_NONBLOCK = 0x800"
definition O_DSYNC :: u32 where "O_DSYNC = 0x1000"
definition O_DIRECT :: u32 where "O_DIRECT = 0x4000"
definition O_LARGEFILE :: u32 where "O_LARGEFILE = 0"
definition O_DIRECTORY :: u32 where "O_DIRECTORY = 0x10000"
definition O_NOFOLLOW :: u32 where "O_NOFOLLOW = 0x20000"
definition O_NOATIME :: u32 where "O_NOATIME = 0x40000"
definition O_CLOEXEC :: u32 where "O_CLOEXEC = 0x80000"
definition O_SYNC :: u32 where "O_SYNC = 0x101000"
definition O_PATH :: u32 where "O_PATH = 0x200000"

lemmas open_flags = O_WRONLY_def O_RDWR_def O_RDONLY_def O_CREAT_def O_EXCL_def O_NOCTTY_def
  O_TRUNC_def O_APPEND_def O_NONBLOCK_def O_DSYNC_def O_DIRECT_def O_LARGEFILE_def
  O_DIRECTORY_def O_NOFOLLOW_def O_NOATIME_def O_CLOEXEC_def O_SYNC_def O_PATH_def

definition AT_FDCWD :: int where "AT_FDCWD = -100"
definition AT_SYMLINK_NOFOLLOW :: u32 where "AT_SYMLINK_NOFOLLOW = 0x100"
definition AT_SYMLINK_FOLLOW :: u32 where "AT_SYMLINK_FOLLOW = 0x400"
definition AT_EMPTY_PATH :: u32 where "AT_EMPTY_PATH = 0x1000"

definition S_IFMT :: u32 where "S_IFMT = 0xF000"
definition S_IFREG :: u32 where "S_IFREG = 0x8000"
definition S_IFDIR :: u32 where "S_IFDIR = 0x4000"
definition S_IFLNK :: u32 where "S_IFLNK = 0xA000"

definition UTIME_NOW :: u64 where "UTIME_NOW = 1073741823"
definition UTIME_OMIT :: u64 where "UTIME_OMIT = 1073741822"

definition PATH_MAX :: nat where "PATH_MAX = 4096"

definition EPERM :: int where "EPERM = 1"
definition ENOENT :: int where "ENOENT = 2"
definition EINTR :: int where "EINTR = 4"
definition EIO :: int where "EIO = 5"
definition EBADF :: int where "EBADF = 9"
definition EWOULDBLOCK :: int where "EWOULDBLOCK = 11"
definition EACCES :: int where "EACCES = 13"
definition EEXIST :: int where "EEXIST = 17"
definition ENOTDIR :: int where "ENOTDIR = 20"
definition EISDIR :: int where "EISDIR = 21"
definition EINVAL :: int where "EINVAL = 22"
definition EPIPE :: int where "EPIPE = 32"
definition EOPNOTSUPP :: int where "EOPNOTSUPP = 95"
definition EADDRINUSE :: int where "EADDRINUSE = 98"
definition EADDRNOTAVAIL :: int where "EADDRNOTAVAIL = 99"
definition ECONNABORTED :: int where "ECONNABORTED = 103"
definition ECONNRESET :: int where "ECONNRESET = 104"
definition ENOTCONN :: int where "ENOTCONN = 107"
definition ETIMEDOUT :: int where "ETIMEDOUT = 110"
definition ECONNREFUSED :: int where "ECONNREFUSED = 111"

lemmas errnos = EPERM_def ENOENT_def EINTR_def EIO_def EBADF_def EWOULDBLOCK_def EACCES_def
  EEXIST_def ENOTDIR_def EISDIR_def EINVAL_def EPIPE_def EOPNOTSUPP_def EADDRINUSE_def
  EADDRNOTAVAIL_def ECONNABORTED_def ECONNRESET_def ENOTCONN_def ETIMEDOUT_def ECONNREFUSED_def

subsection \<open>Calls and answers\<close>

record stat64 =
  st_mode :: u32
  st_ino :: u64
  st_nlink :: u64
  st_uid :: u32
  st_gid :: u32
  st_rdev :: u64
  st_size :: u64
  st_blksize :: u64
  st_blocks :: u64
  st_atime :: u64
  st_atime_nsec :: u64
  st_mtime :: u64
  st_mtime_nsec :: u64
  st_ctime :: u64
  st_ctime_nsec :: u64

record statfs64 =
  f_type :: u64
  f_bsize :: u64
  f_blocks :: u64
  f_bfree :: u64
  f_bavail :: u64
  f_files :: u64
  f_ffree :: u64
  f_fsid_0 :: u32
  f_fsid_1 :: u32
  f_namelen :: u64

record timespec =
  tv_sec :: u64
  tv_nsec :: u64

type_synonym fd = int

text \<open>The mode of an \<open>Openat\<close> is there only where the source passes the variadic argument.\<close>

datatype syscall =
    Openat fd cstring u32 "u32 option"
  | Fstatat fd cstring u32
  | Fstat fd
  | Fstatfs fd
  | Dupfd_cloexec fd
  | Close fd
  | Pread fd nat u64
  | Pwrite fd "u8 list" u64
  | Ftruncate fd u64
  | Fsync fd
  | Fdatasync fd
  | Readlinkat fd cstring nat
  | Fchmodat fd cstring u32 u32
  | Fchownat fd cstring u32 u32 u32
  | Utimensat fd cstring timespec timespec u32
  | Getdents64 fd nat
  | Lseek64 fd u64
  | Linkat fd cstring fd cstring u32
  | Mkdirat fd cstring u32
  | Renameat fd cstring fd cstring
  | Unlinkat fd cstring u32

record sysret =
  sys_res :: int
  sys_errno :: int
  sys_stat :: stat64
  sys_statfs :: statfs64
  sys_buf :: "u8 list"

type_synonym 'k kernel = "syscall \<Rightarrow> 'k \<Rightarrow> sysret \<times> 'k"

text \<open>The macro \<^verbatim>\<open>syscall!\<close>: a negative result is the error in errno.\<close>

definition syscall :: "'k kernel \<Rightarrow> syscall \<Rightarrow> ('k, sysret) io" where
  "syscall K c = (\<lambda>k. case K c k of (r, k') \<Rightarrow>
     if sys_res r < 0 then (Err (Os (sys_errno r)), k') else (Ok r, k'))"

text \<open>\<^verbatim>\<open>impl Drop for File\<close>: close, whatever it answers.\<close>

definition close :: "'k kernel \<Rightarrow> fd \<Rightarrow> ('k, unit) io" where
  "close K f = (\<lambda>k. (Ok (), snd (K (Close f) k)))"

fun close_all :: "'k kernel \<Rightarrow> fd list \<Rightarrow> ('k, unit) io" where
  "close_all K [] = io_return ()"
| "close_all K (f # fs) = io_bind (close K f) (\<lambda>_. close_all K fs)"

text \<open>What a buffer holds after the kernel has written some bytes at its start.\<close>

definition fill :: "u8 list \<Rightarrow> u8 list \<Rightarrow> u8 list" where
  "fill buf bs = take (length buf) (bs @ drop (length bs) buf)"

lemma length_fill [simp]: "length (fill buf bs) = length buf"
  by (simp add: fill_def)

lemma fill_exact: "length bs \<le> length buf \<Longrightarrow> take (length bs) (fill buf bs) = bs"
  by (simp add: fill_def)

lemma wp_syscall [wp_rules]:
  "wp (syscall K c) Q E X k = (case K c k of (r, k') \<Rightarrow>
     if sys_res r < 0 then E (Os (sys_errno r)) k' else Q r k')"
  by (auto simp: wp_def syscall_def split: prod.splits)

lemma wp_close [wp_rules]: "wp (close K f) Q E X k = Q () (snd (K (Close f) k))"
  by (simp add: wp_def close_def)

end
