(* ===== verification/Read_Dir.thy ===== *)
theory Read_Dir
  imports Kernel Wire_Format
begin

text \<open>
  \<^verbatim>\<open>p9/src/server/read_dir.rs\<close>: iteration over the entries of an open directory, 512
  bytes of \<^verbatim>\<open>getdents64\<close> records at a time.  The panics are those of the release build:
  a slice out of range or a record without a nul byte.
\<close>

definition DIRENT64_SIZE :: nat where "DIRENT64_SIZE = 19"
definition DIR_BUF_SIZE :: nat where "DIR_BUF_SIZE = 512"

text \<open>The packed struct at the front of a record, read from its bytes in memory order.\<close>

record linux_dirent64 =
  d_ino :: u64
  d_off :: u64
  d_reclen :: u16
  d_ty :: u8

definition dirent64_from_slice :: "u8 list \<Rightarrow> linux_dirent64 option" where
  "dirent64_from_slice d =
    (if length d \<noteq> DIRENT64_SIZE then None
     else Some \<lparr>d_ino = uint_of_bytes (take 8 d), d_off = uint_of_bytes (take 8 (drop 8 d)),
       d_reclen = uint_of_bytes (take 2 (drop 16 d)), d_ty = d ! 18\<rparr>)"

record dir_entry =
  de_ino :: u64
  de_offset :: u64
  de_type :: u8
  de_name :: cstring

record read_dir =
  rd_buf :: "u8 list"
  rd_dir :: fd
  rd_current :: nat
  rd_end :: nat

text \<open>The name up to its first nul byte, or a panic.\<close>

definition strip_padding :: "u8 list \<Rightarrow> cstring io_result" where
  "strip_padding b = (if 0 \<in> set b then Ok (takeWhile (\<lambda>c. c \<noteq> 0) b) else Panic)"

text \<open>The entry at the front of the rest of the buffer, and its record's length.\<close>

definition parse_entry :: "u8 list \<Rightarrow> (dir_entry \<times> nat) io_result" where
  "parse_entry rem =
    (if length rem < DIRENT64_SIZE then Panic
     else case dirent64_from_slice (take DIRENT64_SIZE rem) of
       None \<Rightarrow> Panic
     | Some d \<Rightarrow>
        let back = drop DIRENT64_SIZE rem;
            namelen = (of_nat (unat (d_reclen d)) :: u64) - of_nat DIRENT64_SIZE
        in if unat namelen > length back then Panic
           else case strip_padding (take (unat namelen) back) of
             Ok name \<Rightarrow> Ok (\<lparr>de_ino = d_ino d, de_offset = d_off d, de_type = d_ty d,
                 de_name = name\<rparr>, unat (d_reclen d))
           | Err e \<Rightarrow> Err e
           | Panic \<Rightarrow> Panic)"

definition dir_refill :: "'k kernel \<Rightarrow> read_dir \<Rightarrow> ('k, read_dir) io" where
  "dir_refill K rd =
    (if rd_current rd \<ge> rd_end rd then
       io_bind (syscall K (Getdents64 (rd_dir rd) (length (rd_buf rd)))) (\<lambda>r.
       io_return (rd\<lparr>rd_buf := fill (rd_buf rd) (sys_buf r), rd_current := 0,
         rd_end := nat (sys_res r)\<rparr>))
     else io_return rd)"

text \<open>\<^verbatim>\<open>next().transpose()?\<close>: no entry at the end, else the entry and the advanced iterator.\<close>

definition dir_next :: "'k kernel \<Rightarrow> read_dir \<Rightarrow> ('k, dir_entry option \<times> read_dir) io" where
  "dir_next K rd0 = io_bind (dir_refill K rd0) (\<lambda>rd.
     if rd_end rd > length (rd_buf rd) then io_panic
     else let rem = drop (rd_current rd) (take (rd_end rd) (rd_buf rd)) in
       if rem = [] then io_return (None, rd)
       else io_bind (io_result (parse_entry rem)) (\<lambda>(entry, reclen).
         io_return (Some entry, rd\<lparr>rd_current := rd_current rd + reclen\<rparr>)))"

definition read_dir :: "'k kernel \<Rightarrow> fd \<Rightarrow> u64 \<Rightarrow> ('k, read_dir) io" where
  "read_dir K d offset =
     io_bind (syscall K (Lseek64 d offset)) (\<lambda>_.
     io_return \<lparr>rd_buf = replicate DIR_BUF_SIZE 0, rd_dir = d, rd_current = 0, rd_end = 0\<rparr>)"

end
