(* ===== verification/Server_Core.thy ===== *)
theory Server_Core
  imports Read_Dir Frames
begin

text \<open>
  \<^verbatim>\<open>p9/src/server/mod.rs\<close> up to the request handlers: the constants of the protocol, the
  state the server keeps per fid, errors as replies, the file helpers every handler uses
  (\<^verbatim>\<open>stat\<close>, \<^verbatim>\<open>lookup\<close>, \<^verbatim>\<open>open_fid\<close>, \<^verbatim>\<open>do_walk\<close>), and the
  configuration with its parser.
\<close>

subsection \<open>Constants of the protocol\<close>

definition P9_RDONLY :: u32 where "P9_RDONLY = 0"
definition P9_WRONLY :: u32 where "P9_WRONLY = 1"
definition P9_RDWR :: u32 where "P9_RDWR = 2"
definition P9_NOACCESS :: u32 where "P9_NOACCESS = 3"
definition P9_CREATE :: u32 where "P9_CREATE = 0x40"
definition P9_EXCL :: u32 where "P9_EXCL = 0x80"
definition P9_NOCTTY :: u32 where "P9_NOCTTY = 0x100"
definition P9_TRUNC :: u32 where "P9_TRUNC = 0x200"
definition P9_APPEND :: u32 where "P9_APPEND = 0x400"
definition P9_NONBLOCK :: u32 where "P9_NONBLOCK = 0x800"
definition P9_DSYNC :: u32 where "P9_DSYNC = 0x1000"
definition P9_FASYNC :: u32 where "P9_FASYNC = 0x2000"
definition P9_DIRECT :: u32 where "P9_DIRECT = 0x4000"
definition P9_LARGEFILE :: u32 where "P9_LARGEFILE = 0x8000"
definition P9_DIRECTORY :: u32 where "P9_DIRECTORY = 0x10000"
definition P9_NOFOLLOW :: u32 where "P9_NOFOLLOW = 0x20000"
definition P9_NOATIME :: u32 where "P9_NOATIME = 0x40000"
definition P9_SYNC :: u32 where "P9_SYNC = 0x100000"

lemmas p9_flags = P9_RDONLY_def P9_WRONLY_def P9_RDWR_def P9_NOACCESS_def P9_CREATE_def
  P9_EXCL_def P9_NOCTTY_def P9_TRUNC_def P9_APPEND_def P9_NONBLOCK_def P9_DSYNC_def
  P9_FASYNC_def P9_DIRECT_def P9_LARGEFILE_def P9_DIRECTORY_def P9_NOFOLLOW_def
  P9_NOATIME_def P9_SYNC_def

definition MAPPED_FLAGS :: "(u32 \<times> u32) list" where
  "MAPPED_FLAGS = [
     (P9_WRONLY, O_WRONLY), (P9_RDWR, O_RDWR), (P9_CREATE, O_CREAT), (P9_EXCL, O_EXCL),
     (P9_NOCTTY, O_NOCTTY), (P9_TRUNC, O_TRUNC), (P9_APPEND, O_APPEND),
     (P9_NONBLOCK, O_NONBLOCK), (P9_DSYNC, O_DSYNC), (P9_FASYNC, 0), (P9_DIRECT, O_DIRECT),
     (P9_LARGEFILE, O_LARGEFILE), (P9_DIRECTORY, O_DIRECTORY), (P9_NOFOLLOW, O_NOFOLLOW),
     (P9_NOATIME, O_NOATIME), (P9_SYNC, O_SYNC)]"

definition P9_QTDIR :: u8 where "P9_QTDIR = 0x80"
definition P9_QTSYMLINK :: u8 where "P9_QTSYMLINK = 0x02"
definition P9_QTFILE :: u8 where "P9_QTFILE = 0x00"

definition P9_GETATTR_BASIC :: u64 where "P9_GETATTR_BASIC = 0x7ff"

definition P9_SETATTR_MODE :: u32 where "P9_SETATTR_MODE = 0x1"
definition P9_SETATTR_UID :: u32 where "P9_SETATTR_UID = 0x2"
definition P9_SETATTR_GID :: u32 where "P9_SETATTR_GID = 0x4"
definition P9_SETATTR_SIZE :: u32 where "P9_SETATTR_SIZE = 0x8"
definition P9_SETATTR_ATIME :: u32 where "P9_SETATTR_ATIME = 0x10"
definition P9_SETATTR_MTIME :: u32 where "P9_SETATTR_MTIME = 0x20"
definition P9_SETATTR_CTIME :: u32 where "P9_SETATTR_CTIME = 0x40"
definition P9_SETATTR_ATIME_SET :: u32 where "P9_SETATTR_ATIME_SET = 0x80"
definition P9_SETATTR_MTIME_SET :: u32 where "P9_SETATTR_MTIME_SET = 0x100"

lemmas p9_setattr = P9_SETATTR_MODE_def P9_SETATTR_UID_def P9_SETATTR_GID_def
  P9_SETATTR_SIZE_def P9_SETATTR_ATIME_def P9_SETATTR_MTIME_def P9_SETATTR_CTIME_def
  P9_SETATTR_ATIME_SET_def P9_SETATTR_MTIME_SET_def

definition P9_LOCK_TYPE_UNLCK :: u8 where "P9_LOCK_TYPE_UNLCK = 2"
definition P9_LOCK_SUCCESS :: u8 where "P9_LOCK_SUCCESS = 0"

definition MIN_MESSAGE_SIZE :: u32 where "MIN_MESSAGE_SIZE = 256"
definition MAX_MESSAGE_SIZE :: u32 where "MAX_MESSAGE_SIZE = 64 * 1024 + 24"

subsection \<open>Fids, qids and errors\<close>

datatype file_type = Regular | Directory | OtherType

definition file_type_from :: "u32 \<Rightarrow> file_type" where
  "file_type_from mode =
    (if mode AND S_IFMT = S_IFREG then Regular
     else if mode AND S_IFMT = S_IFDIR then Directory
     else OtherType)"

record fid =
  fid_path :: fd
  fid_file :: "fd option"
  fid_filetype :: file_type

text \<open>Dropping a \<^verbatim>\<open>Fid\<close> drops its fields in declaration order.\<close>

definition fid_fds :: "fid \<Rightarrow> fd list" where
  "fid_fds f = fid_path f # (case fid_file f of Some d \<Rightarrow> [d] | None \<Rightarrow> [])"

definition drop_fid :: "'k kernel \<Rightarrow> fid \<Rightarrow> ('k, unit) io" where
  "drop_fid K f = close_all K (fid_fds f)"

definition qid_from :: "stat64 \<Rightarrow> Qid" where
  "qid_from st =
    \<lparr>qid_ty = (if st_mode st AND S_IFMT = S_IFDIR then P9_QTDIR
       else if st_mode st AND S_IFMT = S_IFREG then P9_QTFILE
       else if st_mode st AND S_IFMT = S_IFLNK then P9_QTSYMLINK
       else 0),
     qid_version = ucast (st_mtime st), qid_path = st_ino st\<rparr>"

definition errno_of_kind :: "error_kind \<Rightarrow> int" where
  "errno_of_kind k = (case k of
     NotFound \<Rightarrow> ENOENT | PermissionDenied \<Rightarrow> EPERM | ConnectionRefused \<Rightarrow> ECONNREFUSED
   | ConnectionReset \<Rightarrow> ECONNRESET | ConnectionAborted \<Rightarrow> ECONNABORTED | NotConnected \<Rightarrow> ENOTCONN
   | AddrInUse \<Rightarrow> EADDRINUSE | AddrNotAvailable \<Rightarrow> EADDRNOTAVAIL | BrokenPipe \<Rightarrow> EPIPE
   | AlreadyExists \<Rightarrow> EEXIST | WouldBlock \<Rightarrow> EWOULDBLOCK | InvalidInput \<Rightarrow> EINVAL
   | InvalidData \<Rightarrow> EINVAL | TimedOut \<Rightarrow> ETIMEDOUT | WriteZero \<Rightarrow> EIO | Interrupted \<Rightarrow> EINTR
   | OtherError \<Rightarrow> EIO | UnexpectedEof \<Rightarrow> EIO | UnlistedKind \<Rightarrow> EIO)"

definition error_to_rmessage :: "io_error \<Rightarrow> Rmessage" where
  "error_to_rmessage err =
    (let errno = (case err of Os e \<Rightarrow> e | Kinded k \<Rightarrow> errno_of_kind k)
     in Rmessage.Lerror \<lparr>rlerror_ecode = of_int errno\<rparr>)"

definition ebadf :: io_error where
  "ebadf = Os EBADF"

definition map_id_from_host :: "(u32, u32) btree_map \<Rightarrow> u32 \<Rightarrow> u32" where
  "map_id_from_host m i = (case bt_get m i of Some v \<Rightarrow> v | None \<Rightarrow> i)"

text \<open>\<^verbatim>\<open>opt.ok_or_else(|| e)?\<close>\<close>

definition ok_or :: "'a option \<Rightarrow> io_error \<Rightarrow> ('s, 'a) io" where
  "ok_or x e = (case x of Some a \<Rightarrow> io_return a | None \<Rightarrow> io_throw e)"

definition string_to_cstring :: "rust_string \<Rightarrow> cstring io_result" where
  "string_to_cstring s = (case cstring_new s of Some c \<Rightarrow> Ok c | None \<Rightarrow> Err (Os EINVAL))"

subsection \<open>File helpers\<close>

definition statat :: "'k kernel \<Rightarrow> fd \<Rightarrow> cstring \<Rightarrow> u32 \<Rightarrow> ('k, stat64) io" where
  "statat K d name flags =
     io_map sys_stat (syscall K (Fstatat d name (flags OR AT_SYMLINK_NOFOLLOW)))"

definition stat :: "'k kernel \<Rightarrow> fd \<Rightarrow> ('k, stat64) io" where
  "stat K f = statat K f [] AT_EMPTY_PATH"

definition lookup :: "'k kernel \<Rightarrow> fd \<Rightarrow> cstring \<Rightarrow> ('k, fd) io" where
  "lookup K parent name =
     io_map sys_res (syscall K (Openat parent name (O_PATH OR O_NOFOLLOW OR O_CLOEXEC) None))"

text \<open>The loop over \<^verbatim>\<open>MAPPED_FLAGS\<close> and the test for read-only access after it.\<close>

definition map_open_flags :: "u32 \<Rightarrow> u32 \<Rightarrow> u32" where
  "map_open_flags base p9 =
    (let flags = foldl (\<lambda>flags (p9f, f). if p9 AND p9f \<noteq> 0 then flags OR f else flags) base MAPPED_FLAGS
     in if p9 AND P9_NOACCESS = P9_RDONLY then flags OR O_RDONLY else flags)"

definition proc_self_fd :: "fd \<Rightarrow> rust_string" where
  "proc_self_fd f = ascii ''self/fd/'' @ int_digits f"

definition open_fid :: "'k kernel \<Rightarrow> fd \<Rightarrow> fd \<Rightarrow> u32 \<Rightarrow> ('k, fd) io" where
  "open_fid K proc path p9 =
     io_bind (io_result (string_to_cstring (proc_self_fd path))) (\<lambda>pathname.
     io_map sys_res (syscall K
       (Openat proc pathname (map_open_flags O_CLOEXEC p9 AND NOT O_NOFOLLOW) None)))"

definition ascii_lower :: "u8 \<Rightarrow> u8" where
  "ascii_lower b = (if 65 \<le> b \<and> b \<le> 90 then b + 32 else b)"

definition eq_ignore_ascii_case :: "u8 list \<Rightarrow> u8 list \<Rightarrow> bool" where
  "eq_ignore_ascii_case a b = (map ascii_lower a = map ascii_lower b)"

text \<open>
  The search loop of \<^verbatim>\<open>ascii_casefold_lookup\<close>: the name of the first entry that matches,
  if the directory ends.  \<open>None\<close> as the outcome of the partial function is a search that
  never ends, which only a directory without end can cause.
\<close>

partial_function (option) casefold_search ::
    "'k kernel \<Rightarrow> cstring \<Rightarrow> read_dir \<Rightarrow> 'k \<Rightarrow> (cstring option io_result \<times> 'k) option" where
  [code]: "casefold_search K name rd k =
    (case dir_next K rd k of
       (Ok (entry, rd'), k') \<Rightarrow>
         (case entry of
            None \<Rightarrow> Some (Ok None, k')
          | Some e \<Rightarrow> if eq_ignore_ascii_case name (de_name e) then Some (Ok (Some (de_name e)), k')
                      else casefold_search K name rd' k')
     | (Err e, k') \<Rightarrow> Some (Err e, k')
     | (Panic, k') \<Rightarrow> Some (Panic, k'))"

text \<open>As a call: a search that never ends is a call that does not return.\<close>

definition casefold_scan :: "'k kernel \<Rightarrow> cstring \<Rightarrow> read_dir \<Rightarrow> ('k, cstring option) io" where
  "casefold_scan K name rd = (\<lambda>k. case casefold_search K name rd k of
     Some (r, k') \<Rightarrow> (r, k') | None \<Rightarrow> (Panic, k))"

definition ascii_casefold_lookup :: "'k kernel \<Rightarrow> fd \<Rightarrow> fd \<Rightarrow> cstring \<Rightarrow> ('k, fd) io" where
  "ascii_casefold_lookup K proc parent name =
     io_bind (open_fid K proc parent P9_DIRECTORY) (\<lambda>dir.
     io_finally
       (io_bind (read_dir K dir 0) (\<lambda>rd.
        io_bind (casefold_scan K name rd) (\<lambda>found.
        case found of Some n \<Rightarrow> lookup K parent n | None \<Rightarrow> io_throw (Os ENOENT))))
       (close K dir))"

datatype maybe_owned = Borrowed fd | Owned fd

fun as_ref :: "maybe_owned \<Rightarrow> fd" where
  "as_ref (Borrowed f) = f"
| "as_ref (Owned f) = f"

fun drop_owned :: "'k kernel \<Rightarrow> maybe_owned \<Rightarrow> ('k, unit) io" where
  "drop_owned K (Borrowed f) = io_return ()"
| "drop_owned K (Owned f) = close K f"

text \<open>\<^verbatim>\<open>e.raw_os_error() == Some(ENOENT)\<close>\<close>

definition is_enoent :: "io_error \<Rightarrow> bool" where
  "is_enoent e = (e = Os ENOENT)"

text \<open>
  One round of the loop of \<^verbatim>\<open>do_walk\<close>: the next component and its attributes.  The
  directory it was looked up in is dropped on every exit when it was opened by the walk.
\<close>

definition walk_step ::
    "'k kernel \<Rightarrow> fd \<Rightarrow> bool \<Rightarrow> maybe_owned \<Rightarrow> rust_string \<Rightarrow> ('k, fd \<times> stat64) io" where
  "walk_step K proc casefold current wname =
     io_bind
       (io_finally
          (io_bind (io_result (string_to_cstring wname)) (\<lambda>name.
           io_or_else (lookup K (as_ref current) name) (\<lambda>e.
             if casefold \<and> is_enoent e then ascii_casefold_lookup K proc (as_ref current) name
             else io_throw e)))
          (drop_owned K current)) (\<lambda>new.
     io_bind (io_on_error (stat K new) (close K new)) (\<lambda>st.
     io_return (new, st)))"

text \<open>
  The attributes pushed to \<^verbatim>\<open>mds\<close> survive an error, so the walk returns them beside its
  result.
\<close>

fun walk_loop :: "'k kernel \<Rightarrow> fd \<Rightarrow> bool \<Rightarrow> rust_string list \<Rightarrow> maybe_owned \<Rightarrow> stat64 list
    \<Rightarrow> ('k, maybe_owned io_result \<times> stat64 list) io" where
  "walk_loop K proc casefold [] current mds = io_return (Ok current, mds)"
| "walk_loop K proc casefold (wname # wnames) current mds =
     io_bind (io_attempt (walk_step K proc casefold current wname)) (\<lambda>r. case r of
       Ok (new, st) \<Rightarrow> walk_loop K proc casefold wnames (Owned new) (mds @ [st])
     | Err e \<Rightarrow> io_return (Err e, mds)
     | Panic \<Rightarrow> io_panic)"

definition try_clone :: "'k kernel \<Rightarrow> fd \<Rightarrow> ('k, fd) io" where
  "try_clone K f = io_map sys_res (syscall K (Dupfd_cloexec f))"

definition do_walk :: "'k kernel \<Rightarrow> fd \<Rightarrow> rust_string list \<Rightarrow> fd \<Rightarrow> bool
    \<Rightarrow> ('k, fd io_result \<times> stat64 list) io" where
  "do_walk K proc wnames start casefold =
     io_bind (walk_loop K proc casefold wnames (Borrowed start) []) (\<lambda>(r, mds). case r of
       Ok (Owned owned) \<Rightarrow> io_return (Ok owned, mds)
     | Ok (Borrowed borrowed) \<Rightarrow> io_map (\<lambda>r. (r, mds)) (io_attempt (try_clone K borrowed))
     | Err e \<Rightarrow> io_return (Err e, mds)
     | Panic \<Rightarrow> io_panic)"

subsection \<open>Configuration\<close>

record config =
  cfg_root :: "u8 list"
  cfg_msize :: u32
  cfg_uid_map :: "(u32, u32) btree_map"
  cfg_gid_map :: "(u32, u32) btree_map"
  cfg_ascii_casefold :: bool

definition config_default :: config where
  "config_default = \<lparr>cfg_root = ascii ''/'', cfg_msize = MAX_MESSAGE_SIZE, cfg_uid_map = bt_new,
     cfg_gid_map = bt_new, cfg_ascii_casefold = False\<rparr>"

text \<open>\<^verbatim>\<open>str::split\<close> at a one-byte separator, and \<^verbatim>\<open>splitn(2, sep)\<close>.\<close>

fun split_at :: "u8 \<Rightarrow> u8 list \<Rightarrow> u8 list list" where
  "split_at sep [] = [[]]"
| "split_at sep (b # s) =
    (if b = sep then [] # split_at sep s
     else case split_at sep s of [] \<Rightarrow> [[b]] | p # ps \<Rightarrow> (b # p) # ps)"

definition splitn2 :: "u8 \<Rightarrow> u8 list \<Rightarrow> u8 list \<times> u8 list option" where
  "splitn2 sep s = (case dropWhile (\<lambda>b. b \<noteq> sep) s of
     [] \<Rightarrow> (s, None) | _ # rest \<Rightarrow> (takeWhile (\<lambda>b. b \<noteq> sep) s, Some rest))"

definition parse_bool :: "u8 list \<Rightarrow> bool option" where
  "parse_bool s = (if s = ascii ''true'' then Some True
     else if s = ascii ''false'' then Some False else None)"

datatype config_error = NotKindValue | CasefoldNotBoolean | UnrecognizedOption

fun config_options :: "u8 list list \<Rightarrow> config \<Rightarrow> config_error + config" where
  "config_options [] cfg = Inr cfg"
| "config_options (opt # opts) cfg =
    (case splitn2 61 opt of
       (kind, None) \<Rightarrow> Inl NotKindValue
     | (kind, Some value) \<Rightarrow>
        if kind = ascii ''ascii_casefold'' then
          (case parse_bool value of
             None \<Rightarrow> Inl CasefoldNotBoolean
           | Some b \<Rightarrow> config_options opts (cfg\<lparr>cfg_ascii_casefold := b\<rparr>))
        else Inl UnrecognizedOption)"

definition config_from_str :: "rust_string \<Rightarrow> config_error + config" where
  "config_from_str params =
    (if params = [] then Inr config_default else config_options (split_at 58 params) config_default)"

end
