(* ===== verification/Server_Ops.thy ===== *)
theory Server_Ops
  imports Server_Core
begin

text \<open>
  The state of \<^verbatim>\<open>Server\<close> and its request handlers, one definition per method, each
  with all its system calls, early returns and the descriptors it drops on the way out.
  A handler runs in the server together with the kernel's state.
\<close>

record server =
  srv_fids :: "(u32, fid) btree_map"
  srv_proc :: fd
  srv_cfg :: config

type_synonym ('k, 'a) handler = "(server \<times> 'k, 'a) io"

definition on_kernel :: "('k, 'a) io \<Rightarrow> ('k, 'a) handler" where
  "on_kernel m = (\<lambda>(sv, k). case m k of (r, k') \<Rightarrow> (r, (sv, k')))"

definition get_server :: "('k, server) handler" where
  "get_server = (\<lambda>(sv, k). (Ok sv, (sv, k)))"

definition put_fids :: "(u32, fid) btree_map \<Rightarrow> ('k, unit) handler" where
  "put_fids m = (\<lambda>(sv, k). (Ok (), (sv\<lparr>srv_fids := m\<rparr>, k)))"

definition put_msize :: "u32 \<Rightarrow> ('k, unit) handler" where
  "put_msize n = (\<lambda>(sv, k). (Ok (), (sv\<lparr>srv_cfg := srv_cfg sv\<lparr>cfg_msize := n\<rparr>\<rparr>, k)))"

lemma wp_on_kernel [wp_rules]:
  "wp (on_kernel m) Q E X (sv, k) = wp m (\<lambda>x t. Q x (sv, t)) (\<lambda>e t. E e (sv, t)) (\<lambda>t. X (sv, t)) k"
  by (auto simp: wp_def on_kernel_def split: prod.splits io_result.splits)

lemma wp_get_server [wp_rules]: "wp get_server Q E X (sv, k) = Q sv (sv, k)"
  by (simp add: wp_def get_server_def)

lemma wp_put_fids [wp_rules]: "wp (put_fids m) Q E X (sv, k) = Q () (sv\<lparr>srv_fids := m\<rparr>, k)"
  by (simp add: wp_def put_fids_def)

lemma wp_put_msize [wp_rules]:
  "wp (put_msize n) Q E X (sv, k) = Q () (sv\<lparr>srv_cfg := srv_cfg sv\<lparr>cfg_msize := n\<rparr>\<rparr>, k)"
  by (simp add: wp_def put_msize_def)

text \<open>The fid a request names, or \<^verbatim>\<open>EBADF\<close>; and its open file, or \<^verbatim>\<open>EBADF\<close>.\<close>

definition get_fid :: "u32 \<Rightarrow> ('k, fid) handler" where
  "get_fid n = io_bind get_server (\<lambda>sv. ok_or (bt_get (srv_fids sv) n) ebadf)"

definition get_file :: "u32 \<Rightarrow> ('k, fd) handler" where
  "get_file n = io_bind get_server (\<lambda>sv.
     ok_or (case bt_get (srv_fids sv) n of Some f \<Rightarrow> fid_file f | None \<Rightarrow> None) ebadf)"

text \<open>
  Storing a fid under its number: a fid that was there is dropped.  Assigning the open file or
  the path of a fid drops the old descriptor.
\<close>

definition insert_fid :: "'k kernel \<Rightarrow> u32 \<Rightarrow> fid \<Rightarrow> ('k, unit) handler" where
  "insert_fid K n f = io_bind get_server (\<lambda>sv.
     io_bind (put_fids (bt_insert (srv_fids sv) n f)) (\<lambda>_.
     case bt_get (srv_fids sv) n of Some old \<Rightarrow> on_kernel (drop_fid K old) | None \<Rightarrow> io_return ()))"

definition set_fid :: "u32 \<Rightarrow> fid \<Rightarrow> ('k, unit) handler" where
  "set_fid n f = io_bind get_server (\<lambda>sv. put_fids (bt_insert (srv_fids sv) n f))"

definition assign_file :: "'k kernel \<Rightarrow> u32 \<Rightarrow> fid \<Rightarrow> fd \<Rightarrow> ('k, fid) handler" where
  "assign_file K n f file =
     io_bind (set_fid n (f\<lparr>fid_file := Some file\<rparr>)) (\<lambda>_.
     io_bind (on_kernel (close_all K (case fid_file f of Some old \<Rightarrow> [old] | None \<Rightarrow> []))) (\<lambda>_.
     io_return (f\<lparr>fid_file := Some file\<rparr>)))"

subsection \<open>Sessions and fids\<close>

definition auth :: "'k kernel \<Rightarrow> Tauth \<Rightarrow> ('k, Rauth) handler" where
  "auth K m = io_throw (Os EOPNOTSUPP)"

definition attach :: "'k kernel \<Rightarrow> Tattach \<Rightarrow> ('k, Rattach) handler" where
  "attach K m = io_bind get_server (\<lambda>sv.
     case bt_get (srv_fids sv) (tattach_fid m) of
       Some _ \<Rightarrow> io_throw (Os EBADF)
     | None \<Rightarrow>
         io_bind (ok_or (cstring_new (cfg_root (srv_cfg sv))) (Kinded InvalidData)) (\<lambda>root.
         io_bind (on_kernel (io_map sys_res (syscall K
            (Openat AT_FDCWD root (O_PATH OR O_NOFOLLOW OR O_CLOEXEC) None)))) (\<lambda>root_path.
         io_bind (on_kernel (io_on_error (stat K root_path) (close K root_path))) (\<lambda>st.
         io_bind (insert_fid K (tattach_fid m)
            \<lparr>fid_path = root_path, fid_file = None, fid_filetype = file_type_from (st_mode st)\<rparr>) (\<lambda>_.
         io_return \<lparr>rattach_qid = qid_from st\<rparr>)))))"

definition clear_fids :: "'k kernel \<Rightarrow> ('k, unit) handler" where
  "clear_fids K = io_bind get_server (\<lambda>sv.
     io_bind (put_fids bt_new) (\<lambda>_.
     on_kernel (close_all K (concat (map fid_fds (bt_values (srv_fids sv)))))))"

definition version :: "'k kernel \<Rightarrow> Tversion \<Rightarrow> ('k, Rversion) handler" where
  "version K m =
    (if tversion_msize m < MIN_MESSAGE_SIZE then io_throw (Os EINVAL)
     else io_bind (clear_fids K) (\<lambda>_.
       io_bind get_server (\<lambda>sv.
       let msize = min (cfg_msize (srv_cfg sv)) (tversion_msize m) in
       io_bind (put_msize msize) (\<lambda>_.
       io_return \<lparr>rversion_msize = msize,
         rversion_version = (if tversion_version m = ascii ''9P2000.L'' then ascii ''9P2000.L''
           else ascii ''unknown'')\<rparr>))))"

definition flush :: "'k kernel \<Rightarrow> Tflush \<Rightarrow> ('k, unit) handler" where
  "flush K m = io_return ()"

definition walk :: "'k kernel \<Rightarrow> Twalk \<Rightarrow> ('k, Rwalk) handler" where
  "walk K m = io_bind get_server (\<lambda>sv.
     if twalk_fid m \<noteq> twalk_newfid m \<and> bt_contains_key (srv_fids sv) (twalk_newfid m)
     then io_throw (Os EBADF)
     else io_bind (get_fid (twalk_fid m)) (\<lambda>start.
       io_bind (on_kernel (do_walk K (srv_proc sv) (twalk_wnames m) (fid_path start)
          (cfg_ascii_casefold (srv_cfg sv)))) (\<lambda>(r, mds).
       io_bind (case r of
           Ok end \<Rightarrow>
             if length mds = length (twalk_wnames m) then
               io_bind (case mds of
                   [] \<Rightarrow> on_kernel (io_on_error (stat K end) (close K end))
                 | _ \<Rightarrow> io_return (last mds)) (\<lambda>st.
               insert_fid K (twalk_newfid m)
                 \<lparr>fid_path = end, fid_file = None, fid_filetype = file_type_from (st_mode st)\<rparr>)
             else on_kernel (close K end)
         | Err e \<Rightarrow> if mds = [] then io_throw e else io_return ()
         | Panic \<Rightarrow> io_panic) (\<lambda>_.
       io_return \<lparr>rwalk_wqids = map qid_from mds\<rparr>))))"

definition clunk :: "'k kernel \<Rightarrow> Tclunk \<Rightarrow> ('k, unit) handler" where
  "clunk K m = io_bind get_server (\<lambda>sv.
     case bt_get (srv_fids sv) (tclunk_fid m) of
       None \<Rightarrow> io_throw (Os EBADF)
     | Some f \<Rightarrow>
         io_bind (put_fids (bt_remove (srv_fids sv) (tclunk_fid m))) (\<lambda>_.
         on_kernel (drop_fid K f)))"

definition remove :: "'k kernel \<Rightarrow> Tremove \<Rightarrow> ('k, unit) handler" where
  "remove K m = io_throw (Os EOPNOTSUPP)"

subsection \<open>Reading and writing\<close>

definition read_op :: "'k kernel \<Rightarrow> Tread \<Rightarrow> ('k, Rread) handler" where
  "read_op K m = io_bind (get_file (tread_fid m)) (\<lambda>file.
     io_bind get_server (\<lambda>sv.
     let header_size = rframe_byte_size
           \<lparr>rframe_tag = 0, rframe_msg = Rmessage.Read \<lparr>rread_data = []\<rparr>\<rparr>;
         capacity = unat (min (cfg_msize (srv_cfg sv) - header_size) (tread_count m))
     in io_bind (on_kernel (syscall K (Pread file capacity (tread_offset m)))) (\<lambda>r.
        io_return \<lparr>rread_data = take (nat (sys_res r)) (fill (replicate capacity 0) (sys_buf r))\<rparr>)))"

definition write_op :: "'k kernel \<Rightarrow> Twrite \<Rightarrow> ('k, Rwrite) handler" where
  "write_op K m = io_bind (get_file (twrite_fid m)) (\<lambda>file.
     io_bind (on_kernel (syscall K (Pwrite file (twrite_data m) (twrite_offset m)))) (\<lambda>r.
     io_return \<lparr>rwrite_count = of_int (sys_res r)\<rparr>))"

definition statfs :: "'k kernel \<Rightarrow> Tstatfs \<Rightarrow> ('k, Rstatfs) handler" where
  "statfs K m = io_bind (get_fid (tstatfs_fid m)) (\<lambda>f.
     io_bind (on_kernel (syscall K (Fstatfs (fid_path f)))) (\<lambda>r.
     let out = sys_statfs r in
     io_return \<lparr>rstatfs_ty = ucast (f_type out), rstatfs_bsize = ucast (f_bsize out),
       rstatfs_blocks = f_blocks out, rstatfs_bfree = f_bfree out, rstatfs_bavail = f_bavail out,
       rstatfs_files = f_files out, rstatfs_ffree = f_ffree out,
       rstatfs_fsid = ucast (f_fsid_0 out) OR push_bit 32 (ucast (f_fsid_1 out)),
       rstatfs_namelen = ucast (f_namelen out)\<rparr>))"

definition lopen :: "'k kernel \<Rightarrow> Tlopen \<Rightarrow> ('k, Rlopen) handler" where
  "lopen K m = io_bind (get_fid (tlopen_fid m)) (\<lambda>f.
     io_bind get_server (\<lambda>sv.
     io_bind (on_kernel (open_fid K (srv_proc sv) (fid_path f) (tlopen_flags m))) (\<lambda>file.
     io_bind (on_kernel (io_on_error (stat K file) (close K file))) (\<lambda>st.
     io_bind (assign_file K (tlopen_fid m) f file) (\<lambda>_.
     io_return \<lparr>rlopen_qid = qid_from st, rlopen_iounit = 0\<rparr>)))))"

definition lcreate :: "'k kernel \<Rightarrow> Tlcreate \<Rightarrow> ('k, Rlcreate) handler" where
  "lcreate K m = io_bind (get_fid (tlcreate_fid m)) (\<lambda>f.
     if fid_filetype f \<noteq> Directory then io_throw (Os ENOTDIR)
     else
       let flags = map_open_flags (O_CLOEXEC OR O_CREAT OR O_EXCL) (tlcreate_flags m) in
       io_bind (io_result (string_to_cstring (tlcreate_name m))) (\<lambda>name.
       io_bind (on_kernel (io_map sys_res (syscall K
          (Openat (fid_path f) name flags (Some (tlcreate_mode m)))))) (\<lambda>file.
       io_bind (on_kernel (io_on_error (stat K file) (close K file))) (\<lambda>st.
       io_bind (assign_file K (tlcreate_fid m) f file) (\<lambda>f'.
       io_bind (set_fid (tlcreate_fid m) (f'\<lparr>fid_filetype := Regular\<rparr>)) (\<lambda>_.
       io_bind (on_kernel (lookup K (fid_path f) name)) (\<lambda>path.
       io_bind (set_fid (tlcreate_fid m) (f'\<lparr>fid_filetype := Regular, fid_path := path\<rparr>)) (\<lambda>_.
       io_bind (on_kernel (close K (fid_path f))) (\<lambda>_.
       io_return \<lparr>rlcreate_qid = qid_from st, rlcreate_iounit = 0\<rparr>)))))))))"

definition symlink :: "'k kernel \<Rightarrow> Tsymlink \<Rightarrow> ('k, Rsymlink) handler" where
  "symlink K m = io_throw (Os EACCES)"

definition mknod :: "'k kernel \<Rightarrow> Tmknod \<Rightarrow> ('k, Rmknod) handler" where
  "mknod K m = io_throw (Os EACCES)"

definition rename :: "'k kernel \<Rightarrow> Trename \<Rightarrow> ('k, unit) handler" where
  "rename K m = io_throw (Os EOPNOTSUPP)"

definition readlink :: "'k kernel \<Rightarrow> Treadlink \<Rightarrow> ('k, Rreadlink) handler" where
  "readlink K m = io_bind (get_fid (treadlink_fid m)) (\<lambda>f.
     io_bind (on_kernel (syscall K (Readlinkat (fid_path f) [] PATH_MAX))) (\<lambda>r.
     io_bind (ok_or (string_from_utf8
        (take (nat (sys_res r)) (fill (replicate PATH_MAX 0) (sys_buf r)))) (Kinded InvalidData)) (\<lambda>target.
     io_return \<lparr>rreadlink_target = target\<rparr>)))"

subsection \<open>Attributes\<close>

definition get_attr :: "'k kernel \<Rightarrow> Tgetattr \<Rightarrow> ('k, Rgetattr) handler" where
  "get_attr K m = io_bind (get_fid (tgetattr_fid m)) (\<lambda>f.
     io_bind get_server (\<lambda>sv.
     io_bind (on_kernel (stat K (fid_path f))) (\<lambda>st.
     io_return \<lparr>rgetattr_valid = P9_GETATTR_BASIC, rgetattr_qid = qid_from st,
       rgetattr_mode = st_mode st,
       rgetattr_uid = map_id_from_host (cfg_uid_map (srv_cfg sv)) (st_uid st),
       rgetattr_gid = map_id_from_host (cfg_gid_map (srv_cfg sv)) (st_gid st),
       rgetattr_nlink = st_nlink st, rgetattr_rdev = st_rdev st, rgetattr_size = st_size st,
       rgetattr_blksize = st_blksize st, rgetattr_blocks = st_blocks st,
       rgetattr_atime_sec = st_atime st, rgetattr_atime_nsec = st_atime_nsec st,
       rgetattr_mtime_sec = st_mtime st, rgetattr_mtime_nsec = st_mtime_nsec st,
       rgetattr_ctime_sec = st_ctime st, rgetattr_ctime_nsec = st_ctime_nsec st,
       rgetattr_btime_sec = 0, rgetattr_btime_nsec = 0, rgetattr_gen = 0,
       rgetattr_data_version = 0\<rparr>)))"

text \<open>\<^verbatim>\<open>File::set_len\<close>: a size that is no \<^verbatim>\<open>off64_t\<close> is refused.\<close>

definition set_len :: "'k kernel \<Rightarrow> fd \<Rightarrow> u64 \<Rightarrow> ('k, unit) io" where
  "set_len K file len =
    (if unat len \<ge> 2 ^ 63 then io_throw (Kinded InvalidInput)
     else io_map (\<lambda>_. ()) (syscall K (Ftruncate file len)))"

text \<open>The steps of \<^verbatim>\<open>set_attr\<close>, in its order.\<close>

definition set_attr_mode :: "'k kernel \<Rightarrow> fd \<Rightarrow> cstring \<Rightarrow> Tsetattr \<Rightarrow> ('k, unit) io" where
  "set_attr_mode K proc path m =
    (if tsetattr_valid m AND P9_SETATTR_MODE \<noteq> 0
     then io_map (\<lambda>_. ()) (syscall K (Fchmodat proc path (tsetattr_mode m) 0))
     else io_return ())"

definition set_attr_owner :: "'k kernel \<Rightarrow> fd \<Rightarrow> cstring \<Rightarrow> Tsetattr \<Rightarrow> ('k, unit) io" where
  "set_attr_owner K proc path m =
    (if tsetattr_valid m AND (P9_SETATTR_UID OR P9_SETATTR_GID) \<noteq> 0
     then let uid = (if tsetattr_valid m AND P9_SETATTR_UID \<noteq> 0 then tsetattr_uid m else - 1);
              gid = (if tsetattr_valid m AND P9_SETATTR_GID \<noteq> 0 then tsetattr_gid m else - 1)
          in io_map (\<lambda>_. ()) (syscall K (Fchownat proc path uid gid 0))
     else io_return ())"

definition set_attr_size :: "'k kernel \<Rightarrow> fd \<Rightarrow> fid \<Rightarrow> Tsetattr \<Rightarrow> ('k, unit) io" where
  "set_attr_size K proc f m =
    (if tsetattr_valid m AND P9_SETATTR_SIZE \<noteq> 0
     then if fid_filetype f = Directory then io_throw (Os EISDIR)
       else case fid_file f of
         Some file \<Rightarrow> set_len K file (tsetattr_size m)
       | None \<Rightarrow> io_bind (open_fid K proc (fid_path f) (P9_NONBLOCK OR P9_RDWR)) (\<lambda>file.
           io_finally (set_len K file (tsetattr_size m)) (close K file))
     else io_return ())"

definition set_attr_times :: "'k kernel \<Rightarrow> fd \<Rightarrow> cstring \<Rightarrow> Tsetattr \<Rightarrow> ('k, unit) io" where
  "set_attr_times K proc path m =
    (let valid = tsetattr_valid m in
     if valid AND (P9_SETATTR_ATIME OR P9_SETATTR_MTIME) \<noteq> 0
     then io_map (\<lambda>_. ()) (syscall K (Utimensat proc path
       \<lparr>tv_sec = tsetattr_atime_sec m,
        tv_nsec = (if valid AND P9_SETATTR_ATIME = 0 then UTIME_OMIT
          else if valid AND P9_SETATTR_ATIME_SET = 0 then UTIME_NOW
          else tsetattr_atime_nsec m)\<rparr>
       \<lparr>tv_sec = tsetattr_mtime_sec m,
        tv_nsec = (if valid AND P9_SETATTR_MTIME = 0 then UTIME_OMIT
          else if valid AND P9_SETATTR_MTIME_SET = 0 then UTIME_NOW
          else tsetattr_mtime_nsec m)\<rparr>
       0))
     else io_return ())"

definition set_attr_ctime :: "'k kernel \<Rightarrow> fd \<Rightarrow> cstring \<Rightarrow> Tsetattr \<Rightarrow> ('k, unit) io" where
  "set_attr_ctime K proc path m =
    (if tsetattr_valid m AND P9_SETATTR_CTIME \<noteq> 0 \<and> tsetattr_valid m AND NOT P9_SETATTR_CTIME = 0
     then io_map (\<lambda>_. ()) (syscall K (Fchownat proc path (- 1) (- 1) 0))
     else io_return ())"

definition set_attr :: "'k kernel \<Rightarrow> Tsetattr \<Rightarrow> ('k, unit) handler" where
  "set_attr K m = io_bind (get_fid (tsetattr_fid m)) (\<lambda>f.
     io_bind get_server (\<lambda>sv.
     let proc = srv_proc sv in
     io_bind (io_result (string_to_cstring (proc_self_fd (fid_path f)))) (\<lambda>path.
     io_bind (on_kernel (set_attr_mode K proc path m)) (\<lambda>_.
     io_bind (on_kernel (set_attr_owner K proc path m)) (\<lambda>_.
     io_bind (on_kernel (set_attr_size K proc f m)) (\<lambda>_.
     io_bind (on_kernel (set_attr_times K proc path m)) (\<lambda>_.
     on_kernel (set_attr_ctime K proc path m))))))))"

definition xattr_walk :: "'k kernel \<Rightarrow> Txattrwalk \<Rightarrow> ('k, Rxattrwalk) handler" where
  "xattr_walk K m = io_throw (Os EOPNOTSUPP)"

definition xattr_create :: "'k kernel \<Rightarrow> Txattrcreate \<Rightarrow> ('k, unit) handler" where
  "xattr_create K m = io_throw (Os EOPNOTSUPP)"

subsection \<open>Directories\<close>

text \<open>
  Appending one entry to the listing, if it still fits in the room that was asked for
  (\<^verbatim>\<open>Vec::with_capacity\<close> gives a byte vector that capacity); and one round of the
  loop: \<open>None\<close> ends it, at the end of the directory or of the room.
\<close>

definition readdir_append :: "nat \<Rightarrow> Dirent \<Rightarrow> u8 list \<Rightarrow> u8 list option io_result" where
  "readdir_append count entry cursor =
    (if count - length cursor < unat (byte_size wire_Dirent entry) then Ok None
     else case encode wire_Dirent entry cursor of
       (Ok _, cursor') \<Rightarrow> Ok (Some cursor')
     | (Err e, _) \<Rightarrow> Err e
     | (Panic, _) \<Rightarrow> Panic)"

definition readdir_entry :: "'k kernel \<Rightarrow> fd \<Rightarrow> nat \<Rightarrow> u8 list \<Rightarrow> dir_entry \<Rightarrow> ('k, u8 list option) io" where
  "readdir_entry K path count cursor d =
     io_bind (statat K path (de_name d) 0) (\<lambda>st.
     io_bind (ok_or (string_from_utf8 (de_name d)) (Kinded InvalidData)) (\<lambda>name.
     io_result (readdir_append count \<lparr>dirent_qid = qid_from st, dirent_offset = de_offset d,
       dirent_ty = de_type d, dirent_name = name\<rparr> cursor)))"

definition readdir_step :: "'k kernel \<Rightarrow> fd \<Rightarrow> nat \<Rightarrow> read_dir \<Rightarrow> u8 list
    \<Rightarrow> ('k, (read_dir \<times> u8 list) option) io" where
  "readdir_step K path count rd cursor =
     io_bind (dir_next K rd) (\<lambda>(dirent, rd'). case dirent of
       None \<Rightarrow> io_return None
     | Some d \<Rightarrow> io_map (map_option (Pair rd')) (readdir_entry K path count cursor d))"

lemma Dirent_encode_Ok:
  assumes "encode wire_Dirent e out = (Ok (), out')" and "utf8_valid (dirent_name e)"
  shows "wf_Dirent e \<and> out' = out @ bytes_Dirent e"
proof -
  have "\<not> length (dirent_name e) > 0xFFFF"
  proof
    assume "length (dirent_name e) > 0xFFFF"
    then have "encode wire_string (dirent_name e) s = (Err (Kinded InvalidInput), s)" for s
      by (simp add: wire_string_def string_encode_def io_throw_apply)
    then have "fst (encode wire_Dirent e out) \<noteq> Ok ()"
      by (auto simp: wire_Dirent_def wire_struct_def wire_pair_def io_apply split: prod.splits io_result.splits)
    with assms(1) show False by simp
  qed
  with assms(2) have "wf_Dirent e" by (simp add: wf_Dirent_def wf_string_def wf_Qid_def)
  with assms(1) show ?thesis by (simp add: Dirent.encode_wf)
qed

lemma length_bytes_Dirent: "length (bytes_Dirent e) = 24 + length (dirent_name e)"
  by (simp add: bytes_Dirent_def bytes_Qid_def string_bytes_def)

lemma Dirent_byte_size_nat: "wf_Dirent e \<Longrightarrow> unat (byte_size wire_Dirent e) = length (bytes_Dirent e)"
  by (simp add: Dirent.byte_size_wf length_bytes_Dirent wf_Dirent_def wf_string_def unat_of_nat_u32
      del: of_nat_add)

lemma readdir_append_Some:
  assumes "readdir_append count e cursor = Ok (Some cursor')" and "utf8_valid (dirent_name e)"
  shows "wf_Dirent e \<and> cursor' = cursor @ bytes_Dirent e
    \<and> length (bytes_Dirent e) \<le> count - length cursor"
proof -
  from assms(1) have "encode wire_Dirent e cursor = (Ok (), cursor')"
    and "unat (byte_size wire_Dirent e) \<le> count - length cursor"
    by (auto simp: readdir_append_def split: if_splits prod.splits io_result.splits)
  with Dirent_encode_Ok [OF this(1) assms(2)] show ?thesis by (simp add: Dirent_byte_size_nat)
qed

lemma readdir_entry_Some:
  assumes "readdir_entry K path count cursor d k = (Ok (Some cursor'), k')"
  shows "\<exists>e. wf_Dirent e \<and> cursor' = cursor @ bytes_Dirent e
    \<and> length (bytes_Dirent e) \<le> count - length cursor"
proof (cases "utf8_valid (de_name d)")
  case True
  with assms obtain q where "readdir_append count \<lparr>dirent_qid = q, dirent_offset = de_offset d,
      dirent_ty = de_type d, dirent_name = de_name d\<rparr> cursor = Ok (Some cursor')"
    by (auto simp: readdir_entry_def io_bind_eq_Ok io_return_apply io_result_apply ok_or_def string_from_utf8_def)
  from readdir_append_Some [OF this] True show ?thesis by auto
qed (use assms in \<open>simp add: readdir_entry_def io_bind_eq_Ok io_throw_apply ok_or_def string_from_utf8_def\<close>)

text \<open>A round that goes on appends one encoded entry, within the room.\<close>

lemma readdir_step_grows:
  assumes "readdir_step K path count rd cursor k = (Ok (Some (rd', cursor')), k')"
  shows "\<exists>e. wf_Dirent e \<and> cursor' = cursor @ bytes_Dirent e
    \<and> length (bytes_Dirent e) \<le> count - length cursor"
proof -
  from assms obtain t d where "readdir_entry K path count cursor d t = (Ok (Some cursor'), k')"
    by (auto simp: readdir_step_def io_bind_eq_Ok io_map_def io_return_apply split: option.split_asm)
  then show ?thesis by (rule readdir_entry_Some)
qed

function readdir_loop ::
    "'k kernel \<Rightarrow> fd \<Rightarrow> nat \<Rightarrow> read_dir \<Rightarrow> u8 list \<Rightarrow> 'k \<Rightarrow> u8 list io_result \<times> 'k" where
  "readdir_loop K path count rd cursor k =
    (case readdir_step K path count rd cursor k of
       (Ok None, k') \<Rightarrow> (Ok cursor, k')
     | (Ok (Some (rd', cursor')), k') \<Rightarrow> readdir_loop K path count rd' cursor' k'
     | (Err e, k') \<Rightarrow> (Err e, k')
     | (Panic, k') \<Rightarrow> (Panic, k'))"
  by pat_completeness auto

termination
proof (relation "measure (\<lambda>(K, path, count, rd, cursor, k). count - length cursor)", goal_cases)
  case (2 K path count rd cursor k r k' a p rd' cursor')
  then obtain e where "cursor' = cursor @ bytes_Dirent e" "length (bytes_Dirent e) \<le> count - length cursor"
    using readdir_step_grows [of K path count rd cursor k rd' cursor' k'] by auto
  then show ?case using length_bytes_Dirent [of e] by simp
qed simp

declare readdir_loop.simps [simp del]

definition readdir :: "'k kernel \<Rightarrow> Treaddir \<Rightarrow> ('k, Rreaddir) handler" where
  "readdir K m = io_bind (get_fid (treaddir_fid m)) (\<lambda>f.
     if fid_filetype f \<noteq> Directory then io_throw (Os ENOTDIR)
     else io_bind get_server (\<lambda>sv.
       let header_size = rframe_byte_size
             \<lparr>rframe_tag = 0, rframe_msg = Rmessage.Readdir \<lparr>rreaddir_data = []\<rparr>\<rparr>;
           count = unat (min (cfg_msize (srv_cfg sv) - header_size) (treaddir_count m))
       in io_bind (ok_or (fid_file f) ebadf) (\<lambda>dir.
          io_bind (on_kernel (read_dir K dir (treaddir_offset m))) (\<lambda>rd.
          io_bind (on_kernel (readdir_loop K (fid_path f) count rd [])) (\<lambda>bytes.
          io_return \<lparr>rreaddir_data = bytes\<rparr>)))))"

definition fsync :: "'k kernel \<Rightarrow> Tfsync \<Rightarrow> ('k, unit) handler" where
  "fsync K m = io_bind (get_file (tfsync_fid m)) (\<lambda>file.
     io_map (\<lambda>_. ()) (on_kernel (syscall K
       (if tfsync_datasync m = 0 then syscall.Fsync file else Fdatasync file))))"

definition lock :: "'k kernel \<Rightarrow> Tlock \<Rightarrow> ('k, Rlock) handler" where
  "lock K m = io_bind (get_file (tlock_fid m)) (\<lambda>file.
     io_bind (on_kernel (syscall K (Fstat file))) (\<lambda>_.
     io_return \<lparr>rlock_status = P9_LOCK_SUCCESS\<rparr>))"

definition get_lock :: "'k kernel \<Rightarrow> Tgetlock \<Rightarrow> ('k, Rgetlock) handler" where
  "get_lock K m = io_bind (get_file (tgetlock_fid m)) (\<lambda>file.
     io_bind (on_kernel (syscall K (Fstat file))) (\<lambda>_.
     io_return \<lparr>rgetlock_type = P9_LOCK_TYPE_UNLCK, rgetlock_start = tgetlock_start m,
       rgetlock_length = tgetlock_length m, rgetlock_proc_id = tgetlock_proc_id m,
       rgetlock_client_id = tgetlock_client_id m\<rparr>))"

subsection \<open>Names\<close>

definition link_op :: "'k kernel \<Rightarrow> Tlink \<Rightarrow> ('k, unit) handler" where
  "link_op K m = io_bind (get_fid (tlink_fid m)) (\<lambda>target.
     io_bind (io_result (string_to_cstring (proc_self_fd (fid_path target)))) (\<lambda>path.
     io_bind (get_fid (tlink_dfid m)) (\<lambda>dir.
     io_bind (io_result (string_to_cstring (tlink_name m))) (\<lambda>name.
     io_bind get_server (\<lambda>sv.
     io_map (\<lambda>_. ()) (on_kernel (syscall K
       (Linkat (srv_proc sv) path (fid_path dir) name AT_SYMLINK_FOLLOW))))))))"

definition mkdir :: "'k kernel \<Rightarrow> Tmkdir \<Rightarrow> ('k, Rmkdir) handler" where
  "mkdir K m = io_bind (get_fid (tmkdir_dfid m)) (\<lambda>f.
     io_bind (io_result (string_to_cstring (tmkdir_name m))) (\<lambda>name.
     io_bind (on_kernel (syscall K (Mkdirat (fid_path f) name (tmkdir_mode m)))) (\<lambda>_.
     io_bind (on_kernel (statat K (fid_path f) name 0)) (\<lambda>st.
     io_return \<lparr>rmkdir_qid = qid_from st\<rparr>))))"

definition rename_at :: "'k kernel \<Rightarrow> Trenameat \<Rightarrow> ('k, unit) handler" where
  "rename_at K m = io_bind (get_fid (trenameat_olddirfid m)) (\<lambda>olddir.
     io_bind (io_result (string_to_cstring (trenameat_oldname m))) (\<lambda>oldname.
     io_bind (get_fid (trenameat_newdirfid m)) (\<lambda>newdir.
     io_bind (io_result (string_to_cstring (trenameat_newname m))) (\<lambda>newname.
     io_map (\<lambda>_. ()) (on_kernel (syscall K
       (Renameat (fid_path olddir) oldname (fid_path newdir) newname)))))))"

definition unlink_at :: "'k kernel \<Rightarrow> Tunlinkat \<Rightarrow> ('k, unit) handler" where
  "unlink_at K m = io_bind (get_fid (tunlinkat_dirfd m)) (\<lambda>dir.
     io_bind (io_result (string_to_cstring (tunlinkat_name m))) (\<lambda>name.
     io_map (\<lambda>_. ()) (on_kernel (syscall K
       (Unlinkat (fid_path dir) name (tunlinkat_flags m))))))"

end
