(* ===== verification/Dispatch.thy ===== *)
theory Dispatch
  imports Server_Ops Frame_Correct
begin

text \<open>
  Start-up of the server, the dispatch of one request (\<^verbatim>\<open>Server::handle_message\<close>) and
  the program around it (\<^verbatim>\<open>src/main.rs\<close>).  The request stream is the list of bytes that
  arrive before end of file; the reply stream accepts every byte, and flushing it does nothing.
  (Streams that fail, with the same round and loop over them, are in \<open>Failing_Streams\<close>.)
\<close>

subsection \<open>Server\<close>

definition with_config :: "'k kernel \<Rightarrow> config \<Rightarrow> ('k, server) io" where
  "with_config K cfg =
     io_bind (syscall K (Openat AT_FDCWD (ascii ''/proc'') (O_PATH OR O_NOFOLLOW OR O_CLOEXEC) None)) (\<lambda>r.
     io_return \<lparr>srv_fids = bt_new, srv_proc = sys_res r, srv_cfg = cfg\<rparr>)"

definition server_new :: "'k kernel \<Rightarrow> u8 list \<Rightarrow> (u32, u32) btree_map \<Rightarrow> (u32, u32) btree_map
    \<Rightarrow> ('k, server) io" where
  "server_new K root uid_map gid_map = with_config K
     \<lparr>cfg_root = root, cfg_msize = MAX_MESSAGE_SIZE, cfg_uid_map = uid_map, cfg_gid_map = gid_map,
      cfg_ascii_casefold = False\<rparr>"

definition keep_fds :: "server \<Rightarrow> fd list" where
  "keep_fds sv = [srv_proc sv]"

text \<open>\<^verbatim>\<open>self.f(m).map(Rmessage::M)\<close> and \<^verbatim>\<open>self.f(m).and(Ok(Rmessage::M))\<close>, for each request.\<close>

fun handle :: "'k kernel \<Rightarrow> Tmessage \<Rightarrow> ('k, Rmessage) handler" where
  "handle K (Tmessage.Version m) = io_map Rmessage.Version (version K m)"
| "handle K (Tmessage.Flush m) = io_map (\<lambda>_. Rmessage.Flush) (flush K m)"
| "handle K (Tmessage.Walk m) = io_map Rmessage.Walk (walk K m)"
| "handle K (Tmessage.Read m) = io_map Rmessage.Read (read_op K m)"
| "handle K (Tmessage.Write m) = io_map Rmessage.Write (write_op K m)"
| "handle K (Tmessage.Clunk m) = io_map (\<lambda>_. Rmessage.Clunk) (clunk K m)"
| "handle K (Tmessage.Remove m) = io_map (\<lambda>_. Rmessage.Remove) (remove K m)"
| "handle K (Tmessage.Attach m) = io_map Rmessage.Attach (attach K m)"
| "handle K (Tmessage.Auth m) = io_map Rmessage.Auth (auth K m)"
| "handle K (Tmessage.Statfs m) = io_map Rmessage.Statfs (statfs K m)"
| "handle K (Tmessage.Lopen m) = io_map Rmessage.Lopen (lopen K m)"
| "handle K (Tmessage.Lcreate m) = io_map Rmessage.Lcreate (lcreate K m)"
| "handle K (Tmessage.Symlink m) = io_map Rmessage.Symlink (symlink K m)"
| "handle K (Tmessage.Mknod m) = io_map Rmessage.Mknod (mknod K m)"
| "handle K (Tmessage.Rename m) = io_map (\<lambda>_. Rmessage.Rename) (rename K m)"
| "handle K (Tmessage.Readlink m) = io_map Rmessage.Readlink (readlink K m)"
| "handle K (Tmessage.GetAttr m) = io_map Rmessage.GetAttr (get_attr K m)"
| "handle K (Tmessage.SetAttr m) = io_map (\<lambda>_. Rmessage.SetAttr) (set_attr K m)"
| "handle K (Tmessage.XattrWalk m) = io_map Rmessage.XattrWalk (xattr_walk K m)"
| "handle K (Tmessage.XattrCreate m) = io_map (\<lambda>_. Rmessage.XattrCreate) (xattr_create K m)"
| "handle K (Tmessage.Readdir m) = io_map Rmessage.Readdir (readdir K m)"
| "handle K (Tmessage.Fsync m) = io_map (\<lambda>_. Rmessage.Fsync) (fsync K m)"
| "handle K (Tmessage.Lock m) = io_map Rmessage.Lock (lock K m)"
| "handle K (Tmessage.GetLock m) = io_map Rmessage.GetLock (get_lock K m)"
| "handle K (Tmessage.Link m) = io_map (\<lambda>_. Rmessage.Link) (link_op K m)"
| "handle K (Tmessage.Mkdir m) = io_map Rmessage.Mkdir (mkdir K m)"
| "handle K (Tmessage.RenameAt m) = io_map (\<lambda>_. Rmessage.RenameAt) (rename_at K m)"
| "handle K (Tmessage.UnlinkAt m) = io_map (\<lambda>_. Rmessage.UnlinkAt) (unlink_at K m)"

text \<open>The reply to a decoded frame: errors while handling requests are never fatal.\<close>

definition respond :: "'k kernel \<Rightarrow> Tmessage io_result \<Rightarrow> ('k, Rmessage) handler" where
  "respond K msg =
     io_or_else
       (case msg of
          Ok m \<Rightarrow> handle K m
        | Err e \<Rightarrow> io_throw (Kinded InvalidData)
        | Panic \<Rightarrow> io_panic)
       (\<lambda>e. io_return (error_to_rmessage e))"

text \<open>
  The whole state of the running program: the request bytes still to come, the reply bytes
  sent, the server and the kernel.
\<close>

record 'k session =
  ses_in :: "u8 list"
  ses_out :: "u8 list"
  ses_server :: server
  ses_kernel :: 'k

definition handle_message :: "'k kernel \<Rightarrow> ('k session, unit) io" where
  "handle_message K s =
    (case reader_take (unat (cfg_msize (srv_cfg (ses_server s)))) tframe_decode (ses_in s) of
       (Err e, left) \<Rightarrow> (Err e, s\<lparr>ses_in := left\<rparr>)
     | (Panic, left) \<Rightarrow> (Panic, s\<lparr>ses_in := left\<rparr>)
     | (Ok frame, left) \<Rightarrow>
        (case respond K (tframe_msg frame) (ses_server s, ses_kernel s) of
           (Ok rmsg, (sv, k)) \<Rightarrow>
             (case rframe_encode \<lparr>rframe_tag = tframe_tag frame, rframe_msg = rmsg\<rparr> (ses_out s) of
                (r, out) \<Rightarrow> (r, \<lparr>ses_in = left, ses_out = out, ses_server = sv, ses_kernel = k\<rparr>))
         | (Err e, (sv, k)) \<Rightarrow> (Err e, s\<lparr>ses_in := left, ses_server := sv, ses_kernel := k\<rparr>)
         | (Panic, (sv, k)) \<Rightarrow> (Panic, s\<lparr>ses_in := left, ses_server := sv, ses_kernel := k\<rparr>)))"

subsection \<open>Main\<close>

definition EX_OK :: int where "EX_OK = 0"
definition EX_SERVER_ERROR :: int where "EX_SERVER_ERROR = 8"
definition EX_USAGE :: int where "EX_USAGE = 64"

text \<open>
  How the program ends: an exit code, or a panic of the main thread (or, see the search of a
  case-folded name, no end at all).
\<close>

datatype outcome = Exit int | Panicked

definition is_eof :: "io_error \<Rightarrow> bool" where
  "is_eof e = (e = Kinded UnexpectedEof)"

lemma handle_message_shrinks:
  assumes "handle_message K s = (Ok (), s')"
  shows "length (ses_in s') < length (ses_in s)"
proof -
  let ?n = "unat (cfg_msize (srv_cfg (ses_server s)))"
  from assms obtain frame left where d: "tframe_decode (take ?n (ses_in s)) = (Ok frame, left)"
    and s': "ses_in s' = left @ drop ?n (ses_in s)"
    by (auto simp: handle_message_def reader_take_def split: prod.splits io_result.splits)
  from tframe_decode_shrinks [OF d] have "7 + length left \<le> length (take ?n (ses_in s))" .
  moreover have "length (take ?n (ses_in s)) + length (drop ?n (ses_in s)) = length (ses_in s)"
    by (metis append_take_drop_id length_append)
  moreover have "length (ses_in s') = length left + length (drop ?n (ses_in s))"
    by (simp only: s' length_append)
  ultimately show ?thesis by linarith
qed

function main_loop :: "'k kernel \<Rightarrow> 'k session \<Rightarrow> outcome \<times> 'k session" where
  "main_loop K s = (case handle_message K s of
     (Ok _, s') \<Rightarrow> main_loop K s'
   | (Err e, s') \<Rightarrow> (Exit (if is_eof e then EX_OK else EX_SERVER_ERROR), s')
   | (Panic, s') \<Rightarrow> (Panicked, s'))"
  by pat_completeness auto

termination
proof (relation "measure (\<lambda>(K, s). length (ses_in s))", goal_cases)
  case (2 K s r s' u)
  then show ?case using handle_message_shrinks [of K s s'] by simp
qed simp

declare main_loop.simps [simp del]

text \<open>\<^verbatim>\<open>str::parse::<i32>\<close>: an optional sign and at least one digit, in range.\<close>

fun parse_digits :: "u8 list \<Rightarrow> nat \<Rightarrow> nat option" where
  "parse_digits [] n = Some n"
| "parse_digits (b # s) n =
    (if 48 \<le> b \<and> b \<le> 57 then parse_digits s (10 * n + (unat b - 48)) else None)"

definition parse_i32 :: "u8 list \<Rightarrow> int option" where
  "parse_i32 s =
    (let neg = (s \<noteq> [] \<and> hd s = 45); digits = (if s \<noteq> [] \<and> (hd s = 45 \<or> hd s = 43) then tl s else s)
     in if digits = [] then None
        else case parse_digits digits 0 of
          None \<Rightarrow> None
        | Some n \<Rightarrow>
           let i = (if neg then - int n else int n)
           in if - (2 ^ 31) \<le> i \<and> i < 2 ^ 31 then Some i else None)"

text \<open>
  \<^verbatim>\<open>fs::metadata(path)\<close> and \<^verbatim>\<open>is_dir\<close>: the attributes with links followed.  (The
  standard library asks with \<^verbatim>\<open>statx\<close>, or with \<^verbatim>\<open>stat\<close> where there is none; the answer and
  the errors are those of one call, which has the name of \<^verbatim>\<open>fstatat\<close> here.)
\<close>

definition metadata_is_dir :: "'k kernel \<Rightarrow> u8 list \<Rightarrow> ('k, bool) io" where
  "metadata_is_dir K path =
     io_bind (ok_or (cstring_new path) (Kinded InvalidInput)) (\<lambda>p.
     io_map (\<lambda>r. st_mode (sys_stat r) AND S_IFMT = S_IFDIR) (syscall K (Fstatat AT_FDCWD p 0)))"

text \<open>
  The program on its arguments and what will arrive on the descriptor it reads from.  The first
  argument is the program's name, which the usage message prints, so that an empty argument list
  is a panic; an argument that is not UTF-8 is a panic of \<^verbatim>\<open>std::env::args\<close>; and
  \<^verbatim>\<open>File::from_raw_fd\<close> panics on the descriptor \<open>-1\<close>, which has no file.  Other descriptors are
  taken to be open, as it demands.
\<close>

definition qfsd_main :: "'k kernel \<Rightarrow> u8 list list \<Rightarrow> u8 list \<Rightarrow> 'k \<Rightarrow> outcome \<times> u8 list \<times> 'k" where
  "qfsd_main K args input k =
    (if \<not> list_all utf8_valid args \<or> args = [] then (Panicked, [], k)
     else if length args < 4 then (Exit EX_USAGE, [], k)
     else case parse_i32 (args ! 1) of
       None \<Rightarrow> (Exit EX_USAGE, [], k)
     | Some readfd \<Rightarrow> (case parse_i32 (args ! 2) of
         None \<Rightarrow> (Exit EX_USAGE, [], k)
       | Some writefd \<Rightarrow> (case metadata_is_dir K (args ! 3) k of
           (Ok is_dir, k1) \<Rightarrow>
             if \<not> is_dir then (Exit EX_USAGE, [], k1)
             else if readfd = -1 \<or> writefd = -1 then (Panicked, [], k1)
             else (case server_new K (args ! 3) bt_new bt_new k1 of
               (Ok sv, k2) \<Rightarrow> (case main_loop K
                   \<lparr>ses_in = input, ses_out = [], ses_server = sv, ses_kernel = k2\<rparr> of
                 (code, s) \<Rightarrow> (code, ses_out s, ses_kernel s))
             | (Err e, k2) \<Rightarrow> (Exit EX_SERVER_ERROR, [], k2)
             | (Panic, k2) \<Rightarrow> (Panicked, [], k2))
         | (Err e, k1) \<Rightarrow> (Exit EX_USAGE, [], k1)
         | (Panic, k1) \<Rightarrow> (Panicked, [], k1))))"

text \<open>
  The fuzzing target of \<^verbatim>\<open>p9/src/fuzzing.rs\<close>: frames are decoded until one fails.
\<close>

function fuzz_tframe_decode :: "u8 list \<Rightarrow> u8 list" where
  "fuzz_tframe_decode bytes = (case tframe_decode bytes of
     (Ok _, rest) \<Rightarrow> fuzz_tframe_decode rest
   | (_, rest) \<Rightarrow> rest)"
  by pat_completeness auto

termination
proof (relation "measure length", goal_cases)
  case (2 bytes r rest f)
  then show ?case using tframe_decode_shrinks [of bytes f rest] by simp
qed simp

end
