(* ===== verification/Descriptors.thy ===== *)
theory Descriptors
  imports Dispatch "HOL-Library.Multiset"
begin

text \<open>
  Descriptors and the calls they are used in.  The audited kernel answers like the kernel it is
  made from and keeps the multiset of descriptors that are open and whether every call so far
  was in order: on open descriptors, with paths that hold no nul byte, and close-on-exec where
  it opens one.  \<open>runs\<close> is what every file helper keeps of that, and the locale
  \<open>audited_handler\<close> what every request handler keeps.
\<close>

subsection \<open>The audited kernel\<close>

record audit =
  aud_open :: "fd multiset"
  aud_clean :: bool

fun call_fds :: "syscall \<Rightarrow> fd list" where
  "call_fds (Openat d p f m) = [d]"
| "call_fds (Fstatat d p f) = [d]"
| "call_fds (syscall.Fstat d) = [d]"
| "call_fds (syscall.Fstatfs d) = [d]"
| "call_fds (Dupfd_cloexec d) = [d]"
| "call_fds (Close d) = [d]"
| "call_fds (Pread d n off) = [d]"
| "call_fds (Pwrite d b off) = [d]"
| "call_fds (Ftruncate d n) = [d]"
| "call_fds (syscall.Fsync d) = [d]"
| "call_fds (Fdatasync d) = [d]"
| "call_fds (Readlinkat d p n) = [d]"
| "call_fds (Fchmodat d p m f) = [d]"
| "call_fds (Fchownat d p u g f) = [d]"
| "call_fds (Utimensat d p a m f) = [d]"
| "call_fds (Getdents64 d n) = [d]"
| "call_fds (Lseek64 d off) = [d]"
| "call_fds (Linkat d p e q f) = [d, e]"
| "call_fds (Mkdirat d p m) = [d]"
| "call_fds (Renameat d p e q) = [d, e]"
| "call_fds (Unlinkat d p f) = [d]"

fun call_paths :: "syscall \<Rightarrow> cstring list" where
  "call_paths (Openat d p f m) = [p]"
| "call_paths (Fstatat d p f) = [p]"
| "call_paths (Readlinkat d p n) = [p]"
| "call_paths (Fchmodat d p m f) = [p]"
| "call_paths (Fchownat d p u g f) = [p]"
| "call_paths (Utimensat d p a m f) = [p]"
| "call_paths (Linkat d p e q f) = [p, q]"
| "call_paths (Mkdirat d p m) = [p]"
| "call_paths (Renameat d p e q) = [p, q]"
| "call_paths (Unlinkat d p f) = [p]"
| "call_paths c = []"

fun opens_cloexec :: "syscall \<Rightarrow> bool" where
  "opens_cloexec (Openat d p f m) = (f AND O_CLOEXEC \<noteq> 0)"
| "opens_cloexec c = True"

definition call_in_order :: "fd multiset \<Rightarrow> syscall \<Rightarrow> bool" where
  "call_in_order M c =
    ((\<forall>d\<in>set (call_fds c). d = AT_FDCWD \<or> d \<in># M) \<and> (\<forall>p\<in>set (call_paths c). cstring_ok p)
     \<and> opens_cloexec c)"

fun open_after :: "syscall \<Rightarrow> sysret \<Rightarrow> fd multiset \<Rightarrow> fd multiset" where
  "open_after (Openat d p f m) r M = (if sys_res r < 0 then M else add_mset (sys_res r) M)"
| "open_after (Dupfd_cloexec d) r M = (if sys_res r < 0 then M else add_mset (sys_res r) M)"
| "open_after (Close d) r M = M - {#d#}"
| "open_after c r M = M"

definition audited :: "'k kernel \<Rightarrow> ('k \<times> audit) kernel" where
  "audited K c = (\<lambda>(k, a). case K c k of (r, k') \<Rightarrow>
     (r, (k', \<lparr>aud_open = open_after c r (aud_open a),
       aud_clean = (aud_clean a \<and> call_in_order (aud_open a) c)\<rparr>)))"

definition holds :: "fd multiset \<Rightarrow> 'k \<times> audit \<Rightarrow> bool" where
  "holds M s = (aud_clean (snd s) \<and> aud_open (snd s) = M)"

lemma audited_call:
  assumes "holds M s" and "call_in_order M c" and "audited K c s = (r, t)"
  shows "holds (open_after c r M) t"
  using assms by (auto simp: audited_def holds_def split: prod.splits)

definition runs :: "('k \<times> audit, 'a) io \<Rightarrow> fd set \<Rightarrow> ('a \<Rightarrow> fd multiset) \<Rightarrow> bool" where
  "runs m need gain = (\<forall>M s. need \<subseteq> set_mset M \<longrightarrow> holds M s \<longrightarrow>
     wp m (\<lambda>x. holds (M + gain x)) (\<lambda>_. holds M) (holds M) s)"

lemma runsI:
  assumes "\<And>M s. need \<subseteq> set_mset M \<Longrightarrow> holds M s \<Longrightarrow>
    wp m (\<lambda>x. holds (M + gain x)) (\<lambda>_. holds M) (holds M) s"
  shows "runs m need gain"
  using assms by (simp add: runs_def)

lemma runs_wp:
  assumes "runs m need gain" and "holds M s" and "need \<subseteq> set_mset M"
    and "\<And>x t. holds (M + gain x) t \<Longrightarrow> Q x t" and "\<And>e t. holds M t \<Longrightarrow> E e t"
    and "\<And>t. holds M t \<Longrightarrow> X t"
  shows "wp m Q E X s"
proof (rule wp_mono)
  show "wp m (\<lambda>x. holds (M + gain x)) (\<lambda>_. holds M) (holds M) s"
    using assms(1,2,3) unfolding runs_def by blast
qed (fact assms(4,5,6))+

lemma runsD:
  "runs m need gain \<Longrightarrow> need \<subseteq> set_mset M \<Longrightarrow> holds M s \<Longrightarrow>
    wp m (\<lambda>x. holds (M + gain x)) (\<lambda>_. holds M) (holds M) s"
  unfolding runs_def by blast

named_theorems runs_intros

lemma runs_return [runs_intros]: "gain x = {#} \<Longrightarrow> runs (io_return x) need gain"
  by (simp add: runs_def wp_return)

lemma runs_throw [runs_intros]: "runs (io_throw e) need gain"
  by (simp add: runs_def wp_throw)

lemma runs_panic [runs_intros]: "runs io_panic need gain"
  by (simp add: runs_def wp_panic)

lemma runs_result [runs_intros]: "(\<And>x. r = Ok x \<Longrightarrow> gain x = {#}) \<Longrightarrow> runs (io_result r) need gain"
  by (cases r) (simp_all add: runs_def wp_result)

lemma runs_bind:
  fixes m :: "('k \<times> audit, 'a) io"
  assumes "runs m need (\<lambda>_. {#})" and "\<And>x. runs (f x) need gain"
  shows "runs (io_bind m f) need gain"
proof (rule runsI)
  fix M and s :: "'k \<times> audit" assume n: "need \<subseteq> set_mset M" and h: "holds M s"
  show "wp (io_bind m f) (\<lambda>x. holds (M + gain x)) (\<lambda>_. holds M) (holds M) s"
    unfolding wp_bind using assms(2) n unfolding runs_def
    by (intro runs_wp [OF assms(1) h n]) auto
qed

lemma runs_map: "runs m need (\<lambda>x. gain (f x)) \<Longrightarrow> runs (io_map f m) need gain"
  by (simp add: runs_def wp_map)

lemma runs_return_none: "runs (io_return x) need (\<lambda>_. {#})"
  by (rule runs_return) simp

lemma runs_map_none: "runs m need (\<lambda>_. {#}) \<Longrightarrow> runs (io_map f m) need (\<lambda>_. {#})"
  by (rule runs_map)

lemma runs_or_else:
  fixes m :: "('k \<times> audit, 'a) io"
  assumes "runs m need gain" and "\<And>e. runs (h e) need gain"
  shows "runs (io_or_else m h) need gain"
proof (rule runsI)
  fix M and s :: "'k \<times> audit" assume n: "need \<subseteq> set_mset M" and hs: "holds M s"
  show "wp (io_or_else m h) (\<lambda>x. holds (M + gain x)) (\<lambda>_. holds M) (holds M) s"
    unfolding wp_or_else using assms(2) n unfolding runs_def
    by (intro runs_wp [OF assms(1) hs n]) auto
qed

lemma runs_if: "(b \<Longrightarrow> runs m need gain) \<Longrightarrow> (\<not> b \<Longrightarrow> runs n need gain) \<Longrightarrow> runs (if b then m else n) need gain"
  by simp

lemma runs_mono_need: "runs m need gain \<Longrightarrow> need \<subseteq> need' \<Longrightarrow> runs m need' gain"
  by (auto simp: runs_def)

text \<open>A call that neither opens nor closes, on descriptors that are there.\<close>

lemma runs_syscall:
  assumes "\<And>M. need \<subseteq> set_mset M \<Longrightarrow> call_in_order M c"
    and "\<And>r M. sys_res r < 0 \<Longrightarrow> open_after c r M = M"
    and "\<And>r M. 0 \<le> sys_res r \<Longrightarrow> open_after c r M = M + gain r"
  shows "runs (syscall (audited K) c) need gain"
proof (rule runsI)
  fix M and s :: "'a \<times> audit"
  assume "need \<subseteq> set_mset M" and h: "holds M s"
  obtain r t where rt: "audited K c s = (r, t)" by (cases "audited K c s")
  have "holds (open_after c r M) t"
    using audited_call [OF h assms(1) [OF \<open>need \<subseteq> set_mset M\<close>] rt] .
  then show "wp (syscall (audited K) c) (\<lambda>x. holds (M + gain x)) (\<lambda>_. holds M) (holds M) s"
    using assms(2,3) by (auto simp: wp_syscall rt not_less)
qed

lemma wp_audited_close:
  assumes "holds M s" and "f \<in># M" and "\<And>t. holds (M - {#f#}) t \<Longrightarrow> Q () t"
  shows "wp (close (audited K) f) Q E X s"
proof -
  obtain r t where rt: "audited K (Close f) s = (r, t)" by (cases "audited K (Close f) s")
  have "holds (open_after (Close f) r M) t"
    using assms by (intro audited_call [OF assms(1) _ rt]) (simp add: call_in_order_def)
  with assms(3) rt show ?thesis by (simp add: wp_close)
qed

subsection \<open>The file helpers\<close>

lemma cloexec_lookup: "(O_PATH OR O_NOFOLLOW OR O_CLOEXEC) AND O_CLOEXEC \<noteq> 0"
  by (simp add: open_flags)

lemma or_keeps:
  assumes "b AND c = (c :: u32)"
  shows "(b OR f) AND c = c"
proof (rule bit_word_eqI)
  fix n
  have "bit (b AND c) n = bit c n" by (simp add: assms)
  then show "bit ((b OR f) AND c) n = bit c n" by (auto simp: bit_and_iff bit_or_iff)
qed

lemma foldl_or_keeps:
  assumes "b AND c = (c :: u32)"
  shows "foldl (\<lambda>flags (p9f, f). if p AND p9f \<noteq> 0 then flags OR f else flags) b fs AND c = c"
proof -
  have "\<forall>b. b AND c = c \<longrightarrow>
      foldl (\<lambda>flags (p9f, f). if p AND p9f \<noteq> 0 then flags OR f else flags) b fs AND c = c"
    by (induction fs) (auto simp: or_keeps)
  with assms show ?thesis by blast
qed

lemma map_open_flags_keeps: "b AND c = c \<Longrightarrow> map_open_flags b p AND c = c"
  using foldl_or_keeps [of b c p MAPPED_FLAGS]
  by (simp add: map_open_flags_def Let_def O_RDONLY_def)

lemma cloexec_open_fid: "(map_open_flags O_CLOEXEC p AND NOT O_NOFOLLOW) AND O_CLOEXEC \<noteq> 0"
proof -
  have "map_open_flags O_CLOEXEC p AND O_CLOEXEC = O_CLOEXEC" by (rule map_open_flags_keeps) simp
  then have "(map_open_flags O_CLOEXEC p AND NOT O_NOFOLLOW) AND O_CLOEXEC = NOT O_NOFOLLOW AND O_CLOEXEC"
    by (simp only: and.assoc and.left_commute [of "NOT O_NOFOLLOW"])
      (metis and.left_commute)
  then show ?thesis by (simp add: open_flags)
qed

lemma string_to_cstring_ok: "string_to_cstring s = Ok c \<Longrightarrow> cstring_ok c"
  by (auto simp: string_to_cstring_def cstring_new_Some split: option.splits)

lemma runs_statat [runs_intros]:
  "cstring_ok name \<Longrightarrow> runs (statat (audited K) d name flags) {d} (\<lambda>_. {#})"
  unfolding statat_def by (intro runs_map runs_syscall) (auto simp: call_in_order_def)

lemma runs_stat [runs_intros]: "runs (stat (audited K) d) {d} (\<lambda>_. {#})"
  unfolding stat_def by (intro runs_statat) (simp add: cstring_ok_def)

lemma runs_lookup [runs_intros]:
  "cstring_ok name \<Longrightarrow> runs (lookup (audited K) d name) {d} (\<lambda>f. {#f#})"
  unfolding lookup_def by (intro runs_map runs_syscall) (auto simp: call_in_order_def cloexec_lookup)

lemma runs_with_cstring:
  assumes "\<And>c. cstring_ok c \<Longrightarrow> runs (f c) need gain"
  shows "runs (io_bind (io_result (string_to_cstring s)) f) need gain"
  using assms string_to_cstring_ok [of s]
  by (cases "string_to_cstring s") (auto simp: runs_def wp_bind wp_result)

lemma runs_open_fid [runs_intros]: "runs (open_fid (audited K) proc path p) {proc, path} (\<lambda>f. {#f#})"
  unfolding open_fid_def
  by (intro runs_with_cstring runs_map runs_syscall) (auto simp: call_in_order_def cloexec_open_fid)

lemma runs_try_clone [runs_intros]: "runs (try_clone (audited K) f) {f} (\<lambda>g. {#g#})"
  unfolding try_clone_def by (intro runs_map runs_syscall) (auto simp: call_in_order_def)

text \<open>A temporary descriptor: closed whatever happens, or only when something fails.\<close>

lemma holds_close:
  assumes "holds (add_mset f M) s"
  shows "holds M (snd (close (audited K) f s))"
proof -
  have "wp (close (audited K) f) (\<lambda>_. holds M) (\<lambda>_. holds M) (holds M) s"
    by (rule wp_audited_close [OF assms]) simp_all
  then show ?thesis by (simp add: wp_same)
qed

lemma runs_finally_close:
  fixes m :: "('k \<times> audit, 'a) io"
  assumes "runs m (insert f need) gain"
  shows "need \<subseteq> set_mset M \<Longrightarrow> holds (add_mset f M) s \<Longrightarrow>
    wp (io_finally m (close (audited K) f)) (\<lambda>x. holds (M + gain x)) (\<lambda>_. holds M) (holds M) s"
  unfolding wp_finally by (rule runs_wp [OF assms]) (auto intro: holds_close)

lemma runs_open_use_close:
  fixes m :: "('k \<times> audit, fd) io"
  assumes "runs m need (\<lambda>f. {#f#})" and "\<And>f. runs (g f) (insert f need) gain"
  shows "runs (io_bind m (\<lambda>f. io_finally (g f) (close (audited K) f))) need gain"
proof (rule runsI)
  fix M and s :: "'k \<times> audit" assume n: "need \<subseteq> set_mset M" and h: "holds M s"
  show "wp (io_bind m (\<lambda>f. io_finally (g f) (close (audited K) f)))
      (\<lambda>x. holds (M + gain x)) (\<lambda>_. holds M) (holds M) s"
    unfolding wp_bind
    by (rule runs_wp [OF assms(1) h n]) (auto intro: runs_finally_close [OF assms(2) n])
qed

lemma runs_open_stat:
  fixes m :: "('k \<times> audit, fd) io"
  assumes "runs m need (\<lambda>f. {#f#})"
  shows "runs (io_bind m (\<lambda>f. io_bind (io_on_error (stat (audited K) f) (close (audited K) f))
      (\<lambda>st. io_return (f, st)))) need (\<lambda>(f, st). {#f#})"
proof (rule runsI)
  fix M and s :: "'k \<times> audit" assume n: "need \<subseteq> set_mset M" and h: "holds M s"
  show "wp (io_bind m (\<lambda>f. io_bind (io_on_error (stat (audited K) f) (close (audited K) f))
      (\<lambda>st. io_return (f, st)))) (\<lambda>x. holds (M + (case x of (f, st) \<Rightarrow> {#f#}))) (\<lambda>_. holds M) (holds M) s"
    unfolding wp_bind
  proof (rule runs_wp [OF assms(1) h n])
    fix f and t :: "'k \<times> audit" assume "holds (M + {#f#}) t"
    then show "wp (io_on_error (stat (audited K) f) (close (audited K) f))
        (\<lambda>x. wp (io_return (f, x)) (\<lambda>x. holds (M + (case x of (f, st) \<Rightarrow> {#f#}))) (\<lambda>_. holds M) (holds M))
        (\<lambda>_. holds M) (holds M) t"
      unfolding wp_on_error
      by (rule runs_wp [OF runs_stat]) (auto simp: wp_return intro: holds_close)
  qed
qed

subsection \<open>Directories and walks\<close>

lemma runs_bind_post:
  fixes m :: "('k \<times> audit, 'a) io"
  assumes "runs m need (\<lambda>_. {#})" and "\<And>s x t. m s = (Ok x, t) \<Longrightarrow> P x"
    and "\<And>x. P x \<Longrightarrow> runs (f x) need gain"
  shows "runs (io_bind m f) need gain"
proof (rule runsI)
  fix M and s :: "'k \<times> audit" assume n: "need \<subseteq> set_mset M" and h: "holds M s"
  obtain r t where rt: "m s = (r, t)" by (cases "m s")
  have t: "holds M t" using runsD [OF assms(1) n h] by (cases r) (simp_all add: wp_def rt)
  show "wp (io_bind m f) (\<lambda>x. holds (M + gain x)) (\<lambda>_. holds M) (holds M) s"
  proof (cases r)
    case (Ok x)
    then have "runs (f x) need gain" using assms(2,3) rt by blast
    from runsD [OF this n t] show ?thesis using rt Ok by (simp add: wp_def io_bind_Ok)
  qed (use rt t in \<open>simp_all add: wp_def io_bind_def\<close>)
qed

lemma strip_padding_ok: "strip_padding b = Ok c \<Longrightarrow> cstring_ok c"
  by (auto simp: strip_padding_def cstring_ok_def dest: set_takeWhileD split: if_splits)

lemma parse_entry_ok: "parse_entry rem = Ok (d, n) \<Longrightarrow> cstring_ok (de_name d)"
  by (auto simp: parse_entry_def Let_def dest: strip_padding_ok
      split: if_splits option.splits io_result.splits)

lemma dir_refill_dir: "dir_refill K rd s = (Ok rd', t) \<Longrightarrow> rd_dir rd' = rd_dir rd"
  by (auto simp: dir_refill_def io_bind_eq_Ok io_return_apply split: if_splits)

lemma dir_next_Ok:
  assumes "dir_next K rd s = (Ok (e, rd'), t)"
  shows "rd_dir rd' = rd_dir rd \<and> (\<forall>d. e = Some d \<longrightarrow> cstring_ok (de_name d))"
proof -
  from assms obtain rd1 s1 where "dir_refill K rd s = (Ok rd1, s1)"
    and r: "(if rd_end rd1 > length (rd_buf rd1) then io_panic
     else let rem = drop (rd_current rd1) (take (rd_end rd1) (rd_buf rd1)) in
       if rem = [] then io_return (None, rd1)
       else io_bind (io_result (parse_entry rem)) (\<lambda>(entry, reclen).
         io_return (Some entry, rd1\<lparr>rd_current := rd_current rd1 + reclen\<rparr>))) s1 = (Ok (e, rd'), t)"
    unfolding dir_next_def by (rule io_bind_OkE)
  then show ?thesis using dir_refill_dir [of K rd s rd1 s1]
    by (auto simp: Let_def io_panic_apply io_return_apply io_bind_eq_Ok io_result_apply
        dest: parse_entry_ok split: if_splits)
qed

lemma runs_dir_refill: "runs (dir_refill (audited K) rd) {rd_dir rd} (\<lambda>_. {#})"
  unfolding dir_refill_def
  by (intro runs_if runs_bind runs_syscall runs_return) (auto simp: call_in_order_def)

lemma runs_dir_next [runs_intros]: "runs (dir_next (audited K) rd) {rd_dir rd} (\<lambda>_. {#})"
  unfolding dir_next_def Let_def
  by (rule runs_bind [OF runs_dir_refill], intro runs_if runs_panic runs_return runs_bind runs_result)
    (auto intro: runs_return)

lemma runs_read_dir [runs_intros]: "runs (read_dir (audited K) d off) {d} (\<lambda>_. {#})"
  unfolding read_dir_def by (intro runs_bind runs_syscall runs_return) (auto simp: call_in_order_def)

lemma read_dir_Ok: "read_dir K d off s = (Ok rd, t) \<Longrightarrow> rd_dir rd = d"
  by (auto simp: read_dir_def io_bind_eq_Ok io_return_apply)

lemma casefold_search_ok:
  assumes "casefold_search K name rd s = Some y"
  shows "fst y = Ok (Some n) \<longrightarrow> cstring_ok n"
proof (rule casefold_search.raw_induct [OF _ assms])
  fix f :: "'k kernel \<Rightarrow> cstring \<Rightarrow> read_dir \<Rightarrow> 'k \<Rightarrow> (cstring option io_result \<times> 'k) option"
    and K name rd s y
  assume "\<And>K name rd s y. f K name rd s = Some y \<Longrightarrow> fst y = Ok (Some n) \<longrightarrow> cstring_ok n"
    and "(case dir_next K rd s of (Ok (entry, rd'), k') \<Rightarrow>
         (case entry of
            None \<Rightarrow> Some (Ok None, k')
          | Some e \<Rightarrow> if eq_ignore_ascii_case name (de_name e) then Some (Ok (Some (de_name e)), k')
                      else f K name rd' k')
     | (Err e, k') \<Rightarrow> Some (Err e, k')
     | (Panic, k') \<Rightarrow> Some (Panic, k')) = Some y"
  then show "fst y = Ok (Some n) \<longrightarrow> cstring_ok n"
    by (auto dest: dir_next_Ok split: prod.splits io_result.splits option.splits if_splits)
qed

lemma casefold_scan_ok: "casefold_scan K name rd s = (Ok (Some n), t) \<Longrightarrow> cstring_ok n"
  by (auto simp: casefold_scan_def dest!: casefold_search_ok [where n = n] split: option.splits)

lemma casefold_search_holds:
  fixes K :: "'k kernel"
  assumes "casefold_search K' name rd s = Some y"
  shows "K' = audited K \<longrightarrow> rd_dir rd \<in># M \<longrightarrow> holds M s \<longrightarrow> holds M (snd y)"
proof (rule casefold_search.raw_induct [OF _ assms], intro impI)
  fix f :: "('k \<times> audit) kernel \<Rightarrow> cstring \<Rightarrow> read_dir \<Rightarrow> 'k \<times> audit
      \<Rightarrow> (cstring option io_result \<times> ('k \<times> audit)) option" and K' name rd s y
  assume IH: "\<And>K' name rd s y. f K' name rd s = Some y \<Longrightarrow> K' = audited K \<longrightarrow> rd_dir rd \<in># M \<longrightarrow>
      holds M s \<longrightarrow> holds M (snd y)"
    and eq: "(case dir_next K' rd s of (Ok (entry, rd'), k') \<Rightarrow>
         (case entry of
            None \<Rightarrow> Some (Ok None, k')
          | Some e \<Rightarrow> if eq_ignore_ascii_case name (de_name e) then Some (Ok (Some (de_name e)), k')
                      else f K' name rd' k')
     | (Err e, k') \<Rightarrow> Some (Err e, k')
     | (Panic, k') \<Rightarrow> Some (Panic, k')) = Some y"
    and K': "K' = audited K" and rd: "rd_dir rd \<in># M" and s: "holds M s"
  obtain r t where rt: "dir_next K' rd s = (r, t)" by (cases "dir_next K' rd s")
  have t: "holds M t"
    using runsD [OF runs_dir_next [of K rd] _ s] rd rt K' by (cases r) (simp_all add: wp_def)
  show "holds M (snd y)"
  proof (cases r)
    case (Ok p)
    obtain e rd' where p: "p = (e, rd')" by (cases p)
    with dir_next_Ok [of K' rd s e rd' t] rt Ok have "rd_dir rd' = rd_dir rd" by auto
    with eq rt Ok p t IH [of K' name rd' t y] K' rd show ?thesis by (cases e) (auto split: if_splits)
  qed (use eq rt t in auto)
qed

lemma runs_casefold_scan:
  fixes K :: "'k kernel"
  shows "runs (casefold_scan (audited K) name rd) {rd_dir rd} (\<lambda>_. {#})"
proof (rule runsI)
  fix M and s :: "'k \<times> audit" assume n: "{rd_dir rd} \<subseteq> set_mset M" and h: "holds M s"
  show "wp (casefold_scan (audited K) name rd) (\<lambda>x. holds (M + {#})) (\<lambda>_. holds M) (holds M) s"
  proof (cases "casefold_search (audited K) name rd s")
    case (Some y)
    with casefold_search_holds [of "audited K" name rd s y K M] n h have "holds M (snd y)" by simp
    with Some show ?thesis
      by (cases y; cases "fst y") (auto simp: wp_def casefold_scan_def)
  qed (use h in \<open>simp add: wp_def casefold_scan_def\<close>)
qed

lemma runs_ascii_casefold_lookup [runs_intros]:
  "runs (ascii_casefold_lookup (audited K) proc parent name) {proc, parent} (\<lambda>f. {#f#})"
proof -
  have scan: "runs (io_bind (casefold_scan (audited K) name rd) (\<lambda>found. case found of
        Some n \<Rightarrow> lookup (audited K) parent n | None \<Rightarrow> io_throw (Os ENOENT))) {rd_dir rd, parent} (\<lambda>f. {#f#})" for rd
    by (rule runs_bind_post [where P = "\<lambda>x. \<forall>n. x = Some n \<longrightarrow> cstring_ok n"])
      (auto intro: runs_throw runs_mono_need [OF runs_lookup] runs_mono_need [OF runs_casefold_scan]
        dest: casefold_scan_ok split: option.splits)
  have "runs (io_bind (read_dir (audited K) d 0) (\<lambda>rd.
      io_bind (casefold_scan (audited K) name rd) (\<lambda>found. case found of
        Some n \<Rightarrow> lookup (audited K) parent n | None \<Rightarrow> io_throw (Os ENOENT)))) {d, proc, parent} (\<lambda>f. {#f#})" for d
    by (rule runs_bind_post [where P = "\<lambda>rd. rd_dir rd = d"])
      (auto intro: runs_mono_need [OF scan] runs_mono_need [OF runs_read_dir] dest: read_dir_Ok)
  then show ?thesis
    unfolding ascii_casefold_lookup_def by (rule runs_open_use_close [OF runs_open_fid])
qed

text \<open>The directory a walk stands in is its own from the second component on.\<close>

fun own :: "maybe_owned \<Rightarrow> fd multiset" where
  "own (Borrowed f) = {#}"
| "own (Owned f) = {#f#}"

lemma holds_drop_owned: "holds (M + own c) s \<Longrightarrow> holds M (snd (drop_owned (audited K) c s))"
  by (cases c) (auto simp: io_return_apply holds_close)

lemma runs_walk_lookup:
  "runs (io_bind (io_result (string_to_cstring wname)) (\<lambda>name.
      io_or_else (lookup (audited K) parent name) (\<lambda>e.
        if casefold \<and> is_enoent e then ascii_casefold_lookup (audited K) proc parent name
        else io_throw e))) {proc, parent} (\<lambda>f. {#f#})"
  by (intro runs_with_cstring runs_or_else runs_if runs_throw runs_ascii_casefold_lookup
      runs_mono_need [OF runs_lookup]) auto

lemma wp_walk_step:
  fixes M :: "fd multiset"
  assumes h: "holds (M + own c) s" and n: "proc \<in># M" "as_ref c \<in># M + own c"
    and Q: "\<And>f st t. holds (add_mset f M) t \<Longrightarrow> Q (f, st) t"
    and E: "\<And>e t. holds M t \<Longrightarrow> E e t" and X: "\<And>t. holds M t \<Longrightarrow> X t"
  shows "wp (walk_step (audited K) proc casefold c wname) Q E X s"
  unfolding walk_step_def
proof (subst wp_bind, subst wp_finally, rule runs_wp [OF runs_walk_lookup h], goal_cases)
  case 1
  with n show ?case by auto
next
  case (2 f t)
  from 2 have "holds (add_mset f M + own c) t" by simp
  then have "holds (add_mset f M) (snd (drop_owned (audited K) c t))"
    by (rule holds_drop_owned)
  then show ?case unfolding wp_bind wp_on_error
    by (rule runs_wp [OF runs_stat]) (auto simp: wp_return intro: Q E X holds_close)
qed (auto intro: E X holds_drop_owned)

lemma wp_walk_loop:
  "holds (M + own c) s \<Longrightarrow> proc \<in># M \<Longrightarrow> as_ref c \<in># M + own c \<Longrightarrow>
    wp (walk_loop (audited K) proc casefold wnames c mds)
      (\<lambda>(r, mds') t. (case r of Ok c' \<Rightarrow> holds (M + own c') t \<and> as_ref c' \<in># M + own c'
         | Err e \<Rightarrow> holds M t | Panic \<Rightarrow> False)) (\<lambda>_ _. False) (holds M) s"
proof (induction wnames arbitrary: c mds s)
  case Nil
  then show ?case by (simp add: wp_return)
next
  case (Cons wname wnames)
  show ?case unfolding walk_loop.simps wp_bind wp_attempt
    by (rule wp_walk_step [OF Cons.prems]) (auto simp: wp_return intro!: Cons.IH Cons.prems)
qed

definition walk_gain :: "fd io_result \<times> stat64 list \<Rightarrow> fd multiset" where
  "walk_gain x = (case fst x of Ok f \<Rightarrow> {#f#} | _ \<Rightarrow> {#})"

lemma runs_do_walk [runs_intros]:
  fixes K :: "'k kernel"
  shows "runs (do_walk (audited K) proc wnames start casefold) {proc, start} walk_gain"
proof (rule runsI)
  fix M and s :: "'k \<times> audit"
  assume n: "{proc, start} \<subseteq> set_mset M" and h: "holds M s"
  have w: "wp (walk_loop (audited K) proc casefold wnames (Borrowed start) [])
      (\<lambda>(r, mds') t. (case r of Ok c' \<Rightarrow> holds (M + own c') t \<and> as_ref c' \<in># M + own c'
         | Err e \<Rightarrow> holds M t | Panic \<Rightarrow> False)) (\<lambda>_ _. False) (holds M) s"
    by (rule wp_walk_loop) (use n h in auto)
  have end_case: "wp (case r of
         Ok (Owned owned) \<Rightarrow> io_return (Ok owned, mds)
       | Ok (Borrowed borrowed) \<Rightarrow> io_map (\<lambda>r. (r, mds)) (io_attempt (try_clone (audited K) borrowed))
       | Err e \<Rightarrow> io_return (Err e, mds)
       | Panic \<Rightarrow> io_panic) (\<lambda>x. holds (M + walk_gain x)) (\<lambda>_. holds M) (holds M) t"
    if r: "case r of Ok c' \<Rightarrow> holds (M + own c') t \<and> as_ref c' \<in># M + own c'
         | Err e \<Rightarrow> holds M t | Panic \<Rightarrow> False" for r mds and t :: "'k \<times> audit"
  proof (cases r)
    case (Ok c)
    show ?thesis
    proof (cases c)
      case (Borrowed f)
      with Ok r have "holds M t" "f \<in># M" by auto
      then show ?thesis unfolding Ok Borrowed
        by (simp add: wp_map wp_attempt, intro runs_wp [OF runs_try_clone]) (auto simp: walk_gain_def)
    qed (use Ok r in \<open>simp add: wp_return walk_gain_def\<close>)
  qed (use r in \<open>simp_all add: wp_return walk_gain_def\<close>)
  show "wp (do_walk (audited K) proc wnames start casefold) (\<lambda>x. holds (M + walk_gain x)) (\<lambda>_. holds M) (holds M) s"
    unfolding do_walk_def wp_bind by (rule wp_mono [OF w]) (auto intro: end_case)
qed

lemma runs_readdir_entry:
  "cstring_ok (de_name d) \<Longrightarrow> runs (readdir_entry (audited K) path room cursor d) {path} (\<lambda>_. {#})"
  unfolding readdir_entry_def ok_or_def
  by (intro runs_bind runs_statat runs_result)
    (auto intro: runs_return runs_throw split: option.splits)

lemma runs_readdir_step:
  "runs (readdir_step (audited K) path room rd cursor) {path, rd_dir rd} (\<lambda>_. {#})"
  unfolding readdir_step_def
proof (rule runs_bind_post [where P = "\<lambda>(e, rd'). \<forall>d. e = Some d \<longrightarrow> cstring_ok (de_name d)"], goal_cases)
  case 1
  show ?case by (rule runs_mono_need [OF runs_dir_next]) simp
next
  case (2 s x t)
  then show ?case by (cases x) (auto dest: dir_next_Ok)
next
  case (3 x)
  obtain e rd' where x: "x = (e, rd')" by (cases x)
  show ?case
  proof (cases e)
    case None
    show ?thesis unfolding x None prod.case option.case by (rule runs_return_none)
  next
    case (Some d)
    have "runs (readdir_entry (audited K) path room cursor d) {path, rd_dir rd} (\<lambda>_. {#})"
      using 3 x Some by (intro runs_mono_need [OF runs_readdir_entry]) auto
    then show ?thesis unfolding x Some prod.case option.case by (rule runs_map_none)
  qed
qed

lemma readdir_step_dir:
  "readdir_step K path room rd cursor s = (Ok (Some (rd', cursor')), t) \<Longrightarrow> rd_dir rd' = rd_dir rd"
  by (auto simp: readdir_step_def io_bind_eq_Ok io_map_def io_return_apply dest!: dir_next_Ok
      split: option.split_asm)

lemma holds_readdir_loop:
  assumes "{path, rd_dir rd} \<subseteq> set_mset M" and "holds M s"
  shows "holds M (snd (readdir_loop (audited K) path room rd cursor s))"
  using assms
proof (induction "audited K" path room rd cursor s rule: readdir_loop.induct)
  case (1 path room rd cursor s)
  obtain r t where rt: "readdir_step (audited K) path room rd cursor s = (r, t)"
    by (cases "readdir_step (audited K) path room rd cursor s")
  have t: "holds M t"
    using runsD [OF runs_readdir_step [where K = K and room = room and cursor = cursor] "1.prems"] rt by (cases r) (simp_all add: wp_def)
  show ?case
  proof (cases "\<exists>rd' cursor'. r = Ok (Some (rd', cursor'))")
    case True
    then obtain rd' cursor' where r: "r = Ok (Some (rd', cursor'))" by blast
    with rt have "rd_dir rd' = rd_dir rd" by (blast dest: readdir_step_dir)
    with "1.hyps" [OF rt [symmetric] r refl refl] "1.prems" t r rt show ?thesis
      by (subst readdir_loop.simps) simp
  next
    case False
    with rt t show ?thesis
      by (subst readdir_loop.simps) (auto split: io_result.split option.split)
  qed
qed

lemma runs_readdir_loop [runs_intros]:
  "runs (readdir_loop (audited K) path room rd cursor) {path, rd_dir rd} (\<lambda>_. {#})"
proof (rule runsI)
  fix M and s :: "'a \<times> audit" assume "{path, rd_dir rd} \<subseteq> set_mset M" and "holds M s"
  from holds_readdir_loop [OF this, of K room cursor]
  show "wp (readdir_loop (audited K) path room rd cursor) (\<lambda>x. holds (M + {#})) (\<lambda>_. holds M) (holds M) s"
    by (cases "readdir_loop (audited K) path room rd cursor s";
        cases "fst (readdir_loop (audited K) path room rd cursor s)") (auto simp: wp_def)
qed

end
