(* ===== verification/Handler_Contract.thy ===== *)
theory Handler_Contract
  imports Descriptors
begin

text \<open>
  The contract of a request handler, as two locales: what it keeps of the server whatever the
  kernel answers (\<open>handler\<close>), and what it keeps of the descriptors when it runs on the
  audited kernel (\<open>audited_handler\<close>): the open descriptors are exactly those the server
  owns, and no call was out of order.  Every handler of \<^verbatim>\<open>Server\<close> is an
  interpretation; the dispatcher's lemmas rest on their facts.
\<close>

subsection \<open>What the server owns\<close>

definition owned :: "server \<Rightarrow> fd multiset" where
  "owned sv = add_mset (srv_proc sv) (mset (concat (map fid_fds (bt_values (srv_fids sv)))))"

definition sound :: "server \<times> ('k \<times> audit) \<Rightarrow> bool" where
  "sound w = (holds (owned (fst w)) (snd w) \<and> bt_ok (srv_fids (fst w)))"

lemma soundI: "holds (owned sv) s \<Longrightarrow> bt_ok (srv_fids sv) \<Longrightarrow> sound (sv, s)"
  by (simp add: sound_def)

lemma soundD: "sound (sv, s) \<Longrightarrow> holds (owned sv) s" "sound (sv, s) \<Longrightarrow> bt_ok (srv_fids sv)"
  by (simp_all add: sound_def)

lemma owned_proc: "srv_proc sv \<in># owned sv"
  by (simp add: owned_def)

lemma owned_get:
  assumes "bt_ok (srv_fids sv)" and "bt_get (srv_fids sv) n = Some f"
  shows "set (fid_fds f) \<subseteq> set_mset (owned sv)"
  using bt.get_vals [OF assms] by (auto simp: owned_def)

lemma owned_path:
  assumes "bt_ok (srv_fids sv)" and "bt_get (srv_fids sv) n = Some f"
  shows "fid_path f \<in># owned sv"
  using owned_get [OF assms] by (auto simp: fid_fds_def)

lemma owned_file:
  assumes "bt_ok (srv_fids sv)" and "bt_get (srv_fids sv) n = Some f" and "fid_file f = Some d"
  shows "d \<in># owned sv"
  using owned_get [OF assms(1,2)] assms(3) by (auto simp: fid_fds_def)

lemma owned_insert_new:
  assumes "bt_ok (srv_fids sv)" and "bt_get (srv_fids sv) n = None"
  shows "owned (sv\<lparr>srv_fids := bt_insert (srv_fids sv) n f\<rparr>) = owned sv + mset (fid_fds f)"
  using bt.vals_insert_new [OF assms, of f] by (auto simp: owned_def)

lemma owned_insert_old:
  assumes "bt_ok (srv_fids sv)" and "bt_get (srv_fids sv) n = Some old"
  shows "owned (sv\<lparr>srv_fids := bt_insert (srv_fids sv) n f\<rparr>) + mset (fid_fds old)
    = owned sv + mset (fid_fds f)"
  using bt.vals_insert_old [OF assms, of f] by (auto simp: owned_def)

lemma owned_remove:
  assumes "bt_ok (srv_fids sv)" and "bt_get (srv_fids sv) n = Some f"
  shows "owned (sv\<lparr>srv_fids := bt_remove (srv_fids sv) n\<rparr>) + mset (fid_fds f) = owned sv"
  using bt.vals_remove [OF assms] by (auto simp: owned_def)

lemma owned_clear: "owned (sv\<lparr>srv_fids := bt_new\<rparr>) = {#srv_proc sv#}"
  by (simp add: owned_def bt.vals_new)

lemma owned_cfg [simp]: "owned (sv\<lparr>srv_cfg := c\<rparr>) = owned sv"
  by (simp add: owned_def)

subsection \<open>Closing and storing\<close>

lemma wp_close_all:
  "holds (M + mset fs) s \<Longrightarrow> (\<And>t. holds M t \<Longrightarrow> Q () t) \<Longrightarrow> wp (close_all (audited K) fs) Q E X s"
proof (induction fs arbitrary: s)
  case (Cons f fs)
  show ?case unfolding close_all.simps wp_bind
    by (rule wp_audited_close [OF Cons.prems(1)]) (auto intro: Cons)
qed (simp add: wp_return)

lemma wp_get_fid [wp_rules]:
  "wp (get_fid n) Q E X (sv, s) = (case bt_get (srv_fids sv) n of
     Some f \<Rightarrow> Q f (sv, s) | None \<Rightarrow> E ebadf (sv, s))"
  by (simp add: get_fid_def wp_bind wp_get_server ok_or_def wp_return wp_throw split: option.split)

lemma wp_get_file [wp_rules]:
  "wp (get_file n) Q E X (sv, s) = (case bt_get (srv_fids sv) n of
     Some f \<Rightarrow> (case fid_file f of Some d \<Rightarrow> Q d (sv, s) | None \<Rightarrow> E ebadf (sv, s))
   | None \<Rightarrow> E ebadf (sv, s))"
  by (simp add: get_file_def wp_bind wp_get_server ok_or_def wp_return wp_throw split: option.split)

lemma wp_set_fid [wp_rules]:
  "wp (set_fid n f) Q E X (sv, s) = Q () (sv\<lparr>srv_fids := bt_insert (srv_fids sv) n f\<rparr>, s)"
  by (simp add: set_fid_def wp_bind wp_get_server wp_put_fids)

lemma wp_insert_fid:
  assumes h: "holds (owned sv + mset (fid_fds f)) s" and ok: "bt_ok (srv_fids sv)"
    and Q: "\<And>t. sound (sv\<lparr>srv_fids := bt_insert (srv_fids sv) n f\<rparr>, t) \<Longrightarrow>
      Q () (sv\<lparr>srv_fids := bt_insert (srv_fids sv) n f\<rparr>, t)"
  shows "wp (insert_fid (audited K) n f) Q E X (sv, s)"
proof (cases "bt_get (srv_fids sv) n")
  case None
  with h have "holds (owned (sv\<lparr>srv_fids := bt_insert (srv_fids sv) n f\<rparr>)) s"
    by (simp add: owned_insert_new [OF ok None])
  then show ?thesis using None
    by (simp add: insert_fid_def wp_bind wp_get_server wp_put_fids wp_return)
      (intro Q soundI, simp_all add: bt.inv_insert [OF ok])
next
  case (Some old)
  with h have "holds (owned (sv\<lparr>srv_fids := bt_insert (srv_fids sv) n f\<rparr>) + mset (fid_fds old)) s"
    by (simp add: owned_insert_old [OF ok Some])
  then show ?thesis using Some
    by (simp add: insert_fid_def wp_bind wp_get_server wp_put_fids wp_on_kernel drop_fid_def)
      (rule wp_close_all, assumption, intro Q soundI, simp_all add: bt.inv_insert [OF ok])
qed

lemma wp_assign_file:
  assumes h: "holds (add_mset d (owned sv)) s" and ok: "bt_ok (srv_fids sv)"
    and f: "bt_get (srv_fids sv) n = Some f"
    and Q: "\<And>t. sound (sv\<lparr>srv_fids := bt_insert (srv_fids sv) n (f\<lparr>fid_file := Some d\<rparr>)\<rparr>, t) \<Longrightarrow>
      Q (f\<lparr>fid_file := Some d\<rparr>)
        (sv\<lparr>srv_fids := bt_insert (srv_fids sv) n (f\<lparr>fid_file := Some d\<rparr>)\<rparr>, t)"
  shows "wp (assign_file (audited K) n f d) Q E X (sv, s)"
proof -
  let ?sv = "sv\<lparr>srv_fids := bt_insert (srv_fids sv) n (f\<lparr>fid_file := Some d\<rparr>)\<rparr>"
  let ?old = "case fid_file f of Some old \<Rightarrow> [old] | None \<Rightarrow> []"
  have "owned ?sv + mset (fid_fds f) = owned sv + mset (fid_fds (f\<lparr>fid_file := Some d\<rparr>))"
    by (rule owned_insert_old [OF ok f])
  then have "owned ?sv + mset ?old = add_mset d (owned sv)"
    by (simp add: fid_fds_def split: option.splits)
  with h have "holds (owned ?sv + mset ?old) s" by simp
  then show ?thesis
    by (simp add: assign_file_def wp_bind wp_set_fid wp_on_kernel wp_return)
      (rule wp_close_all, assumption, intro Q soundI, simp_all add: bt.inv_insert [OF ok])
qed

lemma wp_kernel_sound:
  assumes "sound (sv, s)" and "runs m need (\<lambda>_. {#})" and "need \<subseteq> set_mset (owned sv)"
    and "\<And>x t. sound (sv, t) \<Longrightarrow> Q x (sv, t)" and "\<And>e t. sound (sv, t) \<Longrightarrow> E e (sv, t)"
    and "\<And>t. sound (sv, t) \<Longrightarrow> X (sv, t)"
  shows "wp (on_kernel m) Q E X (sv, s)"
  unfolding wp_on_kernel
  by (rule runs_wp [OF assms(2) soundD(1) [OF assms(1)] assms(3)])
    (auto intro!: assms(4-6) soundI soundD(2) [OF assms(1)])

subsection \<open>What no handler changes\<close>

text \<open>
  The configuration stays as it was but for a message size that can only shrink, and never
  below the protocol's minimum; the fid table stays in key order.
\<close>

definition server_kept :: "server \<Rightarrow> server \<Rightarrow> bool" where
  "server_kept sv sv' =
    (srv_proc sv' = srv_proc sv \<and> (\<exists>n. srv_cfg sv' = srv_cfg sv\<lparr>cfg_msize := n\<rparr>
      \<and> n \<le> cfg_msize (srv_cfg sv)
      \<and> (MIN_MESSAGE_SIZE \<le> cfg_msize (srv_cfg sv) \<longrightarrow> MIN_MESSAGE_SIZE \<le> n))
     \<and> (bt_ok (srv_fids sv) \<longrightarrow> bt_ok (srv_fids sv')))"

lemma server_kept_fids:
  assumes "bt_ok (srv_fids sv) \<Longrightarrow> bt_ok m"
  shows "server_kept sv (sv\<lparr>srv_fids := m\<rparr>)"
proof -
  have "srv_cfg sv = srv_cfg sv\<lparr>cfg_msize := cfg_msize (srv_cfg sv)\<rparr>" by (cases "srv_cfg sv") simp
  then have "\<exists>n. srv_cfg sv = srv_cfg sv\<lparr>cfg_msize := n\<rparr> \<and> n \<le> cfg_msize (srv_cfg sv)
      \<and> (MIN_MESSAGE_SIZE \<le> cfg_msize (srv_cfg sv) \<longrightarrow> MIN_MESSAGE_SIZE \<le> n)"
    by (intro exI conjI) (assumption, simp_all)
  with assms show ?thesis by (simp add: server_kept_def)
qed

lemma server_kept_refl [simp]: "server_kept sv sv"
  using server_kept_fids [of sv "srv_fids sv"] by simp

lemma server_kept_trans: "server_kept a b \<Longrightarrow> server_kept b c \<Longrightarrow> server_kept a c"
  by (auto simp: server_kept_def)

lemma server_kept_insert [simp]:
  "server_kept sv (sv\<lparr>srv_fids := bt_insert (srv_fids sv) n f\<rparr>)"
  by (rule server_kept_fids) (rule bt.inv_insert)

lemma snd_io_map: "snd (io_map f m w) = snd (m w)"
  by (cases "m w"; cases "fst (m w)") (auto simp: io_map_apply)

locale handler =
  fixes h :: "'k kernel \<Rightarrow> 'm \<Rightarrow> ('k, 'r) handler"
  assumes keeps: "server_kept (fst w) (fst (snd (h K m w)))"
begin

lemma arm_keeps: "server_kept (fst w) (fst (snd (io_map f (h K m) w)))"
  by (simp add: snd_io_map keeps)

end

locale audited_handler =
  fixes h :: "('k \<times> audit) kernel \<Rightarrow> 'm \<Rightarrow> ('k \<times> audit, 'r) handler"
  assumes keeps_sound: "sound w \<Longrightarrow> sound (snd (h (audited K) m w))"
begin

lemma arm_sound: "sound w \<Longrightarrow> sound (snd (io_map f (h (audited K) m) w))"
  by (simp add: snd_io_map keeps_sound)

end

lemma handlerI:
  assumes "\<And>K m sv k. wp (h K m) (\<lambda>_ w. server_kept sv (fst w)) (\<lambda>_ w. server_kept sv (fst w))
      (\<lambda>w. server_kept sv (fst w)) (sv, k)"
  shows "handler h"
proof
  show "server_kept (fst w) (fst (snd (h K m w)))" for K m w
    using assms [where K = K and m = m and sv = "fst w" and k = "snd w"] by (simp add: wp_same)
qed

lemma audited_handlerI:
  assumes "\<And>K m sv s. sound (sv, s) \<Longrightarrow> wp (h (audited K) m) (\<lambda>_. sound) (\<lambda>_. sound) sound (sv, s)"
  shows "audited_handler h"
proof
  show "sound w \<Longrightarrow> sound (snd (h (audited K) m w))" for w K m
    using assms [where K = K and m = m and sv = "fst w" and s = "snd w"] by (simp add: wp_same)
qed

lemma wp_kernel_kept:
  assumes "\<And>x t. Q x (sv, t)" and "\<And>e t. E e (sv, t)" and "\<And>t. X (sv, t)"
  shows "wp (on_kernel m) Q E X (sv, k)"
  unfolding wp_on_kernel unfolding wp_def using assms by (auto split: prod.split io_result.split)

end
