(* ===== verification/Handlers.thy ===== *)
theory Handlers
  imports Handler_Contract
begin

text \<open>
  Every request handler keeps the contracts of \<open>Handler_Contract\<close>: one interpretation per
  method of \<^verbatim>\<open>Server\<close>.
\<close>

lemmas handler_wp = wp_return wp_throw wp_panic wp_result wp_bind wp_map wp_get_server wp_put_fids
  wp_put_msize wp_get_fid wp_get_file wp_set_fid

subsection \<open>Requests that are always refused, and flush\<close>

lemma trivial_handler:
  assumes "\<And>K m. (\<exists>e. h K m = io_throw e) \<or> (\<exists>x. h K m = io_return x)"
  shows "handler h"
proof
  show "server_kept (fst w) (fst (snd (h K m w)))" for K m w
    using assms [of K m] by (auto simp: io_throw_apply io_return_apply)
qed

lemma trivial_audited:
  assumes "\<And>K m. (\<exists>e. h K m = io_throw e) \<or> (\<exists>x. h K m = io_return x)"
  shows "audited_handler h"
proof
  show "sound w \<Longrightarrow> sound (snd (h (audited K) m w))" for w K m
    using assms [of "audited K" m] by (auto simp: io_throw_apply io_return_apply)
qed

interpretation auth: handler auth
  by (rule trivial_handler) (auto simp: auth_def)

interpretation auth: audited_handler auth
  by (rule trivial_audited) (auto simp: auth_def)

interpretation flush: handler flush
  by (rule trivial_handler) (auto simp: flush_def)

interpretation flush: audited_handler flush
  by (rule trivial_audited) (auto simp: flush_def)

interpretation remove: handler remove
  by (rule trivial_handler) (auto simp: remove_def)

interpretation remove: audited_handler remove
  by (rule trivial_audited) (auto simp: remove_def)

interpretation symlink: handler symlink
  by (rule trivial_handler) (auto simp: symlink_def)

interpretation symlink: audited_handler symlink
  by (rule trivial_audited) (auto simp: symlink_def)

interpretation mknod: handler mknod
  by (rule trivial_handler) (auto simp: mknod_def)

interpretation mknod: audited_handler mknod
  by (rule trivial_audited) (auto simp: mknod_def)

interpretation rename: handler rename
  by (rule trivial_handler) (auto simp: rename_def)

interpretation rename: audited_handler rename
  by (rule trivial_audited) (auto simp: rename_def)

interpretation xattr_walk: handler xattr_walk
  by (rule trivial_handler) (auto simp: xattr_walk_def)

interpretation xattr_walk: audited_handler xattr_walk
  by (rule trivial_audited) (auto simp: xattr_walk_def)

interpretation xattr_create: handler xattr_create
  by (rule trivial_handler) (auto simp: xattr_create_def)

interpretation xattr_create: audited_handler xattr_create
  by (rule trivial_audited) (auto simp: xattr_create_def)

subsection \<open>Requests that leave the fid table alone\<close>

text \<open>
  These run one kernel operation, or a sequence of them, on descriptors of the server, and
  open nothing that they keep.
\<close>

lemma on_file_sound:
  assumes "sound (sv, s)" and "\<And>d. runs (m d) {d} (\<lambda>_. {#})"
  shows "wp (io_bind (get_file n) (\<lambda>d. io_map f (on_kernel (m d)))) (\<lambda>_. sound) (\<lambda>_. sound) sound (sv, s)"
proof -
  note ok = soundD(2) [OF assms(1)]
  show ?thesis
    using assms(1) owned_file [OF ok]
    by (auto simp: handler_wp intro!: wp_kernel_sound [OF assms(1) assms(2)] split: option.split)
qed

lemma on_file_handler:
  assumes "\<And>K m. h K m = io_bind (get_file (n m)) (\<lambda>d. io_map (f m) (on_kernel (syscall K (c m d))))"
  shows "handler h"
  by (rule handlerI, unfold assms) (auto simp: handler_wp intro!: wp_kernel_kept split: option.split)

lemma on_file_audited:
  assumes "\<And>K m. h K m = io_bind (get_file (n m)) (\<lambda>d. io_map (f m) (on_kernel (syscall K (c m d))))"
    and "\<And>m d. call_fds (c m d) = [d]" and "\<And>m d. call_paths (c m d) = []"
    and "\<And>m d. opens_cloexec (c m d)" and "\<And>m d r M. open_after (c m d) r M = M"
  shows "audited_handler h"
proof (rule audited_handlerI)
  show "sound (sv, s) \<Longrightarrow> wp (h (audited K) m) (\<lambda>_. sound) (\<lambda>_. sound) sound (sv, s)" for K m sv s
    unfolding assms(1) by (rule on_file_sound, assumption, rule runs_syscall)
      (simp_all add: call_in_order_def assms(2-5))
qed

interpretation write_op: handler write_op
  by (rule on_file_handler [where n = twrite_fid and f = "\<lambda>m r. \<lparr>rwrite_count = of_int (sys_res r)\<rparr>"
        and c = "\<lambda>m d. Pwrite d (twrite_data m) (twrite_offset m)"])
    (simp_all add: write_op_def io_map_def)

interpretation write_op: audited_handler write_op
  by (rule on_file_audited [where n = twrite_fid and f = "\<lambda>m r. \<lparr>rwrite_count = of_int (sys_res r)\<rparr>"
        and c = "\<lambda>m d. Pwrite d (twrite_data m) (twrite_offset m)"])
    (simp_all add: write_op_def io_map_def)

interpretation fsync: handler fsync
  by (rule on_file_handler [where n = tfsync_fid and f = "\<lambda>m _. ()"
        and c = "\<lambda>m d. if tfsync_datasync m = 0 then syscall.Fsync d else Fdatasync d"])
    (simp_all add: fsync_def)

interpretation fsync: audited_handler fsync
  by (rule on_file_audited [where n = tfsync_fid and f = "\<lambda>m _. ()"
        and c = "\<lambda>m d. if tfsync_datasync m = 0 then syscall.Fsync d else Fdatasync d"])
    (simp_all add: fsync_def)

interpretation lock: handler lock
  by (rule on_file_handler [where n = tlock_fid and f = "\<lambda>m _. \<lparr>rlock_status = P9_LOCK_SUCCESS\<rparr>"
        and c = "\<lambda>m d. syscall.Fstat d"])
    (simp_all add: lock_def io_map_def)

interpretation lock: audited_handler lock
  by (rule on_file_audited [where n = tlock_fid and f = "\<lambda>m _. \<lparr>rlock_status = P9_LOCK_SUCCESS\<rparr>"
        and c = "\<lambda>m d. syscall.Fstat d"])
    (simp_all add: lock_def io_map_def)

interpretation get_lock: handler get_lock
  by (rule on_file_handler [where n = tgetlock_fid and c = "\<lambda>m d. syscall.Fstat d"
        and f = "\<lambda>m _. \<lparr>rgetlock_type = P9_LOCK_TYPE_UNLCK, rgetlock_start = tgetlock_start m,
       rgetlock_length = tgetlock_length m, rgetlock_proc_id = tgetlock_proc_id m,
       rgetlock_client_id = tgetlock_client_id m\<rparr>"])
    (simp_all add: get_lock_def io_map_def)

interpretation get_lock: audited_handler get_lock
  by (rule on_file_audited [where n = tgetlock_fid and c = "\<lambda>m d. syscall.Fstat d"
        and f = "\<lambda>m _. \<lparr>rgetlock_type = P9_LOCK_TYPE_UNLCK, rgetlock_start = tgetlock_start m,
       rgetlock_length = tgetlock_length m, rgetlock_proc_id = tgetlock_proc_id m,
       rgetlock_client_id = tgetlock_client_id m\<rparr>"])
    (simp_all add: get_lock_def io_map_def)

interpretation read_op: handler read_op
  by (rule handlerI) (auto simp: read_op_def Let_def handler_wp intro!: wp_kernel_kept split: option.split)

interpretation read_op: audited_handler read_op
proof (rule audited_handlerI)
  show "wp (read_op (audited K) m) (\<lambda>_. sound) (\<lambda>_. sound) sound (sv, s)" if s: "sound (sv, s)" for K m sv s
    using s owned_file [OF soundD(2) [OF s]]
    by (auto simp: read_op_def Let_def handler_wp call_in_order_def
        intro!: wp_kernel_sound [OF s runs_syscall] split: option.split)
qed

interpretation statfs: handler statfs
  by (rule handlerI) (auto simp: statfs_def Let_def handler_wp intro!: wp_kernel_kept split: option.split)

interpretation statfs: audited_handler statfs
proof (rule audited_handlerI)
  show "wp (statfs (audited K) m) (\<lambda>_. sound) (\<lambda>_. sound) sound (sv, s)" if s: "sound (sv, s)" for K m sv s
    using s owned_path [OF soundD(2) [OF s]]
    by (auto simp: statfs_def Let_def handler_wp call_in_order_def
        intro!: wp_kernel_sound [OF s runs_syscall] split: option.split)
qed

interpretation readlink: handler readlink
  by (rule handlerI) (auto simp: readlink_def Let_def ok_or_def handler_wp intro!: wp_kernel_kept
      split: option.split io_result.split)

interpretation readlink: audited_handler readlink
proof (rule audited_handlerI)
  show "wp (readlink (audited K) m) (\<lambda>_. sound) (\<lambda>_. sound) sound (sv, s)" if s: "sound (sv, s)" for K m sv s
    using s owned_path [OF soundD(2) [OF s]]
    by (auto simp: readlink_def Let_def ok_or_def handler_wp call_in_order_def cstring_ok_def string_to_cstring_ok
        intro!: wp_kernel_sound [OF s runs_syscall] split: option.split io_result.split)
qed

interpretation get_attr: handler get_attr
  by (rule handlerI) (auto simp: get_attr_def Let_def ok_or_def handler_wp intro!: wp_kernel_kept
      split: option.split io_result.split)

interpretation get_attr: audited_handler get_attr
proof (rule audited_handlerI)
  show "wp (get_attr (audited K) m) (\<lambda>_. sound) (\<lambda>_. sound) sound (sv, s)" if s: "sound (sv, s)" for K m sv s
    using s owned_path [OF soundD(2) [OF s]]
    by (auto simp: get_attr_def Let_def ok_or_def handler_wp call_in_order_def string_to_cstring_ok
        intro!: wp_kernel_sound [OF s runs_stat] split: option.split io_result.split)
qed

interpretation rename_at: handler rename_at
  by (rule handlerI) (auto simp: rename_at_def Let_def ok_or_def handler_wp intro!: wp_kernel_kept
      split: option.split io_result.split)

interpretation rename_at: audited_handler rename_at
proof (rule audited_handlerI)
  show "wp (rename_at (audited K) m) (\<lambda>_. sound) (\<lambda>_. sound) sound (sv, s)" if s: "sound (sv, s)" for K m sv s
    using s owned_path [OF soundD(2) [OF s]]
    by (auto simp: rename_at_def Let_def ok_or_def handler_wp call_in_order_def subset_iff string_to_cstring_ok
        intro!: wp_kernel_sound [OF s runs_syscall] split: option.split io_result.split)
qed

interpretation unlink_at: handler unlink_at
  by (rule handlerI) (auto simp: unlink_at_def Let_def ok_or_def handler_wp intro!: wp_kernel_kept
      split: option.split io_result.split)

interpretation unlink_at: audited_handler unlink_at
proof (rule audited_handlerI)
  show "wp (unlink_at (audited K) m) (\<lambda>_. sound) (\<lambda>_. sound) sound (sv, s)" if s: "sound (sv, s)" for K m sv s
    using s owned_path [OF soundD(2) [OF s]]
    by (auto simp: unlink_at_def Let_def ok_or_def handler_wp call_in_order_def string_to_cstring_ok
        intro!: wp_kernel_sound [OF s runs_syscall] split: option.split io_result.split)
qed

interpretation link_op: handler link_op
  by (rule handlerI) (auto simp: link_op_def Let_def ok_or_def handler_wp intro!: wp_kernel_kept
      split: option.split io_result.split)

interpretation link_op: audited_handler link_op
proof (rule audited_handlerI)
  show "wp (link_op (audited K) m) (\<lambda>_. sound) (\<lambda>_. sound) sound (sv, s)" if s: "sound (sv, s)" for K m sv s
    using s owned_path [OF soundD(2) [OF s]] owned_proc [of sv]
    by (auto simp: link_op_def Let_def ok_or_def handler_wp call_in_order_def subset_iff string_to_cstring_ok
        intro!: wp_kernel_sound [OF s runs_syscall] split: option.split io_result.split)
qed

interpretation mkdir: handler mkdir
  by (rule handlerI) (auto simp: mkdir_def Let_def ok_or_def handler_wp intro!: wp_kernel_kept
      split: option.split io_result.split)

interpretation mkdir: audited_handler mkdir
proof (rule audited_handlerI)
  show "wp (mkdir (audited K) m) (\<lambda>_. sound) (\<lambda>_. sound) sound (sv, s)" if s: "sound (sv, s)" for K m sv s
    using s owned_path [OF soundD(2) [OF s]]
    by (auto simp: mkdir_def Let_def ok_or_def handler_wp call_in_order_def string_to_cstring_ok
        intro!: wp_kernel_sound [OF s runs_syscall] wp_kernel_sound [OF _ runs_statat] split: option.split io_result.split)
qed

lemma runs_set_attr_mode:
  "cstring_ok path \<Longrightarrow> runs (set_attr_mode (audited K) proc path m) {proc} (\<lambda>_. {#})"
  unfolding set_attr_mode_def
  by (intro runs_if runs_return_none runs_map_none runs_syscall) (auto simp: call_in_order_def)

lemma runs_set_attr_owner:
  "cstring_ok path \<Longrightarrow> runs (set_attr_owner (audited K) proc path m) {proc} (\<lambda>_. {#})"
  unfolding set_attr_owner_def Let_def
  by (intro runs_if runs_return_none runs_map_none runs_syscall) (auto simp: call_in_order_def)

lemma runs_set_attr_times:
  "cstring_ok path \<Longrightarrow> runs (set_attr_times (audited K) proc path m) {proc} (\<lambda>_. {#})"
  unfolding set_attr_times_def Let_def
  by (intro runs_if runs_return_none runs_map_none runs_syscall) (auto simp: call_in_order_def)

lemma runs_set_attr_ctime:
  "cstring_ok path \<Longrightarrow> runs (set_attr_ctime (audited K) proc path m) {proc} (\<lambda>_. {#})"
  unfolding set_attr_ctime_def
  by (intro runs_if runs_return_none runs_map_none runs_syscall) (auto simp: call_in_order_def)

lemma runs_set_len: "runs (set_len (audited K) file len) {file} (\<lambda>_. {#})"
  unfolding set_len_def
  by (intro runs_if runs_throw runs_map_none runs_syscall) (auto simp: call_in_order_def)

lemma runs_set_attr_size:
  "runs (set_attr_size (audited K) proc f m) (insert proc (set (fid_fds f))) (\<lambda>_. {#})"
proof (cases "fid_file f")
  case None
  have "runs (io_bind (open_fid (audited K) proc (fid_path f) (P9_NONBLOCK OR P9_RDWR)) (\<lambda>file.
      io_finally (set_len (audited K) file (tsetattr_size m)) (close (audited K) file)))
      {proc, fid_path f} (\<lambda>_. {#})"
    by (intro runs_open_use_close runs_open_fid runs_mono_need [OF runs_set_len]) simp
  then show ?thesis unfolding set_attr_size_def using None
    by (auto simp: fid_fds_def intro: runs_throw runs_return_none)
next
  case (Some g)
  have "runs (set_len (audited K) g (tsetattr_size m)) (insert proc (set (fid_fds f))) (\<lambda>_. {#})"
    by (rule runs_mono_need [OF runs_set_len]) (simp add: fid_fds_def Some)
  with Some show ?thesis unfolding set_attr_size_def
    by (auto intro: runs_throw runs_return_none)
qed

interpretation set_attr: handler set_attr
  by (rule handlerI) (auto simp: set_attr_def Let_def handler_wp intro!: wp_kernel_kept
      split: option.split io_result.split)

interpretation set_attr: audited_handler set_attr
proof (rule audited_handlerI)
  show "wp (set_attr (audited K) m) (\<lambda>_. sound) (\<lambda>_. sound) sound (sv, s)" if s: "sound (sv, s)" for K m sv s
    using s owned_get [OF soundD(2) [OF s]] owned_proc [of sv]
    by (auto simp: set_attr_def Let_def handler_wp string_to_cstring_ok subset_iff
        intro!: wp_kernel_sound [OF _ runs_set_attr_mode] wp_kernel_sound [OF _ runs_set_attr_owner]
          wp_kernel_sound [OF _ runs_set_attr_size] wp_kernel_sound [OF _ runs_set_attr_times]
          wp_kernel_sound [OF _ runs_set_attr_ctime] split: option.split io_result.split)
qed

lemma wp_kernel_sound_post:
  assumes s: "sound (sv, s)" and r: "runs m need (\<lambda>_. {#})" and n: "need \<subseteq> set_mset (owned sv)"
    and P: "\<And>s x t. m s = (Ok x, t) \<Longrightarrow> P x"
    and Q: "\<And>x t. P x \<Longrightarrow> sound (sv, t) \<Longrightarrow> Q x (sv, t)"
    and E: "\<And>e t. sound (sv, t) \<Longrightarrow> E e (sv, t)" and X: "\<And>t. sound (sv, t) \<Longrightarrow> X (sv, t)"
  shows "wp (on_kernel m) Q E X (sv, s)"
proof -
  have "wp m (\<lambda>_. holds (owned sv)) (\<lambda>_. holds (owned sv)) (holds (owned sv)) s"
    using runsD [OF r n soundD(1) [OF s]] by simp
  moreover obtain r t where rt: "m s = (r, t)" by (cases "m s")
  ultimately have "holds (owned sv) t" by (cases r) (simp_all add: wp_def)
  then have "sound (sv, t)" by (rule soundI) (rule soundD(2) [OF s])
  then show ?thesis unfolding wp_on_kernel using rt Q [OF P] E X
    by (cases r) (simp_all add: wp_def)
qed

interpretation readdir: handler readdir
  by (rule handlerI) (auto simp: readdir_def Let_def ok_or_def handler_wp intro!: wp_kernel_kept
      split: option.split io_result.split)

interpretation readdir: audited_handler readdir
proof (rule audited_handlerI)
  show "wp (readdir (audited K) m) (\<lambda>_. sound) (\<lambda>_. sound) sound (sv, s)" if s: "sound (sv, s)" for K m sv s
    using s owned_path [OF soundD(2) [OF s]] owned_file [OF soundD(2) [OF s]]
    by (auto simp: readdir_def Let_def handler_wp ok_or_def
        intro!: wp_kernel_sound_post [OF s runs_read_dir _ read_dir_Ok]
          wp_kernel_sound [OF _ runs_readdir_loop] split: option.split)
qed

subsection \<open>Requests that change the fid table\<close>

lemma wp_get_server_bind: "wp (io_bind get_server f) Q E X (sv, s) = wp (f sv) Q E X (sv, s)"
  by (simp add: wp_bind wp_get_server)

lemma wp_get_fid_bind: "wp (io_bind (get_fid n) f) Q E X (sv, s) = (case bt_get (srv_fids sv) n of
     Some d \<Rightarrow> wp (f d) Q E X (sv, s) | None \<Rightarrow> E ebadf (sv, s))"
  by (simp add: wp_bind wp_get_fid)

lemma wp_ok_or_bind: "wp (io_bind (ok_or x e) f) Q E X w = (case x of
     Some a \<Rightarrow> wp (f a) Q E X w | None \<Rightarrow> E e w)"
  by (simp add: wp_bind ok_or_def wp_return wp_throw split: option.split)

lemma wp_result_bind: "wp (io_bind (io_result r) f) Q E X w = (case r of
     Ok a \<Rightarrow> wp (f a) Q E X w | Err e \<Rightarrow> E e w | Panic \<Rightarrow> X w)"
  by (simp add: wp_bind wp_result)

lemma wp_set_fid_bind: "wp (io_bind (set_fid n d) f) Q E X (sv, s)
    = wp (f ()) Q E X (sv\<lparr>srv_fids := bt_insert (srv_fids sv) n d\<rparr>, s)"
  by (simp add: wp_bind wp_set_fid)

text \<open>Reading the state one statement at a time.\<close>

lemmas handler_step = wp_get_server_bind wp_get_fid_bind wp_ok_or_bind wp_result_bind wp_set_fid_bind
  wp_throw wp_return

lemma wp_open_stat:
  assumes s: "sound (sv, s)" and m: "runs m need (\<lambda>f. {#f#})" and n: "need \<subseteq> set_mset (owned sv)"
    and G: "\<And>f st t. holds (add_mset f (owned sv)) t \<Longrightarrow> wp (g f st) (\<lambda>_. sound) (\<lambda>_. sound) sound (sv, t)"
  shows "wp (io_bind (on_kernel m) (\<lambda>f. io_bind (on_kernel
      (io_on_error (stat (audited K) f) (close (audited K) f))) (g f))) (\<lambda>_. sound) (\<lambda>_. sound) sound (sv, s)"
proof -
  note ok = soundD(2) [OF s]
  show ?thesis unfolding wp_bind wp_on_kernel wp_on_error
  proof (rule runs_wp [OF m soundD(1) [OF s] n], goal_cases)
    case (1 f t)
    show ?case
      by (rule runs_wp [OF runs_stat]) (use 1 in \<open>auto intro: G soundI [OF _ ok] holds_close\<close>)
  qed (auto intro: soundI [OF _ ok])
qed

interpretation clunk: handler clunk
  by (rule handlerI) (auto simp: clunk_def handler_wp
      intro!: wp_kernel_kept server_kept_fids bt.inv_remove split: option.split)

interpretation clunk: audited_handler clunk
proof (rule audited_handlerI)
  show "wp (clunk (audited K) m) (\<lambda>_. sound) (\<lambda>_. sound) sound (sv, s)" if s: "sound (sv, s)" for K m sv s
  proof (cases "bt_get (srv_fids sv) (tclunk_fid m)")
    case (Some f)
    let ?sv = "sv\<lparr>srv_fids := bt_remove (srv_fids sv) (tclunk_fid m)\<rparr>"
    note ok = soundD(2) [OF s]
    from soundD(1) [OF s] have "holds (owned ?sv + mset (fid_fds f)) s"
      by (simp add: owned_remove [OF ok Some])
    moreover have "bt_ok (srv_fids ?sv)" by (simp add: bt.inv_remove [OF ok])
    ultimately show ?thesis using Some
      by (simp add: clunk_def handler_wp wp_on_kernel drop_fid_def) (rule wp_close_all, assumption, simp add: soundI)
  qed (use s in \<open>simp add: clunk_def handler_wp\<close>)
qed

lemma version_kept:
  "wp (version K m) (\<lambda>_ w. server_kept sv (fst w)) (\<lambda>_ w. server_kept sv (fst w))
    (\<lambda>w. server_kept sv (fst w)) (sv, k)"
proof -
  have "server_kept sv (sv\<lparr>srv_fids := bt_new, srv_cfg := srv_cfg sv
      \<lparr>cfg_msize := min (cfg_msize (srv_cfg sv)) (tversion_msize m)\<rparr>\<rparr>)"
    if "\<not> tversion_msize m < MIN_MESSAGE_SIZE"
    using that bt.inv_new by (auto simp: server_kept_def)
  then show ?thesis
    by (auto simp: version_def clear_fids_def Let_def handler_wp bt.inv_new
        intro!: wp_kernel_kept server_kept_fids)
qed

interpretation version: handler version
  by (rule handlerI) (rule version_kept)

interpretation version: audited_handler version
proof (rule audited_handlerI)
  show "wp (version (audited K) m) (\<lambda>_. sound) (\<lambda>_. sound) sound (sv, s)" if s: "sound (sv, s)" for K m sv s
  proof -
    let ?sv = "sv\<lparr>srv_fids := bt_new\<rparr>"
    from soundD(1) [OF s] have "holds (owned ?sv + mset (concat (map fid_fds (bt_values (srv_fids sv))))) s"
      by (simp add: owned_def [of sv] owned_clear)
    then have "wp (close_all (audited K) (concat (map fid_fds (bt_values (srv_fids sv)))))
        (\<lambda>_ t. sound (?sv, t)) E X s" for E X
      by (rule wp_close_all) (simp add: sound_def bt.inv_new)
    then show ?thesis using s
      by (auto simp: version_def clear_fids_def Let_def handler_wp wp_on_kernel sound_def)
  qed
qed

interpretation attach: handler attach
  by (rule handlerI) (auto simp: attach_def insert_fid_def ok_or_def handler_wp
      intro!: wp_kernel_kept split: option.split)

interpretation attach: audited_handler attach
proof (rule audited_handlerI)
  show "wp (attach (audited K) m) (\<lambda>_. sound) (\<lambda>_. sound) sound (sv, s)" if s: "sound (sv, s)" for K m sv s
  proof -
    have open_root: "runs (io_map sys_res (syscall (audited K)
        (Openat AT_FDCWD root (O_PATH OR O_NOFOLLOW OR O_CLOEXEC) None))) {} (\<lambda>f. {#f#})"
      if "cstring_ok root" for root
      using that by (intro runs_map runs_syscall) (auto simp: call_in_order_def cloexec_lookup)
    have store: "wp (io_bind (insert_fid (audited K) n \<lparr>fid_path = f, fid_file = None, fid_filetype = ft\<rparr>)
        (\<lambda>_. io_return r)) (\<lambda>_. sound) (\<lambda>_. sound) sound (sv, t)"
      if "holds (add_mset f (owned sv)) t" for n f ft t and r :: Rattach
      unfolding wp_bind
      by (rule wp_insert_fid) (use that soundD(2) [OF s] in \<open>auto simp: fid_fds_def wp_return\<close>)
    show ?thesis using s
      by (auto simp: attach_def handler_step cstring_new_Some
          intro!: wp_open_stat [OF s open_root] store split: option.split)
  qed
qed

interpretation lopen: handler lopen
  by (rule handlerI) (auto simp: lopen_def assign_file_def handler_wp
      intro!: wp_kernel_kept split: option.split)

interpretation lopen: audited_handler lopen
proof (rule audited_handlerI)
  show "wp (lopen (audited K) m) (\<lambda>_. sound) (\<lambda>_. sound) sound (sv, s)" if s: "sound (sv, s)" for K m sv s
  proof (cases "bt_get (srv_fids sv) (tlopen_fid m)")
    case (Some f)
    note ok = soundD(2) [OF s]
    have store: "wp (io_bind (assign_file (audited K) (tlopen_fid m) f d) (\<lambda>_. io_return r))
        (\<lambda>_. sound) (\<lambda>_. sound) sound (sv, t)"
      if "holds (add_mset d (owned sv)) t" for d t and r :: Rlopen
      unfolding wp_bind by (rule wp_assign_file [OF that ok Some]) (simp add: wp_return)
    show ?thesis using Some s owned_path [OF ok Some] owned_proc [of sv]
      by (auto simp: lopen_def handler_step intro!: wp_open_stat [OF s runs_open_fid] store)
  qed (use s in \<open>simp add: lopen_def handler_step\<close>)
qed

lemma io_return_bind: "io_bind (io_return x) f = f x"
  by (simp add: fun_eq_iff io_bind_def io_return_apply)

lemma wp_walk_end:
  assumes h: "holds (owned sv + walk_gain (r, mds)) t" and ok: "bt_ok (srv_fids sv)"
  shows "wp (io_bind (case r of
           Ok e \<Rightarrow>
             if length mds = length wnames then
               io_bind (case mds of
                   [] \<Rightarrow> on_kernel (io_on_error (stat (audited K) e) (close (audited K) e))
                 | _ \<Rightarrow> io_return (last mds)) (\<lambda>st.
               insert_fid (audited K) n
                 \<lparr>fid_path = e, fid_file = None, fid_filetype = file_type_from (st_mode st)\<rparr>)
             else on_kernel (close (audited K) e)
         | Err e \<Rightarrow> if mds = [] then io_throw e else io_return ()
         | Panic \<Rightarrow> io_panic) (\<lambda>_. io_return x)) (\<lambda>_. sound) (\<lambda>_. sound) sound (sv, t)"
proof (cases r)
  case (Ok e)
  with h have he: "holds (add_mset e (owned sv)) t" by (simp add: walk_gain_def)
  have store: "wp (io_bind (insert_fid (audited K) n
      \<lparr>fid_path = e, fid_file = None, fid_filetype = ft\<rparr>) (\<lambda>_. io_return x))
      (\<lambda>_. sound) (\<lambda>_. sound) sound (sv, u)" if "holds (add_mset e (owned sv)) u" for ft u
    unfolding wp_bind by (rule wp_insert_fid) (use that ok in \<open>auto simp: fid_fds_def wp_return\<close>)
  show ?thesis
  proof (cases "length mds = length wnames")
    case True
    show ?thesis
    proof (cases mds)
      case Nil
      show ?thesis unfolding Ok using True Nil
        by (simp add: io_bind_assoc, subst wp_bind, simp only: wp_on_kernel wp_on_error)
          (rule runs_wp [OF runs_stat he], auto intro: store soundI [OF _ ok] holds_close)
    next
      case (Cons a as)
      show ?thesis unfolding Ok using True Cons
        by (simp add: io_bind_assoc io_return_bind store [OF he])
    qed
  next
    case False
    then show ?thesis unfolding Ok
      by (simp add: wp_bind wp_on_kernel wp_return)
        (rule wp_audited_close [OF he], simp_all add: soundI [OF _ ok])
  qed
next
  case (Err e)
  with h have "sound (sv, t)" by (simp add: walk_gain_def soundI ok)
  then show ?thesis unfolding Err by (simp add: wp_bind wp_throw wp_return)
next
  case Panic
  with h have "sound (sv, t)" by (simp add: walk_gain_def soundI ok)
  then show ?thesis unfolding Panic by (simp add: wp_bind wp_panic)
qed

lemma wp_do_walk:
  assumes s: "sound (sv, s)" and need: "{srv_proc sv, start} \<subseteq> set_mset (owned sv)"
    and G: "\<And>r mds t. holds (owned sv + walk_gain (r, mds)) t \<Longrightarrow>
      wp (G r mds) (\<lambda>_. sound) (\<lambda>_. sound) sound (sv, t)"
  shows "wp (io_bind (on_kernel (do_walk (audited K) (srv_proc sv) wnames start cf)) (\<lambda>(r, mds). G r mds))
    (\<lambda>_. sound) (\<lambda>_. sound) sound (sv, s)"
  unfolding wp_bind wp_on_kernel
  by (rule runs_wp [OF runs_do_walk soundD(1) [OF s] need])
    (auto intro: G soundI [OF _ soundD(2) [OF s]])

interpretation walk: handler walk
  by (rule handlerI) (auto simp: walk_def insert_fid_def handler_wp
      intro!: wp_kernel_kept split: option.split io_result.split list.split)

interpretation walk: audited_handler walk
proof (rule audited_handlerI)
  show "wp (walk (audited K) m) (\<lambda>_. sound) (\<lambda>_. sound) sound (sv, s)" if s: "sound (sv, s)" for K m sv s
  proof (cases "bt_get (srv_fids sv) (twalk_fid m)")
    case (Some f)
    note ok = soundD(2) [OF s]
    have need: "{srv_proc sv, fid_path f} \<subseteq> set_mset (owned sv)"
      using owned_path [OF ok Some] owned_proc [of sv] by simp
    show ?thesis
      using s Some by (auto simp: walk_def handler_step intro!: wp_do_walk [OF s need] wp_walk_end [OF _ ok])
  qed (use s in \<open>simp add: walk_def handler_step\<close>)
qed

lemma fid_fds_simps [simp]:
  "fid_fds (f\<lparr>fid_filetype := ft\<rparr>) = fid_fds f"
  "mset (fid_fds (f\<lparr>fid_path := p\<rparr>)) + {#fid_path f#} = mset (fid_fds f) + {#p#}"
  by (simp_all add: fid_fds_def)

text \<open>Replacing a fid by another with the same descriptors.\<close>

lemma sound_set_same:
  assumes "sound (sv, s)" and "bt_get (srv_fids sv) n = Some f" and "fid_fds g = fid_fds f"
  shows "sound (sv\<lparr>srv_fids := bt_insert (srv_fids sv) n g\<rparr>, s)"
proof -
  note ok = soundD(2) [OF assms(1)]
  have "owned (sv\<lparr>srv_fids := bt_insert (srv_fids sv) n g\<rparr>) = owned sv"
    using owned_insert_old [OF ok assms(2), of g] by (simp add: assms(3))
  with soundD(1) [OF assms(1)] show ?thesis by (intro soundI) (simp_all add: bt.inv_insert [OF ok])
qed

text \<open>The end of \<^verbatim>\<open>lcreate\<close>: the path is looked up and replaces the directory's.\<close>

lemma wp_replace_path:
  assumes s: "sound (sv, s)" and f: "bt_get (srv_fids sv) n = Some f" and c: "cstring_ok name"
    and p: "fid_path f = old"
  shows "wp (io_bind (on_kernel (lookup (audited K) old name)) (\<lambda>path.
       io_bind (set_fid n (f\<lparr>fid_path := path\<rparr>)) (\<lambda>_.
       io_bind (on_kernel (close (audited K) old)) (\<lambda>_.
       io_return x)))) (\<lambda>_. sound) (\<lambda>_. sound) sound (sv, s)"
proof -
  note ok = soundD(2) [OF s]
  have step: "wp (close (audited K) old) (\<lambda>_ t. sound (sv\<lparr>srv_fids := bt_insert (srv_fids sv) n (f\<lparr>fid_path := path\<rparr>)\<rparr>, t))
      (\<lambda>_ t. sound (sv\<lparr>srv_fids := bt_insert (srv_fids sv) n (f\<lparr>fid_path := path\<rparr>)\<rparr>, t))
      (\<lambda>t. sound (sv\<lparr>srv_fids := bt_insert (srv_fids sv) n (f\<lparr>fid_path := path\<rparr>)\<rparr>, t)) t"
    if t: "holds (add_mset path (owned sv)) t" for path t
  proof -
    let ?sv = "sv\<lparr>srv_fids := bt_insert (srv_fids sv) n (f\<lparr>fid_path := path\<rparr>)\<rparr>"
    have "owned ?sv + mset (fid_fds f) = owned sv + mset (fid_fds (f\<lparr>fid_path := path\<rparr>))"
      by (rule owned_insert_old [OF ok f])
    then have "owned ?sv + {#old#} + mset (fid_fds f) = add_mset path (owned sv) + mset (fid_fds f)"
      using fid_fds_simps(2) [where f = f and p = path] p by (simp add: ac_simps)
    then have "add_mset path (owned sv) = add_mset old (owned ?sv)" by simp
    with t have "holds (add_mset old (owned ?sv)) t" by simp
    then show ?thesis
      by (rule wp_audited_close) (auto intro!: soundI simp: bt.inv_insert [OF ok])
  qed
  have need: "{old} \<subseteq> set_mset (owned sv)" using owned_path [OF ok f] p by simp
  show ?thesis
    unfolding wp_bind wp_on_kernel
    by (rule runs_wp [OF runs_lookup [OF c] soundD(1) [OF s] need])
      (simp_all add: wp_set_fid wp_on_kernel wp_return step soundI ok)
qed

lemma wp_lcreate_store:
  fixes t :: "'k \<times> audit"
  assumes t: "holds (add_mset d (owned sv)) t" and ok: "bt_ok (srv_fids sv)"
    and f: "bt_get (srv_fids sv) n = Some f" and c: "cstring_ok name"
  shows "wp (io_bind (assign_file (audited K) n f d) (\<lambda>f'.
       io_bind (set_fid n (f'\<lparr>fid_filetype := Regular\<rparr>)) (\<lambda>_.
       io_bind (on_kernel (lookup (audited K) (fid_path f) name)) (\<lambda>path.
       io_bind (set_fid n (f'\<lparr>fid_filetype := Regular, fid_path := path\<rparr>)) (\<lambda>_.
       io_bind (on_kernel (close (audited K) (fid_path f))) (\<lambda>_.
       io_return r)))))) (\<lambda>_. sound) (\<lambda>_. sound) sound (sv, t)"
proof (subst wp_bind, rule wp_assign_file [OF t ok f], subst wp_set_fid_bind)
  let ?f = "f\<lparr>fid_file := Some d\<rparr>"
  let ?sv = "sv\<lparr>srv_fids := bt_insert (srv_fids sv) n ?f\<rparr>"
  fix u :: "'k \<times> audit"
  assume "sound (?sv, u)"
  then have "sound (?sv\<lparr>srv_fids := bt_insert (srv_fids ?sv) n (?f\<lparr>fid_filetype := Regular\<rparr>)\<rparr>, u)"
    by (rule sound_set_same [where f = ?f]) (simp_all add: bt.get_insert [OF ok])
  then show "wp (io_bind (on_kernel (lookup (audited K) (fid_path f) name)) (\<lambda>path.
       io_bind (set_fid n (?f\<lparr>fid_filetype := Regular, fid_path := path\<rparr>)) (\<lambda>_.
       io_bind (on_kernel (close (audited K) (fid_path f))) (\<lambda>_.
       io_return r)))) (\<lambda>_. sound) (\<lambda>_. sound) sound
       (?sv\<lparr>srv_fids := bt_insert (srv_fids ?sv) n (?f\<lparr>fid_filetype := Regular\<rparr>)\<rparr>, u)"
    by (rule wp_replace_path) (simp_all add: c bt.get_insert bt.inv_insert [OF ok])
qed

lemma cloexec_lcreate: "map_open_flags (O_CLOEXEC OR O_CREAT OR O_EXCL) p AND O_CLOEXEC \<noteq> 0"
proof -
  have "map_open_flags (O_CLOEXEC OR O_CREAT OR O_EXCL) p AND O_CLOEXEC = O_CLOEXEC"
    by (rule map_open_flags_keeps) (simp add: open_flags)
  then show ?thesis by (simp add: open_flags)
qed

interpretation lcreate: handler lcreate
  by (rule handlerI) (auto simp: lcreate_def Let_def assign_file_def handler_wp
      intro!: wp_kernel_kept server_kept_fids bt.inv_insert split: option.split io_result.split)

interpretation lcreate: audited_handler lcreate
proof (rule audited_handlerI)
  show "wp (lcreate (audited K) m) (\<lambda>_. sound) (\<lambda>_. sound) sound (sv, s)" if s: "sound (sv, s)" for K m sv s
  proof (cases "bt_get (srv_fids sv) (tlcreate_fid m)")
    case (Some f)
    note ok = soundD(2) [OF s]
    let ?n = "tlcreate_fid m"
    have create: "runs (io_map sys_res (syscall (audited K) (Openat (fid_path f) name
        (map_open_flags (O_CLOEXEC OR O_CREAT OR O_EXCL) (tlcreate_flags m)) (Some (tlcreate_mode m)))))
        {fid_path f} (\<lambda>d. {#d#})" if "cstring_ok name" for name
      using that cloexec_lcreate by (intro runs_map runs_syscall) (auto simp: call_in_order_def)
    have store: "wp (io_bind (assign_file (audited K) ?n f d) (\<lambda>f'.
         io_bind (set_fid ?n (f'\<lparr>fid_filetype := Regular\<rparr>)) (\<lambda>_.
         io_bind (on_kernel (lookup (audited K) (fid_path f) name)) (\<lambda>path.
         io_bind (set_fid ?n (f'\<lparr>fid_filetype := Regular, fid_path := path\<rparr>)) (\<lambda>_.
         io_bind (on_kernel (close (audited K) (fid_path f))) (\<lambda>_.
         io_return r)))))) (\<lambda>_. sound) (\<lambda>_. sound) sound (sv, t)"
      if t: "holds (add_mset d (owned sv)) t" and c: "cstring_ok name" for d name t and r :: Rlcreate
      by (rule wp_lcreate_store [OF t ok Some c])
    show ?thesis using Some s owned_path [OF ok Some]
      by (auto simp: lcreate_def Let_def handler_step string_to_cstring_ok
          intro!: wp_open_stat [OF s create] store split: io_result.split)
  qed (use s in \<open>simp add: lcreate_def handler_step\<close>)
qed

end
