(* ===== verification/Sessions.thy ===== *)
theory Sessions
  imports Handlers
begin

text \<open>
  The dispatcher and the main loop on top of the handlers' contracts: the invariants of the
  server across requests, across a whole session and across a run of the program.
\<close>

lemma handle_keeps: "server_kept (fst w) (fst (snd (handle K m w)))"
  by (cases m) (simp_all add: auth.arm_keeps attach.arm_keeps version.arm_keeps flush.arm_keeps
      walk.arm_keeps read_op.arm_keeps write_op.arm_keeps clunk.arm_keeps remove.arm_keeps
      statfs.arm_keeps lopen.arm_keeps lcreate.arm_keeps symlink.arm_keeps mknod.arm_keeps
      rename.arm_keeps readlink.arm_keeps get_attr.arm_keeps set_attr.arm_keeps
      xattr_walk.arm_keeps xattr_create.arm_keeps readdir.arm_keeps fsync.arm_keeps
      lock.arm_keeps get_lock.arm_keeps link_op.arm_keeps mkdir.arm_keeps rename_at.arm_keeps
      unlink_at.arm_keeps)

lemma handle_sound: "sound w \<Longrightarrow> sound (snd (handle (audited K) m w))"
  by (cases m) (simp_all add: auth.arm_sound attach.arm_sound version.arm_sound flush.arm_sound
      walk.arm_sound read_op.arm_sound write_op.arm_sound clunk.arm_sound remove.arm_sound
      statfs.arm_sound lopen.arm_sound lcreate.arm_sound symlink.arm_sound mknod.arm_sound
      rename.arm_sound readlink.arm_sound get_attr.arm_sound set_attr.arm_sound
      xattr_walk.arm_sound xattr_create.arm_sound readdir.arm_sound fsync.arm_sound
      lock.arm_sound get_lock.arm_sound link_op.arm_sound mkdir.arm_sound rename_at.arm_sound
      unlink_at.arm_sound)

lemma snd_respond: "snd (respond K msg w) = (case msg of Ok m \<Rightarrow> snd (handle K m w) | _ \<Rightarrow> w)"
  by (cases "case msg of Ok m \<Rightarrow> handle K m w | _ \<Rightarrow> (Err (Kinded InvalidData), w)")
    (auto simp: respond_def io_or_else_def io_throw_apply io_panic_apply io_return_apply
      split: io_result.split prod.split)

interpretation respond: handler respond
  by unfold_locales (simp add: snd_respond handle_keeps split: io_result.split)

interpretation respond: audited_handler respond
  by unfold_locales (simp add: snd_respond handle_sound split: io_result.split)

definition ses_world :: "'k session \<Rightarrow> server \<times> 'k" where
  "ses_world s = (ses_server s, ses_kernel s)"

lemma handle_message_world:
  "ses_world (snd (handle_message K s)) = ses_world s
    \<or> (\<exists>msg. ses_world (snd (handle_message K s)) = snd (respond K msg (ses_world s)))"
proof (cases "reader_take (unat (cfg_msize (srv_cfg (ses_server s)))) tframe_decode (ses_in s)")
  case (Pair r left)
  show ?thesis
  proof (cases r)
    case (Ok f)
    then have "ses_world (snd (handle_message K s)) = snd (respond K (tframe_msg f) (ses_world s))"
      using Pair by (auto simp: handle_message_def ses_world_def split: prod.splits io_result.splits)
    then show ?thesis by blast
  qed (use Pair in \<open>simp_all add: handle_message_def ses_world_def\<close>)
qed

lemma handle_message_kept: "server_kept (ses_server s) (ses_server (snd (handle_message K s)))"
  using handle_message_world [of K s] respond.keeps [of "ses_world s" K]
  by (auto simp: ses_world_def) (metis fst_conv)+

lemma handle_message_sound:
  "sound (ses_world s) \<Longrightarrow> sound (ses_world (snd (handle_message (audited K) s)))"
  using handle_message_world [of "audited K" s] respond.keeps_sound [of "ses_world s" K] by metis

lemma main_loop_kept: "server_kept (ses_server s) (ses_server (snd (main_loop K s)))"
proof (induction K s rule: main_loop.induct)
  case (1 K s)
  show ?case
  proof (cases "handle_message K s")
    case (Pair r t)
    with handle_message_kept [of s K] have "server_kept (ses_server s) (ses_server t)" by simp
    with 1 [OF Pair [symmetric]] show ?thesis
      by (subst main_loop.simps) (auto simp: Pair intro: server_kept_trans split: io_result.split)
  qed
qed

lemma main_loop_sound: "sound (ses_world s) \<Longrightarrow> sound (ses_world (snd (main_loop (audited K) s)))"
proof (induction "audited K" s rule: main_loop.induct)
  case (1 s)
  show ?case
  proof (cases "handle_message (audited K) s")
    case (Pair r t)
    with handle_message_sound [OF "1.prems", of K] have "sound (ses_world t)" by simp
    with "1.hyps" [OF Pair [symmetric]] show ?thesis
      by (subst main_loop.simps) (auto simp: Pair split: io_result.split)
  qed
qed

subsection \<open>Whole requests\<close>

lemma frame_is_taken:
  assumes "wf_tmsg m" and "7 + length (tmsg_bytes m) \<le> unat (msize :: u32)"
    and "inp = frame_bytes (tmsg_type m) tag (tmsg_bytes m) @ rest"
  shows "reader_take (unat msize) tframe_decode inp
    = (Ok \<lparr>tframe_tag = tag, tframe_msg = Ok m\<rparr>, rest)"
proof -
  let ?f = "frame_bytes (tmsg_type m) tag (tmsg_bytes m)"
  have len: "length ?f \<le> unat msize" using assms(2) by simp
  then have t: "take (unat msize) inp = ?f @ take (unat msize - length ?f) rest"
    and d: "drop (unat msize) inp = drop (unat msize - length ?f) rest"
    by (simp_all only: assms(3) take_append drop_append take_all drop_all append_Nil)
  have "unat msize < 2 ^ 32" using unsigned_less [of msize] by simp
  with assms(2) have "7 + length (tmsg_bytes m) < 2 ^ 32" by linarith
  from tframe_decode_bytes [OF assms(1) this]
  show ?thesis by (simp only: reader_take_def t d prod.case append_take_drop_id)
qed

text \<open>A request that arrives whole is answered and consumed, and nothing after it is touched.\<close>

lemma handle_message_frame:
  assumes "wf_tmsg m" and "7 + length (tmsg_bytes m) \<le> unat (cfg_msize (srv_cfg (ses_server s)))"
    and "ses_in s = frame_bytes (tmsg_type m) tag (tmsg_bytes m) @ rest"
    and "respond K (Ok m) (ses_server s, ses_kernel s) = (Ok r, (sv, k))" and "wf_rmsg r"
  shows "handle_message K s = (Ok (), \<lparr>ses_in = rest,
    ses_out = ses_out s @ frame_bytes (rmsg_type r) tag (rmsg_bytes r), ses_server = sv, ses_kernel = k\<rparr>)"
  by (simp add: handle_message_def frame_is_taken [OF assms(1-3)] assms(4) rframe_encode_bytes [OF assms(5)])

subsection \<open>Start-up\<close>

definition fresh_audit :: audit where
  "fresh_audit = \<lparr>aud_open = {#}, aud_clean = True\<rparr>"

lemma holds_fresh: "holds {#} (k, fresh_audit)"
  by (simp add: holds_def fresh_audit_def)

lemma ascii_proc_ok: "cstring_ok (ascii ''/proc'')"
  by (simp add: cstring_ok_def ascii_def)

lemma wp_with_config:
  assumes "holds {#} s"
  shows "wp (with_config (audited K) cfg)
    (\<lambda>sv t. sound (sv, t) \<and> srv_cfg sv = cfg \<and> srv_fids sv = bt_new) (\<lambda>_. holds {#}) (holds {#}) s"
proof -
  let ?open = "syscall (audited K) (Openat AT_FDCWD (ascii ''/proc'') (O_PATH OR O_NOFOLLOW OR O_CLOEXEC) None)"
  have "runs ?open {} (\<lambda>r. {#sys_res r#})"
    by (rule runs_syscall) (auto simp: call_in_order_def cloexec_lookup ascii_proc_ok)
  from runsD [OF this _ assms] show ?thesis
    unfolding with_config_def wp_bind
    by (rule wp_mono) (auto simp: wp_return sound_def owned_def bt.vals_new bt.inv_new)
qed

text \<open>
  The states a server goes through, from start-up on: requests are handled one after the other,
  whatever bytes the client sends.
\<close>

inductive serving :: "'k kernel \<Rightarrow> config \<Rightarrow> 'k \<Rightarrow> 'k session \<Rightarrow> bool" for K cfg k where
  started: "with_config K cfg k = (Ok sv, k') \<Longrightarrow>
    serving K cfg k \<lparr>ses_in = input, ses_out = [], ses_server = sv, ses_kernel = k'\<rparr>"
| handled: "serving K cfg k s \<Longrightarrow> handle_message K s = (Ok (), s') \<Longrightarrow> serving K cfg k s'"

inductive_cases started_handledE: "serving K cfg k s"

lemma serving_sound:
  "serving (audited K) cfg (k, fresh_audit) s \<Longrightarrow> sound (ses_world s)"
proof (induction rule: serving.induct)
  case (started sv k' input)
  with wp_with_config [OF holds_fresh, of K cfg k] show ?case
    by (simp add: wp_def ses_world_def)
next
  case (handled s s')
  then show ?case using handle_message_sound [of s K] by simp
qed

lemma with_config_Ok: "with_config K cfg k = (Ok sv, k') \<Longrightarrow> srv_cfg sv = cfg \<and> srv_fids sv = bt_new"
  by (auto simp: with_config_def io_bind_eq_Ok io_return_apply)

lemma serving_kept:
  assumes "serving K cfg k s"
  shows "\<exists>sv. srv_cfg sv = cfg \<and> srv_fids sv = bt_new \<and> server_kept sv (ses_server s)"
  using assms
proof (induction rule: serving.induct)
  case (started sv k' input)
  then show ?case using with_config_Ok by (intro exI [of _ sv]) simp
next
  case (handled s s')
  then show ?case using handle_message_kept [of s K] by (auto intro: server_kept_trans)
qed

end
