(* ===== verification/Demo_Kernel.thy ===== *)
theory Demo_Kernel
  imports Sessions
begin

text \<open>
  A small kernel to instantiate theorems with: it hands out descriptors in ascending order,
  every name exists and is a directory, and every other call succeeds with result 0.
\<close>

definition demo_stat :: stat64 where
  "demo_stat = \<lparr>st_mode = 0x41ED, st_ino = 7, st_nlink = 1, st_uid = 1000, st_gid = 1000, st_rdev = 0,
     st_size = 0, st_blksize = 4096, st_blocks = 0, st_atime = 1, st_atime_nsec = 2, st_mtime = 3,
     st_mtime_nsec = 4, st_ctime = 5, st_ctime_nsec = 6\<rparr>"

definition demo_ret :: "int \<Rightarrow> sysret" where
  "demo_ret r = \<lparr>sys_res = r, sys_errno = 0, sys_stat = demo_stat,
     sys_statfs = \<lparr>f_type = 0, f_bsize = 4096, f_blocks = 0, f_bfree = 0, f_bavail = 0, f_files = 0,
       f_ffree = 0, f_fsid_0 = 0, f_fsid_1 = 0, f_namelen = 255\<rparr>, sys_buf = []\<rparr>"

fun demo_kernel :: "int kernel" where
  "demo_kernel (Openat d p f m) k = (demo_ret k, k + 1)"
| "demo_kernel (Dupfd_cloexec d) k = (demo_ret k, k + 1)"
| "demo_kernel c k = (demo_ret 0, k)"

lemma demo_ret_simps [simp]:
  "sys_res (demo_ret r) = r" "sys_stat (demo_ret r) = demo_stat" "sys_buf (demo_ret r) = []"
  by (simp_all add: demo_ret_def)

text \<open>A kernel that refuses every call with one error.\<close>

definition refusing_kernel :: "int \<Rightarrow> 'k kernel" where
  "refusing_kernel e c k = ((demo_ret (- 1))\<lparr>sys_errno := e\<rparr>, k)"

lemma refusing_simps [simp]:
  "refusing_kernel e c k = ((demo_ret (- 1))\<lparr>sys_errno := e\<rparr>, k)"
  by (simp add: refusing_kernel_def)

subsection \<open>A session with it\<close>

definition demo_server :: server where
  "demo_server = \<lparr>srv_fids = [(1, \<lparr>fid_path = 4, fid_file = None, fid_filetype = Directory\<rparr>)],
     srv_proc = 3, srv_cfg = config_default\<rparr>"

lemma demo_start:
  "with_config demo_kernel config_default 3
    = (Ok \<lparr>srv_fids = bt_new, srv_proc = 3, srv_cfg = config_default\<rparr>, 4)"
  by (simp add: with_config_def io_apply syscall_def io_return_apply)

lemma demo_stat_dir: "file_type_from (st_mode demo_stat) = Directory"
  by (simp add: file_type_from_def demo_stat_def S_IFMT_def S_IFREG_def S_IFDIR_def)

end
