(* ===== verification/Session_Properties.thy ===== *)
theory Session_Properties
  imports Demo_Kernel
begin

text \<open>
  The properties of the running server: what holds between any two requests of a session and
  over a whole run of the program.
\<close>

text \<open>
  Property C1.  At every moment of a session the descriptors that are open are exactly
  \<^verbatim>\<open>/proc\<close> and the path and open file of every fid in the table, each as often as it is
  there: nothing leaks and nothing is closed twice; and no call so far used a descriptor that
  was not open, passed a path with a nul byte, or opened a file without close-on-exec.  This
  holds for every kernel and every sequence of bytes from the client.
\<close>

theorem descriptors_are_accounted_for:
  assumes "serving (audited K) cfg (k, fresh_audit) s"
  shows "aud_clean (snd (ses_kernel s))
    \<and> aud_open (snd (ses_kernel s)) = add_mset (srv_proc (ses_server s))
        (mset (concat (map fid_fds (bt_values (srv_fids (ses_server s))))))"
  using serving_sound [OF assms] by (simp add: ses_world_def sound_def holds_def owned_def)

lemma demo_session:
  "\<exists>s. serving (audited demo_kernel) config_default (3, fresh_audit) s
    \<and> srv_fids (ses_server s) = [(1, \<lparr>fid_path = 4, fid_file = None, fid_filetype = Directory\<rparr>)]
    \<and> srv_proc (ses_server s) = 3"
proof -
  let ?m = "Tmessage.Attach \<lparr>tattach_fid = 1, tattach_afid = 2, tattach_uname = [], tattach_aname = [],
    tattach_n_uname = 0\<rparr>"
  let ?sv = "\<lparr>srv_fids = bt_new, srv_proc = 3, srv_cfg = config_default\<rparr>"
  obtain k where k: "with_config (audited demo_kernel) config_default (3, fresh_audit) = (Ok ?sv, (4, k))"
    by (simp add: with_config_def io_apply syscall_def io_return_apply audited_def)
  define s :: "(int \<times> audit) session" where "s = \<lparr>ses_in = frame_bytes (tmsg_type ?m) 0 (tmsg_bytes ?m) @ [], ses_out = [],
    ses_server = ?sv, ses_kernel = (4, k)\<rparr>"
  have start: "serving (audited demo_kernel) config_default (3, fresh_audit) s"
    unfolding s_def by (rule serving.started [OF k])
  have root: "cstring_new (ascii ''/'') = Some (ascii ''/'')"
    by code_simp
  have cfg_root: "cfg_root config_default = ascii ''/''" by (simp add: config_default_def)
  obtain k' where "respond (audited demo_kernel) (Ok ?m) (?sv, (4, k)) = (Ok (Rmessage.Attach
      \<lparr>rattach_qid = qid_from demo_stat\<rparr>), (?sv\<lparr>srv_fids :=
        [(1, \<lparr>fid_path = 4, fid_file = None, fid_filetype = Directory\<rparr>)]\<rparr>, (5, k')))"
    by (simp add: respond_def io_apply io_map_apply attach_def get_server_def bt_new_def
        ok_or_def cfg_root root io_return_apply on_kernel_def syscall_def audited_def stat_def
        statat_def insert_fid_def put_fids_def demo_stat_dir)
  then have resp: "respond (audited demo_kernel) (Ok ?m) (ses_server s, ses_kernel s) = (Ok (Rmessage.Attach
      \<lparr>rattach_qid = qid_from demo_stat\<rparr>), (?sv\<lparr>srv_fids :=
        [(1, \<lparr>fid_path = 4, fid_file = None, fid_filetype = Directory\<rparr>)]\<rparr>, (5, k')))"
    by (simp add: s_def)
  have "wf_tmsg ?m" by (simp add: wf_Tattach_def wf_string_def)
  moreover have "7 + length (tmsg_bytes ?m) \<le> unat (cfg_msize (srv_cfg (ses_server s)))"
    by (simp add: s_def bytes_Tattach_def string_bytes_def config_default_def MAX_MESSAGE_SIZE_def)
  moreover have "ses_in s = frame_bytes (tmsg_type ?m) 0 (tmsg_bytes ?m) @ []" by (simp add: s_def)
  moreover have "wf_rmsg (Rmessage.Attach \<lparr>rattach_qid = qid_from demo_stat\<rparr>)"
    by (simp add: wf_Rattach_def wf_Qid_def)
  ultimately have "\<exists>s'. handle_message (audited demo_kernel) s = (Ok (), s')
      \<and> ses_server s' = ?sv\<lparr>srv_fids := [(1, \<lparr>fid_path = 4, fid_file = None, fid_filetype = Directory\<rparr>)]\<rparr>"
    using handle_message_frame [OF _ _ _ resp] by fastforce
  then obtain s' where h: "handle_message (audited demo_kernel) s = (Ok (), s')" and
    sv: "ses_server s' = ?sv\<lparr>srv_fids := [(1, \<lparr>fid_path = 4, fid_file = None, fid_filetype = Directory\<rparr>)]\<rparr>"
    by blast
  from serving.handled [OF start h] sv show ?thesis by (intro exI [of _ s'] conjI) simp_all
qed

theorem descriptors_are_accounted_for_witness:
  "\<exists>s. serving (audited demo_kernel) config_default (3, fresh_audit) s
    \<and> aud_clean (snd (ses_kernel s)) \<and> aud_open (snd (ses_kernel s)) = {#3, 4#}"
proof -
  obtain s where s: "serving (audited demo_kernel) config_default (3, fresh_audit) s"
    and f: "srv_fids (ses_server s) = [(1, \<lparr>fid_path = 4, fid_file = None, fid_filetype = Directory\<rparr>)]"
    "srv_proc (ses_server s) = 3" using demo_session by blast
  from descriptors_are_accounted_for [OF s] f have "aud_clean (snd (ses_kernel s))
      \<and> aud_open (snd (ses_kernel s)) = {#3, 4#}" by (simp add: bt_values_def fid_fds_def)
  with s show ?thesis by blast
qed

end
