(* ===== verification/Replies.thy ===== *)
theory Replies
  imports Demo_Kernel
begin

text \<open>
  What the replies look like: within the protocol's limits, of the type that answers the
  request, and, but for two of them, within the negotiated message size.
\<close>

subsection \<open>Walks and listings\<close>

text \<open>A walk has attributes for each component it got to, and for all of them on success.\<close>

lemma walk_loop_length:
  "walk_loop K proc cf wnames c mds k = (Ok (r, mds'), k') \<Longrightarrow>
    length mds \<le> length mds' \<and> length mds' \<le> length mds + length wnames
    \<and> ((\<exists>c'. r = Ok c') \<longrightarrow> length mds' = length mds + length wnames)
    \<and> (\<forall>f. r = Ok (Borrowed f) \<longrightarrow> wnames = [] \<and> c = Borrowed f)"
proof (induction wnames arbitrary: c mds k)
  case (Cons wname wnames)
  obtain q t where q: "walk_step K proc cf c wname k = (q, t)" by (cases "walk_step K proc cf c wname k")
  show ?case
  proof (cases q)
    case (Ok p)
    obtain new st where p: "p = (new, st)" by (cases p)
    from Cons.prems q Ok p have "walk_loop K proc cf wnames (Owned new) (mds @ [st]) t = (Ok (r, mds'), k')"
      by (simp add: io_apply)
    from Cons.IH [OF this] show ?thesis by auto
  qed (use Cons.prems q in \<open>auto simp: io_apply io_return_apply\<close>)
qed (auto simp: io_return_apply)

lemma do_walk_length:
  assumes "do_walk K proc wnames start cf k = (Ok (r, mds), k')"
  shows "length mds \<le> length wnames \<and> ((\<exists>f. r = Ok f) \<longrightarrow> length mds = length wnames)"
proof -
  from assms obtain q mds' t where q: "walk_loop K proc cf wnames (Borrowed start) [] k = (Ok (q, mds'), t)"
    and rest: "(case q of
       Ok (Owned f) \<Rightarrow> io_return (Ok f, mds')
     | Ok (Borrowed borrowed) \<Rightarrow> io_map (\<lambda>r. (r, mds')) (io_attempt (try_clone K borrowed))
     | Err e \<Rightarrow> io_return (Err e, mds')
     | Panic \<Rightarrow> io_panic) t = (Ok (r, mds), k')"
    by (auto simp: do_walk_def io_bind_eq_Ok)
  from rest have "mds = mds' \<and> ((\<exists>f. r = Ok f) \<longrightarrow> (\<exists>c. q = Ok c))"
    by (auto simp: io_return_apply io_panic_apply io_map_apply split: io_result.split_asm
        maybe_owned.split_asm prod.split_asm)
  with walk_loop_length [OF q] show ?thesis by auto
qed

lemma readdir_loop_length:
  "readdir_loop K path room rd cur k = (Ok bs, k') \<Longrightarrow> length cur \<le> room \<Longrightarrow> length bs \<le> room"
proof (induction K path room rd cur k rule: readdir_loop.induct)
  case (1 K path room rd cur k)
  obtain r t where rt: "readdir_step K path room rd cur k = (r, t)"
    by (cases "readdir_step K path room rd cur k")
  show ?case
  proof (cases "\<exists>rd' cur'. r = Ok (Some (rd', cur'))")
    case True
    then obtain rd' cur' where r: "r = Ok (Some (rd', cur'))" by blast
    from readdir_step_grows [of K path room rd cur k rd' cur' t] rt r "1.prems"(2)
    have "length cur' \<le> room" by auto
    with "1.IH" [OF rt [symmetric] r refl refl] "1.prems"(1) rt r show ?thesis
      by (simp add: readdir_loop.simps [of K path room rd cur k])
  next
    case False
    with "1.prems" rt show ?thesis
      by (auto simp: readdir_loop.simps [of K path room rd cur k] split: io_result.splits option.splits)
  qed
qed

subsection \<open>Each reply\<close>

definition good_reply :: "u32 \<Rightarrow> Tmessage \<Rightarrow> Rmessage \<Rightarrow> bool" where
  "good_reply msize m r =
    (wf_rmsg r \<and> rmsg_type r = tmsg_type m + 1
     \<and> (7 + length (tmsg_bytes m) \<le> unat msize \<longrightarrow>
        7 + length (rmsg_bytes r) \<le> unat msize \<or> tmsg_type m = TWALK \<or> tmsg_type m = TREADLINK))"

lemma data_header_size:
  "rframe_byte_size \<lparr>rframe_tag = 0, rframe_msg = Rmessage.Read \<lparr>rread_data = []\<rparr>\<rparr> = 11"
  "rframe_byte_size \<lparr>rframe_tag = 0, rframe_msg = Rmessage.Readdir \<lparr>rreaddir_data = []\<rparr>\<rparr> = 11"
  by (simp_all add: rframe_byte_size_def frame_header_size_7 wire_Rread_def wire_Rreaddir_def
      wire_struct_def wire_data_def data_byte_size_def)

lemma room_bound:
  assumes "MIN_MESSAGE_SIZE \<le> msize" and "msize \<le> MAX_MESSAGE_SIZE"
  shows "11 + unat (min (msize - 11) n) \<le> unat msize" and "unat (min (msize - 11) n) \<le> unat MAX_DATA_LENGTH"
proof -
  from assms(1) have "11 \<le> msize" by (simp add: MIN_MESSAGE_SIZE_def word_le_nat_alt)
  then have "unat (msize - 11) = unat msize - 11" by (simp add: unat_sub word_le_nat_alt)
  moreover from assms(2) have "unat msize \<le> 65560" by (simp add: MAX_MESSAGE_SIZE_def word_le_nat_alt)
  moreover have "unat (min (msize - 11) n) \<le> unat (msize - 11)" by (simp add: min_def word_le_nat_alt)
  moreover from \<open>11 \<le> msize\<close> have "11 \<le> unat msize" by (simp add: word_le_nat_alt)
  ultimately show "11 + unat (min (msize - 11) n) \<le> unat msize"
    and "unat (min (msize - 11) n) \<le> unat MAX_DATA_LENGTH" by (simp_all add: MAX_DATA_LENGTH_nat)
qed

lemma length_bytes_Qid: "length (bytes_Qid q) = 13"
  by (simp add: bytes_Qid_def)

lemma good_small:
  assumes "256 \<le> unat msize" and "wf_rmsg r" and "rmsg_type r = tmsg_type m + 1"
    and "length (rmsg_bytes r) \<le> 249"
  shows "good_reply msize m r"
  using assms by (simp add: good_reply_def)

lemmas reply_bytes = bytes_Rversion_def bytes_Rattach_def bytes_Rwrite_def bytes_Rstatfs_def
  bytes_Rlopen_def bytes_Rlcreate_def bytes_Rgetattr_def bytes_Rlock_def bytes_Rmkdir_def
  length_bytes_Qid string_bytes_def

lemmas reply_wf = wf_Rversion_def wf_Rattach_def wf_Rwrite_def wf_Rstatfs_def wf_Rlopen_def
  wf_Rlcreate_def wf_Rgetattr_def wf_Rlock_def wf_Rmkdir_def wf_Qid_def wf_string_def

abbreviation replies :: "('k, 'a) handler \<Rightarrow> ('a \<Rightarrow> bool) \<Rightarrow> server \<times> 'k \<Rightarrow> bool" where
  "replies h P w \<equiv> wp h (\<lambda>r _. P r) (\<lambda>_ _. True) (\<lambda>_. True) w"

lemma replies_kernel: "(\<And>x t. replies (f x) P (sv, t)) \<Longrightarrow> replies (io_bind (on_kernel m) f) P (sv, k)"
  unfolding wp_bind by (rule wp_kernel_kept) simp_all

lemma replies_bind: "(\<And>x w. replies (f x) P w) \<Longrightarrow> replies (io_bind m f) P w"
  unfolding wp_bind by (rule wp_mono [of m "\<lambda>_ _. True" "\<lambda>_ _. True" "\<lambda>_. True"])
    (simp_all add: wp_def split: prod.split io_result.split)

lemma replies_True: "replies h (\<lambda>_. True) w"
  by (simp add: wp_def split: prod.split io_result.split)

lemma replies_kernel_Ok:
  "m k = (Ok x, t) \<Longrightarrow> replies (io_bind (on_kernel m) f) P (sv, k) = replies (f x) P (sv, t)"
  by (simp add: wp_bind wp_on_kernel) (simp add: wp_def)

lemma version_strings:
  "ascii ''9P2000.L'' = [57, 80, 50, 48, 48, 48, 46, 76]"
  "ascii ''unknown'' = [117, 110, 107, 110, 111, 119, 110]"
  by (simp_all add: ascii_def)

lemma version_reply_record:
  assumes "v = ascii ''9P2000.L'' \<or> v = ascii ''unknown''"
  shows "wf_Rversion \<lparr>rversion_msize = n, rversion_version = v\<rparr>
    \<and> length (bytes_Rversion \<lparr>rversion_msize = n, rversion_version = v\<rparr>) \<le> 14"
  using assms unfolding version_strings
  by (auto simp: wf_Rversion_def wf_string_def bytes_Rversion_def string_bytes_def)

lemma version_reply: "replies (version K m) (\<lambda>r. wf_Rversion r \<and> length (bytes_Rversion r) \<le> 14) w"
  unfolding version_def Let_def
  by (auto simp: wp_throw wp_return version_reply_record intro!: replies_bind split: if_split)

lemma walk_reply: "replies (walk K m) (\<lambda>r. length (rwalk_wqids r) \<le> length (twalk_wnames m)) (sv, k)"
proof -
  have end_walk: "replies (io_bind g (\<lambda>_. io_return \<lparr>rwalk_wqids = map qid_from mds\<rparr>))
      (\<lambda>r. length (rwalk_wqids r) \<le> length (twalk_wnames m)) w"
    if "length mds \<le> length (twalk_wnames m)" for mds w and g :: "('a, unit) handler"
    using that by (intro replies_bind) (simp add: wp_return)
  have walked: "replies (io_bind (on_kernel (do_walk K proc (twalk_wnames m) start cf)) (\<lambda>(r, mds).
      io_bind (g r mds) (\<lambda>_. io_return \<lparr>rwalk_wqids = map qid_from mds\<rparr>)))
      (\<lambda>r. length (rwalk_wqids r) \<le> length (twalk_wnames m)) (sv, k)"
    for proc start cf sv k and K :: "'a kernel" and g :: "fd io_result \<Rightarrow> stat64 list \<Rightarrow> ('a, unit) handler"
  proof -
    obtain q t where q: "do_walk K proc (twalk_wnames m) start cf k = (q, t)"
      by (cases "do_walk K proc (twalk_wnames m) start cf k")
    show ?thesis
    proof (cases q)
      case (Ok p)
      obtain r mds where p: "p = (r, mds)" by (cases p)
      with q Ok do_walk_length [of K proc "twalk_wnames m" start cf k r mds t]
      have "length mds \<le> length (twalk_wnames m)" by simp
      with q Ok p show ?thesis by (simp add: replies_kernel_Ok end_walk)
    qed (use q in \<open>simp_all add: wp_def io_bind_def on_kernel_def\<close>)
  qed
  show ?thesis
    by (simp add: walk_def wp_get_server_bind wp_get_fid_bind wp_throw walked split: option.split)
qed

lemma wp_get_file_bind: "wp (io_bind (get_file n) f) Q E X (sv, s) = (case bt_get (srv_fids sv) n of
     Some d \<Rightarrow> (case fid_file d of Some g \<Rightarrow> wp (f g) Q E X (sv, s) | None \<Rightarrow> E ebadf (sv, s))
   | None \<Rightarrow> E ebadf (sv, s))"
  by (simp add: wp_bind wp_get_file)

lemma read_reply:
  "replies (read_op K m)
    (\<lambda>r. length (rread_data r) \<le> unat (min (cfg_msize (srv_cfg sv) - 11) (tread_count m))) (sv, k)"
  by (auto simp: read_op_def Let_def wp_get_file_bind wp_get_server_bind wp_return data_header_size
      intro!: replies_kernel split: option.split)

lemma readlink_reply:
  "replies (readlink K m) (\<lambda>r. utf8_valid (rreadlink_target r) \<and> length (rreadlink_target r) \<le> 4096) (sv, k)"
  by (auto simp: readlink_def wp_get_fid_bind wp_ok_or_bind wp_return string_from_utf8_def PATH_MAX_def
      intro!: replies_kernel split: option.split if_splits)

lemma readdir_reply:
  "replies (readdir K m)
    (\<lambda>r. length (rreaddir_data r) \<le> unat (min (cfg_msize (srv_cfg sv) - 11) (treaddir_count m))) (sv, k)"
proof -
  let ?n = "unat (min (cfg_msize (srv_cfg sv) - 11) (treaddir_count m))"
  have loop: "replies (io_bind (on_kernel (readdir_loop K path ?n rd [])) (\<lambda>bytes. io_return \<lparr>rreaddir_data = bytes\<rparr>))
      (\<lambda>r. length (rreaddir_data r) \<le> ?n) (sv, t)" for path rd t
  proof -
    obtain q u where q: "readdir_loop K path ?n rd [] t = (q, u)" by (cases "readdir_loop K path ?n rd [] t")
    then show ?thesis
    proof (cases q)
      case (Ok bs)
      with q readdir_loop_length [of K path ?n rd "[]" t bs u] show ?thesis
        by (simp add: replies_kernel_Ok wp_return)
    qed (simp_all add: wp_def io_bind_def on_kernel_def)
  qed
  have "replies (io_bind (on_kernel (read_dir K dir off)) (\<lambda>rd.
      io_bind (on_kernel (readdir_loop K path ?n rd [])) (\<lambda>bytes. io_return \<lparr>rreaddir_data = bytes\<rparr>)))
      (\<lambda>r. length (rreaddir_data r) \<le> ?n) (sv, t)" for path dir off t
    by (rule replies_kernel) (rule loop)
  then show ?thesis
    by (auto simp: readdir_def Let_def wp_get_fid_bind wp_get_server_bind wp_ok_or_bind wp_throw
        data_header_size split: option.split)
qed

lemma get_lock_reply:
  "replies (get_lock K m) (\<lambda>r. rgetlock_client_id r = tgetlock_client_id m) (sv, k)"
  by (auto simp: get_lock_def wp_get_file_bind wp_return intro!: replies_kernel split: option.split)

lemma good_map:
  "replies h P w \<Longrightarrow> (\<And>x. P x \<Longrightarrow> good_reply n m (f x)) \<Longrightarrow> replies (io_map f h) (good_reply n m) w"
  unfolding wp_map by (erule wp_mono) simp_all

lemma good_small_map:
  assumes "256 \<le> unat n" and "\<And>x. wf_rmsg (f x)" and "\<And>x. rmsg_type (f x) = tmsg_type m + 1"
    and "\<And>x. length (rmsg_bytes (f x)) \<le> 249"
  shows "replies (io_map f h) (good_reply n m) w"
  by (rule good_map [OF replies_True]) (intro good_small assms)

text \<open>Every normal reply is good, whatever the kernel answers.\<close>

lemma handle_reply:
  assumes wf: "wf_tmsg m" and lo: "MIN_MESSAGE_SIZE \<le> cfg_msize (srv_cfg sv)"
    and hi: "cfg_msize (srv_cfg sv) \<le> MAX_MESSAGE_SIZE"
  shows "replies (handle K m) (good_reply (cfg_msize (srv_cfg sv)) m) (sv, k)"
proof -
  let ?n = "cfg_msize (srv_cfg sv)"
  have n: "256 \<le> unat ?n" using lo by (simp add: MIN_MESSAGE_SIZE_def word_le_nat_alt)
  note room = room_bound [OF lo hi]
  show ?thesis
  proof (cases m)
    case (Version x)
    show ?thesis unfolding Version handle.simps
      by (rule good_map [OF version_reply]) (rule good_small [OF n], simp_all add: msg_types)
  next
    case (Walk x)
    then show ?thesis using wf unfolding Walk handle.simps
      by (intro good_map [OF walk_reply]) (auto simp: good_reply_def wf_Rwalk_def wf_Twalk_def
          wf_vec_def list_all_iff wf_Qid_def msg_types)
  next
    case (Read x)
    show ?thesis unfolding Read handle.simps
      by (rule good_map [OF read_reply])
        (use room [of "tread_count x"] in \<open>auto simp: good_reply_def wf_Rread_def wf_data_def msg_types
          bytes_Rread_def data_bytes_def\<close>)
  next
    case (Readdir x)
    show ?thesis unfolding Readdir handle.simps
      by (rule good_map [OF readdir_reply])
        (use room [of "treaddir_count x"] in \<open>auto simp: good_reply_def wf_Rreaddir_def wf_data_def msg_types
          bytes_Rreaddir_def data_bytes_def\<close>)
  next
    case (Readlink x)
    show ?thesis unfolding Readlink handle.simps
      by (rule good_map [OF readlink_reply])
        (auto simp: good_reply_def wf_Rreadlink_def wf_string_def msg_types)
  next
    case (GetLock x)
    show ?thesis unfolding GetLock handle.simps
      by (rule good_map [OF get_lock_reply])
        (use wf GetLock in \<open>auto simp: good_reply_def wf_Rgetlock_def wf_Tgetlock_def wf_string_def msg_types
          bytes_Rgetlock_def bytes_Tgetlock_def string_bytes_def\<close>)
  qed (simp_all only: handle.simps, (rule good_small_map [OF n], simp_all add: msg_types reply_wf reply_bytes
      wf_Rsymlink_def wf_Rmknod_def wf_Rauth_def wf_Rxattrwalk_def bytes_Rsymlink_def bytes_Rmknod_def
      bytes_Rauth_def bytes_Rxattrwalk_def)+)
qed

end
