(* ===== verification/Reply_Properties.thy ===== *)
theory Reply_Properties
  imports Replies
begin

text \<open>
  The properties of a request's reply: there is exactly one, it carries the request's tag and
  the type that answers it or an error, and it fits the negotiated size, with the exception of
  walks and of link targets.
\<close>

lemma decoded_request:
  assumes "reader_take (unat n) tframe_decode inp = (Ok f, left)" and "tframe_msg f = Ok m"
  shows "wf_tmsg m \<and> 7 + length (tmsg_bytes m) \<le> unat (n :: u32)"
proof -
  from assms(1) obtain t where "tframe_decode (take (unat n) inp) = (Ok f, t)"
    by (auto simp: reader_take_Ok)
  from tframe_decode_message [OF this assms(2)] show ?thesis by auto
qed

lemma error_reply:
  "wf_rmsg (error_to_rmessage e)" "rmsg_type (error_to_rmessage e) = RLERROR"
  "length (rmsg_bytes (error_to_rmessage e)) = 4"
  by (simp_all add: error_to_rmessage_def Let_def wf_Rlerror_def bytes_Rlerror_def)

text \<open>The reply to a decoded frame: good if normal, else the error.\<close>

lemma respond_reply:
  assumes "reader_take (unat (cfg_msize (srv_cfg sv))) tframe_decode inp = (Ok f, left)"
    and "MIN_MESSAGE_SIZE \<le> cfg_msize (srv_cfg sv)" and "cfg_msize (srv_cfg sv) \<le> MAX_MESSAGE_SIZE"
  shows "wp (respond K (tframe_msg f)) (\<lambda>r _. (\<exists>e. r = error_to_rmessage e) \<or>
      (\<exists>m. tframe_msg f = Ok m \<and> good_reply (cfg_msize (srv_cfg sv)) m r)) (\<lambda>_ _. False) (\<lambda>_. True) (sv, k)"
proof (cases "tframe_msg f")
  case (Ok m)
  with decoded_request [OF assms(1) Ok] have "wf_tmsg m" by simp
  from handle_reply [OF this assms(2,3), of K k] show ?thesis
    unfolding respond_def Ok by (simp add: wp_or_else) (erule wp_mono, auto simp: wp_return)
qed (auto simp: respond_def wp_or_else wp_return wp_throw wp_panic)

lemma handle_message_reply:
  assumes "reader_take (unat (cfg_msize (srv_cfg (ses_server s)))) tframe_decode (ses_in s) = (Ok f, left)"
    and "MIN_MESSAGE_SIZE \<le> cfg_msize (srv_cfg (ses_server s))"
    and "cfg_msize (srv_cfg (ses_server s)) \<le> MAX_MESSAGE_SIZE"
    and "handle_message K s = (res, s')" and "res \<noteq> Panic"
  obtains r where "res = Ok ()" and "ses_in s' = left" and "wf_rmsg r"
    and "ses_out s' = ses_out s @ frame_bytes (rmsg_type r) (tframe_tag f) (rmsg_bytes r)"
    and "(\<exists>e. r = error_to_rmessage e) \<or>
      (\<exists>m. tframe_msg f = Ok m \<and> good_reply (cfg_msize (srv_cfg (ses_server s))) m r)"
proof -
  obtain q w where q: "respond K (tframe_msg f) (ses_server s, ses_kernel s) = (q, w)"
    by (cases "respond K (tframe_msg f) (ses_server s, ses_kernel s)")
  obtain sv k where w: "w = (sv, k)" by (cases w)
  from respond_reply [OF assms(1-3), of K "ses_kernel s"] q assms(1,4,5) w
  obtain r where r: "q = Ok r" and good: "(\<exists>e. r = error_to_rmessage e) \<or>
      (\<exists>m. tframe_msg f = Ok m \<and> good_reply (cfg_msize (srv_cfg (ses_server s))) m r)"
    by (cases q) (auto simp: wp_def handle_message_def)
  from good have wf: "wf_rmsg r" by (auto simp: error_reply good_reply_def)
  from assms(1,4) q w r show ?thesis
    by (intro that [of r]) (auto simp: handle_message_def rframe_encode_bytes [OF wf] wf good)
qed

subsection \<open>A sample session\<close>

text \<open>One \<^verbatim>\<open>Tflush\<close> on a freshly started server.\<close>

definition sample :: "int session" where
  "sample = \<lparr>ses_in = frame_bytes TFLUSH 5 (uint_bytes (3 :: u16)) @ [9], ses_out = [],
     ses_server = demo_server, ses_kernel = 5\<rparr>"

lemma sample_sizes:
  "MIN_MESSAGE_SIZE \<le> cfg_msize (srv_cfg (ses_server sample))"
  "cfg_msize (srv_cfg (ses_server sample)) \<le> MAX_MESSAGE_SIZE"
  by (simp_all add: sample_def demo_server_def config_default_def MIN_MESSAGE_SIZE_def MAX_MESSAGE_SIZE_def)

lemma sample_taken:
  "reader_take (unat (cfg_msize (srv_cfg (ses_server sample)))) tframe_decode (ses_in sample)
    = (Ok \<lparr>tframe_tag = 5, tframe_msg = Ok (Tmessage.Flush \<lparr>tflush_oldtag = 3\<rparr>)\<rparr>, [9])"
  by (rule frame_is_taken)
    (simp_all add: wf_Tflush_def bytes_Tflush_def sample_def demo_server_def config_default_def MAX_MESSAGE_SIZE_def)

lemma sample_handled:
  "handle_message demo_kernel sample
    = (Ok (), sample\<lparr>ses_in := [9], ses_out := frame_bytes RFLUSH 5 []\<rparr>)"
  using handle_message_frame [where m = "Tmessage.Flush \<lparr>tflush_oldtag = 3\<rparr>" and s = sample and tag = 5
      and rest = "[9]" and K = demo_kernel and r = Rmessage.Flush and sv = demo_server and k = 5]
  by (simp add: wf_Tflush_def bytes_Tflush_def sample_def demo_server_def config_default_def MAX_MESSAGE_SIZE_def
      respond_def flush_def io_apply io_map_apply io_return_apply)

text \<open>
  Property C6.  Errors while handling requests are never fatal: once a frame has been decoded
  the server, unless it panics, appends exactly one well-formed reply frame with the same tag,
  whose type is the request's plus one or \<^verbatim>\<open>RLERROR\<close>, and goes on with the bytes after
  the request.  The message size is assumed to be one the server can have negotiated.
\<close>

theorem every_request_is_answered:
  assumes "reader_take (unat (cfg_msize (srv_cfg (ses_server s)))) tframe_decode (ses_in s) = (Ok f, left)"
    and "MIN_MESSAGE_SIZE \<le> cfg_msize (srv_cfg (ses_server s))"
    and "cfg_msize (srv_cfg (ses_server s)) \<le> MAX_MESSAGE_SIZE"
    and "handle_message K s = (res, s')"
  shows "res = Panic \<or> (res = Ok () \<and> ses_in s' = left \<and> (\<exists>r. wf_rmsg r
    \<and> ses_out s' = ses_out s @ frame_bytes (rmsg_type r) (tframe_tag f) (rmsg_bytes r)
    \<and> (rmsg_type r = RLERROR
        \<or> (\<exists>m. tframe_msg f = Ok m \<and> rmsg_type r = tmsg_type m + 1))))"
proof (cases "res = Panic")
  case False
  from handle_message_reply [OF assms(1-4) False] obtain r where "res = Ok ()" "ses_in s' = left" "wf_rmsg r"
    "ses_out s' = ses_out s @ frame_bytes (rmsg_type r) (tframe_tag f) (rmsg_bytes r)"
    "(\<exists>e. r = error_to_rmessage e) \<or>
      (\<exists>m. tframe_msg f = Ok m \<and> good_reply (cfg_msize (srv_cfg (ses_server s))) m r)" .
  then show ?thesis by (auto simp: error_reply good_reply_def)
qed simp

theorem every_request_is_answered_witness:
  "\<exists>r. wf_rmsg r \<and> ses_out (snd (handle_message demo_kernel sample)) = frame_bytes (rmsg_type r) 5 (rmsg_bytes r)"
proof -
  from every_request_is_answered [OF sample_taken sample_sizes sample_handled]
  obtain r where "wf_rmsg r" "ses_out (snd (handle_message demo_kernel sample))
      = ses_out sample @ frame_bytes (rmsg_type r) 5 (rmsg_bytes r)" by (auto simp: sample_handled)
  moreover have "ses_out sample = []" by (simp add: sample_def)
  ultimately show ?thesis by auto
qed

text \<open>
  Property C10.  A reply fits the negotiated message size: true of every reply but those to
  \<^verbatim>\<open>Twalk\<close> and \<^verbatim>\<open>Treadlink\<close>, whose length is not bounded by it.
\<close>

theorem replies_fit_the_message_size:
  assumes "reader_take (unat (cfg_msize (srv_cfg (ses_server s)))) tframe_decode (ses_in s) = (Ok f, left)"
    and "MIN_MESSAGE_SIZE \<le> cfg_msize (srv_cfg (ses_server s))"
    and "cfg_msize (srv_cfg (ses_server s)) \<le> MAX_MESSAGE_SIZE"
    and "handle_message K s = (Ok (), s')"
    and "\<And>m. tframe_msg f = Ok m \<Longrightarrow> tmsg_type m \<noteq> TWALK \<and> tmsg_type m \<noteq> TREADLINK"
  shows "length (ses_out s') \<le> length (ses_out s) + unat (cfg_msize (srv_cfg (ses_server s)))"
proof -
  let ?n = "cfg_msize (srv_cfg (ses_server s))"
  obtain r where out: "ses_out s' = ses_out s @ frame_bytes (rmsg_type r) (tframe_tag f) (rmsg_bytes r)"
    and good: "(\<exists>e. r = error_to_rmessage e) \<or> (\<exists>m. tframe_msg f = Ok m \<and> good_reply ?n m r)"
    by (rule handle_message_reply [OF assms(1-4)]) simp_all
  have "256 \<le> unat ?n" using assms(2) by (simp add: MIN_MESSAGE_SIZE_def word_le_nat_alt)
  have "7 + length (rmsg_bytes r) \<le> unat ?n"
    using good
  proof (elim disjE exE conjE)
    fix e assume "r = error_to_rmessage e"
    with \<open>256 \<le> unat ?n\<close> show ?thesis by (simp add: error_reply)
  next
    fix m assume m: "tframe_msg f = Ok m" and g: "good_reply ?n m r"
    from decoded_request [OF assms(1) m] assms(5) [OF m] g show ?thesis
      by (simp add: good_reply_def)
  qed
  then show ?thesis unfolding out by simp
qed

theorem replies_fit_the_message_size_witness:
  "length (ses_out (snd (handle_message demo_kernel sample))) \<le> 65560"
proof -
  have "tmsg_type m \<noteq> TWALK \<and> tmsg_type m \<noteq> TREADLINK"
    if "tframe_msg \<lparr>tframe_tag = 5, tframe_msg = Ok (Tmessage.Flush \<lparr>tflush_oldtag = 3\<rparr>)\<rparr> = Ok m" for m
    using that by (auto simp: msg_types)
  from replies_fit_the_message_size [OF sample_taken sample_sizes sample_handled this]
  show ?thesis unfolding sample_handled snd_conv
    by (simp add: sample_def demo_server_def config_default_def MAX_MESSAGE_SIZE_def)
qed

lemma demo_walk_step:
  assumes "cstring_ok n" and "0 \<le> k"
  shows "walk_step demo_kernel proc cf c n k = (Ok (k, demo_stat), k + 1)"
  using assms
  by (cases c) (simp_all add: walk_step_def io_apply io_return_apply string_to_cstring_def cstring_new_def
      cstring_ok_def io_result_apply lookup_def io_map_apply syscall_def close_def stat_def statat_def)

lemma demo_walk_loop:
  "list_all cstring_ok ns \<Longrightarrow> 0 \<le> k \<Longrightarrow>
    \<exists>c'. walk_loop demo_kernel proc cf ns c mds k
      = (Ok (Ok c', mds @ replicate (length ns) demo_stat), k + int (length ns)) \<and> (ns \<noteq> [] \<longrightarrow> (\<exists>f. c' = Owned f))"
proof (induction ns arbitrary: c mds k)
  case (Cons n ns)
  then have ok: "cstring_ok n" "list_all cstring_ok ns" by simp_all
  from Cons.IH [OF ok(2), of "k + 1" "Owned k" "mds @ [demo_stat]"] Cons.prems(2)
  obtain c' where "walk_loop demo_kernel proc cf ns (Owned k) (mds @ [demo_stat]) (k + 1)
      = (Ok (Ok c', mds @ [demo_stat] @ replicate (length ns) demo_stat), k + 1 + int (length ns))"
    and "ns \<noteq> [] \<longrightarrow> (\<exists>f. c' = Owned f)" by auto
  then show ?case
    by (intro exI [of _ "if ns = [] then Owned k else c'"])
      (auto simp: io_apply demo_walk_step [OF ok(1) Cons.prems(2)] io_return_apply)
qed (simp add: io_return_apply)

text \<open>
  Property C33.  The reply to a walk is not held to the negotiated size: a request of 77 bytes
  for 20 components, on a connection that negotiated 256 bytes, is answered with a frame of 269.
\<close>

theorem walk_reply_can_exceed_the_message_size:
  "\<exists>m sv w r. wf_tmsg (Tmessage.Walk m) \<and> 7 + length (tmsg_bytes (Tmessage.Walk m)) = 77
    \<and> cfg_msize (srv_cfg sv) = 256
    \<and> handle demo_kernel (Tmessage.Walk m) (sv, 5) = (Ok r, w) \<and> 7 + length (rmsg_bytes r) = 269"
proof -
  define ns where "ns = replicate 20 [97 :: u8]"
  define m where "m = \<lparr>twalk_fid = 1, twalk_newfid = 2, twalk_wnames = ns\<rparr>"
  define sv where "sv = demo_server\<lparr>srv_cfg := config_default\<lparr>cfg_msize := 256\<rparr>\<rparr>"
  have v: "utf8_valid [97]" by code_simp
  have wf: "wf_tmsg (Tmessage.Walk m)"
    by (simp add: m_def ns_def wf_Twalk_def wf_vec_def list_all_length) (simp add: wf_string_def v)
  have len: "length (concat (map string_bytes ns)) = 60"
    by (simp add: ns_def string_bytes_def length_concat sum_list_replicate)
  have size: "7 + length (tmsg_bytes (Tmessage.Walk m)) = 77"
    using len by (simp add: m_def bytes_Twalk_def vec_bytes_def)
  have "list_all cstring_ok ns" by (simp add: ns_def cstring_ok_def list_all_length)
  from demo_walk_loop [OF this, of 5 3 False "Borrowed 4" "[]"] obtain f where
    "walk_loop demo_kernel 3 False ns (Borrowed 4) [] 5
      = (Ok (Ok (Owned f), replicate 20 demo_stat), 25)" by (auto simp: ns_def)
  then have walked: "do_walk demo_kernel 3 ns 4 False 5 = (Ok (Ok f, replicate 20 demo_stat), 25)"
    by (simp add: do_walk_def io_apply io_return_apply)
  define mds where "mds = replicate 20 demo_stat"
  have n: "length mds = length ns" "mds \<noteq> []" by (simp_all add: mds_def ns_def)
  have "\<exists>w. walk demo_kernel m (sv, 5) = (Ok \<lparr>rwalk_wqids = map qid_from mds\<rparr>, w)"
    using walked [folded mds_def] n
    by (simp add: walk_def io_apply get_server_def get_fid_def bt_contains_key_def ok_or_def m_def sv_def
        demo_server_def config_default_def io_return_apply on_kernel_def insert_fid_def put_fids_def
        list.case_eq_if)
  then obtain w where "handle demo_kernel (Tmessage.Walk m) (sv, 5)
      = (Ok (Rmessage.Walk \<lparr>rwalk_wqids = map qid_from mds\<rparr>), w)"
    by (auto simp: io_map_apply)
  moreover have "7 + length (rmsg_bytes (Rmessage.Walk \<lparr>rwalk_wqids = map qid_from mds\<rparr>)) = 269"
    by (simp add: bytes_Rwalk_def vec_bytes_def length_concat mds_def length_bytes_Qid map_replicate
        sum_list_replicate)
  ultimately show ?thesis using wf size by (intro exI [of _ m] exI [of _ sv]) (auto simp: sv_def)
qed

end
