(* ===== verification/Program_Properties.thy ===== *)
theory Program_Properties
  imports Reply_Properties Session_Properties
begin

text \<open>
  The properties of the program as a whole: a run against the audited kernel, what a session
  does with a stream of requests, how it ends, and what the program makes of its arguments and
  of a configuration string.
\<close>

subsection \<open>Helpers: the header of a frame\<close>

definition declared_size :: "u8 list \<Rightarrow> nat" where
  "declared_size inp = unat (uint_of_bytes (take 4 inp) :: u32)"

definition broken_header :: "u8 list \<Rightarrow> bool" where
  "broken_header inp = (length inp < 7 \<or> declared_size inp < 7)"

lemma four_bytes:
  assumes "4 \<le> length inp"
  obtains n :: u32 and s where "inp = uint_bytes n @ s" and "unat n = declared_size inp" and "s = drop 4 inp"
proof -
  have "uint_bytes (uint_of_bytes (take 4 inp) :: u32) = take 4 inp"
    by (rule uint_bytes_inverse) (use assms in simp_all)
  then have "inp = uint_bytes (uint_of_bytes (take 4 inp) :: u32) @ drop 4 inp" by simp
  then show ?thesis using that by (simp add: declared_size_def)
qed

lemma short_header:
  assumes "length t < 3"
  shows "io_bind (read_exact 1) (\<lambda>ty. io_bind uint_decode (\<lambda>tag.
      io_bind (io_attempt (decode_message (ty ! 0))) (\<lambda>msg.
      io_return \<lparr>tframe_tag = tag, tframe_msg = msg\<rparr>))) t = (Err (Kinded UnexpectedEof), [])"
  using assms by (cases t) (simp_all add: io_apply read_exact_def uint_decode_def)

lemma tframe_decode_broken_run:
  assumes "broken_header inp"
  shows "tframe_decode inp = (Err (Kinded
      (if 4 \<le> length inp \<and> declared_size inp < 4 then InvalidData else UnexpectedEof)),
    if 4 \<le> length inp then if declared_size inp < 4 then drop 4 inp else drop (declared_size inp) inp else [])"
proof (cases "4 \<le> length inp")
  case False
  then show ?thesis by (simp add: tframe_decode_def io_apply uint_decode_def read_exact_def)
next
  case True
  obtain n :: u32 and s where inp: "inp = uint_bytes n @ s" "unat n = declared_size inp" "s = drop 4 inp"
    by (rule four_bytes [OF True])
  have "io_bind uint_decode f inp = f n s" for f :: "u32 \<Rightarrow> Tframe reader"
    by (rule io_bind_Ok) (simp add: u32_uint_decode_Ok inp(1))
  note step = this
  show ?thesis
  proof (cases "declared_size inp < 4")
    case True
    with inp(2) have "n < 4" by (simp add: word_less_nat_alt)
    with True \<open>4 \<le> length inp\<close> show ?thesis by (simp add: tframe_decode_def step io_throw_apply inp(3))
  next
    case False
    with inp(2) have n: "\<not> n < 4" "unat (n - 4) = declared_size inp - 4"
      by (simp_all add: u32_minus_4 word_less_nat_alt word_le_nat_alt)
    have "length (take (declared_size inp - 4) s) < 3"
      using assms False \<open>4 \<le> length inp\<close> by (auto simp: broken_header_def inp(3))
    note short = short_header [OF this]
    have "tframe_decode inp = reader_take (declared_size inp - 4) (io_bind (read_exact 1) (\<lambda>ty. io_bind uint_decode (\<lambda>tag.
      io_bind (io_attempt (decode_message (ty ! 0))) (\<lambda>msg.
      io_return \<lparr>tframe_tag = tag, tframe_msg = msg\<rparr>)))) s"
      using n by (simp add: tframe_decode_def step)
    also have "\<dots> = (Err (Kinded UnexpectedEof), drop (declared_size inp - 4) s)"
      by (simp only: reader_take_def short prod.case append_Nil)
    finally show ?thesis using False \<open>4 \<le> length inp\<close> by (simp add: inp(3))
  qed
qed

lemma tframe_decode_broken:
  "broken_header inp \<Longrightarrow> fst (tframe_decode inp) = Err (Kinded
    (if 4 \<le> length inp \<and> declared_size inp < 4 then InvalidData else UnexpectedEof))"
  by (simp add: tframe_decode_broken_run)

lemma tframe_decode_whole:
  assumes "\<not> broken_header inp"
  shows "\<exists>f left. tframe_decode inp = (Ok f, left)"
proof -
  from assms have len: "7 \<le> length inp" and size: "7 \<le> declared_size inp" by (simp_all add: broken_header_def)
  obtain n :: u32 and s where inp: "inp = uint_bytes n @ s" "unat n = declared_size inp" "s = drop 4 inp"
    by (rule four_bytes [of inp]) (use len in simp)
  have "3 \<le> length s" using len inp(3) by simp
  then obtain ty u where s: "s = ty # u" and u: "2 \<le> length u" by (cases s) auto
  have "uint_bytes (uint_of_bytes (take 2 u) :: u16) = take 2 u"
    by (rule uint_bytes_inverse) (use u in simp_all)
  then have "inp = uint_bytes n @ ty # uint_bytes (uint_of_bytes (take 2 u) :: u16) @ drop 2 u"
    using inp(1) s by simp
  then show ?thesis using tframe_decode_frame [of n ty "uint_of_bytes (take 2 u)" "drop 2 u"] inp(2) size
    by (auto split: prod.split)
qed

lemma declared_size_take: "4 \<le> n \<Longrightarrow> declared_size (take n inp) = declared_size inp"
  by (simp add: declared_size_def min_def)

lemma broken_header_take: "7 \<le> n \<Longrightarrow> broken_header (take n inp) = broken_header inp"
  by (auto simp: broken_header_def declared_size_take)

subsection \<open>Helpers: a session over a stream of requests\<close>

definition request_bytes :: "u16 \<times> Tmessage \<Rightarrow> u8 list" where
  "request_bytes q = frame_bytes (tmsg_type (snd q)) (fst q) (tmsg_bytes (snd q))"

definition reply_bytes_of :: "u16 \<times> Rmessage \<Rightarrow> u8 list" where
  "reply_bytes_of q = frame_bytes (rmsg_type (snd q)) (fst q) (rmsg_bytes (snd q))"

text \<open>
  The server as its client understands it: a sequence of tagged requests is turned into a
  sequence of tagged replies, in order.  It is undefined when a request does not fit the
  message size at its turn, or when its handler panics.
\<close>

fun serve :: "'k kernel \<Rightarrow> (u16 \<times> Tmessage) list \<Rightarrow> server \<times> 'k
    \<Rightarrow> ((u16 \<times> Rmessage) list \<times> (server \<times> 'k)) option" where
  "serve K [] w = Some ([], w)"
| "serve K ((tag, m) # reqs) w =
    (if \<not> wf_tmsg m \<or> unat (cfg_msize (srv_cfg (fst w))) < 7 + length (tmsg_bytes m) then None
     else case respond K (Ok m) w of
       (Ok r, v) \<Rightarrow> map_option (\<lambda>(reps, u). ((tag, r) # reps, u)) (serve K reqs v)
     | _ \<Rightarrow> None)"

definition msize_ok :: "server \<Rightarrow> bool" where
  "msize_ok sv = (MIN_MESSAGE_SIZE \<le> cfg_msize (srv_cfg sv) \<and> cfg_msize (srv_cfg sv) \<le> MAX_MESSAGE_SIZE)"

lemma msize_ok_7: "msize_ok sv \<Longrightarrow> 7 \<le> unat (cfg_msize (srv_cfg sv))"
  by (simp add: msize_ok_def MIN_MESSAGE_SIZE_def word_le_nat_alt)

lemma msize_ok_kept: "server_kept sv sv' \<Longrightarrow> msize_ok sv \<Longrightarrow> msize_ok sv'"
  by (auto simp: server_kept_def msize_ok_def)

lemma respond_wf:
  assumes "wf_tmsg m" and "msize_ok (fst w)" and "respond K (Ok m) w = (Ok r, v)"
  shows "wf_rmsg r"
proof -
  obtain sv k where w: "w = (sv, k)" by (cases w)
  from assms(2) have "MIN_MESSAGE_SIZE \<le> cfg_msize (srv_cfg sv)" "cfg_msize (srv_cfg sv) \<le> MAX_MESSAGE_SIZE"
    by (simp_all add: msize_ok_def w)
  from handle_reply [OF assms(1) this, of K k]
  have "wp (respond K (Ok m)) (\<lambda>r _. wf_rmsg r) (\<lambda>_ _. False) (\<lambda>_. True) w"
    unfolding respond_def w by (simp add: wp_or_else)
      (erule wp_mono, auto simp: wp_return error_reply good_reply_def)
  from wp_Ok_D [OF this assms(3)] show ?thesis .
qed

lemma handle_message_world_kept:
  "respond K msg w = (r, v) \<Longrightarrow> server_kept (fst w) (fst v)"
  using respond.keeps [of w K msg] by simp

lemma handle_message_eof:
  "handle_message K \<lparr>ses_in = [], ses_out = out, ses_server = sv, ses_kernel = k\<rparr>
    = (Err (Kinded UnexpectedEof), \<lparr>ses_in = [], ses_out = out, ses_server = sv, ses_kernel = k\<rparr>)"
  by (simp add: handle_message_def reader_take_def tframe_decode_def io_apply uint_decode_def read_exact_def)

lemma reply_bytes_of_pair: "reply_bytes_of (tag, r) = frame_bytes (rmsg_type r) tag (rmsg_bytes r)"
  by (simp add: reply_bytes_of_def)

lemma main_loop_serve:
  "serve K reqs w = Some (reps, u) \<Longrightarrow> msize_ok (fst w) \<Longrightarrow>
    main_loop K \<lparr>ses_in = concat (map request_bytes reqs), ses_out = out, ses_server = fst w, ses_kernel = snd w\<rparr>
      = (Exit EX_OK, \<lparr>ses_in = [], ses_out = out @ concat (map reply_bytes_of reps),
          ses_server = fst u, ses_kernel = snd u\<rparr>)"
proof (induction K reqs w arbitrary: out reps u rule: serve.induct)
  case (1 K w)
  then show ?case by (subst main_loop.simps) (simp add: handle_message_eof is_eof_def)
next
  case (2 K tag m reqs w)
  obtain q v where q: "respond K (Ok m) w = (q, v)" by (cases "respond K (Ok m) w")
  from "2.prems"(1) q obtain r reps' where r: "q = Ok r" and fits: "wf_tmsg m"
      "7 + length (tmsg_bytes m) \<le> unat (cfg_msize (srv_cfg (fst w)))"
    and tl: "serve K reqs v = Some (reps', u)" and reps: "reps = (tag, r) # reps'"
    by (auto split: if_splits io_result.splits)
  let ?s = "\<lparr>ses_in = concat (map request_bytes ((tag, m) # reqs)), ses_out = out,
    ses_server = fst w, ses_kernel = snd w\<rparr>"
  have wf: "wf_rmsg r" using respond_wf [OF fits(1) "2.prems"(2)] q r by simp
  have "handle_message K ?s = (Ok (), \<lparr>ses_in = concat (map request_bytes reqs),
      ses_out = out @ frame_bytes (rmsg_type r) tag (rmsg_bytes r), ses_server = fst v, ses_kernel = snd v\<rparr>)"
    using handle_message_frame [of m ?s tag "concat (map request_bytes reqs)" K r "fst v" "snd v"]
      fits q r wf by (simp add: request_bytes_def)
  moreover have "msize_ok (fst v)"
    using msize_ok_kept [OF handle_message_world_kept [OF q] "2.prems"(2)] .
  ultimately show ?case
    using "2.IH" [OF _ q [unfolded r, symmetric] refl tl] fits "2.prems"(2) reps
    by (subst main_loop.simps) (simp add: reply_bytes_of_pair)
qed

lemma handle_message_broken:
  assumes "broken_header (ses_in s)" and "msize_ok (ses_server s)"
  obtains left where "handle_message K s = (Err (Kinded
    (if 4 \<le> length (ses_in s) \<and> declared_size (ses_in s) < 4 then InvalidData else UnexpectedEof)),
    s\<lparr>ses_in := left\<rparr>)"
proof -
  let ?n = "unat (cfg_msize (srv_cfg (ses_server s)))"
  have n: "7 \<le> ?n" using msize_ok_7 [OF assms(2)] .
  have "4 \<le> length (take ?n (ses_in s)) \<longleftrightarrow> 4 \<le> length (ses_in s)" using n by auto
  moreover have "declared_size (take ?n (ses_in s)) = declared_size (ses_in s)"
    using n by (simp add: declared_size_take)
  moreover have "broken_header (take ?n (ses_in s))" using n assms(1) by (simp add: broken_header_take)
  ultimately obtain left where "tframe_decode (take ?n (ses_in s)) = (Err (Kinded
      (if 4 \<le> length (ses_in s) \<and> declared_size (ses_in s) < 4 then InvalidData else UnexpectedEof)), left)"
    using tframe_decode_broken [of "take ?n (ses_in s)"]
    by (cases "tframe_decode (take ?n (ses_in s))") simp
  then show ?thesis using that by (simp add: handle_message_def reader_take_def)
qed

lemma handle_message_whole:
  assumes "\<not> broken_header (ses_in s)" and "msize_ok (ses_server s)"
    and "handle_message K s = (r, s')"
  shows "r = Ok () \<or> r = Panic"
proof (cases "r = Panic")
  case False
  let ?n = "unat (cfg_msize (srv_cfg (ses_server s)))"
  have "\<not> broken_header (take ?n (ses_in s))"
    using assms(1) msize_ok_7 [OF assms(2)] by (simp add: broken_header_take)
  then obtain f left where "tframe_decode (take ?n (ses_in s)) = (Ok f, left)"
    using tframe_decode_whole by blast
  then have "reader_take ?n tframe_decode (ses_in s) = (Ok f, left @ drop ?n (ses_in s))"
    by (simp add: reader_take_def)
  from handle_message_reply [OF this _ _ assms(3) False] assms(2) show ?thesis
    by (auto simp: msize_ok_def)
qed simp

lemma metadata_clean:
  "holds {#} s \<Longrightarrow> holds {#} (snd (metadata_is_dir (audited K) path s))"
proof -
  assume h: "holds {#} s"
  have "runs (metadata_is_dir (audited K) path) {} (\<lambda>_. {#})"
    unfolding metadata_is_dir_def
  proof (rule runs_bind_post [where P = cstring_ok])
    show "runs (ok_or (cstring_new path) (Kinded InvalidInput)) {} (\<lambda>_. {#})"
      by (auto simp: ok_or_def intro: runs_return_none runs_throw split: option.split)
    show "cstring_ok c" if "ok_or (cstring_new path) (Kinded InvalidInput) u = (Ok c, t)" for u c t
      using that by (auto simp: ok_or_def io_return_apply io_throw_apply cstring_new_Some split: option.splits)
    show "runs (io_map (\<lambda>r. st_mode (sys_stat r) AND S_IFMT = S_IFDIR)
        (syscall (audited K) (Fstatat AT_FDCWD c 0))) {} (\<lambda>_. {#})" if "cstring_ok c" for c
      using that by (intro runs_map runs_syscall) (auto simp: call_in_order_def)
  qed
  from runsD [OF this _ h] show ?thesis by (simp add: wp_same)
qed

subsection \<open>Helpers: numbers and configuration strings\<close>

lemma parse_digits_append:
  "parse_digits (xs @ ys) a = (case parse_digits xs a of None \<Rightarrow> None | Some b \<Rightarrow> parse_digits ys b)"
  by (induction xs a rule: parse_digits.induct) auto

lemma digit_range: "d < 10 \<Longrightarrow> 48 \<le> (of_nat (48 + d) :: u8) \<and> of_nat (48 + d) \<le> (57 :: u8)
    \<and> unat (of_nat (48 + d) :: u8) - 48 = d"
proof -
  assume d: "d < 10"
  then have "unat (of_nat (48 + d) :: u8) = 48 + d" by (simp add: unat_of_nat del: of_nat_add)
  with d show ?thesis by (simp add: word_le_nat_alt del: of_nat_add)
qed

lemma parse_digit: "d < 10 \<Longrightarrow> parse_digits [of_nat (48 + d)] a = Some (10 * a + d)"
  using digit_range [of d] by (simp del: of_nat_add)

lemma parse_nat_digits: "\<exists>e. parse_digits (nat_digits n) 0 = Some n \<and> length (nat_digits n) = Suc e"
proof (induction n rule: nat_digits.induct)
  case (1 n)
  show ?case
  proof (cases "n < 10")
    case True
    then show ?thesis using parse_digit [OF True, of 0] by (subst (1 2) nat_digits.simps) simp
  next
    case False
    from 1 [OF False] have "parse_digits (nat_digits (n div 10)) 0 = Some (n div 10)" by blast
    moreover have "n mod 10 < 10" by simp
    ultimately have "parse_digits (nat_digits n) 0 = Some n"
      using False parse_digit [of "n mod 10" "n div 10"]
      by (subst nat_digits.simps) (simp add: parse_digits_append del: parse_digits.simps of_nat_add)
    moreover have "\<exists>e. length (nat_digits n) = Suc e" using False by (subst nat_digits.simps) simp
    ultimately show ?thesis by blast
  qed
qed

lemma nat_digits_head: "nat_digits n \<noteq> [] \<and> hd (nat_digits n) \<noteq> 45 \<and> hd (nat_digits n) \<noteq> 43"
proof -
  have ne: "nat_digits n \<noteq> []" using parse_nat_digits [of n] by auto
  then have "hd (nat_digits n) \<in> set (nat_digits n)" by simp
  then obtain d where "d < 10" "hd (nat_digits n) = of_nat (48 + d)" by (blast dest: nat_digits_ascii)
  then have "48 \<le> hd (nat_digits n)" using digit_range [of d] by (simp del: of_nat_add)
  with ne show ?thesis by auto
qed

fun colon_join :: "u8 list list \<Rightarrow> u8 list" where
  "colon_join [] = []"
| "colon_join [p] = p"
| "colon_join (p # q # ps) = p @ 58 # colon_join (q # ps)"

lemma split_at_ne: "split_at sep s \<noteq> []"
  by (induction s) (auto split: list.split)

lemma split_at_none: "sep \<notin> set p \<Longrightarrow> split_at sep p = [p]"
  by (induction p) auto

lemma split_at_append: "sep \<notin> set p \<Longrightarrow> split_at sep (p @ sep # s) = p # split_at sep s"
  by (induction p) auto

lemma split_at_join: "ps \<noteq> [] \<Longrightarrow> \<forall>p\<in>set ps. 58 \<notin> set p \<Longrightarrow> split_at 58 (colon_join ps) = ps"
  by (induction ps rule: colon_join.induct) (auto simp: split_at_none split_at_append)

lemma colon_join_head: "ps \<noteq> [] \<Longrightarrow> colon_join ((b # p) # ps) = b # colon_join (p # ps)"
  by (cases ps) auto

lemma join_split_at: "colon_join (split_at 58 s) = s"
proof (induction s)
  case (Cons b s)
  obtain p ps where sp: "split_at 58 s = p # ps" using split_at_ne [of 58 s] by (cases "split_at 58 s") auto
  with Cons show ?case by (cases ps) auto
qed simp

definition casefold_option :: "bool \<Rightarrow> u8 list" where
  "casefold_option b = ascii ''ascii_casefold='' @ (if b then ascii ''true'' else ascii ''false'')"

lemma splitn2_Some:
  assumes "splitn2 sep s = (a, Some v)"
  shows "s = a @ sep # v"
proof -
  from assms obtain b where d: "dropWhile (\<lambda>b. b \<noteq> sep) s = b # v" and a: "a = takeWhile (\<lambda>b. b \<noteq> sep) s"
    by (auto simp: splitn2_def split: list.splits)
  then have "b = sep" using hd_dropWhile [of "\<lambda>b. b \<noteq> sep" s] by simp
  with d a show ?thesis using takeWhile_dropWhile_id [of "\<lambda>b. b \<noteq> sep" s] by simp
qed

lemma casefold_names: "ascii ''ascii_casefold='' = ascii ''ascii_casefold'' @ [61]"
  by (simp add: ascii_def)

lemma splitn2_casefold: "splitn2 61 (ascii ''ascii_casefold'' @ 61 # v) = (ascii ''ascii_casefold'', Some v)"
proof -
  have ok: "\<forall>b\<in>set (ascii ''ascii_casefold''). b \<noteq> 61" by (simp add: ascii_def)
  then show ?thesis
    by (simp add: splitn2_def dropWhile_append1 [of _ _ "\<lambda>b. b \<noteq> 61"] dropWhile_append2 takeWhile_append2)
qed

lemma parse_bool_options: "parse_bool v = Some b \<longleftrightarrow> v = (if b then ascii ''true'' else ascii ''false'')"
proof -
  have "ascii ''true'' \<noteq> ascii ''false''" by (simp add: ascii_def)
  then show ?thesis by (auto simp: parse_bool_def)
qed

lemma config_option_good:
  "config_options (casefold_option b # opts) cfg = config_options opts (cfg\<lparr>cfg_ascii_casefold := b\<rparr>)"
proof -
  have "splitn2 61 (casefold_option b)
      = (ascii ''ascii_casefold'', Some (if b then ascii ''true'' else ascii ''false''))"
    by (simp only: casefold_option_def casefold_names append_assoc append_Cons append_Nil splitn2_casefold)
  moreover have "parse_bool (if b then ascii ''true'' else ascii ''false'') = Some b"
    by (simp only: parse_bool_options)
  ultimately show ?thesis by (simp only: config_options.simps prod.case option.case if_True refl)
qed

lemma config_option_bad:
  assumes "\<forall>b. opt \<noteq> casefold_option b"
  shows "\<exists>e. config_options (opt # opts) cfg = Inl e"
proof (cases "splitn2 61 opt")
  case (Pair kind v)
  show ?thesis
  proof (cases v)
    case (Some flag)
    with Pair have "opt = kind @ 61 # flag" by (simp add: splitn2_Some)
    then have "kind = ascii ''ascii_casefold'' \<Longrightarrow> parse_bool flag = None"
      using assms by (cases "parse_bool flag")
        (auto simp: parse_bool_options casefold_option_def casefold_names)
    then show ?thesis using Pair Some by (cases "parse_bool flag"; auto)
  qed (simp add: Pair)
qed

lemma config_options_iff:
  "config_options opts cfg = Inr c \<longleftrightarrow> (\<exists>bs. opts = map casefold_option bs
    \<and> c = (if bs = [] then cfg else cfg\<lparr>cfg_ascii_casefold := last bs\<rparr>))"
proof (induction opts arbitrary: cfg)
  case (Cons opt opts)
  show ?case
  proof (cases "\<exists>b. opt = casefold_option b")
    case True
    then obtain b where b: "opt = casefold_option b" by blast
    have inj: "casefold_option b = casefold_option c \<longleftrightarrow> b = c" for c
      by (simp add: casefold_option_def ascii_def)
    show ?thesis
      by (simp only: b config_option_good Cons.IH) (fastforce simp: Cons_eq_map_conv inj)
  next
    case False
    with config_option_bad [of opt opts cfg] show ?thesis by (auto simp: Cons_eq_map_conv)
  qed
qed auto

subsection \<open>The properties\<close>

text \<open>
  Property C19.  A run of the program, on any arguments, any kernel and any bytes from the
  client, makes only calls that are in order: on descriptors it holds at that moment, with paths
  free of nul bytes, and with close-on-exec on everything it opens.
\<close>

theorem program_run_is_clean:
  "aud_clean (snd (snd (snd (qfsd_main (audited K) args input (k, fresh_audit)))))"
proof -
  have clean: "holds M s \<Longrightarrow> aud_clean (snd s)" for M and s :: "'a \<times> audit" by (simp add: holds_def)
  obtain d s1 where meta: "metadata_is_dir (audited K) (args ! 3) (k, fresh_audit) = (d, s1)"
    by (cases "metadata_is_dir (audited K) (args ! 3) (k, fresh_audit)")
  then have s1: "holds {#} s1" using metadata_clean [OF holds_fresh, of K "args ! 3" k] by simp
  obtain q s2 where new: "server_new (audited K) (args ! 3) bt_new bt_new s1 = (q, s2)"
    by (cases "server_new (audited K) (args ! 3) bt_new bt_new s1")
  have "wp (server_new (audited K) (args ! 3) bt_new bt_new) (\<lambda>sv t. sound (sv, t)) (\<lambda>_. holds {#}) (holds {#}) s1"
    unfolding server_new_def by (rule wp_mono [OF wp_with_config [OF s1]]) simp_all
  then have "case q of Ok sv \<Rightarrow> sound (sv, s2) | Err e \<Rightarrow> holds {#} s2 | Panic \<Rightarrow> holds {#} s2"
    by (simp add: wp_def new)
  then have s2: "aud_clean (snd s2)" and sv: "q = Ok sv \<Longrightarrow> sound (sv, s2)" for sv
    by (cases q; simp add: sound_def holds_def)+
  have loop: "aud_clean (snd (ses_kernel (snd (main_loop (audited K)
      \<lparr>ses_in = input, ses_out = [], ses_server = sv, ses_kernel = s2\<rparr>))))" if "q = Ok sv" for sv
    using main_loop_sound [of "\<lparr>ses_in = input, ses_out = [], ses_server = sv, ses_kernel = s2\<rparr>" K] sv [OF that]
    by (simp add: ses_world_def sound_def holds_def)
  have "aud_clean (snd s1)" and "aud_clean (snd (k, fresh_audit))"
    using clean [OF s1] clean [OF holds_fresh] .
  with s2 loop show ?thesis
    unfolding qfsd_main_def meta new by (simp add: meta new split: io_result.split option.split prod.split) (metis snd_conv)
qed

text \<open>
  Property C21.  Nothing a client sends changes the server's configuration but the message size,
  which only shrinks and never below the protocol's minimum; and the fid table keeps one entry
  per number, in order.
\<close>

theorem session_configuration:
  assumes "serving K cfg k s"
  shows "bt_ok (srv_fids (ses_server s)) \<and> (\<exists>n. srv_cfg (ses_server s) = cfg\<lparr>cfg_msize := n\<rparr>
    \<and> n \<le> cfg_msize cfg \<and> (MIN_MESSAGE_SIZE \<le> cfg_msize cfg \<longrightarrow> MIN_MESSAGE_SIZE \<le> n))"
proof -
  from serving_kept [OF assms] obtain sv where "srv_cfg sv = cfg" "srv_fids sv = bt_new"
    "server_kept sv (ses_server s)" by blast
  then show ?thesis by (auto simp: server_kept_def bt.inv_new)
qed

theorem session_configuration_witness:
  "\<exists>s. serving (audited demo_kernel) config_default (3, fresh_audit) s
    \<and> srv_fids (ses_server s) \<noteq> [] \<and> cfg_root (srv_cfg (ses_server s)) = ascii ''/''"
proof -
  obtain s where s: "serving (audited demo_kernel) config_default (3, fresh_audit) s"
    "srv_fids (ses_server s) = [(1, \<lparr>fid_path = 4, fid_file = None, fid_filetype = Directory\<rparr>)]"
    using demo_session by blast
  from session_configuration [OF s(1)] obtain n where "srv_cfg (ses_server s) = config_default\<lparr>cfg_msize := n\<rparr>"
    by blast
  with s show ?thesis by (intro exI [of _ s]) (simp add: config_default_def)
qed

text \<open>
  Property C2.  Refinement of the message level: when the client's stream is the encoding of a
  sequence of requests that fit, the program reads all of it, writes exactly the encodings of
  the replies in order, leaves the server and the kernel as \<open>serve\<close> does, and exits with
  code 0.
\<close>

theorem session_refines_serve:
  assumes "serve K reqs (sv, k) = Some (reps, (sv', k'))" and "msize_ok sv"
  shows "main_loop K \<lparr>ses_in = concat (map request_bytes reqs), ses_out = [], ses_server = sv, ses_kernel = k\<rparr>
    = (Exit EX_OK, \<lparr>ses_in = [], ses_out = concat (map reply_bytes_of reps), ses_server = sv', ses_kernel = k'\<rparr>)"
  using main_loop_serve [OF assms(1), of "[]"] assms(2) by simp

theorem session_refines_serve_witness:
  "main_loop demo_kernel \<lparr>ses_in = request_bytes (5, Tmessage.Flush \<lparr>tflush_oldtag = 3\<rparr>)
      @ request_bytes (6, Tmessage.Clunk \<lparr>tclunk_fid = 1\<rparr>), ses_out = [], ses_server = demo_server, ses_kernel = 5\<rparr>
    = (Exit EX_OK, \<lparr>ses_in = [], ses_out = reply_bytes_of (5, Rmessage.Flush) @ reply_bytes_of (6, Rmessage.Clunk),
        ses_server = demo_server\<lparr>srv_fids := []\<rparr>, ses_kernel = 5\<rparr>)"
proof -
  let ?reqs = "[(5, Tmessage.Flush \<lparr>tflush_oldtag = 3\<rparr>), (6, Tmessage.Clunk \<lparr>tclunk_fid = 1\<rparr>)]"
  have "serve demo_kernel ?reqs (demo_server, 5)
      = Some ([(5, Rmessage.Flush), (6, Rmessage.Clunk)], (demo_server\<lparr>srv_fids := []\<rparr>, 5))"
    by (simp add: wf_Tflush_def bytes_Tflush_def wf_Tclunk_def bytes_Tclunk_def demo_server_def config_default_def
        MAX_MESSAGE_SIZE_def respond_def flush_def clunk_def io_apply io_map_apply io_return_apply get_server_def
        put_fids_def on_kernel_def drop_fid_def fid_fds_def close_def)
  moreover have "msize_ok demo_server"
    by (simp add: msize_ok_def demo_server_def config_default_def MIN_MESSAGE_SIZE_def MAX_MESSAGE_SIZE_def)
  ultimately show ?thesis using session_refines_serve by fastforce
qed

text \<open>
  What ends a session on streams that do not fail: a header that is cut short by the end of the
  stream or declares fewer than 7 bytes, and then nothing is answered and nothing changed.  The exit code is 8 for a declared size below 4 and 0 otherwise,
  also when a frame is cut in its header or declares 4 to 6 bytes.
\<close>

lemma only_broken_headers_end_a_session:
  assumes "msize_ok (ses_server s)" and "handle_message K s = (r, s')"
  shows "(\<exists>e. r = Err e) = broken_header (ses_in s)
    \<and> (broken_header (ses_in s) \<longrightarrow>
        main_loop K s = (Exit (if 4 \<le> length (ses_in s) \<and> declared_size (ses_in s) < 4
          then EX_SERVER_ERROR else EX_OK), s')
        \<and> s' = s\<lparr>ses_in := ses_in s'\<rparr>)"
proof (cases "broken_header (ses_in s)")
  case True
  obtain left where h: "handle_message K s = (Err (Kinded
    (if 4 \<le> length (ses_in s) \<and> declared_size (ses_in s) < 4 then InvalidData else UnexpectedEof)),
    s\<lparr>ses_in := left\<rparr>)" by (rule handle_message_broken [OF True assms(1)])
  then show ?thesis using True assms(2)
    by (subst main_loop.simps) (auto simp: is_eof_def)
next
  case False
  from handle_message_whole [OF False assms] False show ?thesis by auto
qed

lemma only_broken_headers_end_a_session_witness:
  "fst (main_loop demo_kernel \<lparr>ses_in = [6, 0, 0, 0, 100, 1, 0], ses_out = [], ses_server = demo_server, ses_kernel = 5\<rparr>)
      = Exit 0"
proof -
  let ?s = "\<lparr>ses_in = [6, 0, 0, 0, 100, 1, 0], ses_out = [], ses_server = demo_server, ses_kernel = 5 :: int\<rparr>"
  have "declared_size (ses_in ?s) = 6" by code_simp
  moreover from this have "broken_header (ses_in ?s)" by (simp add: broken_header_def)
  moreover have "msize_ok (ses_server ?s)"
    by (simp add: msize_ok_def demo_server_def config_default_def MIN_MESSAGE_SIZE_def MAX_MESSAGE_SIZE_def)
  ultimately show ?thesis
    using only_broken_headers_end_a_session [of ?s demo_kernel "fst (handle_message demo_kernel ?s)"
        "snd (handle_message demo_kernel ?s)"] by (simp add: EX_OK_def)
qed

text \<open>
  The two descriptor arguments: the decimal form of every \<^verbatim>\<open>i32\<close> is read
  back as itself, and the decimal form of any other integer is refused.
\<close>

lemma descriptor_argument_roundtrip:
  "parse_i32 (int_digits i) = (if - (2 ^ 31) \<le> i \<and> i < 2 ^ 31 then Some i else None)"
proof (cases "i < 0")
  case True
  have "parse_digits (nat_digits (nat (- i))) 0 = Some (nat (- i))" using parse_nat_digits by blast
  with True nat_digits_head [of "nat (- i)"] show ?thesis
    by (simp add: parse_i32_def int_digits_def)
next
  case False
  have "parse_digits (nat_digits (nat i)) 0 = Some (nat i)" using parse_nat_digits by blast
  with False nat_digits_head [of "nat i"] show ?thesis
    by (simp add: parse_i32_def int_digits_def)
qed

text \<open>
  Property C38.  The configuration strings that are accepted are exactly the empty one and the
  lists, joined by colons, of \<^verbatim>\<open>ascii_casefold=true\<close> and \<^verbatim>\<open>ascii_casefold=false\<close>;
  the result is the default configuration with the last flag given.
\<close>

theorem config_string_accepted:
  "config_from_str params = Inr cfg \<longleftrightarrow> (\<exists>bs. params = colon_join (map casefold_option bs)
    \<and> cfg = (if bs = [] then config_default else config_default\<lparr>cfg_ascii_casefold := last bs\<rparr>))"
proof -
  have ne: "casefold_option b \<noteq> []" and nc: "58 \<notin> set (casefold_option b)" for b
    by (simp_all add: casefold_option_def ascii_def)
  have joined: "colon_join (map casefold_option bs) = [] \<longleftrightarrow> bs = []" for bs
    by (cases bs; cases "tl bs") (auto simp: ne)
  have split: "split_at 58 s = map casefold_option bs \<longleftrightarrow> bs \<noteq> [] \<and> s = colon_join (map casefold_option bs)" for s bs
    using split_at_join [of "map casefold_option bs"] join_split_at [of s] split_at_ne [of 58 s] nc by auto
  show ?thesis
  proof (cases "params = []")
    case True
    have "([] = colon_join (map casefold_option bs)) = (bs = [])" for bs using joined [of bs] by metis
    with True show ?thesis by (auto simp: config_from_str_def)
  next
    case False
    have "bs \<noteq> []" if "params = colon_join (map casefold_option bs)" for bs using that False by auto
    with False show ?thesis by (auto simp: config_from_str_def config_options_iff split)
  qed
qed

end
