(* ===== verification/Fid_Properties.thy ===== *)
theory Fid_Properties
  imports Reply_Properties
begin

text \<open>
  The properties of the fid table: which requests are refused outright, which entries a request
  can change, and what attach, walk, clunk and version do to it.
\<close>

subsection \<open>Helpers: requests that are refused\<close>

definition has_fid :: "server \<Rightarrow> u32 \<Rightarrow> bool" where
  "has_fid sv n = (bt_get (srv_fids sv) n \<noteq> None)"

definition has_file :: "server \<Rightarrow> u32 \<Rightarrow> bool" where
  "has_file sv n = (case bt_get (srv_fids sv) n of Some f \<Rightarrow> fid_file f \<noteq> None | None \<Rightarrow> False)"

definition is_directory :: "server \<Rightarrow> u32 \<Rightarrow> bool" where
  "is_directory sv n = (case bt_get (srv_fids sv) n of Some f \<Rightarrow> fid_filetype f = Directory | None \<Rightarrow> False)"

text \<open>The first test that fails, if one does: a list of conditions with their error numbers.\<close>

fun first_failure :: "(bool \<times> int) list \<Rightarrow> int option" where
  "first_failure [] = None"
| "first_failure ((ok, e) # cs) = (if ok then first_failure cs else Some e)"

text \<open>
  The requests that the server must refuse from its own state alone, with the error number it
  owes the client: unsupported operations, fids that are not in the table or not open, fids
  that are taken, names with a nul byte.
\<close>

fun refusal :: "server \<Rightarrow> Tmessage \<Rightarrow> int option" where
  "refusal sv (Tmessage.Version m) = first_failure [(MIN_MESSAGE_SIZE \<le> tversion_msize m, EINVAL)]"
| "refusal sv (Tmessage.Flush m) = None"
| "refusal sv (Tmessage.Walk m) = first_failure
     [(twalk_fid m = twalk_newfid m \<or> \<not> has_fid sv (twalk_newfid m), EBADF), (has_fid sv (twalk_fid m), EBADF)]"
| "refusal sv (Tmessage.Read m) = first_failure [(has_file sv (tread_fid m), EBADF)]"
| "refusal sv (Tmessage.Write m) = first_failure [(has_file sv (twrite_fid m), EBADF)]"
| "refusal sv (Tmessage.Clunk m) = first_failure [(has_fid sv (tclunk_fid m), EBADF)]"
| "refusal sv (Tmessage.Remove m) = Some EOPNOTSUPP"
| "refusal sv (Tmessage.Attach m) = first_failure [(\<not> has_fid sv (tattach_fid m), EBADF)]"
| "refusal sv (Tmessage.Auth m) = Some EOPNOTSUPP"
| "refusal sv (Tmessage.Statfs m) = first_failure [(has_fid sv (tstatfs_fid m), EBADF)]"
| "refusal sv (Tmessage.Lopen m) = first_failure [(has_fid sv (tlopen_fid m), EBADF)]"
| "refusal sv (Tmessage.Lcreate m) = first_failure [(has_fid sv (tlcreate_fid m), EBADF),
     (is_directory sv (tlcreate_fid m), ENOTDIR), (cstring_ok (tlcreate_name m), EINVAL)]"
| "refusal sv (Tmessage.Symlink m) = Some EACCES"
| "refusal sv (Tmessage.Mknod m) = Some EACCES"
| "refusal sv (Tmessage.Rename m) = Some EOPNOTSUPP"
| "refusal sv (Tmessage.Readlink m) = first_failure [(has_fid sv (treadlink_fid m), EBADF)]"
| "refusal sv (Tmessage.GetAttr m) = first_failure [(has_fid sv (tgetattr_fid m), EBADF)]"
| "refusal sv (Tmessage.SetAttr m) = first_failure [(has_fid sv (tsetattr_fid m), EBADF)]"
| "refusal sv (Tmessage.XattrWalk m) = Some EOPNOTSUPP"
| "refusal sv (Tmessage.XattrCreate m) = Some EOPNOTSUPP"
| "refusal sv (Tmessage.Readdir m) = first_failure [(has_fid sv (treaddir_fid m), EBADF),
     (is_directory sv (treaddir_fid m), ENOTDIR), (has_file sv (treaddir_fid m), EBADF)]"
| "refusal sv (Tmessage.Fsync m) = first_failure [(has_file sv (tfsync_fid m), EBADF)]"
| "refusal sv (Tmessage.Lock m) = first_failure [(has_file sv (tlock_fid m), EBADF)]"
| "refusal sv (Tmessage.GetLock m) = first_failure [(has_file sv (tgetlock_fid m), EBADF)]"
| "refusal sv (Tmessage.Link m) = first_failure [(has_fid sv (tlink_fid m), EBADF),
     (has_fid sv (tlink_dfid m), EBADF), (cstring_ok (tlink_name m), EINVAL)]"
| "refusal sv (Tmessage.Mkdir m) = first_failure [(has_fid sv (tmkdir_dfid m), EBADF),
     (cstring_ok (tmkdir_name m), EINVAL)]"
| "refusal sv (Tmessage.RenameAt m) = first_failure [(has_fid sv (trenameat_olddirfid m), EBADF),
     (cstring_ok (trenameat_oldname m), EINVAL), (has_fid sv (trenameat_newdirfid m), EBADF),
     (cstring_ok (trenameat_newname m), EINVAL)]"
| "refusal sv (Tmessage.UnlinkAt m) = first_failure [(has_fid sv (tunlinkat_dirfd m), EBADF),
     (cstring_ok (tunlinkat_name m), EINVAL)]"

text \<open>A call that fails where it stands, without an effect.\<close>

definition fails :: "('s, 'a) io \<Rightarrow> int \<Rightarrow> 's \<Rightarrow> bool" where
  "fails h e w = (h w = (Err (Os e), w))"

lemma fails_map [simp]: "fails (io_map f h) e w = fails h e w"
  by (auto simp: fails_def io_map_apply split: prod.splits io_result.splits)

lemma fails_throw [simp]: "fails (io_throw (Os d)) e w = (d = e)"
  by (simp add: fails_def io_throw_apply)

lemma fails_get_server [simp]: "fails (io_bind get_server f) e (sv, k) = fails (f sv) e (sv, k)"
  by (simp add: fails_def io_bind_def get_server_def)

lemma fails_get_fid [simp]: "fails (io_bind (get_fid n) f) e (sv, k) = (case bt_get (srv_fids sv) n of
    Some d \<Rightarrow> fails (f d) e (sv, k) | None \<Rightarrow> e = EBADF)"
  by (auto simp: fails_def io_bind_def get_fid_def get_server_def ok_or_def ebadf_def io_return_def io_throw_def
      split: option.split)

lemma fails_get_file [simp]: "fails (io_bind (get_file n) f) e (sv, k) = (if has_file sv n
    then fails (f (the (fid_file (the (bt_get (srv_fids sv) n))))) e (sv, k) else e = EBADF)"
  by (auto simp: fails_def io_bind_def get_file_def get_server_def ok_or_def ebadf_def io_return_def io_throw_def
      has_file_def split: option.split)

lemma fails_ok_or [simp]: "fails (io_bind (ok_or x d) f) e w = (case x of
    Some a \<Rightarrow> fails (f a) e w | None \<Rightarrow> d = Os e)"
  by (auto simp: fails_def io_bind_def ok_or_def io_return_def io_throw_def split: option.split)

lemma fails_cstring [simp]: "fails (io_bind (io_result (string_to_cstring s)) f) e w =
    (if cstring_ok s then fails (f s) e w else e = EINVAL)"
  by (auto simp: fails_def io_bind_def io_result_def string_to_cstring_def cstring_new_def cstring_ok_def)

lemma proc_self_fd_ok [simp]: "cstring_ok (proc_self_fd f)"
  by (simp add: cstring_ok_def proc_self_fd_def int_digits_no_nul) (simp add: ascii_def)

lemma refused: "refusal sv m = Some e \<Longrightarrow> fails (handle K m) e (sv, k)"
  by (cases m) (auto simp: version_def walk_def read_op_def write_op_def clunk_def remove_def attach_def auth_def
      statfs_def lopen_def lcreate_def symlink_def mknod_def rename_def readlink_def get_attr_def set_attr_def
      xattr_walk_def xattr_create_def readdir_def fsync_def lock_def get_lock_def link_op_def mkdir_def
      rename_at_def unlink_at_def has_fid_def is_directory_def bt_contains_key_def Let_def
      ebadf_def has_file_def not_less split: if_splits option.splits)

subsection \<open>Helpers: what a request can change\<close>

text \<open>The numbers whose entries a request may change.\<close>

fun changeable :: "Tmessage \<Rightarrow> u32 set" where
  "changeable (Tmessage.Version m) = UNIV"
| "changeable (Tmessage.Attach m) = {tattach_fid m}"
| "changeable (Tmessage.Walk m) = {twalk_newfid m}"
| "changeable (Tmessage.Clunk m) = {tclunk_fid m}"
| "changeable (Tmessage.Lopen m) = {tlopen_fid m}"
| "changeable (Tmessage.Lcreate m) = {tlcreate_fid m}"
| "changeable m = {}"

definition same_but :: "u32 set \<Rightarrow> server \<Rightarrow> server \<Rightarrow> bool" where
  "same_but S sv sv' = (bt_ok (srv_fids sv) \<longrightarrow> bt_ok (srv_fids sv')
    \<and> (\<forall>n. n \<notin> S \<longrightarrow> bt_get (srv_fids sv') n = bt_get (srv_fids sv) n))"

lemma same_but_refl [simp]: "same_but S sv sv"
  by (simp add: same_but_def)

lemma same_but_UNIV: "server_kept sv sv' \<Longrightarrow> same_but UNIV sv sv'"
  by (simp add: same_but_def server_kept_def)

lemma same_but_insert [simp]:
  "n \<in> S \<Longrightarrow> same_but S sv (sv\<lparr>srv_fids := m\<rparr>) \<Longrightarrow> same_but S sv (sv\<lparr>srv_fids := bt_insert m n f\<rparr>)"
  by (auto simp: same_but_def bt.get_insert bt.inv_insert)

lemma same_but_remove: "n \<in> S \<Longrightarrow> same_but S sv (sv\<lparr>srv_fids := bt_remove (srv_fids sv) n\<rparr>)"
  by (auto simp: same_but_def bt.get_remove bt.inv_remove)

abbreviation changes :: "('k, 'a) handler \<Rightarrow> u32 set \<Rightarrow> server \<times> 'k \<Rightarrow> bool" where
  "changes h S w \<equiv> wp h (\<lambda>_ v. same_but S (fst w) (fst v)) (\<lambda>_ v. same_but S (fst w) (fst v))
    (\<lambda>v. same_but S (fst w) (fst v)) w"

text \<open>A handler that stores nothing leaves the whole server as it is.\<close>

named_theorems untouchings

definition untouching :: "('k, 'a) handler \<Rightarrow> bool" where
  "untouching h = (\<forall>w. fst (snd (h w)) = fst w)"

lemma untouchingD: "untouching h \<Longrightarrow> h w = (r, v) \<Longrightarrow> fst v = fst w"
  unfolding untouching_def by (metis snd_conv)

lemma untouching_bind [untouchings]:
  assumes "untouching h" and "\<And>x. untouching (f x)"
  shows "untouching (io_bind h f)"
  unfolding untouching_def
proof
  fix w
  obtain r v where h: "h w = (r, v)" by (cases "h w")
  note v = untouchingD [OF assms(1) h]
  show "fst (snd (io_bind h f w)) = fst w"
  proof (cases r)
    case (Ok x)
    obtain q u where "f x v = (q, u)" by (cases "f x v")
    with untouchingD [OF assms(2) this] Ok h v show ?thesis by (simp add: io_bind_Ok)
  qed (use h v in \<open>simp_all add: io_bind_def\<close>)
qed

lemma untouching_basic [untouchings]:
  "untouching (io_return x)" "untouching (io_throw e)" "untouching (io_result r)" "untouching (on_kernel k)"
  "untouching get_server" "untouching io_panic"
  by (auto simp: untouching_def io_simps on_kernel_def get_server_def split: prod.split)

lemma untouching_ok_or [untouchings]: "untouching (ok_or x e)"
  by (simp add: ok_or_def untouchings split: option.split)

lemma untouching_get [untouchings]: "untouching (get_fid n)" "untouching (get_file n)"
  by (simp_all add: get_fid_def get_file_def untouchings)

lemma untouching_map [untouchings]: "untouching h \<Longrightarrow> untouching (io_map f h)"
  by (simp add: io_map_def untouchings)

lemma untouching_if [untouchings]: "untouching a \<Longrightarrow> untouching b \<Longrightarrow> untouching (if c then a else b)"
  by simp

lemma untouching_changes:
  assumes "untouching h"
  shows "changes h S w"
proof -
  obtain r v where h: "h w = (r, v)" by (cases "h w")
  from untouchingD [OF assms h] show ?thesis by (cases r) (simp_all add: wp_def h)
qed

lemma handle_untouching:
  assumes "changeable m = {}"
  shows "untouching (handle K m)"
  using assms
  by (cases m) (simp_all add: read_op_def write_op_def remove_def auth_def flush_def
      statfs_def symlink_def mknod_def rename_def readlink_def get_attr_def set_attr_def
      xattr_walk_def xattr_create_def readdir_def fsync_def lock_def get_lock_def link_op_def mkdir_def
      rename_at_def unlink_at_def Let_def untouchings)

lemma handle_changes: "changes (handle K m) (changeable m) (sv, k)"
proof (cases "changeable m = {}")
  case True
  then show ?thesis by (intro untouching_changes handle_untouching)
next
  case False
  then show ?thesis
  proof (cases m)
    case (Version x)
    show ?thesis unfolding Version handle.simps wp_map changeable.simps
      by (rule wp_mono [OF version_kept]) (simp_all add: same_but_UNIV)
  next
    case (Attach x)
    show ?thesis unfolding Attach handle.simps wp_map changeable.simps
      by (auto simp: attach_def insert_fid_def ok_or_def handler_wp intro!: wp_kernel_kept split: option.split)
  next
    case (Walk x)
    show ?thesis unfolding Walk handle.simps wp_map changeable.simps
      by (auto simp: walk_def insert_fid_def handler_wp
          intro!: wp_kernel_kept split: option.split io_result.split list.split)
  next
    case (Clunk x)
    show ?thesis unfolding Clunk handle.simps wp_map changeable.simps
      by (auto simp: clunk_def handler_wp intro!: wp_kernel_kept same_but_remove split: option.split)
  next
    case (Lopen x)
    show ?thesis unfolding Lopen handle.simps wp_map changeable.simps
      by (auto simp: lopen_def assign_file_def handler_wp intro!: wp_kernel_kept split: option.split)
  next
    case (Lcreate x)
    show ?thesis unfolding Lcreate handle.simps wp_map changeable.simps
      by (auto simp: lcreate_def Let_def assign_file_def handler_wp
          intro!: wp_kernel_kept split: option.split io_result.split)
  qed simp_all
qed

subsection \<open>Helpers: walks\<close>

lemma walk_loop_Err:
  "walk_loop K proc cf wnames c mds k = (Ok (Err e, mds'), k') \<Longrightarrow> length mds' < length mds + length wnames"
proof (induction wnames arbitrary: c mds k)
  case (Cons wname wnames)
  obtain q t where q: "walk_step K proc cf c wname k = (q, t)" by (cases "walk_step K proc cf c wname k")
  show ?case
  proof (cases q)
    case (Ok p)
    obtain new st where p: "p = (new, st)" by (cases p)
    from Cons.prems q Ok p have "walk_loop K proc cf wnames (Owned new) (mds @ [st]) t = (Ok (Err e, mds'), k')"
      by (simp add: io_apply)
    from Cons.IH [OF this] show ?thesis by simp
  qed (use Cons.prems q in \<open>auto simp: io_apply io_return_apply\<close>)
qed (simp add: io_return_apply)

lemma do_walk_partial:
  assumes "do_walk K proc wnames start cf k = (Ok (Err e, mds), k')"
  shows "mds = [] \<or> length mds < length wnames"
proof -
  from assms obtain q mds' t where q: "walk_loop K proc cf wnames (Borrowed start) [] k = (Ok (q, mds'), t)"
    and rest: "(case q of
       Ok (Owned f) \<Rightarrow> io_return (Ok f, mds')
     | Ok (Borrowed borrowed) \<Rightarrow> io_map (\<lambda>r. (r, mds')) (io_attempt (try_clone K borrowed))
     | Err e \<Rightarrow> io_return (Err e, mds')
     | Panic \<Rightarrow> io_panic) t = (Ok (Err e, mds), k')"
    by (auto simp: do_walk_def io_bind_eq_Ok)
  from rest have "mds = mds' \<and> (q = Err e \<or> (\<exists>b. q = Ok (Borrowed b)))"
    by (auto simp: io_return_apply io_panic_apply io_map_apply split: io_result.split_asm
        maybe_owned.split_asm prod.split_asm)
  with walk_loop_length [OF q] walk_loop_Err [of K proc cf wnames _ "[]" k e mds' t] q show ?thesis by auto
qed

text \<open>What a walk leaves behind, given its reply.\<close>

definition walked :: "server \<Rightarrow> Twalk \<Rightarrow> Rwalk \<Rightarrow> server \<Rightarrow> bool" where
  "walked sv m rep sv' =
    (if length (rwalk_wqids rep) = length (twalk_wnames m) then
       \<exists>f. fid_file f = None \<and> sv' = sv\<lparr>srv_fids := bt_insert (srv_fids sv) (twalk_newfid m) f\<rparr>
         \<and> (rwalk_wqids rep \<noteq> [] \<longrightarrow>
              (fid_filetype f = Directory) = (qid_ty (last (rwalk_wqids rep)) = P9_QTDIR))
     else rwalk_wqids rep \<noteq> [] \<and> length (rwalk_wqids rep) < length (twalk_wnames m) \<and> sv' = sv)"

lemma qid_directory: "(file_type_from (st_mode st) = Directory) = (qid_ty (qid_from st) = P9_QTDIR)"
  by (simp add: file_type_from_def qid_from_def S_IFMT_def S_IFREG_def S_IFDIR_def S_IFLNK_def P9_QTDIR_def
      P9_QTFILE_def P9_QTSYMLINK_def)

lemma wp_insert_any:
  "Q () (sv\<lparr>srv_fids := bt_insert (srv_fids sv) n f\<rparr>) \<Longrightarrow>
    wp (insert_fid K n f) (\<lambda>x w. Q x (fst w)) E X (sv, k)"
proof -
  assume Q: "Q () (sv\<lparr>srv_fids := bt_insert (srv_fids sv) n f\<rparr>)"
  have "wp (close_all K fs) (\<lambda>x t. Q x (sv\<lparr>srv_fids := bt_insert (srv_fids sv) n f\<rparr>)) E' X' t" for fs E' X' t
    using Q by (induction fs arbitrary: t) (simp_all add: wp_return wp_bind wp_close)
  then show ?thesis using Q
    by (simp add: insert_fid_def wp_bind wp_get_server wp_put_fids wp_on_kernel wp_return drop_fid_def
        split: option.split)
qed

lemma walk_end:
  assumes len: "length mds \<le> length wn" "r = Panic \<or> (\<exists>e. r = Ok e) \<and> length mds = length wn
      \<or> (\<exists>e. r = Err e) \<and> (mds = [] \<or> length mds < length wn)" and wn: "wn = twalk_wnames m"
  shows "wp (io_bind (case r of
           Ok e \<Rightarrow>
             if length mds = length wn then
               io_bind (case mds of
                   [] \<Rightarrow> on_kernel (io_on_error (stat K e) (close K e))
                 | _ \<Rightarrow> io_return (last mds)) (\<lambda>st.
               insert_fid K (twalk_newfid m)
                 \<lparr>fid_path = e, fid_file = None, fid_filetype = file_type_from (st_mode st)\<rparr>)
             else on_kernel (close K e)
         | Err e \<Rightarrow> if mds = [] then io_throw e else io_return ()
         | Panic \<Rightarrow> io_panic) (\<lambda>_. io_return \<lparr>rwalk_wqids = map qid_from mds\<rparr>))
    (\<lambda>rep w. walked sv m rep (fst w)) (\<lambda>_ w. fst w = sv) (\<lambda>w. fst w = sv) (sv, k)"
proof (cases r)
  case (Ok e)
  with len have "length mds = length wn" by simp
  have ins: "wp (io_bind (insert_fid K (twalk_newfid m) \<lparr>fid_path = e, fid_file = None,
      fid_filetype = file_type_from (st_mode st)\<rparr>) (\<lambda>_. io_return \<lparr>rwalk_wqids = map qid_from mds\<rparr>))
      (\<lambda>rep w. walked sv m rep (fst w)) (\<lambda>_ w. fst w = sv) (\<lambda>w. fst w = sv) (sv, t)"
    if "mds \<noteq> [] \<Longrightarrow> st = last mds" for st t
    unfolding wp_bind wp_return
  proof (rule wp_insert_any)
    let ?f = "\<lparr>fid_path = e, fid_file = None, fid_filetype = file_type_from (st_mode st)\<rparr>"
    have "mds \<noteq> [] \<longrightarrow> (fid_filetype ?f = Directory) = (qid_ty (last (map qid_from mds)) = P9_QTDIR)"
      using that by (simp add: last_map qid_directory)
    then show "walked sv m \<lparr>rwalk_wqids = map qid_from mds\<rparr>
        (sv\<lparr>srv_fids := bt_insert (srv_fids sv) (twalk_newfid m) ?f\<rparr>)"
      using \<open>length mds = length wn\<close> unfolding walked_def wn
      by (simp del: fid.select_convs) (rule exI [of _ ?f], simp)
  qed
  show ?thesis
  proof (cases mds)
    case Nil
    then have "wn = []" using \<open>length mds = length wn\<close> by simp
    with Nil show ?thesis unfolding Ok
      by (simp add: io_bind_assoc, subst wp_bind)
        (rule wp_kernel_kept, use ins Nil in simp_all)
  next
    case (Cons a as)
    have "wp (io_bind (io_return (last mds)) (\<lambda>st. io_bind (insert_fid K (twalk_newfid m) \<lparr>fid_path = e, fid_file = None,
        fid_filetype = file_type_from (st_mode st)\<rparr>) (\<lambda>_. io_return \<lparr>rwalk_wqids = map qid_from mds\<rparr>)))
        (\<lambda>rep w. walked sv m rep (fst w)) (\<lambda>_ w. fst w = sv) (\<lambda>w. fst w = sv) (sv, k)"
      by (simp only: io_return_bind) (rule ins, simp)
    then show ?thesis unfolding Ok using \<open>length mds = length wn\<close> Cons
      by (simp only: io_result.case simp_thms if_True io_bind_assoc list.case)
  qed
next
  case (Err e)
  with len show ?thesis by (auto simp: wp_bind wp_throw wp_return walked_def wn)
qed (simp add: wp_bind wp_panic)

lemma walk_outcome:
  "wp (walk K m) (\<lambda>rep w. walked sv m rep (fst w)) (\<lambda>_ w. fst w = sv) (\<lambda>w. fst w = sv) (sv, k)"
proof -
  have main: "wp (io_bind (on_kernel (do_walk K proc (twalk_wnames m) start cf)) (\<lambda>(r, mds).
      io_bind (case r of
           Ok e \<Rightarrow>
             if length mds = length (twalk_wnames m) then
               io_bind (case mds of
                   [] \<Rightarrow> on_kernel (io_on_error (stat K e) (close K e))
                 | _ \<Rightarrow> io_return (last mds)) (\<lambda>st.
               insert_fid K (twalk_newfid m)
                 \<lparr>fid_path = e, fid_file = None, fid_filetype = file_type_from (st_mode st)\<rparr>)
             else on_kernel (close K e)
         | Err e \<Rightarrow> if mds = [] then io_throw e else io_return ()
         | Panic \<Rightarrow> io_panic) (\<lambda>_. io_return \<lparr>rwalk_wqids = map qid_from mds\<rparr>)))
      (\<lambda>rep w. walked sv m rep (fst w)) (\<lambda>_ w. fst w = sv) (\<lambda>w. fst w = sv) (sv, k)" for proc start cf
  proof -
    obtain q t where q: "do_walk K proc (twalk_wnames m) start cf k = (q, t)"
      by (cases "do_walk K proc (twalk_wnames m) start cf k")
    show ?thesis
    proof (cases q)
      case (Ok p)
      obtain r mds where p: "p = (r, mds)" by (cases p)
      note dw = q [unfolded Ok p]
      have len: "length mds \<le> length (twalk_wnames m)" "r = Panic \<or> (\<exists>e. r = Ok e) \<and> length mds = length (twalk_wnames m)
          \<or> (\<exists>e. r = Err e) \<and> (mds = [] \<or> length mds < length (twalk_wnames m))"
        using do_walk_length [OF dw] do_walk_partial [of K proc "twalk_wnames m" start cf k _ mds t] dw
        by (cases r; auto)+
      from walk_end [OF len refl, of K sv t] show ?thesis
        by (subst wp_bind) (simp add: wp_on_kernel, simp add: wp_def dw)
    qed (use q in \<open>simp_all add: wp_def io_bind_def on_kernel_def\<close>)
  qed
  show ?thesis
    by (simp add: walk_def handler_step main split: option.split)
qed

subsection \<open>Helpers: attach, clunk and version\<close>

lemma bt_remove_insert: "bt_ok m \<Longrightarrow> bt_get m k = None \<Longrightarrow> bt_remove (bt_insert m k v) k = m"
proof (induction m k v rule: bt_insert.induct)
  case (2 j w m k v)
  have "bt_ok m" using "2.prems"(1) by (simp add: bt_ok_def)
  with 2 show ?case by (auto split: if_splits)
qed simp

lemma attach_outcome:
  "wp (attach K m) (\<lambda>_ w. bt_get (srv_fids sv) (tattach_fid m) = None
      \<and> (\<exists>f. fst w = sv\<lparr>srv_fids := bt_insert (srv_fids sv) (tattach_fid m) f\<rparr>))
    (\<lambda>_ w. fst w = sv) (\<lambda>w. fst w = sv) (sv, k)"
proof (cases "bt_get (srv_fids sv) (tattach_fid m)")
  case None
  have ins: "wp (io_bind (insert_fid K (tattach_fid m) f) (\<lambda>_. io_return r)) (\<lambda>_ w. \<exists>f. fst w
      = sv\<lparr>srv_fids := bt_insert (srv_fids sv) (tattach_fid m) f\<rparr>) (\<lambda>_ w. fst w = sv) (\<lambda>w. fst w = sv) (sv, t)"
    for f t and r :: Rattach
    unfolding wp_bind wp_return
    by (rule wp_insert_any [where Q = "\<lambda>_ v. \<exists>f. v = sv\<lparr>srv_fids := bt_insert (srv_fids sv) (tattach_fid m) f\<rparr>"]) blast
  show ?thesis
    by (auto simp: attach_def handler_step None wp_bind [of "on_kernel a" for a] ins
        intro!: wp_kernel_kept split: option.split)
qed (simp add: attach_def handler_step)

lemma wp_clear_fids:
  assumes "sound (sv, s)"
    and "\<And>t. sound (sv\<lparr>srv_fids := bt_new\<rparr>, t) \<Longrightarrow> Q () (sv\<lparr>srv_fids := bt_new\<rparr>, t)"
  shows "wp (clear_fids (audited K)) Q E X (sv, s)"
proof -
  let ?sv = "sv\<lparr>srv_fids := bt_new\<rparr>"
  from soundD(1) [OF assms(1)] have "holds (owned ?sv + mset (concat (map fid_fds (bt_values (srv_fids sv))))) s"
    by (simp add: owned_def [of sv] owned_clear)
  then have "wp (close_all (audited K) (concat (map fid_fds (bt_values (srv_fids sv)))))
      (\<lambda>x t. Q x (?sv, t)) (\<lambda>e t. E e (?sv, t)) (\<lambda>t. X (?sv, t)) s"
    by (rule wp_close_all) (rule assms(2), simp add: sound_def bt.inv_new)
  then show ?thesis by (simp add: clear_fids_def wp_bind wp_get_server wp_put_fids wp_on_kernel)
qed

subsection \<open>The properties\<close>

text \<open>
  Property C11.  A request that must be refused is refused: if the server's state alone says so
  (\<open>refusal\<close>), the handler fails with exactly that error, makes no system call at all,
  changes nothing, and the client gets the error number.
\<close>

theorem refused_requests_do_nothing:
  assumes "refusal sv m = Some e"
  shows "handle K m (sv, k) = (Err (Os e), (sv, k))
    \<and> respond K (Ok m) (sv, k) = (Ok (Rmessage.Lerror \<lparr>rlerror_ecode = of_int e\<rparr>), (sv, k))"
  using refused [OF assms, of K k]
  by (simp add: fails_def respond_def io_or_else_def io_return_apply error_to_rmessage_def)

theorem refused_requests_do_nothing_witness:
  "handle demo_kernel (Tmessage.UnlinkAt \<lparr>tunlinkat_dirfd = 1, tunlinkat_name = [97, 0], tunlinkat_flags = 0\<rparr>)
      (demo_server, 5) = (Err (Os EINVAL), (demo_server, 5))"
proof -
  have "refusal demo_server (Tmessage.UnlinkAt \<lparr>tunlinkat_dirfd = 1, tunlinkat_name = [97, 0], tunlinkat_flags = 0\<rparr>)
      = Some EINVAL" by (simp add: has_fid_def demo_server_def cstring_ok_def)
  from refused_requests_do_nothing [OF this, of demo_kernel 5] show ?thesis by simp
qed

text \<open>
  Property C14.  A request other than \<^verbatim>\<open>Tversion\<close> can change at most the one entry of the
  fid table it is about, and most requests none: every other fid is left as it was, whatever
  the kernel answers and however the request ends.
\<close>

theorem requests_change_their_own_fid_only:
  assumes "bt_ok (srv_fids sv)" and "n \<notin> changeable m"
  shows "bt_get (srv_fids (fst (snd (handle K m (sv, k))))) n = bt_get (srv_fids sv) n"
proof -
  have "same_but (changeable m) sv (fst (snd (handle K m (sv, k))))"
    using handle_changes [of K m sv k] by (simp add: wp_same)
  with assms show ?thesis by (simp add: same_but_def)
qed

theorem requests_change_their_own_fid_only_witness:
  "bt_get (srv_fids (fst (snd (handle (refusing_kernel 5) (Tmessage.Attach \<lparr>tattach_fid = 2, tattach_afid = 0,
      tattach_uname = [], tattach_aname = [], tattach_n_uname = 0\<rparr>) (demo_server, 5))))) 1
    = Some \<lparr>fid_path = 4, fid_file = None, fid_filetype = Directory\<rparr>"
proof -
  have "bt_ok (srv_fids demo_server)" by (simp add: bt_ok_def demo_server_def)
  from requests_change_their_own_fid_only [OF this, of 1 "Tmessage.Attach \<lparr>tattach_fid = 2, tattach_afid = 0,
      tattach_uname = [], tattach_aname = [], tattach_n_uname = 0\<rparr>" "refusing_kernel 5" 5]
  show ?thesis by (simp add: demo_server_def)
qed

text \<open>
  Property C15.  A walk is all or nothing for the fid table: a reply with a qid per name means
  that the new fid is stored, not open, and a directory exactly if the last qid says so; a
  shorter, not empty reply, an error or a panic mean that the server is unchanged.
\<close>

theorem walk_is_all_or_nothing:
  "case walk K m (sv, k) of
     (Ok rep, (sv', k')) \<Rightarrow>
       (length (rwalk_wqids rep) = length (twalk_wnames m)
         \<and> (\<exists>f. fid_file f = None \<and> sv' = sv\<lparr>srv_fids := bt_insert (srv_fids sv) (twalk_newfid m) f\<rparr>
           \<and> (rwalk_wqids rep \<noteq> [] \<longrightarrow>
                (fid_filetype f = Directory) = (qid_ty (last (rwalk_wqids rep)) = P9_QTDIR))))
       \<or> (0 < length (rwalk_wqids rep) \<and> length (rwalk_wqids rep) < length (twalk_wnames m) \<and> sv' = sv)
   | (_, (sv', k')) \<Rightarrow> sv' = sv"
proof -
  obtain r sv' k' where w: "walk K m (sv, k) = (r, (sv', k'))" by (metis surj_pair)
  from walk_outcome [where K = K and m = m and sv = sv and k = k] show ?thesis
    unfolding wp_def w by (cases r) (auto simp: walked_def split: if_splits)
qed

theorem walk_is_all_or_nothing_witness:
  "fst (snd (walk (refusing_kernel ENOENT) \<lparr>twalk_fid = 1, twalk_newfid = 2, twalk_wnames = [[97]]\<rparr>
    (demo_server, 5 :: int))) = demo_server"
proof -
  let ?m = "\<lparr>twalk_fid = 1, twalk_newfid = 2, twalk_wnames = [[97]]\<rparr>"
  let ?w = "walk (refusing_kernel ENOENT) ?m (demo_server, 5 :: int)"
  have "fst ?w = Err (Os ENOENT)"
    by (simp add: walk_def io_apply get_server_def get_fid_def bt_contains_key_def ok_or_def demo_server_def
        io_return_apply on_kernel_def do_walk_def walk_step_def string_to_cstring_def cstring_new_def io_result_apply
        lookup_def syscall_def io_map_apply io_throw_apply config_default_def)
  then obtain sv' k' where w: "?w = (Err (Os ENOENT), (sv', k'))" by (cases ?w) auto
  have "sv' = demo_server"
    using walk_is_all_or_nothing [where K = "refusing_kernel ENOENT" and m = ?m and sv = demo_server and k = "5 :: int"]
    unfolding w by simp
  with w show ?thesis by simp
qed

text \<open>
  Property C29.  Clunk undoes attach: after a successful attach the fid can be clunked, and then
  the server is what it was before.
\<close>

theorem clunk_undoes_attach:
  assumes "bt_ok (srv_fids sv)" and "attach K m (sv, k) = (Ok r, (sv', k'))"
  shows "\<exists>k''. clunk K \<lparr>tclunk_fid = tattach_fid m\<rparr> (sv', k') = (Ok (), (sv, k''))"
proof -
  from wp_Ok_D [OF attach_outcome assms(2)] obtain f where new: "bt_get (srv_fids sv) (tattach_fid m) = None"
    and sv': "sv' = sv\<lparr>srv_fids := bt_insert (srv_fids sv) (tattach_fid m) f\<rparr>" by auto
  have "\<exists>t'. close_all K fs t = (Ok (), t')" for fs t
    by (induction fs arbitrary: t) (simp_all add: io_return_apply io_apply close_def)
  then obtain t where "drop_fid K f k' = (Ok (), t)" unfolding drop_fid_def by blast
  then show ?thesis
    by (simp add: clunk_def io_apply get_server_def sv' bt.get_insert [OF assms(1)] put_fids_def
        bt_remove_insert [OF assms(1) new] on_kernel_def)
qed

lemma demo_attach:
  "attach demo_kernel \<lparr>tattach_fid = 2, tattach_afid = 0, tattach_uname = [], tattach_aname = [], tattach_n_uname = 0\<rparr>
      (demo_server, 5) = (Ok \<lparr>rattach_qid = qid_from demo_stat\<rparr>, (demo_server\<lparr>srv_fids :=
        bt_insert (srv_fids demo_server) 2 \<lparr>fid_path = 5, fid_file = None, fid_filetype = Directory\<rparr>\<rparr>, 6))"
proof -
  have root: "cstring_new (ascii ''/'') = Some (ascii ''/'')" by code_simp
  have "cfg_root (srv_cfg demo_server) = ascii ''/''" by (simp add: demo_server_def config_default_def)
  then show ?thesis
    by (simp add: attach_def io_apply get_server_def ok_or_def root io_return_apply on_kernel_def syscall_def
        stat_def statat_def insert_fid_def put_fids_def demo_stat_dir io_map_apply demo_server_def)
qed

theorem clunk_undoes_attach_witness:
  "\<exists>sv' k' k''. attach demo_kernel \<lparr>tattach_fid = 2, tattach_afid = 0, tattach_uname = [], tattach_aname = [],
      tattach_n_uname = 0\<rparr> (demo_server, 5) = (Ok \<lparr>rattach_qid = qid_from demo_stat\<rparr>, (sv', k'))
    \<and> clunk demo_kernel \<lparr>tclunk_fid = 2\<rparr> (sv', k') = (Ok (), (demo_server, k''))"
proof -
  have "bt_ok (srv_fids demo_server)" by (simp add: bt_ok_def demo_server_def)
  from clunk_undoes_attach [OF this demo_attach] demo_attach show ?thesis by simp
qed

text \<open>
  Property C20.  \<^verbatim>\<open>Tversion\<close> starts a session afresh: the smaller message size is agreed on,
  \<^verbatim>\<open>9P2000.L\<close> is the only version that is accepted, the fid table is empty, and every
  descriptor but \<^verbatim>\<open>/proc\<close> has been closed.
\<close>

theorem version_starts_afresh:
  assumes "sound (sv, s)" and "MIN_MESSAGE_SIZE \<le> tversion_msize m"
  shows "\<exists>t. version (audited K) m (sv, s) =
      (Ok \<lparr>rversion_msize = min (cfg_msize (srv_cfg sv)) (tversion_msize m),
           rversion_version = (if tversion_version m = ascii ''9P2000.L'' then ascii ''9P2000.L''
             else ascii ''unknown'')\<rparr>,
       (sv\<lparr>srv_fids := bt_new, srv_cfg := srv_cfg sv\<lparr>cfg_msize := min (cfg_msize (srv_cfg sv)) (tversion_msize m)\<rparr>\<rparr>, t))
    \<and> aud_open (snd t) = {#srv_proc sv#} \<and> aud_clean (snd t)"
proof -
  have "wp (clear_fids (audited K)) (\<lambda>_ (v, t). v = sv\<lparr>srv_fids := bt_new\<rparr> \<and> holds {#srv_proc sv#} t)
      (\<lambda>_ _. False) (\<lambda>_. False) (sv, s)"
    by (rule wp_clear_fids [OF assms(1)]) (auto simp: sound_def owned_clear)
  then obtain t where "clear_fids (audited K) (sv, s) = (Ok (), (sv\<lparr>srv_fids := bt_new\<rparr>, t))"
    and "holds {#srv_proc sv#} t"
    by (cases "clear_fids (audited K) (sv, s)"; cases "fst (clear_fids (audited K) (sv, s))") (auto simp: wp_def)
  moreover have "\<not> tversion_msize m < MIN_MESSAGE_SIZE" using assms(2) by (rule leD)
  ultimately show ?thesis
    by (intro exI [of _ t])
      (simp add: version_def io_apply get_server_def put_msize_def io_return_apply Let_def holds_def)
qed

theorem version_starts_afresh_witness:
  "\<exists>sv t. version (audited demo_kernel) \<lparr>tversion_msize = 8192, tversion_version = ascii ''9P2000.L''\<rparr>
      (demo_server, (5, \<lparr>aud_open = {#3, 4#}, aud_clean = True\<rparr>))
    = (Ok \<lparr>rversion_msize = 8192, rversion_version = ascii ''9P2000.L''\<rparr>, (sv, t)) \<and> aud_open (snd t) = {#3#}"
proof -
  have s: "sound (demo_server, (5 :: int, \<lparr>aud_open = {#3, 4#}, aud_clean = True\<rparr>))"
    by (simp add: sound_def owned_def holds_def demo_server_def bt_values_def fid_fds_def bt_ok_def)
  have "MIN_MESSAGE_SIZE \<le> 8192" and "min (cfg_msize (srv_cfg demo_server)) 8192 = 8192" and "srv_proc demo_server = 3"
    by (simp_all add: MIN_MESSAGE_SIZE_def demo_server_def config_default_def MAX_MESSAGE_SIZE_def min_def)
  with version_starts_afresh [OF s, of "\<lparr>tversion_msize = 8192, tversion_version = ascii ''9P2000.L''\<rparr>" demo_kernel]
  show ?thesis by simp blast
qed

text \<open>
  Property C32.  Names reach the kernel as they are: a walk to one name of any form, a slash or
  \<^verbatim>\<open>..\<close> included, opens that name relative to the fid's descriptor and stores what it
  opened.  In particular a walk to \<^verbatim>\<open>..\<close> from the attached root is not stopped.
\<close>

theorem names_reach_the_kernel_verbatim:
  assumes "bt_get (srv_fids sv) n = Some f" and "bt_get (srv_fids sv) n' = None" and "cstring_ok name"
    and "K (Openat (fid_path f) name (O_PATH OR O_NOFOLLOW OR O_CLOEXEC) None) k = (r, k1)" and "0 \<le> sys_res r"
    and "K (Fstatat (sys_res r) [] (AT_EMPTY_PATH OR AT_SYMLINK_NOFOLLOW)) k1 = (q, k2)" and "0 \<le> sys_res q"
  shows "walk K \<lparr>twalk_fid = n, twalk_newfid = n', twalk_wnames = [name]\<rparr> (sv, k) =
    (Ok \<lparr>rwalk_wqids = [qid_from (sys_stat q)]\<rparr>, (sv\<lparr>srv_fids := bt_insert (srv_fids sv) n'
       \<lparr>fid_path = sys_res r, fid_file = None, fid_filetype = file_type_from (st_mode (sys_stat q))\<rparr>\<rparr>, k2))"
proof -
  have "cstring_new name = Some name" using assms(3) by (simp add: cstring_new_def cstring_ok_def)
  then have "walk_step K (srv_proc sv) (cfg_ascii_casefold (srv_cfg sv)) (Borrowed (fid_path f)) name k
      = (Ok (sys_res r, sys_stat q), k2)"
    using assms(4-7) by (simp add: walk_step_def io_apply io_return_apply io_result_apply io_map_apply
        string_to_cstring_def lookup_def syscall_def stat_def statat_def)
  then have "do_walk K (srv_proc sv) [name] (fid_path f) (cfg_ascii_casefold (srv_cfg sv)) k
      = (Ok (Ok (sys_res r), [sys_stat q]), k2)"
    by (simp add: do_walk_def io_apply io_return_apply)
  with assms(1,2) show ?thesis
    by (simp add: walk_def io_apply get_server_def get_fid_def bt_contains_key_def ok_or_def io_return_apply
        on_kernel_def insert_fid_def put_fids_def)
qed

theorem names_reach_the_kernel_verbatim_witness:
  "walk demo_kernel \<lparr>twalk_fid = 1, twalk_newfid = 2, twalk_wnames = [ascii ''..'']\<rparr> (demo_server, 5) =
    (Ok \<lparr>rwalk_wqids = [qid_from demo_stat]\<rparr>, (demo_server\<lparr>srv_fids := bt_insert (srv_fids demo_server) 2
       \<lparr>fid_path = 5, fid_file = None, fid_filetype = Directory\<rparr>\<rparr>, 6))"
  using names_reach_the_kernel_verbatim [of demo_server 1 "\<lparr>fid_path = 4, fid_file = None, fid_filetype = Directory\<rparr>"
      2 "ascii ''..''" demo_kernel 5 "demo_ret 5" 6 "demo_ret 0" 6]
  by (simp add: demo_stat_dir) (simp add: demo_server_def cstring_ok_def ascii_def)

end
