(* ===== verification/Handler_Runs.thy ===== *)
theory Handler_Runs
  imports Replies
begin

text \<open>
  Running handlers on concrete answers of the kernel: one rule per statement for the normal
  case, and plans of calls that are carried out up to the first error.
\<close>

subsection \<open>Statements that return normally\<close>

lemma run_get_server: "io_bind get_server f (sv, k) = f sv (sv, k)"
  by (simp add: io_bind_def get_server_def)

lemma run_get_fid: "bt_get (srv_fids sv) n = Some d \<Longrightarrow> io_bind (get_fid n) f (sv, k) = f d (sv, k)"
  by (simp add: io_bind_def get_fid_def get_server_def ok_or_def io_return_def)

lemma run_get_file:
  "bt_get (srv_fids sv) n = Some d \<Longrightarrow> fid_file d = Some g \<Longrightarrow> io_bind (get_file n) f (sv, k) = f g (sv, k)"
  by (simp add: io_bind_def get_file_def get_server_def ok_or_def io_return_def)

lemma run_result: "io_bind (io_result (Ok x)) f w = f x w"
  by (simp add: io_bind_def io_result_def)

lemma run_ok_or: "io_bind (ok_or (Some x) e) f w = f x w"
  by (simp add: io_bind_def ok_or_def io_return_def)

lemma run_on_kernel: "m k = (Ok x, t) \<Longrightarrow> io_bind (on_kernel m) f (sv, k) = f x (sv, t)"
  by (simp add: io_bind_def on_kernel_def)

lemma run_on_kernel_Err: "m k = (Err e, t) \<Longrightarrow> io_bind (on_kernel m) f (sv, k) = (Err e, (sv, t))"
  by (simp add: io_bind_def on_kernel_def)

lemma run_set_fid: "io_bind (set_fid n d) f (sv, k) = f () (sv\<lparr>srv_fids := bt_insert (srv_fids sv) n d\<rparr>, k)"
  by (simp add: io_bind_def set_fid_def get_server_def put_fids_def)

lemma run_assign_file:
  "io_bind (assign_file K n d g) f (sv, k) = f (d\<lparr>fid_file := Some g\<rparr>)
    (sv\<lparr>srv_fids := bt_insert (srv_fids sv) n (d\<lparr>fid_file := Some g\<rparr>)\<rparr>,
     case fid_file d of None \<Rightarrow> k | Some old \<Rightarrow> snd (K (Close old) k))"
  by (simp add: io_bind_def assign_file_def set_fid_def get_server_def put_fids_def on_kernel_def io_return_def
      close_def split: option.split)

lemmas run_rules = run_get_server run_result run_ok_or run_set_fid run_assign_file Let_def

subsection \<open>Plans\<close>

text \<open>
  What a request amounts to, as a list: calls whose answers only matter when they are errors,
  an error of the server's own, and a change of size through a descriptor that is opened for it
  and closed again.  A plan is carried out up to its first error.
\<close>

datatype action = Call syscall | Stop io_error | Resize_through syscall u64

fun perform :: "'k kernel \<Rightarrow> action list \<Rightarrow> ('k, unit) io" where
  "perform K [] k = (Ok (), k)"
| "perform K (Call c # as) k = (case K c k of (r, k1) \<Rightarrow>
     if sys_res r < 0 then (Err (Os (sys_errno r)), k1) else perform K as k1)"
| "perform K (Stop e # as) k = (Err e, k)"
| "perform K (Resize_through c len # as) k = (case K c k of (r, k1) \<Rightarrow>
     if sys_res r < 0 then (Err (Os (sys_errno r)), k1)
     else if 2 ^ 63 \<le> unat len then (Err (Kinded InvalidInput), snd (K (Close (sys_res r)) k1))
     else (case K (Ftruncate (sys_res r) len) k1 of (q, k2) \<Rightarrow>
       if sys_res q < 0 then (Err (Os (sys_errno q)), snd (K (Close (sys_res r)) k2))
       else perform K as (snd (K (Close (sys_res r)) k2))))"

lemma perform_append: "perform K (as @ bs) = io_bind (perform K as) (\<lambda>_. perform K bs)"
proof
  show "perform K (as @ bs) k = io_bind (perform K as) (\<lambda>_. perform K bs) k" for k
    by (induction K as k rule: perform.induct) (auto simp: io_bind_def split: prod.split)
qed

lemma perform_simps:
  "perform K [] = io_return ()" "perform K [Call c] = io_map (\<lambda>_. ()) (syscall K c)" "perform K [Stop e] = io_throw e"
  "perform K (if b then as else bs) = (if b then perform K as else perform K bs)"
  by (auto simp: fun_eq_iff io_return_apply io_throw_apply io_map_apply syscall_def split: prod.split)

lemma on_kernel_bind: "io_bind (on_kernel a) (\<lambda>_. on_kernel b) = on_kernel (io_bind a (\<lambda>_. b))"
  by (auto simp: fun_eq_iff io_bind_def on_kernel_def split: prod.split io_result.split)

subsection \<open>Names of descriptors\<close>

lemma cstring_of_ok: "cstring_ok s \<Longrightarrow> string_to_cstring s = Ok s"
  by (simp add: string_to_cstring_def cstring_new_def cstring_ok_def)

lemma proc_path: "string_to_cstring (proc_self_fd d) = Ok (ascii ''self/fd/'' @ int_digits d)"
proof -
  have "0 \<notin> set (ascii ''self/fd/'')" by (simp add: ascii_def)
  then show ?thesis
    by (simp add: string_to_cstring_def cstring_new_def proc_self_fd_def int_digits_no_nul)
qed

end
