(* ===== verification/File_Properties.thy ===== *)
theory File_Properties
  imports Handler_Runs
begin

text \<open>
  The properties of the requests on files: the flags a file is opened with, what a read
  returns, creation, and the calls that setting attributes amounts to.
\<close>

subsection \<open>Helpers: single bits\<close>

lemma and_single_bit: "p AND push_bit n 1 = (if bit p n then push_bit n 1 else (0 :: 'a::len word))"
  by (rule bit_word_eqI) (auto simp: bit_and_iff bit_exp_iff)

lemma or_if_bit:
  "f = push_bit n 1 \<Longrightarrow> (if p AND f \<noteq> 0 then x OR f else x) = x OR (p AND (f :: 'a::len word))"
  by (simp only: and_single_bit) auto

lemma flag_bits:
  "(1 :: u32) = push_bit 0 1" "(2 :: u32) = push_bit 1 1" "(0x40 :: u32) = push_bit 6 1"
  "(0x80 :: u32) = push_bit 7 1" "(0x100 :: u32) = push_bit 8 1" "(0x200 :: u32) = push_bit 9 1"
  "(0x400 :: u32) = push_bit 10 1" "(0x800 :: u32) = push_bit 11 1" "(0x1000 :: u32) = push_bit 12 1"
  "(0x4000 :: u32) = push_bit 14 1" "(0x10000 :: u32) = push_bit 16 1" "(0x20000 :: u32) = push_bit 17 1"
  "(0x40000 :: u32) = push_bit 18 1"
  by simp_all

lemmas flag_steps = flag_bits [THEN or_if_bit]

definition sync_flag :: "u32 \<Rightarrow> u32" where
  "sync_flag p9 = (if p9 AND P9_SYNC \<noteq> 0 then O_SYNC else 0)"

lemma map_open_flags_closed: "map_open_flags base p9 = base OR (p9 AND 0x75FC3) OR sync_flag p9"
proof -
  have merge: "(b OR (p9 AND x)) OR (p9 AND y) = b OR (p9 AND (x OR y))" for b x y :: u32
    by (simp only: or.assoc and.left_commute bit.conj_disj_distrib)
  have "map_open_flags base p9 = ((((((((((((((base OR (p9 AND 1)) OR (p9 AND 2)) OR (p9 AND 0x40))
      OR (p9 AND 0x80)) OR (p9 AND 0x100)) OR (p9 AND 0x200)) OR (p9 AND 0x400)) OR (p9 AND 0x800))
      OR (p9 AND 0x1000)) OR (p9 AND 0x4000)) OR (p9 AND 0x10000)) OR (p9 AND 0x20000))
      OR (p9 AND 0x40000)) OR sync_flag p9)"
    unfolding map_open_flags_def MAPPED_FLAGS_def p9_flags open_flags sync_flag_def foldl.simps prod.case Let_def
    by (simp only: flag_steps or.right_neutral if_cancel) simp
  also have "\<dots> = base OR (p9 AND 0x75FC3) OR sync_flag p9"
    by (simp only: merge) (simp add: or.assoc)
  finally show ?thesis .
qed

subsection \<open>Helpers: the plan that setting attributes amounts to\<close>

text \<open>
  By the bits of the mask: mode, owner and group, size, the two times, and the change time alone.
\<close>

definition attr_time :: "u32 \<Rightarrow> nat \<Rightarrow> nat \<Rightarrow> u64 \<Rightarrow> u64 \<Rightarrow> timespec" where
  "attr_time valid now given sec nsec = \<lparr>tv_sec = sec, tv_nsec =
     (if \<not> bit valid now then UTIME_OMIT else if \<not> bit valid given then UTIME_NOW else nsec)\<rparr>"

text \<open>
  A directory has no size to set; an open file is resized by its descriptor, to a size that is a
  file offset; any other is opened for it, without blocking.
\<close>

definition size_plan :: "fd \<Rightarrow> cstring \<Rightarrow> fid \<Rightarrow> u64 \<Rightarrow> action list" where
  "size_plan proc path f len =
    (if fid_filetype f = Directory then [Stop (Os EISDIR)]
     else case fid_file f of
       Some g \<Rightarrow> [if 2 ^ 63 \<le> unat len then Stop (Kinded InvalidInput) else Call (Ftruncate g len)]
     | None \<Rightarrow> [Resize_through (Openat proc path (O_CLOEXEC OR O_NONBLOCK OR O_RDWR) None) len])"

definition set_attr_plan :: "fd \<Rightarrow> fid \<Rightarrow> Tsetattr \<Rightarrow> action list" where
  "set_attr_plan proc f m =
    (let path = ascii ''self/fd/'' @ int_digits (fid_path f); valid = tsetattr_valid m in
     (if bit valid 0 then [Call (Fchmodat proc path (tsetattr_mode m) 0)] else [])
     @ (if bit valid 1 \<or> bit valid 2 then [Call (Fchownat proc path
          (if bit valid 1 then tsetattr_uid m else - 1) (if bit valid 2 then tsetattr_gid m else - 1) 0)] else [])
     @ (if bit valid 3 then size_plan proc path f (tsetattr_size m) else [])
     @ (if bit valid 4 \<or> bit valid 5 then [Call (Utimensat proc path
          (attr_time valid 4 7 (tsetattr_atime_sec m) (tsetattr_atime_nsec m))
          (attr_time valid 5 8 (tsetattr_mtime_sec m) (tsetattr_mtime_nsec m)) 0)] else [])
     @ (if valid = 0x40 then [Call (Fchownat proc path (- 1) (- 1) 0)] else []))"

lemma no_single_bit: "f = push_bit n 1 \<Longrightarrow> n < 32 \<Longrightarrow> (v AND f = 0) = (\<not> bit (v :: u32) n)"
  by (simp only: and_single_bit) (auto simp: exp_eq_zero_iff)

lemma setattr_bits:
  "(v AND P9_SETATTR_MODE = 0) = (\<not> bit v 0)" "(v AND P9_SETATTR_UID = 0) = (\<not> bit v 1)"
  "(v AND P9_SETATTR_GID = 0) = (\<not> bit v 2)" "(v AND P9_SETATTR_SIZE = 0) = (\<not> bit v 3)"
  "(v AND P9_SETATTR_ATIME = 0) = (\<not> bit v 4)" "(v AND P9_SETATTR_MTIME = 0) = (\<not> bit v 5)"
  "(v AND P9_SETATTR_ATIME_SET = 0) = (\<not> bit v 7)" "(v AND P9_SETATTR_MTIME_SET = 0) = (\<not> bit v 8)"
  by (rule no_single_bit; simp add: p9_setattr)+

lemma setattr_either:
  "(v AND (x OR y) = 0) = (v AND x = 0 \<and> v AND y = (0 :: u32))"
  by (simp only: bit.conj_disj_distrib or_eq_0_iff)

lemma setattr_ctime_only: "(v AND P9_SETATTR_CTIME \<noteq> 0 \<and> v AND NOT P9_SETATTR_CTIME = 0) = (v = (0x40 :: u32))"
proof
  assume h: "v AND P9_SETATTR_CTIME \<noteq> 0 \<and> v AND NOT P9_SETATTR_CTIME = 0"
  have "v = (v AND P9_SETATTR_CTIME) OR (v AND NOT P9_SETATTR_CTIME)"
    by (rule bit_word_eqI) (auto simp: bit_and_iff bit_or_iff bit_not_iff)
  with h have v: "v = v AND P9_SETATTR_CTIME" by simp
  have "P9_SETATTR_CTIME = push_bit 6 1" by (simp add: p9_setattr)
  with h have "v AND P9_SETATTR_CTIME = P9_SETATTR_CTIME"
    by (metis and_single_bit)
  with v show "v = 0x40" by (simp add: p9_setattr)
qed (simp add: p9_setattr)

lemmas setattr_tests = setattr_either setattr_bits not_not de_Morgan_conj

lemma open_fid_flags:
  "map_open_flags O_CLOEXEC p9 AND NOT O_NOFOLLOW = O_CLOEXEC OR (p9 AND 0x55FC3) OR sync_flag p9"
proof -
  have "sync_flag p9 AND NOT O_NOFOLLOW = sync_flag p9" by (simp add: sync_flag_def open_flags)
  then show ?thesis
    unfolding map_open_flags_closed by (simp add: bit.conj_disj_distrib2 and.assoc open_flags)
qed

lemma open_to_resize:
  "open_fid K proc path (P9_NONBLOCK OR P9_RDWR) = io_map sys_res (syscall K
    (Openat proc (ascii ''self/fd/'' @ int_digits path) (O_CLOEXEC OR O_NONBLOCK OR O_RDWR) None))"
proof -
  have "O_CLOEXEC OR ((P9_NONBLOCK OR P9_RDWR) AND 0x55FC3) OR sync_flag (P9_NONBLOCK OR P9_RDWR)
      = O_CLOEXEC OR O_NONBLOCK OR O_RDWR"
    by (simp add: sync_flag_def open_flags p9_flags)
  then show ?thesis
    by (simp add: fun_eq_iff open_fid_def proc_path run_result open_fid_flags)
qed

lemma set_attr_mode_plan: "set_attr_mode K proc path m
    = perform K (if bit (tsetattr_valid m) 0 then [Call (Fchmodat proc path (tsetattr_mode m) 0)] else [])"
  by (simp add: set_attr_mode_def setattr_tests perform_simps)

lemma set_attr_owner_plan: "set_attr_owner K proc path m
    = perform K (if bit (tsetattr_valid m) 1 \<or> bit (tsetattr_valid m) 2 then [Call (Fchownat proc path
       (if bit (tsetattr_valid m) 1 then tsetattr_uid m else - 1)
       (if bit (tsetattr_valid m) 2 then tsetattr_gid m else - 1) 0)] else [])"
  unfolding set_attr_owner_def Let_def setattr_tests by (simp add: perform_simps)

lemma set_attr_times_plan: "set_attr_times K proc path m
    = perform K (if bit (tsetattr_valid m) 4 \<or> bit (tsetattr_valid m) 5 then [Call (Utimensat proc path
       (attr_time (tsetattr_valid m) 4 7 (tsetattr_atime_sec m) (tsetattr_atime_nsec m))
       (attr_time (tsetattr_valid m) 5 8 (tsetattr_mtime_sec m) (tsetattr_mtime_nsec m)) 0)] else [])"
  unfolding set_attr_times_def Let_def setattr_tests attr_time_def by (simp add: perform_simps)

lemma set_attr_ctime_plan: "set_attr_ctime K proc path m
    = perform K (if tsetattr_valid m = 0x40 then [Call (Fchownat proc path (- 1) (- 1) 0)] else [])"
  unfolding set_attr_ctime_def setattr_ctime_only by (simp add: perform_simps)

lemma set_attr_size_plan: "set_attr_size K proc f m = perform K (if bit (tsetattr_valid m) 3
    then size_plan proc (ascii ''self/fd/'' @ int_digits (fid_path f)) f (tsetattr_size m) else [])"
proof -
  have "io_bind (io_map sys_res (syscall K c)) (\<lambda>file. io_finally (set_len K file len) (close K file)) k
      = perform K [Resize_through c len] k" for c len k
    by (auto simp: io_apply io_map_apply io_throw_apply syscall_def set_len_def close_def split: prod.split)
  then have through: "io_bind (io_map sys_res (syscall K c)) (\<lambda>file. io_finally (set_len K file len) (close K file))
      = perform K [Resize_through c len]" for c len by blast
  show ?thesis
  proof (cases "fid_file f")
    case None
    then show ?thesis
      by (simp add: set_attr_size_def setattr_tests size_plan_def open_to_resize through perform_simps del: perform.simps)
  qed (simp add: set_attr_size_def setattr_tests size_plan_def perform_simps set_len_def del: perform.simps)
qed

subsection \<open>The properties\<close>

text \<open>
  Property C27.  The loop over \<open>MAPPED_FLAGS\<close> is a mask: the flags of \<^verbatim>\<open>Tlopen\<close> and
  \<^verbatim>\<open>Tlcreate\<close> whose numbers 9P and Linux share go through, \<^verbatim>\<open>P9_SYNC\<close> is
  translated, and everything else is dropped.  An opened fid always has close-on-exec and never
  \<^verbatim>\<open>O_NOFOLLOW\<close>.
\<close>

theorem open_flags_are_a_mask:
  "map_open_flags base p9 = base OR (p9 AND 0x75FC3) OR sync_flag p9
    \<and> (map_open_flags O_CLOEXEC p9 AND NOT O_NOFOLLOW) = O_CLOEXEC OR (p9 AND 0x55FC3) OR sync_flag p9"
  by (intro conjI map_open_flags_closed open_fid_flags)

text \<open>
  Property C17.  \<^verbatim>\<open>Tlopen\<close>, when the open and the \<^verbatim>\<open>fstat\<close> of what it opened succeed:
  it opens the very file the fid's path descriptor stands for (by its name under
  \<^verbatim>\<open>/proc/self/fd\<close>, with the masked flags), keeps the path, stores the new descriptor and closes
  the one the fid had open before.  The reply's qid is that of the newly opened descriptor.
\<close>

theorem lopen_replaces_the_open_file:
  assumes "bt_get (srv_fids sv) (tlopen_fid m) = Some f"
    and "K (Openat (srv_proc sv) (ascii ''self/fd/'' @ int_digits (fid_path f))
      (O_CLOEXEC OR (tlopen_flags m AND 0x55FC3) OR sync_flag (tlopen_flags m)) None) k = (r, k1)" and "0 \<le> sys_res r"
    and "K (Fstatat (sys_res r) [] (AT_EMPTY_PATH OR AT_SYMLINK_NOFOLLOW)) k1 = (q, k2)" and "0 \<le> sys_res q"
  shows "lopen K m (sv, k) = (Ok \<lparr>rlopen_qid = qid_from (sys_stat q), rlopen_iounit = 0\<rparr>,
    (sv\<lparr>srv_fids := bt_insert (srv_fids sv) (tlopen_fid m) (f\<lparr>fid_file := Some (sys_res r)\<rparr>)\<rparr>,
     case fid_file f of None \<Rightarrow> k2 | Some old \<Rightarrow> snd (K (Close old) k2)))"
proof -
  have "open_fid K (srv_proc sv) (fid_path f) (tlopen_flags m) k = (Ok (sys_res r), k1)"
    using assms(2,3) by (simp add: open_fid_def proc_path run_result open_fid_flags io_map_apply syscall_def)
  moreover have "io_on_error (stat K (sys_res r)) (close K (sys_res r)) k1 = (Ok (sys_stat q), k2)"
    using assms(4,5) by (simp add: io_on_error_def stat_def statat_def io_map_apply syscall_def)
  ultimately show ?thesis
    by (simp add: lopen_def run_get_fid [OF assms(1)] run_rules run_on_kernel io_return_apply)
qed

text \<open>\<^verbatim>\<open>Tlopen\<close> on the demonstration kernel: a fid that is open gets a new descriptor.\<close>

theorem lopen_replaces_the_open_file_witness:
  "lopen demo_kernel \<lparr>tlopen_fid = 1, tlopen_flags = P9_RDWR\<rparr> (demo_server, 5) =
    (Ok \<lparr>rlopen_qid = qid_from demo_stat, rlopen_iounit = 0\<rparr>, (demo_server\<lparr>srv_fids :=
      bt_insert (srv_fids demo_server) 1 \<lparr>fid_path = 4, fid_file = Some 5, fid_filetype = Directory\<rparr>\<rparr>, 6))"
proof -
  let ?f = "\<lparr>fid_path = 4, fid_file = None, fid_filetype = Directory\<rparr>"
  have "bt_get (srv_fids demo_server) (tlopen_fid \<lparr>tlopen_fid = 1, tlopen_flags = P9_RDWR\<rparr>) = Some ?f"
    by (simp add: demo_server_def)
  from lopen_replaces_the_open_file [OF this, of demo_kernel 5 "demo_ret 5" 6 "demo_ret 0" 6] show ?thesis by simp
qed

text \<open>
  \<^verbatim>\<open>Tread\<close> asks for at most what fits in a reply, at the offset the client
  gave, and answers with the bytes the kernel delivered, no more and no less.
\<close>

lemma read_returns_the_bytes_delivered:
  assumes "bt_get (srv_fids sv) (tread_fid m) = Some f" and "fid_file f = Some d"
    and "room = unat (min (cfg_msize (srv_cfg sv) - 11) (tread_count m))"
    and "K (Pread d room (tread_offset m)) k = (r, k')"
    and "sys_res r = int (length (sys_buf r))" and "length (sys_buf r) \<le> room"
  shows "read_op K m (sv, k) = (Ok \<lparr>rread_data = sys_buf r\<rparr>, (sv, k'))"
proof -
  have "on_kernel (syscall K (Pread d room (tread_offset m))) (sv, k) = (Ok r, (sv, k'))"
    using assms(4,5) by (simp add: on_kernel_def syscall_def)
  moreover have "take (nat (sys_res r)) (fill (replicate room 0) (sys_buf r)) = sys_buf r"
    using assms(5,6) by (simp add: fill_exact)
  ultimately show ?thesis
    by (simp add: read_op_def run_get_file [OF assms(1,2)] run_rules data_header_size flip: assms(3))
      (simp add: io_bind_def io_return_apply)
qed

definition file_server :: server where
  "file_server = demo_server\<lparr>srv_fids := [(1, \<lparr>fid_path = 4, fid_file = Some 7, fid_filetype = Regular\<rparr>)]\<rparr>"

definition hello_kernel :: "int kernel" where
  "hello_kernel c k = (case c of Pread d n off \<Rightarrow> ((demo_ret 2)\<lparr>sys_buf := [104, 105]\<rparr>, k) | _ \<Rightarrow> demo_kernel c k)"

lemma read_returns_the_bytes_delivered_witness:
  "read_op hello_kernel \<lparr>tread_fid = 1, tread_offset = 0, tread_count = 100\<rparr> (file_server, 5)
    = (Ok \<lparr>rread_data = [104, 105]\<rparr>, (file_server, 5))"
proof -
  let ?m = "\<lparr>tread_fid = 1, tread_offset = 0, tread_count = 100\<rparr>"
  let ?f = "\<lparr>fid_path = 4, fid_file = Some 7, fid_filetype = Regular\<rparr>"
  have f: "bt_get (srv_fids file_server) (tread_fid ?m) = Some ?f" by (simp add: file_server_def)
  have room: "100 = unat (min (cfg_msize (srv_cfg file_server) - 11) (tread_count ?m))"
    by (simp add: file_server_def demo_server_def config_default_def MAX_MESSAGE_SIZE_def min_def)
  show ?thesis
    using read_returns_the_bytes_delivered [OF f _ room, of 7 hello_kernel 5 "(demo_ret 2)\<lparr>sys_buf := [104, 105]\<rparr>" 5]
    by (simp add: hello_kernel_def)
qed

subsection \<open>Creation\<close>

text \<open>
  The start of a creation that gets as far as the new file: created exclusively in the fid's
  directory, with the client's mode and masked flags, and looked at.
\<close>

definition created ::
    "'k kernel \<Rightarrow> server \<Rightarrow> Tlcreate \<Rightarrow> fid \<Rightarrow> 'k \<Rightarrow> fd \<Rightarrow> stat64 \<Rightarrow> 'k \<Rightarrow> bool" where
  "created K sv m f k d st k' =
    (bt_get (srv_fids sv) (tlcreate_fid m) = Some f \<and> fid_filetype f = Directory \<and> cstring_ok (tlcreate_name m)
     \<and> (\<exists>r k1 q. K (Openat (fid_path f) (tlcreate_name m)
            (O_CLOEXEC OR O_CREAT OR O_EXCL OR (tlcreate_flags m AND 0x75FC3) OR sync_flag (tlcreate_flags m))
            (Some (tlcreate_mode m))) k = (r, k1) \<and> 0 \<le> sys_res r \<and> d = sys_res r
        \<and> K (Fstatat d [] (AT_EMPTY_PATH OR AT_SYMLINK_NOFOLLOW)) k1 = (q, k') \<and> 0 \<le> sys_res q \<and> st = sys_stat q))"

text \<open>The rest of the creation, after the new file has been assigned to the fid.\<close>

lemma lcreate_created:
  assumes "created K sv m f k d st k2"
    and "k3 = (case fid_file f of None \<Rightarrow> k2 | Some old \<Rightarrow> snd (K (Close old) k2))"
    and "f' = \<lparr>fid_path = fid_path f, fid_file = Some d, fid_filetype = Regular\<rparr>" and "n = tlcreate_fid m"
  shows "lcreate K m (sv, k) = io_bind (on_kernel (lookup K (fid_path f) (tlcreate_name m))) (\<lambda>path.
      io_bind (set_fid n (f'\<lparr>fid_path := path\<rparr>)) (\<lambda>_.
      io_bind (on_kernel (close K (fid_path f))) (\<lambda>_.
      io_return \<lparr>rlcreate_qid = qid_from st, rlcreate_iounit = 0\<rparr>)))
      (sv\<lparr>srv_fids := bt_insert (bt_insert (srv_fids sv) n (f\<lparr>fid_file := Some d\<rparr>)) n f'\<rparr>, k3)"
proof -
  from assms(1) obtain r k1 q where f: "bt_get (srv_fids sv) (tlcreate_fid m) = Some f" "fid_filetype f = Directory"
      "cstring_ok (tlcreate_name m)"
    and create: "K (Openat (fid_path f) (tlcreate_name m)
            (O_CLOEXEC OR O_CREAT OR O_EXCL OR (tlcreate_flags m AND 0x75FC3) OR sync_flag (tlcreate_flags m))
            (Some (tlcreate_mode m))) k = (r, k1)" "0 \<le> sys_res r" "d = sys_res r"
    and st: "K (Fstatat d [] (AT_EMPTY_PATH OR AT_SYMLINK_NOFOLLOW)) k1 = (q, k2)" "0 \<le> sys_res q" "st = sys_stat q"
    unfolding created_def by blast
  have 1: "io_map sys_res (syscall K (Openat (fid_path f) (tlcreate_name m)
      (map_open_flags (O_CLOEXEC OR O_CREAT OR O_EXCL) (tlcreate_flags m)) (Some (tlcreate_mode m)))) k = (Ok d, k1)"
    using create by (simp add: io_map_apply syscall_def map_open_flags_closed or.assoc)
  have 2: "io_on_error (stat K d) (close K d) k1 = (Ok st, k2)"
    using st by (simp add: io_on_error_def stat_def statat_def io_map_apply syscall_def)
  have f': "f\<lparr>fid_file := Some d, fid_filetype := Regular\<rparr> = f'"
    "f\<lparr>fid_file := Some d, fid_filetype := Regular, fid_path := path\<rparr> = f'\<lparr>fid_path := path\<rparr>" for path
    by (cases f; simp add: assms(3))+
  show ?thesis
    using f(2) by (simp add: lcreate_def run_get_fid [OF f(1)] run_rules cstring_of_ok [OF f(3)]
        run_on_kernel 1 2 f' assms(2,4))
qed

lemma bt_insert_same: "bt_insert (bt_insert m n a) n b = bt_insert m n b"
  by (induction m n a rule: bt_insert.induct) auto

text \<open>
  Property C28.  A successful \<^verbatim>\<open>Tlcreate\<close> moves the fid: from the directory to the file
  that was created in it, open, regular, with a path descriptor of its own; the directory's
  descriptor is closed.
\<close>

theorem lcreate_moves_the_fid:
  assumes "created K sv m f k d st k2" and "fid_file f = None"
    and "K (Openat (fid_path f) (tlcreate_name m) (O_PATH OR O_NOFOLLOW OR O_CLOEXEC) None) k2 = (p, k3)" and "0 \<le> sys_res p"
  shows "lcreate K m (sv, k) = (Ok \<lparr>rlcreate_qid = qid_from st, rlcreate_iounit = 0\<rparr>,
    (sv\<lparr>srv_fids := bt_insert (srv_fids sv) (tlcreate_fid m)
        \<lparr>fid_path = sys_res p, fid_file = Some d, fid_filetype = Regular\<rparr>\<rparr>, snd (K (Close (fid_path f)) k3)))"
proof -
  have "lookup K (fid_path f) (tlcreate_name m) k2 = (Ok (sys_res p), k3)"
    using assms(3,4) by (simp add: lookup_def io_map_apply syscall_def)
  then show ?thesis
    by (simp add: lcreate_created [OF assms(1) refl refl refl] assms(2) run_on_kernel run_set_fid bt_insert_same
        io_return_apply close_def)
qed

text \<open>
  Property C34.  If the lookup after the creation fails, the client gets the error but the fid is
  left half moved: it is a regular, open file by type and descriptor while its path still is the
  directory, and the file that was created stays.
\<close>

theorem lcreate_can_leave_a_half_moved_fid:
  assumes "created K sv m f k d st k2" and "fid_file f = None"
    and "K (Openat (fid_path f) (tlcreate_name m) (O_PATH OR O_NOFOLLOW OR O_CLOEXEC) None) k2 = (p, k3)" and "sys_res p < 0"
  shows "lcreate K m (sv, k) = (Err (Os (sys_errno p)),
    (sv\<lparr>srv_fids := bt_insert (srv_fids sv) (tlcreate_fid m)
        \<lparr>fid_path = fid_path f, fid_file = Some d, fid_filetype = Regular\<rparr>\<rparr>, k3))"
proof -
  have "lookup K (fid_path f) (tlcreate_name m) k2 = (Err (Os (sys_errno p)), k3)"
    using assms(3,4) by (simp add: lookup_def io_map_apply syscall_def)
  then show ?thesis
    by (simp add: lcreate_created [OF assms(1) refl refl refl] assms(2) run_on_kernel_Err bt_insert_same)
qed

text \<open>A creation in the demonstration directory, and on a kernel that has no more descriptors for the lookup.\<close>

definition new_file :: Tlcreate where
  "new_file = \<lparr>tlcreate_fid = 1, tlcreate_name = [97], tlcreate_flags = P9_RDWR, tlcreate_mode = 0x1A4, tlcreate_gid = 0\<rparr>"

definition full_kernel :: "int kernel" where
  "full_kernel c k = (case c of Openat d p f None \<Rightarrow> ((demo_ret (- 1))\<lparr>sys_errno := 24\<rparr>, k) | _ \<Rightarrow> demo_kernel c k)"

lemma created_demo:
  "created demo_kernel demo_server new_file \<lparr>fid_path = 4, fid_file = None, fid_filetype = Directory\<rparr> 5 5 demo_stat 6"
  "created full_kernel demo_server new_file \<lparr>fid_path = 4, fid_file = None, fid_filetype = Directory\<rparr> 5 5 demo_stat 6"
  by (simp_all add: created_def new_file_def demo_server_def cstring_ok_def full_kernel_def)

theorem lcreate_moves_the_fid_witness:
  "lcreate demo_kernel new_file (demo_server, 5) = (Ok \<lparr>rlcreate_qid = qid_from demo_stat, rlcreate_iounit = 0\<rparr>,
    (demo_server\<lparr>srv_fids := bt_insert (srv_fids demo_server) 1
        \<lparr>fid_path = 6, fid_file = Some 5, fid_filetype = Regular\<rparr>\<rparr>, 7))"
  using lcreate_moves_the_fid [OF created_demo(1), of "demo_ret 6" 7] by (simp add: new_file_def)

theorem lcreate_can_leave_a_half_moved_fid_witness:
  "lcreate full_kernel new_file (demo_server, 5) = (Err (Os 24),
    (demo_server\<lparr>srv_fids := bt_insert (srv_fids demo_server) 1
        \<lparr>fid_path = 4, fid_file = Some 5, fid_filetype = Regular\<rparr>\<rparr>, 6))"
  using lcreate_can_leave_a_half_moved_fid [OF created_demo(2), of "(demo_ret (- 1))\<lparr>sys_errno := 24\<rparr>" 6]
  by (simp add: new_file_def full_kernel_def)

subsection \<open>Attributes\<close>

text \<open>
  Property C18.  \<^verbatim>\<open>Tsetattr\<close> on a fid of the table, on any kernel, is its plan: the
  calls that the mask asks for, in the order mode, owner, size, times, up to the first that fails,
  whose error is the answer; and nothing else.  An owner or group that is not in the mask is
  \<^verbatim>\<open>-1\<close>, a time is left alone, set to now or set as given, and the change time is
  touched only when it is all that is asked for.  The size of a directory is \<^verbatim>\<open>EISDIR\<close>,
  after mode and owner have been changed; a file that is not open is opened to be resized, and
  closed again also when that fails; a size that is no file offset is refused.
\<close>

theorem set_attr_makes_exactly_these_calls:
  assumes "bt_get (srv_fids sv) (tsetattr_fid m) = Some f"
  shows "set_attr K m (sv, k) = (case perform K (set_attr_plan (srv_proc sv) f m) k of (r, k') \<Rightarrow> (r, (sv, k')))"
proof -
  have "set_attr K m (sv, k) = on_kernel (perform K (set_attr_plan (srv_proc sv) f m)) (sv, k)"
    unfolding set_attr_plan_def Let_def perform_append
    by (simp add: set_attr_def run_get_fid [OF assms] run_rules proc_path on_kernel_bind set_attr_mode_plan
        set_attr_owner_plan set_attr_size_plan set_attr_times_plan set_attr_ctime_plan)
  then show ?thesis by (simp add: on_kernel_def)
qed

definition touch :: "u32 \<Rightarrow> Tsetattr" where
  "touch valid = \<lparr>tsetattr_fid = 1, tsetattr_valid = valid, tsetattr_mode = 0x1A4, tsetattr_uid = 0, tsetattr_gid = 100,
     tsetattr_size = 3, tsetattr_atime_sec = 1, tsetattr_atime_nsec = 2, tsetattr_mtime_sec = 3, tsetattr_mtime_nsec = 4\<rparr>"

text \<open>Mode and size of a directory: the mode is changed, the size is refused.\<close>

theorem set_attr_makes_exactly_these_calls_witness:
  "set_attr demo_kernel (touch 9) (demo_server, 5)
    = (Err (Os EISDIR), (demo_server, snd (demo_kernel (Fchmodat 3 (ascii ''self/fd/4'') 0x1A4 0) 5)))"
proof -
  let ?f = "\<lparr>fid_path = 4, fid_file = None, fid_filetype = Directory\<rparr>"
  have "bt_get (srv_fids demo_server) (tsetattr_fid (touch 9)) = Some ?f"
    by (simp add: demo_server_def touch_def)
  note run = set_attr_makes_exactly_these_calls [OF this, of demo_kernel 5]
  have "set_attr_plan (srv_proc demo_server) ?f (touch 9)
      = [Call (Fchmodat 3 (ascii ''self/fd/4'') 0x1A4 0), Stop (Os EISDIR)]" by code_simp
  with run show ?thesis by simp
qed

end
