(* ===== verification/Dir_Records.thy ===== *)
theory Dir_Records
  imports Read_Dir Wire_Laws
begin

text \<open>
  The records of \<^verbatim>\<open>getdents64\<close> as the kernel lays them out, and the iteration over the
  batches it delivers them in.
\<close>

subsection \<open>Records as the kernel lays them out\<close>

text \<open>
  A record: inode, offset, its own length, type, the name with a nul byte after it and padding.
\<close>

definition record_length :: "dir_entry \<times> u8 list \<Rightarrow> nat" where
  "record_length r = 20 + length (de_name (fst r)) + length (snd r)"

definition record_bytes :: "dir_entry \<times> u8 list \<Rightarrow> u8 list" where
  "record_bytes r = uint_bytes (de_ino (fst r)) @ uint_bytes (de_offset (fst r))
     @ uint_bytes (of_nat (record_length r) :: u16) @ de_type (fst r) # de_name (fst r) @ 0 # snd r"

lemma length_record_bytes [simp]: "length (record_bytes r) = record_length r"
  by (simp add: record_bytes_def record_length_def)

definition record_ok :: "dir_entry \<times> u8 list \<Rightarrow> bool" where
  "record_ok r = (cstring_ok (de_name (fst r)) \<and> record_length r \<le> 512)"

lemma strip_padding_record: "cstring_ok n \<Longrightarrow> strip_padding (n @ 0 # pad) = Ok n"
  by (auto simp: strip_padding_def cstring_ok_def takeWhile_append)

lemma dirent64_of_record:
  "dirent64_from_slice (uint_bytes (i :: u64) @ uint_bytes (off :: u64) @ uint_bytes (l :: u16) @ [t])
    = Some \<lparr>d_ino = i, d_off = off, d_reclen = l, d_ty = t\<rparr>"
  by (simp add: dirent64_from_slice_def DIRENT64_SIZE_def uint_of_bytes_inverse nth_append)

lemma parse_record:
  assumes "record_ok r"
  shows "parse_entry (record_bytes r @ rest) = Ok (fst r, record_length r)"
proof -
  let ?head = "uint_bytes (de_ino (fst r)) @ uint_bytes (de_offset (fst r))
     @ uint_bytes (of_nat (record_length r) :: u16) @ [de_type (fst r)]"
  let ?tail = "de_name (fst r) @ 0 # snd r"
  have split: "record_bytes r @ rest = ?head @ ?tail @ rest" by (simp add: record_bytes_def)
  have "length ?head = 19" by simp
  from prefix_split_eq [OF split [symmetric] this] have front: "take DIRENT64_SIZE (record_bytes r @ rest) = ?head"
    and rear: "drop DIRENT64_SIZE (record_bytes r @ rest) = ?tail @ rest"
    unfolding DIRENT64_SIZE_def by blast+
  have len: "record_length r \<le> 512" and "20 \<le> record_length r"
    using assms by (simp_all add: record_ok_def record_length_def)
  then have reclen: "unat (of_nat (record_length r) :: u16) = record_length r" by (simp add: unat_of_nat_u16)
  have "unat (of_nat (record_length r) - of_nat DIRENT64_SIZE :: u64) = length ?tail"
  proof -
    have "record_length r = 19 + length ?tail" by (simp add: record_length_def)
    then have "(of_nat (record_length r) - of_nat DIRENT64_SIZE :: u64) = of_nat (length ?tail)"
      by (simp add: DIRENT64_SIZE_def)
    moreover have "length ?tail < 2 ^ 64" using len by (simp add: record_length_def)
    ultimately show ?thesis by (simp add: unat_of_nat take_bit_nat_eq_self del: length_append list.size)
  qed
  moreover have "\<not> length (record_bytes r @ rest) < DIRENT64_SIZE"
    using \<open>20 \<le> record_length r\<close> by (simp add: DIRENT64_SIZE_def)
  moreover have "strip_padding ?tail = Ok (de_name (fst r))"
    using assms by (simp add: strip_padding_record record_ok_def)
  ultimately show ?thesis
    unfolding parse_entry_def front rear dirent64_of_record
    by (simp add: Let_def reclen)
qed

text \<open>Whatever is in the buffer: when it is an entry, and when a panic.\<close>

lemma parse_entry_head:
  assumes "19 \<le> length rem" and "l = unat (uint_of_bytes (take 2 (drop 16 rem)) :: u16)" and "length rem < 2 ^ 63"
  shows "parse_entry rem =
    (if l < 19 \<or> length rem < l \<or> 0 \<notin> set (take (l - 19) (drop 19 rem)) then Panic
     else Ok (\<lparr>de_ino = uint_of_bytes (take 8 rem), de_offset = uint_of_bytes (take 8 (drop 8 rem)),
       de_type = rem ! 18, de_name = takeWhile (\<lambda>c. c \<noteq> 0) (take (l - 19) (drop 19 rem))\<rparr>, l))"
proof -
  have l: "l < 2 ^ 16" unfolding assms(2) using unsigned_less [where 'b = 16] by simp
  let ?w = "(of_nat l :: u64) - of_nat DIRENT64_SIZE"
  have sub: "unat ?w = (if l < 19 then 2 ^ 64 + l - 19 else l - 19)"
  proof (cases "l < 19")
    case True
    have "(of_nat (2 ^ 64 + l - 19) :: u64) = of_nat (2 ^ 64 + l) - of_nat 19" by (rule of_nat_diff) simp
    then have "?w = of_nat (2 ^ 64 + l - 19)" by (simp add: DIRENT64_SIZE_def)
    moreover have "2 ^ 64 + l - 19 < 2 ^ 64" using True by simp
    ultimately show ?thesis using True by (simp add: unat_of_nat take_bit_nat_eq_self del: of_nat_add of_nat_diff)
  next
    case False
    then have "?w = of_nat (l - 19)" by (simp add: DIRENT64_SIZE_def of_nat_diff)
    moreover have "l - 19 < 2 ^ 64" using l by simp
    ultimately show ?thesis using False by (simp add: unat_of_nat take_bit_nat_eq_self del: of_nat_diff)
  qed
  have fields: "take 8 (take 19 rem) = take 8 rem" "take 8 (drop 8 (take 19 rem)) = take 8 (drop 8 rem)"
    "take 2 (drop 16 (take 19 rem)) = take 2 (drop 16 rem)" "take 19 rem ! 18 = rem ! 18"
    by (simp_all add: take_drop flip: drop_take)
  have "dirent64_from_slice (take DIRENT64_SIZE rem) = Some \<lparr>d_ino = uint_of_bytes (take 8 rem),
      d_off = uint_of_bytes (take 8 (drop 8 rem)), d_reclen = uint_of_bytes (take 2 (drop 16 rem)), d_ty = rem ! 18\<rparr>"
    using assms(1) fields by (simp add: dirent64_from_slice_def DIRENT64_SIZE_def)
  moreover have "l mod 2 ^ 64 = l" using l by simp
  ultimately show ?thesis
    using assms(1,3) sub
    by (simp add: parse_entry_def Let_def strip_padding_def DIRENT64_SIZE_def flip: assms(2)) linarith
qed

subsection \<open>Iteration\<close>

text \<open>One entry from the buffer, or from a batch that is fetched first.\<close>

lemma dir_next_record:
  assumes "rd_current rd < rd_end rd" and "rd_end rd \<le> length (rd_buf rd)"
    and "drop (rd_current rd) (take (rd_end rd) (rd_buf rd)) = record_bytes r @ rest" and "record_ok r"
  shows "dir_next K rd k = (Ok (Some (fst r), rd\<lparr>rd_current := rd_current rd + record_length r\<rparr>), k)"
proof -
  have "record_bytes r @ rest \<noteq> []" using assms(4) by (auto simp: record_bytes_def)
  then show ?thesis using assms(1,2)
    by (simp add: dir_next_def dir_refill_def io_bind_def io_return_def Let_def assms(3) io_result_def
        parse_record [OF assms(4)])
qed

lemma record_in_buffer:
  "drop (rd_current rd) (take (rd_end rd) (rd_buf rd)) = record_bytes r @ rest \<Longrightarrow> rd_current rd < rd_end rd"
proof (rule ccontr)
  assume buf: "drop (rd_current rd) (take (rd_end rd) (rd_buf rd)) = record_bytes r @ rest"
  assume "\<not> rd_current rd < rd_end rd"
  then have "drop (rd_current rd) (take (rd_end rd) (rd_buf rd)) = []" by simp
  with buf have "record_length r = 0" by (metis append_is_Nil_conv length_record_bytes list.size(3))
  then show False by (simp add: record_length_def)
qed

lemma record_taken:
  assumes "drop (rd_current rd) (take (rd_end rd) (rd_buf rd)) = record_bytes r @ rest"
  shows "drop (rd_current rd + record_length r) (take (rd_end rd) (rd_buf rd)) = rest"
proof -
  have "drop (rd_current rd + record_length r) (take (rd_end rd) (rd_buf rd))
      = drop (record_length r) (record_bytes r @ rest)"
    using assms by (metis add.commute drop_drop)
  then show ?thesis by simp
qed

definition exhausted :: "read_dir \<Rightarrow> fd \<Rightarrow> bool" where
  "exhausted rd d = (rd_end rd \<le> rd_current rd \<and> length (rd_buf rd) = DIR_BUF_SIZE \<and> rd_dir rd = d)"

lemma dir_next_end:
  assumes "K (Getdents64 d DIR_BUF_SIZE) k = (r, k')" and "sys_res r = 0" and "exhausted rd d"
  shows "dir_next K rd k
    = (Ok (None, rd\<lparr>rd_buf := fill (rd_buf rd) (sys_buf r), rd_current := 0, rd_end := 0\<rparr>), k')"
  using assms by (simp add: dir_next_def dir_refill_def exhausted_def io_bind_def syscall_def io_return_def)

lemma dir_next_refill:
  assumes "K (Getdents64 d DIR_BUF_SIZE) k = (r, k1)" and "sys_res r = int (length (sys_buf r))"
    and "0 < length (sys_buf r)" and "exhausted rd d"
  shows "dir_next K rd k
    = dir_next K (rd\<lparr>rd_buf := fill (rd_buf rd) (sys_buf r), rd_current := 0, rd_end := length (sys_buf r)\<rparr>) k1"
    (is "_ = dir_next K ?rd k1")
proof -
  have "dir_refill K rd k = (Ok ?rd, k1)"
    using assms by (simp add: dir_refill_def exhausted_def io_bind_def syscall_def io_return_def)
  with assms(3) show ?thesis
    by (simp add: dir_next_def io_bind_def dir_refill_def [of K ?rd] io_return_def)
qed

text \<open>The entries an iteration gives, one after the other, until it says it is at the end.\<close>

inductive yields :: "'k kernel \<Rightarrow> read_dir \<Rightarrow> 'k \<Rightarrow> dir_entry list \<Rightarrow> 'k \<Rightarrow> bool" for K where
  at_end: "dir_next K rd k = (Ok (None, rd'), k') \<Longrightarrow> yields K rd k [] k'"
| entry: "dir_next K rd k = (Ok (Some e, rd'), k1) \<Longrightarrow> yields K rd' k1 es k' \<Longrightarrow> yields K rd k (e # es) k'"

inductive_cases yields_NilE: "yields K rd k [] k'"
inductive_cases yields_ConsE: "yields K rd k (e # es) k'"

text \<open>
  A directory as the kernel delivers it: batches of whole records, at most a buffer each, and
  then an empty one.
\<close>

inductive delivers :: "'k kernel \<Rightarrow> fd \<Rightarrow> 'k \<Rightarrow> (dir_entry \<times> u8 list) list \<Rightarrow> 'k \<Rightarrow> bool" for K d where
  no_more: "K (Getdents64 d DIR_BUF_SIZE) k = (r, k') \<Longrightarrow> sys_res r = 0 \<Longrightarrow> delivers K d k [] k'"
| batch: "K (Getdents64 d DIR_BUF_SIZE) k = (r, k1) \<Longrightarrow> sys_buf r = concat (map record_bytes rs) \<Longrightarrow>
    sys_res r = int (length (sys_buf r)) \<Longrightarrow> rs \<noteq> [] \<Longrightarrow> length (sys_buf r) \<le> DIR_BUF_SIZE \<Longrightarrow>
    list_all record_ok rs \<Longrightarrow> delivers K d k1 later k' \<Longrightarrow> delivers K d k (rs @ later) k'"

text \<open>The rest of a batch, and then what the next ones bring.\<close>

lemma yields_batch:
  assumes "\<And>rd'. exhausted rd' d \<Longrightarrow> yields K rd' k es k'"
  shows "drop (rd_current rd) (take (rd_end rd) (rd_buf rd)) = concat (map record_bytes rs) \<Longrightarrow>
    rd_end rd \<le> length (rd_buf rd) \<Longrightarrow> length (rd_buf rd) = DIR_BUF_SIZE \<Longrightarrow> rd_dir rd = d \<Longrightarrow>
    list_all record_ok rs \<Longrightarrow> yields K rd k (map fst rs @ es) k'"
proof (induction rs arbitrary: rd)
  case Nil
  then have "exhausted rd d" by (simp add: exhausted_def)
  with assms show ?case by simp
next
  case (Cons r rs)
  let ?rd = "rd\<lparr>rd_current := rd_current rd + record_length r\<rparr>"
  have buf: "drop (rd_current rd) (take (rd_end rd) (rd_buf rd)) = record_bytes r @ concat (map record_bytes rs)"
    and r: "record_ok r" using Cons.prems by simp_all
  have "rd_current rd < rd_end rd" using buf by (rule record_in_buffer)
  from dir_next_record [OF this Cons.prems(2) buf r]
  have "dir_next K rd k = (Ok (Some (fst r), ?rd), k)" .
  moreover have "drop (rd_current ?rd) (take (rd_end ?rd) (rd_buf ?rd)) = concat (map record_bytes rs)"
    using record_taken [OF buf] by simp
  then have "yields K ?rd k (map fst rs @ es) k'" by (rule Cons.IH) (use Cons.prems in simp_all)
  ultimately show ?case by (simp add: yields.entry)
qed

lemma delivers_yields: "delivers K d k rs k' \<Longrightarrow> exhausted rd d \<Longrightarrow> yields K rd k (map fst rs) k'"
proof (induction arbitrary: rd rule: delivers.induct)
  case (no_more k r k')
  then show ?case using dir_next_end [of K d k r k' rd] by (simp add: yields.at_end)
next
  case (batch k r k1 rs later k')
  let ?n = "length (sys_buf r)"
  let ?rd = "rd\<lparr>rd_buf := fill (rd_buf rd) (sys_buf r), rd_current := 0, rd_end := ?n\<rparr>"
  have n: "0 < ?n" using batch.hyps(2,4) by (cases rs) (simp_all add: record_bytes_def)
  then have next_same: "dir_next K rd k = dir_next K ?rd k1"
    by (rule dir_next_refill [rotated 2]) (fact batch.prems batch.hyps)+
  have buf: "drop (rd_current ?rd) (take (rd_end ?rd) (rd_buf ?rd)) = concat (map record_bytes rs)"
    using batch.hyps(2,5) batch.prems by (simp add: fill_exact exhausted_def)
  have y: "yields K ?rd k1 (map fst rs @ map fst later) k'"
    by (rule yields_batch [OF _ buf, where d = d])
      (use batch.IH batch.hyps batch.prems in \<open>simp_all add: exhausted_def\<close>)
  obtain r1 rs' where rs: "rs = r1 # rs'" using batch.hyps(4) by (cases rs) auto
  from y show ?case unfolding rs using next_same
    by (auto elim!: yields_ConsE intro!: yields.entry)
qed

lemma fresh_exhausted: "read_dir K d off k = (Ok rd, k') \<Longrightarrow> exhausted rd d"
  by (auto simp: read_dir_def io_bind_eq_Ok io_return_apply exhausted_def)

end
