(* ===== verification/No_Panics.thy ===== *)
theory No_Panics
  imports Dir_Records Program_Properties Handler_Runs
begin

text \<open>
  Which calls cannot panic.  A handler panics only where it reads directory records the kernel
  has laid out, or where a case-folded search does not end; on a kernel that lays its records out
  as documented, the program, which never folds case, does not panic.
\<close>

subsection \<open>Calls that do not panic\<close>

definition calm :: "('s, 'a) io \<Rightarrow> bool" where
  "calm m = (\<forall>s. fst (m s) \<noteq> Panic)"

named_theorems calms

lemma calmD: "calm m \<Longrightarrow> m s = (r, t) \<Longrightarrow> r \<noteq> Panic"
  unfolding calm_def by (metis fst_conv)

lemma calm_bind_Ok:
  assumes "calm m" and "\<And>s x t. m s = (Ok x, t) \<Longrightarrow> calm (f x)"
  shows "calm (io_bind m f)"
  unfolding calm_def
proof
  fix s
  obtain r t where m: "m s = (r, t)" by (cases "m s")
  show "fst (io_bind m f s) \<noteq> Panic"
  proof (cases r)
    case (Ok x)
    with assms(2) m have "fst (f x t) \<noteq> Panic" unfolding calm_def by blast
    with m Ok show ?thesis by (simp add: io_bind_def)
  qed (use m calmD [OF assms(1) m] in \<open>simp_all add: io_bind_def\<close>)
qed

lemma calm_bind [calms]: "calm m \<Longrightarrow> (\<And>x. calm (f x)) \<Longrightarrow> calm (io_bind m f)"
  by (rule calm_bind_Ok)

lemma calm_basic [calms]:
  "calm (io_return x)" "calm (io_throw e)" "calm get_server" "calm (put_fids fs)" "calm (put_msize n)"
  by (simp_all add: calm_def io_return_apply io_throw_apply get_server_def put_fids_def put_msize_def split_beta)

lemma calm_result [calms]: "r \<noteq> Panic \<Longrightarrow> calm (io_result r)"
  by (simp add: calm_def io_result_apply)

lemma calm_ok_or [calms]: "calm (ok_or x e)"
  by (cases x) (simp_all add: ok_or_def calms)

lemma calm_if [calms]: "(c \<Longrightarrow> calm a) \<Longrightarrow> (\<not> c \<Longrightarrow> calm b) \<Longrightarrow> calm (if c then a else b)"
  by simp

lemma calm_option [calms]:
  "(x = None \<Longrightarrow> calm a) \<Longrightarrow> (\<And>y. x = Some y \<Longrightarrow> calm (f y)) \<Longrightarrow> calm (case x of None \<Rightarrow> a | Some y \<Rightarrow> f y)"
  by (cases x) simp_all

lemma calm_list [calms]:
  "calm a \<Longrightarrow> (\<And>y ys. calm (f y ys)) \<Longrightarrow> calm (case xs of [] \<Rightarrow> a | y # ys \<Rightarrow> f y ys)"
  by (cases xs) simp_all

lemma calm_pair [calms]: "(\<And>a b. x = (a, b) \<Longrightarrow> calm (f a b)) \<Longrightarrow> calm (case x of (a, b) \<Rightarrow> f a b)"
  by (cases x) simp

lemma calm_io_result [calms]:
  "(\<And>x. r = Ok x \<Longrightarrow> calm (f x)) \<Longrightarrow> (\<And>e. calm (g e)) \<Longrightarrow> r \<noteq> Panic
    \<Longrightarrow> calm (case r of Ok x \<Rightarrow> f x | Err e \<Rightarrow> g e | Panic \<Rightarrow> p)"
  by (cases r) simp_all

lemma calm_maybe_owned [calms]:
  "(\<And>d. calm (f d)) \<Longrightarrow> (\<And>d. calm (g d)) \<Longrightarrow> calm (case m of Borrowed d \<Rightarrow> f d | Owned d \<Rightarrow> g d)"
  by (cases m) simp_all

lemma calm_Let [calms]: "calm (f x) \<Longrightarrow> calm (Let x f)"
  by simp

lemma calm_map [calms]: "calm m \<Longrightarrow> calm (io_map f m)"
  unfolding io_map_def by (intro calms)

lemma calm_or_else [calms]: "calm m \<Longrightarrow> (\<And>e. calm (h e)) \<Longrightarrow> calm (io_or_else m h)"
  by (auto simp: calm_def io_or_else_def split: prod.split io_result.split) (metis fst_conv)

lemma calm_finally [calms]: "calm m \<Longrightarrow> calm (io_finally m d)"
  by (auto simp: calm_def io_finally_def split: prod.split) (metis fst_conv)

lemma calm_on_error [calms]: "calm m \<Longrightarrow> calm (io_on_error m d)"
  by (auto simp: calm_def io_on_error_def split: prod.split io_result.split) (metis fst_conv)

lemma calm_attempt [calms]: "calm m \<Longrightarrow> calm (io_attempt m)"
  by (auto simp: calm_def io_attempt_def split: prod.split io_result.split) (metis fst_conv)

lemma attempt_not_Panic: "io_attempt m s = (Ok r, t) \<Longrightarrow> r \<noteq> Panic"
  by (auto simp: io_attempt_def split: prod.split_asm io_result.split_asm)

lemma calm_on_kernel [calms]: "calm m \<Longrightarrow> calm (on_kernel m)"
  by (auto simp: calm_def on_kernel_def split: prod.split) (metis fst_conv)

subsection \<open>System calls and file helpers\<close>

lemma calm_syscall [calms]: "calm (syscall K c)"
  by (auto simp: calm_def syscall_def split: prod.split)

lemma calm_close [calms]: "calm (close K d)"
  by (simp add: calm_def close_def)

lemma calm_close_all [calms]: "calm (close_all K ds)"
  by (induction ds) (simp_all add: calms)

lemma string_to_cstring_calm [calms]: "string_to_cstring s \<noteq> Panic"
  by (simp add: string_to_cstring_def split: option.split)

lemma calm_helpers [calms]:
  "calm (statat K d n fl)" "calm (stat K d)" "calm (lookup K d n)" "calm (open_fid K proc d fl)"
  "calm (try_clone K d)" "calm (read_dir K d off)" "calm (drop_fid K f)"
  unfolding statat_def stat_def lookup_def open_fid_def try_clone_def read_dir_def drop_fid_def
  by (intro calms)+

lemma calm_drop_owned [calms]: "calm (drop_owned K m)"
  by (cases m) (simp_all add: calms)

lemma calm_fid_helpers [calms]:
  "calm (get_fid n)" "calm (get_file n)" "calm (insert_fid K n f)" "calm (set_fid n f)" "calm (assign_file K n f d)"
  unfolding get_fid_def get_file_def insert_fid_def set_fid_def assign_file_def
  by (intro calms)+

subsection \<open>Walks that do not fold case\<close>

lemma calm_walk_step: "calm (walk_step K proc False cur w)"
  unfolding walk_step_def by (intro calms) (simp_all add: calms)

lemma calm_walk_loop: "calm (walk_loop K proc False ns cur mds)"
proof (induction ns arbitrary: cur mds)
  case (Cons n ns)
  show ?case unfolding walk_loop.simps
    by (rule calm_bind_Ok [OF calm_attempt [OF calm_walk_step]]) (intro calms Cons.IH attempt_not_Panic)
qed (simp add: calms)

lemma wp_all: "(\<And>x t. Q x t) \<Longrightarrow> (\<And>e t. E e t) \<Longrightarrow> (\<And>t. X t) \<Longrightarrow> wp m Q E X s"
  by (simp add: wp_def split: prod.split io_result.split)

lemma walk_loop_result:
  "wp (walk_loop K proc cf ns cur mds) (\<lambda>x _. fst x \<noteq> Panic) (\<lambda>_ _. True) (\<lambda>_. True) k"
proof (induction ns arbitrary: cur mds k)
  case (Cons n ns)
  show ?case unfolding walk_loop.simps wp_bind wp_attempt
    by (rule wp_all) (simp_all add: wp_return Cons.IH split: prod.split)
qed (simp add: wp_return)

lemma calm_do_walk: "calm (do_walk K proc ns start False)"
  unfolding do_walk_def
proof (rule calm_bind_Ok [OF calm_walk_loop], goal_cases)
  case (1 s x t)
  from wp_Ok_D [OF walk_loop_result 1] have "fst x \<noteq> Panic" .
  then show ?case by (intro calms) simp
qed

lemma do_walk_result:
  "wp (do_walk K proc ns start cf) (\<lambda>x _. fst x \<noteq> Panic) (\<lambda>_ _. True) (\<lambda>_. True) k"
  unfolding do_walk_def wp_bind
  by (rule wp_mono [OF walk_loop_result])
    (auto simp: wp_return wp_map wp_attempt intro!: wp_all split: prod.split io_result.split maybe_owned.split)

subsection \<open>Handlers\<close>

lemma calm_clear_fids [calms]: "calm (clear_fids K)"
  unfolding clear_fids_def by (intro calms)

lemma calm_set_attr_steps [calms]:
  "calm (set_attr_mode K proc path m)" "calm (set_attr_owner K proc path m)" "calm (set_attr_size K proc f m)"
  "calm (set_attr_times K proc path m)" "calm (set_attr_ctime K proc path m)"
  unfolding set_attr_mode_def set_attr_owner_def set_attr_size_def set_len_def set_attr_times_def set_attr_ctime_def
  by (intro calms)+

lemma calm_handlers [calms]:
  "calm (auth K m1)" "calm (attach K m2)" "calm (version K m3)" "calm (flush K m4)" "calm (clunk K m5)"
  "calm (remove K m6)" "calm (read_op K m7)" "calm (write_op K m8)" "calm (statfs K m9)" "calm (lopen K m10)"
  "calm (lcreate K m11)" "calm (symlink K m12)" "calm (mknod K m13)" "calm (rename K m14)"
  "calm (readlink K m15)" "calm (get_attr K m16)" "calm (set_attr K m17)" "calm (xattr_walk K m18)"
  "calm (xattr_create K m19)" "calm (fsync K m20)" "calm (lock K m21)" "calm (get_lock K m22)"
  "calm (link_op K m23)" "calm (mkdir K m24)" "calm (rename_at K m25)" "calm (unlink_at K m26)"
  unfolding auth_def attach_def version_def flush_def clunk_def remove_def read_op_def write_op_def statfs_def
    lopen_def lcreate_def symlink_def mknod_def rename_def readlink_def get_attr_def set_attr_def xattr_walk_def
    xattr_create_def fsync_def lock_def get_lock_def link_op_def mkdir_def rename_at_def unlink_at_def
  by (intro calms)+

lemma calm_wp: "calm m \<Longrightarrow> wp m (\<lambda>_ _. True) (\<lambda>_ _. True) (\<lambda>_. False) s"
  by (auto simp: calm_def wp_def split: prod.split io_result.split) (metis fst_conv)

lemma wp_not_Panic: "wp m Q E (\<lambda>_. False) s \<Longrightarrow> fst (m s) \<noteq> Panic"
  by (auto simp: wp_def split: prod.split_asm)

lemma walk_not_Panic:
  assumes "\<not> cfg_ascii_casefold (srv_cfg sv)"
  shows "fst (walk K m (sv, k)) \<noteq> Panic"
proof -
  have step: "wp (do_walk K proc ns start (cfg_ascii_casefold (srv_cfg sv))) (\<lambda>x _. fst x \<noteq> Panic) (\<lambda>_ _. True)
      (\<lambda>_. False) t" for proc ns start t
    using calm_wp [OF calm_do_walk, of K proc ns start t] do_walk_result [of K proc ns start False t] assms
    by (auto simp: wp_def split: prod.splits io_result.splits)
  have "wp (walk K m) (\<lambda>_ _. True) (\<lambda>_ _. True) (\<lambda>_. False) (sv, k)"
    unfolding walk_def wp_bind wp_get_server
  proof (cases "twalk_fid m \<noteq> twalk_newfid m \<and> bt_contains_key (srv_fids sv) (twalk_newfid m)", goal_cases)
    case 2
    then show ?case unfolding if_not_P [OF 2] wp_bind wp_get_fid wp_on_kernel
      by (auto split: option.split intro!: wp_mono [OF step] calm_wp [unfolded wp_bind] calms)
  qed (simp add: wp_throw)
  then show ?thesis by (rule wp_not_Panic)
qed

lemma tframe_decode_msg_not_Panic: "tframe_decode inp = (Ok f, left) \<Longrightarrow> tframe_msg f \<noteq> Panic"
proof -
  assume d: "tframe_decode inp = (Ok f, left)"
  then obtain ty :: "u8 list" and tag :: u16 and t u where "io_attempt (decode_message (ty ! 0)) t = (Ok (tframe_msg f), u)"
    by (auto simp: tframe_decode_def io_bind_eq_Ok reader_take_Ok io_throw_apply io_return_apply
        split: if_splits)
  then show ?thesis by (rule attempt_not_Panic)
qed

subsection \<open>Kernels that lay their records out as documented\<close>

text \<open>
  One answer of \<^verbatim>\<open>getdents64\<close>: an error, or whole records (none at the end), as many as fit.
\<close>

definition batch_ok :: "sysret \<Rightarrow> bool" where
  "batch_ok r = (sys_res r < 0 \<or> (\<exists>rs. list_all record_ok rs \<and> sys_buf r = concat (map record_bytes rs)
     \<and> sys_res r = int (length (sys_buf r)) \<and> length (sys_buf r) \<le> DIR_BUF_SIZE))"

text \<open>What is left in the buffer is whole records.\<close>

definition buffered :: "read_dir \<Rightarrow> bool" where
  "buffered rd = (length (rd_buf rd) = DIR_BUF_SIZE \<and> rd_end rd \<le> DIR_BUF_SIZE
     \<and> (\<exists>rs. list_all record_ok rs
          \<and> drop (rd_current rd) (take (rd_end rd) (rd_buf rd)) = concat (map record_bytes rs)))"

locale orderly_kernel =
  fixes K :: "'k kernel"
  assumes batches: "batch_ok (fst (K (Getdents64 d DIR_BUF_SIZE) k))"
begin

lemma dir_refill_buffered:
  assumes "buffered rd"
  shows "wp (dir_refill K rd) (\<lambda>rd' _. buffered rd') (\<lambda>_ _. True) (\<lambda>_. False) k"
proof (cases "rd_current rd \<ge> rd_end rd")
  case True
  obtain r k' where r: "K (Getdents64 (rd_dir rd) DIR_BUF_SIZE) k = (r, k')"
    by (cases "K (Getdents64 (rd_dir rd) DIR_BUF_SIZE) k")
  have len: "length (rd_buf rd) = DIR_BUF_SIZE" using assms by (simp add: buffered_def)
  from batches [of "rd_dir rd" k] r consider "sys_res r < 0"
    | rs where "list_all record_ok rs" "sys_buf r = concat (map record_bytes rs)"
        "sys_res r = int (length (sys_buf r))" "length (sys_buf r) \<le> DIR_BUF_SIZE"
    by (auto simp: batch_ok_def)
  then show ?thesis
  proof cases
    case 2
    then have "buffered (rd\<lparr>rd_buf := fill (rd_buf rd) (sys_buf r), rd_current := 0, rd_end := nat (sys_res r)\<rparr>)"
      by (auto simp: buffered_def len fill_exact)
    with True r len 2(3) show ?thesis by (simp add: dir_refill_def wp_bind wp_syscall wp_return)
  qed (use True r len in \<open>simp add: dir_refill_def wp_bind wp_syscall\<close>)
qed (use assms in \<open>simp add: dir_refill_def wp_return\<close>)

lemma dir_next_buffered:
  assumes "buffered rd"
  shows "wp (dir_next K rd) (\<lambda>(_, rd') _. buffered rd') (\<lambda>_ _. True) (\<lambda>_. False) k"
  unfolding dir_next_def wp_bind
proof (rule wp_mono [OF dir_refill_buffered [OF assms]], goal_cases)
  case (1 rd' t)
  then obtain rs where len: "length (rd_buf rd') = DIR_BUF_SIZE" "rd_end rd' \<le> DIR_BUF_SIZE"
    and rs: "list_all record_ok rs"
      "drop (rd_current rd') (take (rd_end rd') (rd_buf rd')) = concat (map record_bytes rs)"
    by (auto simp: buffered_def)
  show ?case
  proof (cases rs)
    case Nil
    with rs 1 len show ?thesis by (simp add: Let_def wp_return)
  next
    case (Cons r rs')
    then have rest: "drop (rd_current rd') (take (rd_end rd') (rd_buf rd')) = record_bytes r @ concat (map record_bytes rs')"
      and r: "record_ok r" and rs': "list_all record_ok rs'" using rs by simp_all
    have "drop (rd_current rd' + record_length r) (take (rd_end rd') (rd_buf rd'))
        = drop (record_length r) (drop (rd_current rd') (take (rd_end rd') (rd_buf rd')))"
      by (simp add: add.commute)
    then have "buffered (rd'\<lparr>rd_current := rd_current rd' + record_length r\<rparr>)"
      using len rs' by (auto simp: buffered_def rest)
    moreover have "record_bytes r \<noteq> []" by (simp add: record_bytes_def)
    ultimately show ?thesis using len
      by (simp add: Let_def rest wp_bind wp_result parse_record [OF r] wp_return)
  qed
qed simp_all

lemma readdir_append_not_Panic: "readdir_append room e cur \<noteq> Panic"
  using Dirent.encode_no_panic [of e cur]
  by (auto simp: readdir_append_def split: prod.split io_result.split)

lemma calm_readdir_entry: "calm (readdir_entry K path room cur d)"
  unfolding readdir_entry_def by (intro calms readdir_append_not_Panic)

lemma readdir_step_buffered:
  assumes "buffered rd"
  shows "wp (readdir_step K path room rd cur) (\<lambda>r _. \<forall>p. r = Some p \<longrightarrow> buffered (fst p)) (\<lambda>_ _. True)
    (\<lambda>_. False) k"
  unfolding readdir_step_def wp_bind
proof (rule wp_mono [OF dir_next_buffered [OF assms]], goal_cases)
  case (1 x t)
  obtain e rd' where x: "x = (e, rd')" by (cases x)
  show ?case
  proof (cases e)
    case (Some d)
    have "wp (readdir_entry K path room cur d) (\<lambda>_ _. True) (\<lambda>_ _. True) (\<lambda>_. False) t"
      using calm_readdir_entry [of path room cur d]
      by (auto simp: calm_def wp_def split: prod.split io_result.split) (metis fst_conv)
    then have "wp (readdir_entry K path room cur d) (\<lambda>r _. \<forall>p. map_option (Pair rd') r = Some p \<longrightarrow> buffered (fst p))
        (\<lambda>_ _. True) (\<lambda>_. False) t"
      by (rule wp_mono) (use 1 x in auto)
    then show ?thesis by (simp add: x Some wp_map)
  qed (simp add: x wp_return)
qed simp_all

lemma readdir_loop_calm: "L = K \<Longrightarrow> buffered rd \<Longrightarrow> fst (readdir_loop L path room rd cur k) \<noteq> Panic"
proof (induction L path room rd cur k rule: readdir_loop.induct)
  case (1 L path room rd cur k)
  obtain r t where rt: "readdir_step L path room rd cur k = (r, t)" by (cases "readdir_step L path room rd cur k")
  with readdir_step_buffered [OF "1.prems"(2), of path room cur k] "1.prems"(1)
  have r: "r \<noteq> Panic" and b: "\<And>p. r = Ok (Some p) \<Longrightarrow> buffered (fst p)"
    by (auto simp: wp_def split: io_result.splits)
  show ?case
  proof (cases "\<exists>rd' cur'. r = Ok (Some (rd', cur'))")
    case True
    then obtain rd' cur' where r': "r = Ok (Some (rd', cur'))" by blast
    from "1.IH" [OF rt [symmetric] r' refl refl "1.prems"(1)] b [OF r'] show ?thesis
      by (simp add: readdir_loop.simps [of L path room rd cur k] rt r')
  qed (use r rt in \<open>auto simp: readdir_loop.simps [of L path room rd cur k] split: io_result.split option.split\<close>)
qed

lemma calm_listing:
  "calm (io_bind (on_kernel (read_dir K d off)) (\<lambda>rd.
     io_bind (on_kernel (readdir_loop K path n rd [])) (\<lambda>bytes. io_return \<lparr>rreaddir_data = bytes\<rparr>)))"
proof (rule calm_bind_Ok)
  fix s rd t
  assume "on_kernel (read_dir K d off) s = (Ok rd, t)"
  then have "rd = \<lparr>rd_buf = replicate DIR_BUF_SIZE 0, rd_dir = d, rd_current = 0, rd_end = 0\<rparr>"
    by (cases s) (auto simp: on_kernel_def read_dir_def io_bind_eq_Ok io_return_apply split: prod.splits)
  then have "buffered rd" by (auto simp: buffered_def intro!: exI [of _ "[]"])
  then have "calm (readdir_loop K path n rd [])" by (simp add: calm_def readdir_loop_calm)
  then show "calm (io_bind (on_kernel (readdir_loop K path n rd [])) (\<lambda>bytes. io_return \<lparr>rreaddir_data = bytes\<rparr>))"
    by (intro calms)
qed (intro calms)

lemma calm_readdir: "calm (readdir K m)"
  unfolding readdir_def Let_def
  by (rule calm_listing calm_basic calm_if calm_fid_helpers calm_ok_or calm_bind)+

lemma handle_not_Panic:
  assumes "\<not> cfg_ascii_casefold (srv_cfg (fst w))"
  shows "fst (handle K m w) \<noteq> Panic"
proof -
  have arm: "fst (io_map f h w) \<noteq> Panic" if "fst (h w) \<noteq> Panic" for f :: "'b \<Rightarrow> Rmessage" and h
    using that by (cases "h w"; cases "fst (h w)") (auto simp: io_map_apply)
  obtain sv k where w: "w = (sv, k)" by (cases w)
  have calm_arm: "fst (io_map f h w) \<noteq> Panic" if "calm h" for f :: "'b \<Rightarrow> Rmessage" and h
    using calm_map [OF that, of f] unfolding calm_def by blast
  show ?thesis
  proof (cases m)
    case (Walk q)
    have "fst (walk K q w) \<noteq> Panic" unfolding w by (rule walk_not_Panic) (use assms w in simp)
    from arm [of "walk K q", OF this] Walk show ?thesis by simp
  qed (simp_all add: calm_arm calms calm_readdir)
qed

lemma respond_not_Panic:
  assumes "\<not> cfg_ascii_casefold (srv_cfg (fst w))" and "msg \<noteq> Panic"
  shows "fst (respond K msg w) \<noteq> Panic"
proof (cases msg)
  case (Ok m)
  have "fst (handle K m w) \<noteq> Panic" by (rule handle_not_Panic [OF assms(1)])
  with Ok show ?thesis
    by (auto simp: respond_def io_or_else_def io_return_apply split: prod.split io_result.split)
qed (use assms(2) in \<open>simp_all add: respond_def io_or_else_def io_throw_apply io_return_apply\<close>)

lemma handle_message_not_Panic:
  assumes "\<not> cfg_ascii_casefold (srv_cfg (ses_server s))"
  shows "fst (handle_message K s) \<noteq> Panic"
proof -
  let ?inp = "take (unat (cfg_msize (srv_cfg (ses_server s)))) (ses_in s)"
  have decode: "wp tframe_decode (\<lambda>f _. tframe_msg f \<noteq> Panic) (\<lambda>_ _. True) (\<lambda>_. False) ?inp"
    using reader_ok_no_panic [OF tframe_decode_reader_ok, of ?inp] tframe_decode_msg_not_Panic [of ?inp]
    by (auto simp: wp_def split: prod.split io_result.split)
  show ?thesis
  proof (cases "tframe_decode ?inp")
    case (Pair r left)
    show ?thesis
    proof (cases r)
      case (Ok f)
      with decode Pair have "tframe_msg f \<noteq> Panic" by (simp add: wp_def)
      then have "fst (respond K (tframe_msg f) (ses_server s, ses_kernel s)) \<noteq> Panic"
        using respond_not_Panic [of "(ses_server s, ses_kernel s)"] assms by simp
      moreover have "fst (respond K (tframe_msg f) (ses_server s, ses_kernel s)) \<noteq> Err e" for e
        by (cases "respond K (tframe_msg f) (ses_server s, ses_kernel s)")
          (auto simp: respond_def io_or_else_def io_return_apply split: prod.splits io_result.splits)
      ultimately show ?thesis using Pair Ok rframe_encode_no_panic
        by (auto simp: handle_message_def reader_take_def split: prod.split io_result.split) (metis fst_conv)
    qed (use decode Pair in \<open>simp_all add: handle_message_def reader_take_def wp_def\<close>)
  qed
qed

lemma casefold_kept: "server_kept sv sv' \<Longrightarrow> cfg_ascii_casefold (srv_cfg sv') = cfg_ascii_casefold (srv_cfg sv)"
  by (auto simp: server_kept_def)

lemma main_loop_not_Panic:
  "L = K \<Longrightarrow> \<not> cfg_ascii_casefold (srv_cfg (ses_server s)) \<Longrightarrow>
    fst (main_loop L s) \<in> {Exit EX_OK, Exit EX_SERVER_ERROR}"
proof (induction L s rule: main_loop.induct)
  case (1 L s)
  obtain r t where rt: "handle_message L s = (r, t)" by (cases "handle_message L s")
  have kept: "server_kept (ses_server s) (ses_server t)" using handle_message_kept [of s L] rt by simp
  show ?case
  proof (cases r)
    case (Ok u)
    with "1.IH" [OF rt [symmetric] Ok "1.prems"(1)] casefold_kept [OF kept] "1.prems"(2) show ?thesis
      by (subst main_loop.simps) (simp add: rt)
  next
    case Panic
    with handle_message_not_Panic [OF "1.prems"(2)] rt "1.prems"(1) show ?thesis by simp
  qed (subst main_loop.simps, simp add: rt)
qed

end

interpretation demo: orderly_kernel demo_kernel
  by unfold_locales (auto simp: batch_ok_def intro!: exI [of _ "[]"])

lemma orderly_audited: "orderly_kernel K \<Longrightarrow> orderly_kernel (audited K)"
  unfolding orderly_kernel_def by (auto simp: audited_def split: prod.split) (metis fst_conv)

lemma server_new_Ok: "server_new K root us gs k = (Ok sv, k') \<Longrightarrow> \<not> cfg_ascii_casefold (srv_cfg sv)"
  unfolding server_new_def by (drule with_config_Ok) simp

lemma calm_start: "calm (metadata_is_dir K path)" "calm (server_new K root us gs)"
  unfolding metadata_is_dir_def server_new_def with_config_def by (intro calms)+

subsection \<open>Properties\<close>

text \<open>
  The arguments the program is written for: its own name in front, UTF-8 text, and descriptors
  that can be ones.
\<close>

definition arguments_ok :: "u8 list list \<Rightarrow> bool" where
  "arguments_ok args = (args \<noteq> [] \<and> list_all utf8_valid args
     \<and> (4 \<le> length args \<longrightarrow> parse_i32 (args ! 1) \<noteq> Some (-1) \<and> parse_i32 (args ! 2) \<noteq> Some (-1)))"

text \<open>
  Property C3.  The program does not panic: on a non-empty list of UTF-8 arguments of which the
  two descriptors are not \<open>-1\<close>, any bytes from the client and any kernel whose directory records
  are laid out as documented, a run ends with exit code 0, 8 or 64.
\<close>

theorem program_never_panics:
  assumes "\<And>d k. batch_ok (fst (K (Getdents64 d DIR_BUF_SIZE) k))" and "arguments_ok args"
  shows "fst (qfsd_main K args input k) \<in> {Exit 0, Exit 8, Exit 64}"
proof -
  have K: "orderly_kernel K" by unfold_locales (rule assms(1))
  obtain d k1 where meta: "metadata_is_dir K (args ! 3) k = (d, k1)" by (cases "metadata_is_dir K (args ! 3) k")
  obtain q k2 where new: "server_new K (args ! 3) bt_new bt_new k1 = (q, k2)"
    by (cases "server_new K (args ! 3) bt_new bt_new k1")
  have "d \<noteq> Panic" and "q \<noteq> Panic" using calmD [OF calm_start(1) meta] calmD [OF calm_start(2) new] .
  moreover have "fst (main_loop K \<lparr>ses_in = input, ses_out = [], ses_server = sv, ses_kernel = k2\<rparr>)
      \<in> {Exit EX_OK, Exit EX_SERVER_ERROR}" if "q = Ok sv" for sv
    using orderly_kernel.main_loop_not_Panic [OF K refl] server_new_Ok [of K _ _ _ k1 sv k2] new that by simp
  ultimately show ?thesis
    using assms(2) meta new
    by (auto simp: qfsd_main_def arguments_ok_def EX_OK_def EX_SERVER_ERROR_def EX_USAGE_def
        split: option.split io_result.split prod.split)
qed

theorem program_never_panics_witness:
  "fst (qfsd_main demo_kernel [ascii ''qfsd'', ascii ''0'', ascii ''1'', ascii ''/''] [7, 0, 0, 0, 100, 1, 0] 5)
    \<in> {Exit 0, Exit 8, Exit 64}"
proof (rule program_never_panics)
  show "batch_ok (fst (demo_kernel (Getdents64 d DIR_BUF_SIZE) k))" for d k by (rule demo.batches)
  show "arguments_ok [ascii ''qfsd'', ascii ''0'', ascii ''1'', ascii ''/'']"
    by (simp add: arguments_ok_def ascii_def parse_i32_def)
qed

end
