(* ===== verification/Dir_Properties.thy ===== *)
theory Dir_Properties
  imports No_Panics
begin

text \<open>
  The properties of directories: the records of \<^verbatim>\<open>getdents64\<close>, their iteration, the
  listing a client gets and the case-folded lookup.
\<close>

subsection \<open>Helpers: the listing\<close>

text \<open>
  The attributes of the entries, asked for one after the other by name below the path of the fid:
  each answer is a success and leaves the kernel in the state for the next.
\<close>

type_synonym row = "(dir_entry \<times> u8 list) \<times> stat64"

inductive looks_up :: "'k kernel \<Rightarrow> fd \<Rightarrow> 'k \<Rightarrow> row list \<Rightarrow> 'k \<Rightarrow> bool" for K path where
  looked: "looks_up K path k [] k"
| look: "K (Fstatat path (de_name (fst r)) AT_SYMLINK_NOFOLLOW) k = (a, k1) \<Longrightarrow> 0 \<le> sys_res a \<Longrightarrow>
    looks_up K path k1 rows k' \<Longrightarrow> looks_up K path k ((r, sys_stat a) # rows) k'"

text \<open>
  A directory that is read to its end while its entries are looked at: batches of whole records,
  the attributes of each of a batch before the next one, and then an empty batch.
\<close>

inductive reads_through :: "'k kernel \<Rightarrow> fd \<Rightarrow> fd \<Rightarrow> 'k \<Rightarrow> row list \<Rightarrow> bool" for K d path where
  no_more: "K (Getdents64 d DIR_BUF_SIZE) k = (r, k') \<Longrightarrow> sys_res r = 0 \<Longrightarrow> reads_through K d path k []"
| batch: "K (Getdents64 d DIR_BUF_SIZE) k = (r, k1) \<Longrightarrow> sys_buf r = concat (map (\<lambda>row. record_bytes (fst row)) rows) \<Longrightarrow>
    sys_res r = int (length (sys_buf r)) \<Longrightarrow> rows \<noteq> [] \<Longrightarrow> length (sys_buf r) \<le> DIR_BUF_SIZE \<Longrightarrow>
    list_all (\<lambda>row. record_ok (fst row)) rows \<Longrightarrow> looks_up K path k1 rows k2 \<Longrightarrow> reads_through K d path k2 later \<Longrightarrow>
    reads_through K d path k (rows @ later)"

text \<open>The same as the loop sees it: the iterator's steps and the calls between them.\<close>

inductive scans :: "'k kernel \<Rightarrow> fd \<Rightarrow> read_dir \<Rightarrow> 'k \<Rightarrow> (dir_entry \<times> stat64) list \<Rightarrow> bool" for K path where
  at_end: "dir_next K rd k = (Ok (None, rd'), k') \<Longrightarrow> scans K path rd k []"
| entry: "dir_next K rd k = (Ok (Some e, rd'), k1) \<Longrightarrow> K (Fstatat path (de_name e) AT_SYMLINK_NOFOLLOW) k1 = (a, k2) \<Longrightarrow>
    0 \<le> sys_res a \<Longrightarrow> scans K path rd' k2 es \<Longrightarrow> scans K path rd k ((e, sys_stat a) # es)"

inductive_cases looks_up_ConsE: "looks_up K path k (row # rows) k'"
inductive_cases looks_up_NilE: "looks_up K path k [] k'"
inductive_cases scans_ConsE: "scans K path rd k (e # es)"

definition entry_of :: "row \<Rightarrow> dir_entry \<times> stat64" where
  "entry_of row = (fst (fst row), snd row)"

lemma scans_batch:
  assumes "\<And>rd'. exhausted rd' d \<Longrightarrow> scans K path rd' k' es"
  shows "looks_up K path k rows k' \<Longrightarrow>
    drop (rd_current rd) (take (rd_end rd) (rd_buf rd)) = concat (map (\<lambda>row. record_bytes (fst row)) rows) \<Longrightarrow>
    rd_end rd \<le> length (rd_buf rd) \<Longrightarrow> length (rd_buf rd) = DIR_BUF_SIZE \<Longrightarrow> rd_dir rd = d \<Longrightarrow>
    list_all (\<lambda>row. record_ok (fst row)) rows \<Longrightarrow> scans K path rd k (map entry_of rows @ es)"
proof (induction rows arbitrary: rd k)
  case Nil
  then have "exhausted rd d" and "k = k'" by (auto simp: exhausted_def elim: looks_up_NilE)
  with assms show ?case by simp
next
  case (Cons row rows)
  obtain r st where row: "row = (r, st)" by (cases row)
  from Cons.prems(1) row obtain a k1 where a: "K (Fstatat path (de_name (fst r)) AT_SYMLINK_NOFOLLOW) k = (a, k1)"
    "0 \<le> sys_res a" "st = sys_stat a" and rest: "looks_up K path k1 rows k'" by (auto elim: looks_up_ConsE)
  let ?rd = "rd\<lparr>rd_current := rd_current rd + record_length r\<rparr>"
  have buf: "drop (rd_current rd) (take (rd_end rd) (rd_buf rd))
      = record_bytes r @ concat (map (\<lambda>row. record_bytes (fst row)) rows)" and ok: "record_ok r"
    using Cons.prems row by simp_all
  have "rd_current rd < rd_end rd"
    using buf by (intro record_in_buffer [of rd r]) simp
  from dir_next_record [OF this Cons.prems(3) buf ok]
  have "dir_next K rd k = (Ok (Some (fst r), ?rd), k)" .
  moreover have "drop (rd_current ?rd) (take (rd_end ?rd) (rd_buf ?rd)) = concat (map (\<lambda>row. record_bytes (fst row)) rows)"
    using record_taken [OF buf] by simp
  then have "scans K path ?rd k1 (map entry_of rows @ es)" by (rule Cons.IH [OF rest]) (use Cons.prems in simp_all)
  ultimately have "scans K path rd k ((fst r, sys_stat a) # map entry_of rows @ es)"
    using a(1,2) by (blast intro: scans.entry)
  then show ?case by (simp add: entry_of_def [of "(r, sys_stat a)"] row a(3))
qed

lemma reads_through_scans: "reads_through K d path k rows \<Longrightarrow> exhausted rd d \<Longrightarrow> scans K path rd k (map entry_of rows)"
proof (induction arbitrary: rd rule: reads_through.induct)
  case (no_more k r k')
  then show ?case using dir_next_end [of K d k r k' rd] by (simp add: scans.at_end)
next
  case (batch k r k1 rows k2 later)
  let ?rd = "rd\<lparr>rd_buf := fill (rd_buf rd) (sys_buf r), rd_current := 0, rd_end := length (sys_buf r)\<rparr>"
  obtain row rows' where rows: "rows = row # rows'" using batch.hyps(4) by (cases rows) auto
  have "0 < length (sys_buf r)" using batch.hyps(2) rows by (simp add: record_bytes_def)
  then have next_same: "dir_next K rd k = dir_next K ?rd k1"
    by (rule dir_next_refill [rotated 2]) (fact batch.prems batch.hyps)+
  have "drop (rd_current ?rd) (take (rd_end ?rd) (rd_buf ?rd)) = concat (map (\<lambda>row. record_bytes (fst row)) rows)"
    using batch.hyps(2,5) batch.prems by (simp add: fill_exact exhausted_def)
  then have "scans K path ?rd k1 (map entry_of rows @ map entry_of later)"
    by (intro scans_batch [where d = d and k' = k2])
      (use batch.IH batch.hyps batch.prems in \<open>simp_all add: exhausted_def\<close>)
  then show ?case unfolding rows using next_same by (auto elim!: scans_ConsE intro!: scans.entry)
qed

text \<open>The entry of a listing that stands for a directory entry and its attributes.\<close>

definition lists_entry :: "Dirent \<Rightarrow> dir_entry \<times> stat64 \<Rightarrow> bool" where
  "lists_entry e = (\<lambda>(d, st). dirent_qid e = qid_from st \<and> dirent_name e = de_name d
     \<and> dirent_offset e = de_offset d \<and> dirent_ty e = de_type d)"

text \<open>One entry: it is appended, or there was no room for it.\<close>

lemma readdir_append_cases:
  assumes "wf_Dirent e" and "length cur \<le> room"
  shows "readdir_append room e cur = (if length cur + length (bytes_Dirent e) \<le> room
     then Ok (Some (cur @ bytes_Dirent e)) else Ok None)"
  using assms by (auto simp: readdir_append_def Dirent_byte_size_nat Dirent.encode_wf)

definition listable :: "dir_entry \<Rightarrow> bool" where
  "listable d = (utf8_valid (de_name d) \<and> length (de_name d) \<le> 0xFFFF)"

lemma readdir_entry_cases:
  assumes "K (Fstatat path (de_name d) AT_SYMLINK_NOFOLLOW) k = (a, k1)" and "0 \<le> sys_res a"
    and "listable d" and "length cur \<le> room"
  obtains e where "wf_Dirent e" and "lists_entry e (d, sys_stat a)" and "length (bytes_Dirent e) = 24 + length (de_name d)"
    and "readdir_entry K path room cur d k = (Ok (if length cur + length (bytes_Dirent e) \<le> room
       then Some (cur @ bytes_Dirent e) else None), k1)"
proof -
  have st: "statat K path (de_name d) 0 k = (Ok (sys_stat a), k1)"
    using assms(1,2) by (simp add: statat_def io_map_apply syscall_def)
  let ?e = "\<lparr>dirent_qid = qid_from (sys_stat a), dirent_offset = de_offset d, dirent_ty = de_type d,
    dirent_name = de_name d\<rparr>"
  have wf: "wf_Dirent ?e" and u: "utf8_valid (de_name d)"
    using assms(3) by (simp_all add: wf_Dirent_def wf_string_def wf_Qid_def listable_def)
  from st u have "readdir_entry K path room cur d k = io_result (readdir_append room ?e cur) k1"
    by (simp add: readdir_entry_def io_bind_def ok_or_def string_from_utf8_def io_return_apply)
  with readdir_append_cases [OF wf assms(4)] that [OF wf] show thesis
    by (simp add: io_result_apply lists_entry_def length_bytes_Dirent split: if_splits)
qed

text \<open>The listing: the first entries in their order, as many as there is room for.\<close>

definition lists_prefix :: "nat \<Rightarrow> (dir_entry \<times> stat64) list \<Rightarrow> Dirent list \<Rightarrow> nat \<Rightarrow> bool" where
  "lists_prefix room ds es len = (list_all wf_Dirent es \<and> len \<le> room \<and> length es \<le> length ds
     \<and> list_all2 lists_entry es (take (length es) ds)
     \<and> (length es < length ds \<longrightarrow> room < len + 24 + length (de_name (fst (ds ! length es)))))"

lemma readdir_loop_prefix:
  assumes "scans K path rd k ds"
  shows "length cur \<le> room \<Longrightarrow> list_all (\<lambda>p. listable (fst p)) ds \<Longrightarrow>
    \<exists>es kk. readdir_loop K path room rd cur k = (Ok (cur @ concat (map bytes_Dirent es)), kk)
      \<and> lists_prefix room ds es (length cur + length (concat (map bytes_Dirent es)))"
  using assms
proof (induction arbitrary: cur rule: scans.induct)
  case (at_end rd k rd' k1)
  then have "readdir_loop K path room rd cur k = (Ok cur, k1)"
    by (simp add: readdir_loop.simps [of K path room rd cur k] readdir_step_def io_bind_def io_return_def)
  with at_end show ?case by (intro exI [of _ "[]"] exI [of _ k1]) (simp add: lists_prefix_def)
next
  case (entry rd k d rd' k1 a k2 ds)
  then have "listable d" and ds: "list_all (\<lambda>p. listable (fst p)) ds" by simp_all
  obtain e where e: "wf_Dirent e" "lists_entry e (d, sys_stat a)" "length (bytes_Dirent e) = 24 + length (de_name d)"
    and r: "readdir_entry K path room cur d k1 = (Ok (if length cur + length (bytes_Dirent e) \<le> room
       then Some (cur @ bytes_Dirent e) else None), k2)"
    using readdir_entry_cases [of K path d k1 a k2 cur room, OF entry.hyps(2,3) \<open>listable d\<close> entry.prems(1)]
    by blast
  have step: "readdir_step K path room rd cur k = (Ok (if length cur + length (bytes_Dirent e) \<le> room
       then Some (rd', cur @ bytes_Dirent e) else None), k2)"
    by (simp add: readdir_step_def io_bind_def entry.hyps(1) io_map_apply r)
  show ?case
  proof (cases "length cur + length (bytes_Dirent e) \<le> room")
    case False
    then have "readdir_loop K path room rd cur k = (Ok cur, k2)"
      by (simp add: readdir_loop.simps [of K path room rd cur k] step)
    with False e entry.prems(1) show ?thesis
      by (intro exI [of _ "[]"] exI [of _ k2]) (simp add: lists_prefix_def)
  next
    case True
    then have go: "readdir_loop K path room rd cur k = readdir_loop K path room rd' (cur @ bytes_Dirent e) k2"
      by (simp add: readdir_loop.simps [of K path room rd cur k] step)
    from entry.IH [of "cur @ bytes_Dirent e"] True ds obtain es kk where
      "readdir_loop K path room rd' (cur @ bytes_Dirent e) k2
        = (Ok ((cur @ bytes_Dirent e) @ concat (map bytes_Dirent es)), kk)"
      "lists_prefix room ds es (length (cur @ bytes_Dirent e) + length (concat (map bytes_Dirent es)))" by auto
    with e show ?thesis unfolding go
      by (intro exI [of _ "e # es"] exI [of _ kk]) (simp add: lists_prefix_def add.assoc)
  qed
qed

text \<open>Without assumptions on the kernel: the listing consists of whole entries.\<close>

lemma readdir_loop_whole:
  "readdir_loop K path room rd cur k = (Ok bs, k') \<Longrightarrow>
    \<exists>es. list_all wf_Dirent es \<and> bs = cur @ concat (map bytes_Dirent es)"
proof (induction K path room rd cur k rule: readdir_loop.induct)
  case (1 K path room rd cur k)
  obtain r t where rt: "readdir_step K path room rd cur k = (r, t)" by (cases "readdir_step K path room rd cur k")
  show ?case
  proof (cases "\<exists>rd' cur'. r = Ok (Some (rd', cur'))")
    case True
    then obtain rd' cur' where r: "r = Ok (Some (rd', cur'))" by blast
    obtain e where e: "wf_Dirent e" "cur' = cur @ bytes_Dirent e"
      using readdir_step_grows [of K path room rd cur k rd' cur' t] rt r by blast
    from "1.prems" rt r have "readdir_loop K path room rd' cur' t = (Ok bs, k')"
      by (simp add: readdir_loop.simps [of K path room rd cur k])
    from "1.IH" [OF rt [symmetric] r refl refl this] obtain es where "list_all wf_Dirent es"
      "bs = cur' @ concat (map bytes_Dirent es)" by blast
    with e show ?thesis by (intro exI [of _ "e # es"]) simp
  next
    case False
    with "1.prems" rt show ?thesis
      by (intro exI [of _ "[]"]) (auto simp: readdir_loop.simps [of K path room rd cur k]
          split: io_result.splits option.splits)
  qed
qed

subsection \<open>Helpers: the case-folded search\<close>

lemma yields_search:
  "yields K rd k ds k' \<Longrightarrow> \<exists>k''. casefold_search K name rd k
    = Some (Ok (map_option de_name (find (\<lambda>d. eq_ignore_ascii_case name (de_name d)) ds)), k'')"
proof (induction rule: yields.induct)
  case (at_end rd k rd' k')
  then show ?case by (subst casefold_search.simps) simp
next
  case (entry rd k e rd' k1 es k')
  then show ?case by (subst casefold_search.simps) simp
qed

subsection \<open>Helpers: running the handler\<close>

lemma run_readdir:
  assumes "bt_get (srv_fids sv) (treaddir_fid m) = Some f" and "fid_filetype f = Directory" and "fid_file f = Some d"
    and "K (Lseek64 d (treaddir_offset m)) k = (r, k1)" and "0 \<le> sys_res r"
    and "rd = \<lparr>rd_buf = replicate DIR_BUF_SIZE 0, rd_dir = d, rd_current = 0, rd_end = 0\<rparr>"
    and "room = unat (min (cfg_msize (srv_cfg sv) - 11) (treaddir_count m))"
  shows "readdir K m (sv, k) = (case readdir_loop K (fid_path f) room rd [] k1 of
      (Ok bs, k2) \<Rightarrow> (Ok \<lparr>rreaddir_data = bs\<rparr>, (sv, k2))
    | (Err e, k2) \<Rightarrow> (Err e, (sv, k2)) | (Panic, k2) \<Rightarrow> (Panic, (sv, k2)))"
proof -
  have "read_dir K d (treaddir_offset m) k = (Ok rd, k1)"
    using assms(4,5) by (simp add: read_dir_def io_bind_def syscall_def io_return_def assms(6))
  then show ?thesis using assms(2,3)
    by (simp add: readdir_def run_get_fid [OF assms(1)] run_rules run_on_kernel data_header_size flip: assms(7))
      (auto simp: io_bind_def on_kernel_def io_return_def split: prod.split io_result.split)
qed

lemma read_dir_exhausted: "rd = \<lparr>rd_buf = replicate DIR_BUF_SIZE 0, rd_dir = d, rd_current = 0, rd_end = 0\<rparr> \<Longrightarrow> exhausted rd d"
  by (simp add: exhausted_def)

lemma reads_through_ok: "reads_through K d path k rows \<Longrightarrow> list_all (\<lambda>row. record_ok (fst row)) rows"
  by (induction rule: reads_through.induct) auto

lemma list_all_listable: "list_all (\<lambda>row. record_ok (fst row)) rows \<Longrightarrow>
    list_all (\<lambda>row. utf8_valid (de_name (fst (fst row)))) rows \<Longrightarrow> list_all (\<lambda>p. listable (fst p)) (map entry_of rows)"
  by (induction rows) (auto simp: record_ok_def record_length_def listable_def entry_of_def)

subsection \<open>A directory with one entry\<close>

definition readme_entry :: "dir_entry \<times> u8 list" where
  "readme_entry = (\<lparr>de_ino = 7, de_offset = 1, de_type = 8, de_name = ascii ''Readme''\<rparr>, [0, 0, 0, 0, 0, 0])"

text \<open>The kernel's state is the position in the directory; other calls give descriptor 9.\<close>

definition dir_kernel :: "int kernel" where
  "dir_kernel c k = (case c of
     Getdents64 d n \<Rightarrow> if k = 0 then ((demo_ret 32)\<lparr>sys_buf := record_bytes readme_entry\<rparr>, 1) else (demo_ret 0, k)
   | Lseek64 d off \<Rightarrow> (demo_ret 0, 0)
   | Fstatat d p f \<Rightarrow> (demo_ret 0, k)
   | _ \<Rightarrow> (demo_ret 9, k))"

definition dir_server :: server where
  "dir_server = demo_server\<lparr>srv_fids := [(1, \<lparr>fid_path = 4, fid_file = Some 9, fid_filetype = Directory\<rparr>)]\<rparr>"

abbreviation fresh_dir :: "fd \<Rightarrow> read_dir" where
  "fresh_dir d \<equiv> \<lparr>rd_buf = replicate DIR_BUF_SIZE 0, rd_dir = d, rd_current = 0, rd_end = 0\<rparr>"

lemma readme_ok: "record_ok readme_entry" and readme_length: "record_length readme_entry = 32"
  by (simp_all add: record_ok_def record_length_def readme_entry_def cstring_ok_def ascii_def)

lemma readme_delivered: "delivers dir_kernel d 0 [readme_entry] 1"
proof -
  have "delivers dir_kernel d 1 [] 1"
    by (rule delivers.no_more [where r = "demo_ret 0"]) (simp_all add: dir_kernel_def)
  then have "delivers dir_kernel d 0 ([readme_entry] @ []) 1"
    by (rule delivers.batch [rotated 6, where r = "(demo_ret 32)\<lparr>sys_buf := record_bytes readme_entry\<rparr>"])
      (simp_all add: dir_kernel_def readme_ok readme_length DIR_BUF_SIZE_def)
  then show ?thesis by simp
qed

interpretation readme: orderly_kernel dir_kernel
proof
  have "batch_ok ((demo_ret 32)\<lparr>sys_buf := record_bytes readme_entry\<rparr>)"
    unfolding batch_ok_def
    by (intro disjI2 exI [of _ "[readme_entry]"]) (simp add: readme_ok readme_length DIR_BUF_SIZE_def)
  moreover have "batch_ok (demo_ret 0)" by (auto simp: batch_ok_def intro!: exI [of _ "[]"])
  ultimately show "batch_ok (fst (dir_kernel (Getdents64 d DIR_BUF_SIZE) k))" for d k
    by (simp add: dir_kernel_def)
qed

lemma readme_read_through: "reads_through dir_kernel d path 0 [(readme_entry, demo_stat)]"
proof -
  have "reads_through dir_kernel d path 1 []"
    by (rule reads_through.no_more [where r = "demo_ret 0"]) (simp_all add: dir_kernel_def)
  moreover have "looks_up dir_kernel path 1 [(readme_entry, sys_stat (demo_ret 0))] 1"
    by (rule looks_up.look [OF _ _ looks_up.looked]) (simp_all add: dir_kernel_def)
  ultimately have "reads_through dir_kernel d path 0 ([(readme_entry, demo_stat)] @ [])"
    by (intro reads_through.batch [where r = "(demo_ret 32)\<lparr>sys_buf := record_bytes readme_entry\<rparr>" and ?k1.0 = 1 and ?k2.0 = 1])
      (simp_all add: dir_kernel_def readme_ok readme_length DIR_BUF_SIZE_def)
  then show ?thesis by simp
qed

lemma dir_kernel_opens: "read_dir dir_kernel d 0 k = (Ok (fresh_dir d), 0)"
  by (simp add: read_dir_def io_bind_def syscall_def io_return_def dir_kernel_def)

subsection \<open>Records\<close>

text \<open>
  Property C26.  What the kernel must not deliver: taking an entry off the front of the buffer
  panics if and only if the header is cut short, or the record's own length is shorter than the
  header or longer than what is there, or no nul byte ends the name within the record.  The
  wrap-around of the subtraction of the header's size is among the cases.
\<close>

theorem malformed_records_panic:
  assumes "length rem \<le> DIR_BUF_SIZE"
    and "l = unat (uint_of_bytes (take 2 (drop 16 rem)) :: u16)"
  shows "parse_entry rem = Panic \<longleftrightarrow>
    length rem < 19 \<or> l < 19 \<or> length rem < l \<or> 0 \<notin> set (take (l - 19) (drop 19 rem))"
proof (cases "length rem < 19")
  case False
  with assms parse_entry_head [of rem l] show ?thesis by (simp add: DIR_BUF_SIZE_def)
qed (simp add: parse_entry_def DIRENT64_SIZE_def)

theorem malformed_records_panic_witness:
  "parse_entry (replicate 16 0 @ uint_bytes (18 :: u16) @ [4, 65, 0]) = Panic"
proof -
  let ?rem = "replicate 16 0 @ uint_bytes (18 :: u16) @ [4, 65, 0]"
  have l: "unat (uint_of_bytes (take 2 (drop 16 ?rem)) :: u16) = 18"
    by (simp add: uint_of_bytes_inverse)
  show ?thesis
    using malformed_records_panic [of ?rem, OF _ refl] unfolding l by (simp add: DIR_BUF_SIZE_def)
qed

subsection \<open>Iteration\<close>

text \<open>
  Property C25.  However the kernel cuts a directory into batches of records, iteration from the
  position that was asked for gives every entry once, in the kernel's order, and then stops.
\<close>

theorem directory_is_iterated_in_order:
  assumes "read_dir K d off k = (Ok rd, k1)" and "delivers K d k1 rs k'"
  shows "yields K rd k1 (map fst rs) k'"
  by (rule delivers_yields [OF assms(2) fresh_exhausted [OF assms(1)]])

theorem directory_is_iterated_in_order_witness:
  "yields dir_kernel (fresh_dir 9) 0 [fst readme_entry] 1"
  using directory_is_iterated_in_order [OF dir_kernel_opens readme_delivered, of 9] by simp

text \<open>
  Property C22.  The case-folded search ends on every directory the kernel delivers to its end,
  and finds the first entry, in the kernel's order, whose name differs in the case of ASCII
  letters at most; on a directory without such an entry it finds nothing.
\<close>

theorem casefold_search_ends:
  assumes "read_dir K d off k = (Ok rd, k1)" and "delivers K d k1 rs k'"
  shows "\<exists>k2. casefold_search K name rd k1
    = Some (Ok (map_option de_name (find (\<lambda>e. eq_ignore_ascii_case name (de_name e)) (map fst rs))), k2)"
  by (rule yields_search [OF delivers_yields [OF assms(2) fresh_exhausted [OF assms(1)]]])

theorem casefold_search_ends_witness:
  "\<exists>k2. casefold_search dir_kernel (ascii ''README'') (fresh_dir 9) 0 = Some (Ok (Some (ascii ''Readme'')), k2)"
proof -
  have "eq_ignore_ascii_case (ascii ''README'') (de_name (fst readme_entry))"
    by (simp add: eq_ignore_ascii_case_def readme_entry_def ascii_def ascii_lower_def)
  then show ?thesis
    using casefold_search_ends [OF dir_kernel_opens readme_delivered, of "ascii ''README''" 9]
    by (simp add: readme_entry_def)
qed

subsection \<open>The case-folded lookup\<close>

text \<open>
  Property C23.  A lookup that folds case opens the parent for reading, looks up the first entry
  that matches under its real name, or answers \<^verbatim>\<open>ENOENT\<close>, and closes the directory it
  opened in each of these cases.
\<close>

theorem casefold_lookup_opens_the_first_match:
  assumes "open_fid K proc parent P9_DIRECTORY k = (Ok d, k1)" and "read_dir K d 0 k1 = (Ok rd, k2)"
    and "delivers K d k2 rs k'"
  shows "\<exists>k3. ascii_casefold_lookup K proc parent name k =
    (case find (\<lambda>e. eq_ignore_ascii_case name (de_name e)) (map fst rs) of
       None \<Rightarrow> (Err (Os ENOENT), snd (K (Close d) k3))
     | Some e \<Rightarrow> (case lookup K parent (de_name e) k3 of (r, k4) \<Rightarrow> (r, snd (K (Close d) k4))))"
proof -
  obtain k3 where s: "casefold_search K name rd k2
      = Some (Ok (map_option de_name (find (\<lambda>e. eq_ignore_ascii_case name (de_name e)) (map fst rs))), k3)"
    using yields_search [OF delivers_yields [OF assms(3) fresh_exhausted [OF assms(2)]]] by blast
  show ?thesis
  proof (intro exI [of _ k3])
    show "ascii_casefold_lookup K proc parent name k =
      (case find (\<lambda>e. eq_ignore_ascii_case name (de_name e)) (map fst rs) of
         None \<Rightarrow> (Err (Os ENOENT), snd (K (Close d) k3))
       | Some e \<Rightarrow> (case lookup K parent (de_name e) k3 of (r, k4) \<Rightarrow> (r, snd (K (Close d) k4))))"
      by (simp add: ascii_casefold_lookup_def io_bind_def assms(1,2) io_finally_def casefold_scan_def s close_def
          io_throw_apply split: option.split prod.split io_result.split)
  qed
qed

theorem casefold_lookup_opens_the_first_match_witness:
  "\<exists>k3. ascii_casefold_lookup dir_kernel 3 4 (ascii ''README'') 5
    = (case lookup dir_kernel 4 (ascii ''Readme'') k3 of (r, k4) \<Rightarrow> (r, snd (dir_kernel (Close 9) k4)))"
proof -
  have "open_fid dir_kernel 3 4 P9_DIRECTORY 5 = (Ok 9, 5)"
    by (simp add: open_fid_def io_bind_def io_result_def proc_path io_map_apply syscall_def dir_kernel_def)
  moreover have "eq_ignore_ascii_case (ascii ''README'') (de_name (fst readme_entry))"
    by (simp add: eq_ignore_ascii_case_def readme_entry_def ascii_def ascii_lower_def)
  ultimately show ?thesis
    using casefold_lookup_opens_the_first_match [OF _ dir_kernel_opens readme_delivered, of 3 4 5 9 5 "ascii ''README''"]
    by (simp add: readme_entry_def)
qed

subsection \<open>The listing\<close>

lemma on_kernel_eq_Ok: "on_kernel m w = (Ok x, w') \<longleftrightarrow> (\<exists>t. m (snd w) = (Ok x, t) \<and> w' = (fst w, t))"
  by (cases w) (auto simp: on_kernel_def split: prod.split)

text \<open>
  Property C24.  Whatever the kernel answers: the data of an \<^verbatim>\<open>Rreaddir\<close> is a sequence of
  whole, well-formed entries, which a client decodes without anything left over, and no more of
  it than was asked for and than fits in a message.
\<close>

theorem listing_is_whole_entries:
  assumes "readdir K m (sv, k) = (Ok r, w)"
  shows "\<exists>es. list_all wf_Dirent es \<and> rreaddir_data r = concat (map bytes_Dirent es)
    \<and> decode_elems wire_Dirent (length es) (rreaddir_data r) = (Ok es, [])
    \<and> length (rreaddir_data r) \<le> unat (min (cfg_msize (srv_cfg sv) - 11) (treaddir_count m))"
proof -
  from assms obtain path room rd t t' where "readdir_loop K path room rd [] t = (Ok (rreaddir_data r), t')"
    by (auto simp: readdir_def io_bind_eq_Ok Let_def on_kernel_eq_Ok io_return_apply io_throw_apply
        split: if_splits)
  from readdir_loop_whole [OF this] obtain es where es: "list_all wf_Dirent es"
    "rreaddir_data r = concat (map bytes_Dirent es)" by auto
  have "length (rreaddir_data r) \<le> unat (min (cfg_msize (srv_cfg sv) - 11) (treaddir_count m))"
    using readdir_reply [of K m sv k] assms by (simp add: wp_def)
  moreover have "decode_elems wire_Dirent (length es) (rreaddir_data r) = (Ok es, [])"
    using Dirent.decode_elems_bytes [OF es(1), of "[]"] es(2) by simp
  ultimately show ?thesis using es by blast
qed

text \<open>
  A request for the listing of a directory that is open, read to its end from the offset on while
  its entries stay there to be looked at, with names a 9P string can carry.
\<close>

definition directory_read :: "'k kernel \<Rightarrow> Treaddir \<Rightarrow> server \<Rightarrow> 'k \<Rightarrow> row list \<Rightarrow> bool" where
  "directory_read K m sv k rows = (\<exists>f d r k1. bt_get (srv_fids sv) (treaddir_fid m) = Some f
     \<and> fid_filetype f = Directory \<and> fid_file f = Some d \<and> K (Lseek64 d (treaddir_offset m)) k = (r, k1)
     \<and> 0 \<le> sys_res r \<and> reads_through K d (fid_path f) k1 rows
     \<and> list_all (\<lambda>row. utf8_valid (de_name (fst (fst row)))) rows)"

lemma readdir_prefix:
  assumes "directory_read K m sv k rows" and "room = unat (min (cfg_msize (srv_cfg sv) - 11) (treaddir_count m))"
  shows "\<exists>es k2. readdir K m (sv, k) = (Ok \<lparr>rreaddir_data = concat (map bytes_Dirent es)\<rparr>, (sv, k2))
    \<and> lists_prefix room (map entry_of rows) es (length (concat (map bytes_Dirent es)))"
proof -
  from assms(1) obtain f d r k1 where f: "bt_get (srv_fids sv) (treaddir_fid m) = Some f"
      "fid_filetype f = Directory" "fid_file f = Some d" "K (Lseek64 d (treaddir_offset m)) k = (r, k1)"
      "0 \<le> sys_res r"
    and dir: "reads_through K d (fid_path f) k1 rows"
    and u: "list_all (\<lambda>row. utf8_valid (de_name (fst (fst row)))) rows"
    unfolding directory_read_def by blast
  have "scans K (fid_path f) (fresh_dir d) k1 (map entry_of rows)"
    by (rule reads_through_scans [OF dir read_dir_exhausted [OF refl]])
  from readdir_loop_prefix [OF this _ list_all_listable [OF reads_through_ok [OF dir] u], of "[]" room]
  obtain es k2 where "readdir_loop K (fid_path f) room (fresh_dir d) [] k1 = (Ok (concat (map bytes_Dirent es)), k2)"
    and "lists_prefix room (map entry_of rows) es (length (concat (map bytes_Dirent es)))" by auto
  moreover have "readdir K m (sv, k) = (case readdir_loop K (fid_path f) room (fresh_dir d) [] k1 of
      (Ok bs, k2) \<Rightarrow> (Ok \<lparr>rreaddir_data = bs\<rparr>, (sv, k2))
    | (Err e, k2) \<Rightarrow> (Err e, (sv, k2)) | (Panic, k2) \<Rightarrow> (Panic, (sv, k2)))"
    by (rule run_readdir [where d = d and r = r]) (use f assms(2) in simp_all)
  ultimately show ?thesis by auto
qed

lemma readme_read: "directory_read dir_kernel \<lparr>treaddir_fid = 1, treaddir_offset = 0, treaddir_count = n\<rparr> dir_server 5
    [(readme_entry, demo_stat)]"
proof -
  have "utf8_valid (de_name (fst readme_entry))"
    by (simp add: readme_entry_def ascii_def)
  moreover have "reads_through dir_kernel 9 4 0 [(readme_entry, demo_stat)]" by (rule readme_read_through)
  ultimately show ?thesis
    by (auto simp: directory_read_def dir_server_def dir_kernel_def)
qed

text \<open>
  Property C16.  A listing of an open directory from an offset, when the seek succeeds and the
  directory is read to its end while every entry can be looked at, all of them with UTF-8 names:
  the request succeeds, and gives the entries from there in the kernel's order, with the name,
  offset and type of the kernel's records and the qid of the attributes the kernel answers; and it
  is maximal: it stops before the end only at an entry that has no room any more.  The server stays
  as it was.
\<close>

theorem listing_is_a_maximal_prefix:
  assumes "directory_read K m sv k rows" and "room = unat (min (cfg_msize (srv_cfg sv) - 11) (treaddir_count m))"
  shows "\<exists>es k2. readdir K m (sv, k) = (Ok \<lparr>rreaddir_data = concat (map bytes_Dirent es)\<rparr>, (sv, k2))
    \<and> length (concat (map bytes_Dirent es)) \<le> room \<and> length es \<le> length rows
    \<and> list_all2 lists_entry es (take (length es) (map entry_of rows))
    \<and> (length es < length rows \<longrightarrow>
       room < length (concat (map bytes_Dirent es)) + 24 + length (de_name (fst (fst (rows ! length es)))))"
  using readdir_prefix [OF assms] by (auto simp: lists_prefix_def entry_of_def)

theorem listing_is_a_maximal_prefix_witness:
  "\<exists>e k2. readdir dir_kernel \<lparr>treaddir_fid = 1, treaddir_offset = 0, treaddir_count = 100\<rparr> (dir_server, 5)
      = (Ok \<lparr>rreaddir_data = bytes_Dirent e\<rparr>, (dir_server, k2)) \<and> dirent_name e = ascii ''Readme''
      \<and> dirent_qid e = qid_from demo_stat"
proof -
  have room: "100 = unat (min (cfg_msize (srv_cfg dir_server) - 11)
      (treaddir_count \<lparr>treaddir_fid = 1, treaddir_offset = 0, treaddir_count = 100\<rparr>))"
    by (simp add: dir_server_def demo_server_def config_default_def MAX_MESSAGE_SIZE_def min_def)
  obtain es k2 where run: "readdir dir_kernel \<lparr>treaddir_fid = 1, treaddir_offset = 0, treaddir_count = 100\<rparr> (dir_server, 5)
      = (Ok \<lparr>rreaddir_data = concat (map bytes_Dirent es)\<rparr>, (dir_server, k2))"
    and es: "length es \<le> 1" "list_all2 lists_entry es (take (length es) [entry_of (readme_entry, demo_stat)])"
    and max: "length es < 1 \<Longrightarrow> 100 < length (concat (map bytes_Dirent es)) + 24
      + length (de_name (fst (fst ([(readme_entry, demo_stat)] ! length es))))"
    using listing_is_a_maximal_prefix [OF readme_read room] by auto
  have "length es = 1"
  proof (rule ccontr)
    assume "length es \<noteq> 1"
    with es(1) have "es = []" by (cases es) auto
    with max show False by (simp add: readme_entry_def ascii_def)
  qed
  then obtain e where "es = [e]" by (cases es) auto
  with run es(2) show ?thesis by (auto simp: lists_entry_def entry_of_def readme_entry_def)
qed

text \<open>
  Property C35.  A count that has no room for the first entry is answered with an empty listing,
  without an error: the answer that also says that there are no more entries.  The first entry is
  one whose attributes the kernel gives and whose name is UTF-8; nothing is asked of the others.
\<close>

theorem small_count_looks_like_the_end:
  assumes "bt_get (srv_fids sv) (treaddir_fid m) = Some f" and "fid_filetype f = Directory" and "fid_file f = Some d"
    and "K (Lseek64 d (treaddir_offset m)) k = (s, k1)" and "0 \<le> sys_res s"
    and "K (Getdents64 d DIR_BUF_SIZE) k1 = (g, k2)" and "sys_buf g = record_bytes r @ rest"
    and "sys_res g = int (length (sys_buf g))" and "length (sys_buf g) \<le> DIR_BUF_SIZE" and "record_ok r"
    and "K (Fstatat (fid_path f) (de_name (fst r)) AT_SYMLINK_NOFOLLOW) k2 = (a, k3)" and "0 \<le> sys_res a"
    and "utf8_valid (de_name (fst r))"
    and "unat (min (cfg_msize (srv_cfg sv) - 11) (treaddir_count m)) < 24 + length (de_name (fst r))"
  shows "readdir K m (sv, k) = (Ok \<lparr>rreaddir_data = []\<rparr>, (sv, k3))"
proof -
  let ?room = "unat (min (cfg_msize (srv_cfg sv) - 11) (treaddir_count m))"
  let ?rd = "(fresh_dir d)\<lparr>rd_buf := fill (rd_buf (fresh_dir d)) (sys_buf g), rd_current := 0, rd_end := length (sys_buf g)\<rparr>"
  have "0 < length (sys_buf g)" using assms(7) by (simp add: record_bytes_def)
  then have same: "dir_next K (fresh_dir d) k1 = dir_next K ?rd k2"
    by (rule dir_next_refill [rotated 2]) (rule read_dir_exhausted refl assms)+
  have "drop (rd_current ?rd) (take (rd_end ?rd) (rd_buf ?rd)) = record_bytes r @ rest"
    using assms(9) by (simp add: fill_exact flip: assms(7))
  from dir_next_record [OF _ _ this assms(10), of K k2] \<open>0 < length (sys_buf g)\<close> assms(9)
  obtain rd' where dn: "dir_next K (fresh_dir d) k1 = (Ok (Some (fst r), rd'), k2)" using same by simp
  have "listable (fst r)" using assms(10,13) by (simp add: listable_def record_ok_def record_length_def)
  from readdir_entry_cases [of K "fid_path f" "fst r" k2 a k3 "[]" ?room, OF assms(11,12) this] assms(14)
  have "readdir_entry K (fid_path f) ?room [] (fst r) k2 = (Ok None, k3)" by auto
  then have "readdir_loop K (fid_path f) ?room (fresh_dir d) [] k1 = (Ok [], k3)"
    by (simp add: readdir_loop.simps [of K "fid_path f" ?room "fresh_dir d" "[]" k1] readdir_step_def io_bind_def dn
        io_map_apply)
  with run_readdir [of sv m f d K k s k1 "fresh_dir d" ?room, OF assms(1-5) refl refl] show ?thesis by simp
qed

theorem small_count_looks_like_the_end_witness:
  "readdir dir_kernel \<lparr>treaddir_fid = 1, treaddir_offset = 0, treaddir_count = 29\<rparr> (dir_server, 5)
    = (Ok \<lparr>rreaddir_data = []\<rparr>, (dir_server, 1))"
  by (rule small_count_looks_like_the_end [where r = readme_entry and rest = "[]"
      and f = "\<lparr>fid_path = 4, fid_file = Some 9, fid_filetype = Directory\<rparr>" and d = 9 and s = "demo_ret 0"
      and ?k1.0 = 0 and ?k2.0 = 1 and a = "demo_ret 0" and g = "(demo_ret 32)\<lparr>sys_buf := record_bytes readme_entry\<rparr>"])
    (simp_all add: dir_server_def demo_server_def config_default_def MAX_MESSAGE_SIZE_def min_def dir_kernel_def
      readme_ok readme_length DIR_BUF_SIZE_def, simp_all add: readme_entry_def ascii_def)

theorem listing_is_whole_entries_witness:
  "\<exists>k2 r. readdir dir_kernel \<lparr>treaddir_fid = 1, treaddir_offset = 0, treaddir_count = 100\<rparr> (dir_server, 5)
      = (Ok r, (dir_server, k2))
    \<and> (\<exists>es. decode_elems wire_Dirent (length es) (rreaddir_data r) = (Ok es, []))"
proof -
  obtain r k2 where "readdir dir_kernel \<lparr>treaddir_fid = 1, treaddir_offset = 0, treaddir_count = 100\<rparr> (dir_server, 5)
      = (Ok r, (dir_server, k2))"
    using readdir_prefix [OF readme_read refl] by blast
  with listing_is_whole_entries [OF this] show ?thesis by blast
qed

end
