(* ===== verification/Plain_Requests.thy ===== *)
theory Plain_Requests
  imports Fid_Properties Program_Properties Handler_Runs
begin

text \<open>
  The requests that amount to one system call: an abstract table of the call that each stands
  for and of what its reply says, the proof that the handlers do exactly that, and what a client
  gets back of the data it writes.
\<close>

subsection \<open>The table\<close>

definition path_of :: "server \<Rightarrow> u32 \<Rightarrow> fd" where
  "path_of sv n = fid_path (the (bt_get (srv_fids sv) n))"

definition file_of :: "server \<Rightarrow> u32 \<Rightarrow> fd" where
  "file_of sv n = the (fid_file (the (bt_get (srv_fids sv) n)))"

text \<open>The room a read has: what is asked for, but no more than fits a message with its 11 bytes of header.\<close>

definition room :: "server \<Rightarrow> u32 \<Rightarrow> nat" where
  "room sv wanted = min (unat (cfg_msize (srv_cfg sv)) - 11) (unat wanted)"

text \<open>The bytes a call has put at the start of a zeroed buffer.\<close>

definition delivered :: "nat \<Rightarrow> sysret \<Rightarrow> u8 list" where
  "delivered n r = take (nat (sys_res r)) (fill (replicate n 0) (sys_buf r))"

fun plain_call :: "server \<Rightarrow> Tmessage \<Rightarrow> syscall option" where
  "plain_call sv (Tmessage.Read m) =
     Some (Pread (file_of sv (tread_fid m)) (room sv (tread_count m)) (tread_offset m))"
| "plain_call sv (Tmessage.Write m) = Some (Pwrite (file_of sv (twrite_fid m)) (twrite_data m) (twrite_offset m))"
| "plain_call sv (Tmessage.Statfs m) = Some (Fstatfs (path_of sv (tstatfs_fid m)))"
| "plain_call sv (Tmessage.Readlink m) = Some (Readlinkat (path_of sv (treadlink_fid m)) [] PATH_MAX)"
| "plain_call sv (Tmessage.GetAttr m) =
     Some (Fstatat (path_of sv (tgetattr_fid m)) [] (AT_EMPTY_PATH OR AT_SYMLINK_NOFOLLOW))"
| "plain_call sv (Tmessage.Fsync m) =
     Some ((if tfsync_datasync m = 0 then syscall.Fsync else Fdatasync) (file_of sv (tfsync_fid m)))"
| "plain_call sv (Tmessage.Lock m) = Some (Fstat (file_of sv (tlock_fid m)))"
| "plain_call sv (Tmessage.GetLock m) = Some (Fstat (file_of sv (tgetlock_fid m)))"
| "plain_call sv (Tmessage.Link m) =
     Some (Linkat (srv_proc sv) (ascii ''self/fd/'' @ int_digits (path_of sv (tlink_fid m)))
       (path_of sv (tlink_dfid m)) (tlink_name m) AT_SYMLINK_FOLLOW)"
| "plain_call sv (Tmessage.RenameAt m) =
     Some (Renameat (path_of sv (trenameat_olddirfid m)) (trenameat_oldname m)
       (path_of sv (trenameat_newdirfid m)) (trenameat_newname m))"
| "plain_call sv (Tmessage.UnlinkAt m) =
     Some (Unlinkat (path_of sv (tunlinkat_dirfd m)) (tunlinkat_name m) (tunlinkat_flags m))"
| "plain_call sv m = None"

definition attributes :: "server \<Rightarrow> stat64 \<Rightarrow> Rgetattr" where
  "attributes sv st = \<lparr>rgetattr_valid = P9_GETATTR_BASIC, rgetattr_qid = qid_from st,
     rgetattr_mode = st_mode st, rgetattr_uid = map_id_from_host (cfg_uid_map (srv_cfg sv)) (st_uid st),
     rgetattr_gid = map_id_from_host (cfg_gid_map (srv_cfg sv)) (st_gid st),
     rgetattr_nlink = st_nlink st, rgetattr_rdev = st_rdev st, rgetattr_size = st_size st,
     rgetattr_blksize = st_blksize st, rgetattr_blocks = st_blocks st,
     rgetattr_atime_sec = st_atime st, rgetattr_atime_nsec = st_atime_nsec st,
     rgetattr_mtime_sec = st_mtime st, rgetattr_mtime_nsec = st_mtime_nsec st,
     rgetattr_ctime_sec = st_ctime st, rgetattr_ctime_nsec = st_ctime_nsec st,
     rgetattr_btime_sec = 0, rgetattr_btime_nsec = 0, rgetattr_gen = 0, rgetattr_data_version = 0\<rparr>"

fun plain_reply :: "server \<Rightarrow> Tmessage \<Rightarrow> sysret \<Rightarrow> Rmessage" where
  "plain_reply sv (Tmessage.Read m) r = Rmessage.Read \<lparr>rread_data = delivered (room sv (tread_count m)) r\<rparr>"
| "plain_reply sv (Tmessage.Write m) r = Rmessage.Write \<lparr>rwrite_count = of_int (sys_res r)\<rparr>"
| "plain_reply sv (Tmessage.Statfs m) r = Rmessage.Statfs (let out = sys_statfs r in
     \<lparr>rstatfs_ty = ucast (f_type out), rstatfs_bsize = ucast (f_bsize out), rstatfs_blocks = f_blocks out,
      rstatfs_bfree = f_bfree out, rstatfs_bavail = f_bavail out, rstatfs_files = f_files out,
      rstatfs_ffree = f_ffree out,
      rstatfs_fsid = ucast (f_fsid_0 out) OR push_bit 32 (ucast (f_fsid_1 out)),
      rstatfs_namelen = ucast (f_namelen out)\<rparr>)"
| "plain_reply sv (Tmessage.Readlink m) r =
     (if utf8_valid (delivered PATH_MAX r) then Rmessage.Readlink \<lparr>rreadlink_target = delivered PATH_MAX r\<rparr>
      else error_to_rmessage (Kinded InvalidData))"
| "plain_reply sv (Tmessage.GetAttr m) r = Rmessage.GetAttr (attributes sv (sys_stat r))"
| "plain_reply sv (Tmessage.Fsync m) r = Rmessage.Fsync"
| "plain_reply sv (Tmessage.Lock m) r = Rmessage.Lock \<lparr>rlock_status = P9_LOCK_SUCCESS\<rparr>"
| "plain_reply sv (Tmessage.GetLock m) r = Rmessage.GetLock
     \<lparr>rgetlock_type = P9_LOCK_TYPE_UNLCK, rgetlock_start = tgetlock_start m, rgetlock_length = tgetlock_length m,
      rgetlock_proc_id = tgetlock_proc_id m, rgetlock_client_id = tgetlock_client_id m\<rparr>"
| "plain_reply sv (Tmessage.Link m) r = Rmessage.Link"
| "plain_reply sv (Tmessage.RenameAt m) r = Rmessage.RenameAt"
| "plain_reply sv (Tmessage.UnlinkAt m) r = Rmessage.UnlinkAt"
| "plain_reply sv m r = error_to_rmessage (Os EOPNOTSUPP)"

subsection \<open>The handlers do what the table says\<close>

lemma room_word:
  "msize_ok sv \<Longrightarrow> unat (min (cfg_msize (srv_cfg sv) - 11) wanted) = room sv wanted"
  using msize_ok_7 [of sv]
  by (auto simp: room_def msize_ok_def MIN_MESSAGE_SIZE_def min_def word_le_nat_alt unat_sub)

lemma respond_plain:
  assumes "refusal sv m = None" and "plain_call sv m = Some c" and "msize_ok sv" and "K c k = (r, k')"
  shows "respond K (Ok m) (sv, k) = (Ok (if sys_res r < 0 then error_to_rmessage (Os (sys_errno r))
    else plain_reply sv m r), (sv, k'))"
  using assms room_word [OF assms(3)]
  by (cases m) (auto simp: respond_def io_apply io_map_apply io_return_apply io_throw_apply io_result_apply
      read_op_def write_op_def statfs_def readlink_def get_attr_def fsync_def lock_def get_lock_def
      link_op_def rename_at_def unlink_at_def get_fid_def get_file_def get_server_def ok_or_def on_kernel_def
      syscall_def stat_def statat_def data_header_size has_fid_def has_file_def path_of_def file_of_def Let_def
      attributes_def delivered_def string_from_utf8_def proc_path cstring_of_ok
      split: if_splits option.splits)

subsection \<open>A file that keeps what is written\<close>

text \<open>
  What POSIX says of a regular file that nobody else writes: after a write that took some of the
  bytes, as many bytes read from the same offset are those.
\<close>

definition keeps_data :: "'k kernel \<Rightarrow> fd \<Rightarrow> bool" where
  "keeps_data K d = (\<forall>bs off k r k'. K (Pwrite d bs off) k = (r, k') \<and> 0 < sys_res r \<and> nat (sys_res r) \<le> length bs
     \<longrightarrow> (\<exists>r2. fst (K (Pread d (nat (sys_res r)) off) k') = r2 \<and> sys_res r2 = sys_res r
       \<and> sys_buf r2 = take (nat (sys_res r)) bs))"

text \<open>One file in memory, with the bytes as the kernel's state; every other call answers 0.\<close>

definition memory_file :: "u8 list kernel" where
  "memory_file c k = (case c of
     Pwrite d bs off \<Rightarrow> let at = unat off; padded = k @ replicate (at - length k) 0 in
       (demo_ret (int (length bs)), take at padded @ bs @ drop (at + length bs) k)
   | Pread d n off \<Rightarrow> let bs = take n (drop (unat off) k) in
       ((demo_ret (int (length bs)))\<lparr>sys_buf := bs\<rparr>, k)
   | _ \<Rightarrow> (demo_ret 0, k))"

lemma memory_file_keeps_data: "keeps_data memory_file d"
  by (auto simp: keeps_data_def memory_file_def Let_def demo_ret_def)

lemma delivered_all: "sys_res r = int n \<Longrightarrow> length (sys_buf r) = n \<Longrightarrow> n \<le> m \<Longrightarrow> delivered m r = sys_buf r"
  using fill_exact [of "sys_buf r" "replicate m 0"] by (simp add: delivered_def)

subsection \<open>Properties\<close>

text \<open>
  Property C12.  A request for data or attributes, of a link, a renaming or a removal, that is not
  refused outright is exactly one system call, on the fid's own descriptors and with the client's
  names and numbers, whatever the kernel: its error is the reply, or its answer is, read as the
  protocol wants it; the server stays as it was.
\<close>

theorem plain_requests_are_one_system_call:
  assumes "refusal sv m = None" and "plain_call sv m = Some c" and "msize_ok sv"
  shows "respond K (Ok m) (sv, k) = (case K c k of (r, k') \<Rightarrow>
    (Ok (if sys_res r < 0 then Rmessage.Lerror \<lparr>rlerror_ecode = of_int (sys_errno r)\<rparr> else plain_reply sv m r),
     (sv, k')))"
  using respond_plain [OF assms, of K k "fst (K c k)" "snd (K c k)"]
  by (simp add: error_to_rmessage_def split: prod.split)

theorem plain_requests_are_one_system_call_witness:
  "respond (refusing_kernel 13) (Ok (Tmessage.UnlinkAt \<lparr>tunlinkat_dirfd = 1, tunlinkat_name = [97], tunlinkat_flags = 0\<rparr>))
    (demo_server, 5) = (Ok (Rmessage.Lerror \<lparr>rlerror_ecode = 13\<rparr>), (demo_server, 5))"
proof -
  let ?m = "Tmessage.UnlinkAt \<lparr>tunlinkat_dirfd = 1, tunlinkat_name = [97], tunlinkat_flags = 0\<rparr>"
  have "refusal demo_server ?m = None" "plain_call demo_server ?m = Some (Unlinkat 4 [97] 0)" "msize_ok demo_server"
    by (simp_all add: has_fid_def path_of_def cstring_ok_def demo_server_def msize_ok_def config_default_def
        MIN_MESSAGE_SIZE_def MAX_MESSAGE_SIZE_def)
  from plain_requests_are_one_system_call [OF this, of "refusing_kernel 13" 5] show ?thesis by simp
qed

text \<open>
  Property C13.  What a client writes it reads back: on a file that keeps its data, a write that
  fits a message followed by a read, at the same offset, of as many bytes as its reply says were
  written, both as bytes on the wire, is answered with that number and with those bytes.
\<close>

theorem written_data_is_read_back:
  assumes "bt_get (srv_fids sv) n = Some f" and "fid_file f = Some d" and "keeps_data K d" and "msize_ok sv"
    and "23 + length bs \<le> unat (cfg_msize (srv_cfg sv))"
    and "K (Pwrite d bs off) k = (r, k')" and "sys_res r = int c" and "0 < c" and "c \<le> length bs"
  shows "\<exists>k''. main_loop K
      \<lparr>ses_in = request_bytes (t, Tmessage.Write \<lparr>twrite_fid = n, twrite_offset = off, twrite_data = bs\<rparr>)
         @ request_bytes (u, Tmessage.Read \<lparr>tread_fid = n, tread_offset = off, tread_count = of_nat c\<rparr>),
       ses_out = [], ses_server = sv, ses_kernel = k\<rparr>
    = (Exit EX_OK, \<lparr>ses_in = [],
       ses_out = reply_bytes_of (t, Rmessage.Write \<lparr>rwrite_count = of_nat c\<rparr>)
         @ reply_bytes_of (u, Rmessage.Read \<lparr>rread_data = take c bs\<rparr>),
       ses_server = sv, ses_kernel = k''\<rparr>)"
proof -
  let ?w = "Tmessage.Write \<lparr>twrite_fid = n, twrite_offset = off, twrite_data = bs\<rparr>"
  let ?q = "Tmessage.Read \<lparr>tread_fid = n, tread_offset = off, tread_count = of_nat c\<rparr>"
  let ?size = "unat (cfg_msize (srv_cfg sv))"
  have size: "?size \<le> 65560" using assms(4) by (simp add: msize_ok_def MAX_MESSAGE_SIZE_def word_le_nat_alt)
  have c: "unat (of_nat c :: u32) = c" using assms(5,9) size by (intro unat_of_nat_u32) linarith
  have has: "has_file sv n" "file_of sv n = d" using assms(1,2) by (simp_all add: has_file_def file_of_def)
  have room: "room sv (of_nat c) = c" using assms(5,9) by (simp add: room_def c)
  obtain r2 k'' where r2: "K (Pread d c off) k' = (r2, k'')" "sys_res r2 = int c" "sys_buf r2 = take c bs"
    using assms(3,6-9) unfolding keeps_data_def by (metis nat_int of_nat_0_less_iff prod.collapse)
  have "respond K (Ok ?w) (sv, k) = (Ok (Rmessage.Write \<lparr>rwrite_count = of_nat c\<rparr>), (sv, k'))"
    using respond_plain [of sv ?w "Pwrite d bs off" K k r k'] has assms(4,6,7) by simp
  moreover have "respond K (Ok ?q) (sv, k') = (Ok (Rmessage.Read \<lparr>rread_data = take c bs\<rparr>), (sv, k''))"
    using respond_plain [of sv ?q "Pread d c off" K k' r2 k''] has room assms(4,9) r2
      delivered_all [of r2 c c] by simp
  moreover have "wf_tmsg ?w" "wf_tmsg ?q"
    using assms(5) size by (simp_all add: wf_Twrite_def wf_Tread_def wf_data_def MAX_DATA_LENGTH_nat)
  moreover have "7 + length (tmsg_bytes ?w) \<le> ?size" "7 + length (tmsg_bytes ?q) \<le> ?size"
    using assms(5,8,9) by (simp_all add: bytes_Twrite_def bytes_Tread_def data_bytes_def)
  ultimately have "serve K [(t, ?w), (u, ?q)] (sv, k) = Some ([(t, Rmessage.Write \<lparr>rwrite_count = of_nat c\<rparr>),
      (u, Rmessage.Read \<lparr>rread_data = take c bs\<rparr>)], (sv, k''))"
    by simp
  from main_loop_serve [OF this, of "[]"] assms(4) show ?thesis by auto
qed

theorem written_data_is_read_back_witness:
  "\<exists>k. main_loop memory_file
      \<lparr>ses_in = request_bytes (7, Tmessage.Write \<lparr>twrite_fid = 1, twrite_offset = 2, twrite_data = [104, 105]\<rparr>)
         @ request_bytes (8, Tmessage.Read \<lparr>tread_fid = 1, tread_offset = 2, tread_count = 2\<rparr>),
       ses_out = [], ses_server = demo_server\<lparr>srv_fids := [(1, \<lparr>fid_path = 4, fid_file = Some 5, fid_filetype = Regular\<rparr>)]\<rparr>,
       ses_kernel = [1]\<rparr>
    = (Exit EX_OK, \<lparr>ses_in = [],
       ses_out = reply_bytes_of (7, Rmessage.Write \<lparr>rwrite_count = 2\<rparr>)
         @ reply_bytes_of (8, Rmessage.Read \<lparr>rread_data = [104, 105]\<rparr>),
       ses_server = demo_server\<lparr>srv_fids := [(1, \<lparr>fid_path = 4, fid_file = Some 5, fid_filetype = Regular\<rparr>)]\<rparr>,
       ses_kernel = k\<rparr>)"
proof -
  let ?sv = "demo_server\<lparr>srv_fids := [(1, \<lparr>fid_path = 4, fid_file = Some 5, fid_filetype = Regular\<rparr>)]\<rparr>"
  have sizes: "msize_ok ?sv" "23 + length [104, 105 :: u8] \<le> unat (cfg_msize (srv_cfg ?sv))"
    by (simp_all add: demo_server_def msize_ok_def config_default_def MIN_MESSAGE_SIZE_def MAX_MESSAGE_SIZE_def)
  have wrote: "memory_file (Pwrite 5 [104, 105] 2) [1] = (demo_ret 2, [1, 0, 104, 105])"
    by (simp add: memory_file_def)
  show ?thesis
    using written_data_is_read_back [OF _ _ memory_file_keeps_data sizes wrote, of 1
        "\<lparr>fid_path = 4, fid_file = Some 5, fid_filetype = Regular\<rparr>" 2 7 8] by simp
qed

end
