(* ===== verification/Conversations.thy ===== *)
theory Conversations
  imports Program_Properties Handler_Runs
begin

text \<open>
  What goes over the wire in a session: the exchanges of requests and replies, and the reply
  stream as a client reads it.
\<close>

subsection \<open>The reply stream as a client reads it\<close>

lemma rframe_decode_shrinks:
  assumes "rframe_decode inp = (Ok f, rest)"
  shows "length rest < length inp"
proof -
  from assms obtain n :: u32 and s t where i: "inp = uint_bytes n @ s"
    and t: "reader_take (unat (n - 4)) (io_bind (read_exact 1) (\<lambda>ty. io_bind uint_decode (\<lambda>tag.
      io_bind (decode_reply (ty ! 0)) (\<lambda>msg. io_return \<lparr>rframe_tag = tag, rframe_msg = msg\<rparr>)))) s = (Ok f, rest)"
    by (auto simp: rframe_decode_def io_bind_eq_Ok u32_uint_decode_Ok)
  have "reader_ok (reader_take (unat (n - 4)) (io_bind (read_exact 1) (\<lambda>ty. io_bind uint_decode (\<lambda>tag.
      io_bind (decode_reply (ty ! 0)) (\<lambda>msg. io_return \<lparr>rframe_tag = tag, rframe_msg = msg\<rparr>)))))"
    by (intro reader_intros)
  from reader_ok_shrinks [OF this t] i show ?thesis by simp
qed

text \<open>Frames are decoded as long as there are any; what does not decode is left.\<close>

function replies_in :: "u8 list \<Rightarrow> (u16 \<times> Rmessage) list \<times> u8 list" where
  "replies_in bs = (case rframe_decode bs of
     (Ok f, rest) \<Rightarrow> (case replies_in rest of (rs, left) \<Rightarrow> ((rframe_tag f, rframe_msg f) # rs, left))
   | _ \<Rightarrow> ([], bs))"
  by pat_completeness auto

termination
  by (relation "measure length") (auto intro: rframe_decode_shrinks [OF sym])

declare replies_in.simps [simp del]

lemma reply_size:
  assumes "wf_rmsg r"
  shows "7 + length (rmsg_bytes r) < 2 ^ 32"
proof (cases r)
  case (Walk q)
  then have "length (concat (map bytes_Qid (rwalk_wqids q))) = 13 * length (rwalk_wqids q)"
    by (induction "rwalk_wqids q") (simp_all add: length_concat length_bytes_Qid sum_list_triv comp_def)
  with assms Walk show ?thesis by (simp add: reply_wf reply_bytes vec_bytes_def wf_Rwalk_def bytes_Rwalk_def wf_vec_def)
qed (use assms in \<open>auto simp: reply_wf reply_bytes wf_string_def string_bytes_def wf_data_def data_bytes_def
    MAX_DATA_LENGTH_nat wf_Rread_def bytes_Rread_def bytes_Rauth_def bytes_Rsymlink_def bytes_Rmknod_def wf_Rreadlink_def
    bytes_Rreadlink_def bytes_Rxattrwalk_def wf_Rreaddir_def bytes_Rreaddir_def wf_Rgetlock_def bytes_Rgetlock_def
    bytes_Rlerror_def\<close>)

lemma replies_in_empty: "replies_in [] = ([], [])"
  by (simp add: replies_in.simps rframe_decode_def io_apply uint_decode_def read_exact_def)

lemma replies_in_frame:
  assumes "wf_rmsg r" and "replies_in rest = (rs, left)"
  shows "replies_in (frame_bytes (rmsg_type r) tag (rmsg_bytes r) @ rest) = ((tag, r) # rs, left)"
  by (subst replies_in.simps) (simp add: rframe_decode_bytes [OF assms(1) reply_size [OF assms(1)]] assms(2))

subsection \<open>Exchanges\<close>

text \<open>An exchange: the tag, the request as it was decoded, and the reply.\<close>

type_synonym exchange = "u16 \<times> Tmessage io_result \<times> Rmessage"

definition reply_of :: "exchange \<Rightarrow> u16 \<times> Rmessage" where
  "reply_of e = (fst e, snd (snd e))"

text \<open>The reply has the type that answers the request, or is an error.\<close>

definition answers :: "exchange \<Rightarrow> bool" where
  "answers e = (wf_rmsg (snd (snd e)) \<and> (rmsg_type (snd (snd e)) = RLERROR
     \<or> (\<exists>m. fst (snd e) = Ok m \<and> rmsg_type (snd (snd e)) = tmsg_type m + 1)))"

text \<open>
  The exchanges of a session from one state to another: each request is decoded from the bytes
  after the one before, within the message size of its moment.
\<close>

inductive exchanges :: "'k kernel \<Rightarrow> 'k session \<Rightarrow> exchange list \<Rightarrow> 'k session \<Rightarrow> bool" for K where
  quiet: "exchanges K s [] s"
| exchange: "reader_take (unat (cfg_msize (srv_cfg (ses_server s)))) tframe_decode (ses_in s) = (Ok f, left) \<Longrightarrow>
    respond K (tframe_msg f) (ses_server s, ses_kernel s) = (Ok r, (sv, k)) \<Longrightarrow>
    exchanges K \<lparr>ses_in = left, ses_out = ses_out s @ frame_bytes (rmsg_type r) (tframe_tag f) (rmsg_bytes r),
      ses_server = sv, ses_kernel = k\<rparr> es t \<Longrightarrow>
    exchanges K s ((tframe_tag f, tframe_msg f, r) # es) t"

inductive_cases exchanges_NilE: "exchanges K s [] t"
inductive_cases exchanges_ConsE: "exchanges K s (e # es) t"

lemma exchange_answers:
  assumes "reader_take (unat (cfg_msize (srv_cfg sv))) tframe_decode inp = (Ok f, left)"
    and "msize_ok sv" and "respond K (tframe_msg f) (sv, k) = (Ok r, w)"
  shows "answers (tag, tframe_msg f, r)"
proof -
  from assms(2) have "MIN_MESSAGE_SIZE \<le> cfg_msize (srv_cfg sv)" "cfg_msize (srv_cfg sv) \<le> MAX_MESSAGE_SIZE"
    by (simp_all add: msize_ok_def)
  from wp_Ok_D [OF respond_reply [OF assms(1) this] assms(3)] show ?thesis
    by (auto simp: answers_def error_reply good_reply_def)
qed

text \<open>The output of a sequence of exchanges, and what a client reads from it.\<close>

lemma exchanges_replies:
  assumes "exchanges K s es t" and "msize_ok (ses_server s)"
  shows "list_all answers es \<and> msize_ok (ses_server t)
    \<and> (\<exists>out. ses_out t = ses_out s @ out \<and> replies_in out = (map reply_of es, []))"
  using assms
proof (induction rule: exchanges.induct)
  case (exchange s f left r sv k es t)
  have good: "answers (tframe_tag f, tframe_msg f, r)"
    by (rule exchange_answers [OF exchange.hyps(1) exchange.prems exchange.hyps(2)])
  have "msize_ok sv"
    using handle_message_world_kept [OF exchange.hyps(2)] msize_ok_kept [OF _ exchange.prems] by simp
  with exchange.IH obtain out where "list_all answers es" "msize_ok (ses_server t)"
    "ses_out t = (ses_out s @ frame_bytes (rmsg_type r) (tframe_tag f) (rmsg_bytes r)) @ out"
    "replies_in out = (map reply_of es, [])" by auto
  moreover have "wf_rmsg r" using good by (simp add: answers_def)
  ultimately show ?case using good
    by (auto simp: reply_of_def intro!: replies_in_frame
        exI [of _ "frame_bytes (rmsg_type r) (tframe_tag f) (rmsg_bytes r) @ out"])
qed (simp add: replies_in_empty)

text \<open>A run of the main loop is a sequence of exchanges, and a last round that fails.\<close>

lemma handle_message_cases:
  assumes "handle_message K s = (r, s')" and "msize_ok (ses_server s)"
  obtains f left q sv k where "r = Ok ()"
      and "reader_take (unat (cfg_msize (srv_cfg (ses_server s)))) tframe_decode (ses_in s) = (Ok f, left)"
      and "respond K (tframe_msg f) (ses_server s, ses_kernel s) = (Ok q, (sv, k))"
      and "s' = \<lparr>ses_in = left, ses_out = ses_out s @ frame_bytes (rmsg_type q) (tframe_tag f) (rmsg_bytes q),
        ses_server = sv, ses_kernel = k\<rparr>"
  | "r \<noteq> Ok ()" and "ses_out s' = ses_out s"
proof (cases "reader_take (unat (cfg_msize (srv_cfg (ses_server s)))) tframe_decode (ses_in s)")
  case (Pair x left)
  show thesis
  proof (cases x)
    case (Ok f)
    note taken = Pair [unfolded Ok]
    obtain q w where q: "respond K (tframe_msg f) (ses_server s, ses_kernel s) = (q, w)"
      by (cases "respond K (tframe_msg f) (ses_server s, ses_kernel s)")
    obtain sv k where w: "w = (sv, k)" by (cases w)
    show thesis
    proof (cases q)
      case (Ok rmsg)
      have "wf_rmsg rmsg"
        using exchange_answers [OF taken assms(2) q [unfolded Ok]] by (simp add: answers_def)
      with assms(1) taken q Ok w that(1) [OF _ taken q [unfolded Ok w]] show thesis
        by (simp add: handle_message_def rframe_encode_bytes)
    qed (use assms(1) taken q w that(2) in \<open>auto simp: handle_message_def\<close>)
  qed (use assms(1) Pair that(2) in \<open>auto simp: handle_message_def\<close>)
qed

lemma main_loop_exchanges:
  "msize_ok (ses_server s) \<Longrightarrow> main_loop K s = (oc, u) \<Longrightarrow>
    \<exists>es t. exchanges K s es t \<and> ses_out u = ses_out t"
proof (induction K s rule: main_loop.induct)
  case (1 K s)
  obtain r s' where h: "handle_message K s = (r, s')" by (cases "handle_message K s")
  from h "1.prems"(1) show ?case
  proof (cases rule: handle_message_cases)
    case (1 f left q sv k)
    have "msize_ok (ses_server s')"
      using handle_message_kept [of s K] h msize_ok_kept [OF _ "1.prems"(1)] by simp
    moreover have "main_loop K s' = (oc, u)"
      using "1.prems"(2) h \<open>r = Ok ()\<close> by (simp add: main_loop.simps [of K s])
    ultimately obtain es t where "exchanges K s' es t" "ses_out u = ses_out t"
      using "1.IH" [OF h [symmetric] \<open>r = Ok ()\<close>] by blast
    with 1 show ?thesis by (auto intro: exchanges.exchange)
  next
    case 2
    then have "ses_out u = ses_out s" using "1.prems"(2) h
      by (subst (asm) main_loop.simps) (auto split: io_result.splits)
    then show ?thesis by (blast intro: exchanges.quiet)
  qed
qed

text \<open>
  Property C4.  Whatever bytes the client sends and whatever the kernel answers: the bytes a
  session sends are well-formed reply frames, which a client decodes one after the other with
  nothing left over, one for each request that was decoded, in order, under its tag, each of the
  type that answers its request or an error.
\<close>

theorem session_output_is_well_typed:
  assumes "msize_ok (ses_server s)" and "ses_out s = []"
  shows "\<exists>es t. exchanges K s es t \<and> list_all answers es
    \<and> replies_in (ses_out (snd (main_loop K s))) = (map reply_of es, [])"
proof -
  obtain oc u where u: "main_loop K s = (oc, u)" by (cases "main_loop K s")
  from main_loop_exchanges [OF assms(1) u] obtain es t where es: "exchanges K s es t" "ses_out u = ses_out t" by blast
  with exchanges_replies [OF es(1) assms(1)] u assms(2) show ?thesis by (intro exI [of _ es] exI [of _ t]) auto
qed

theorem session_output_is_well_typed_witness:
  "\<exists>es t. exchanges demo_kernel sample es t \<and> list_all answers es
    \<and> replies_in (ses_out (snd (main_loop demo_kernel sample))) = (map reply_of es, [])"
  by (rule session_output_is_well_typed)
    (use sample_sizes in \<open>simp_all add: msize_ok_def sample_def\<close>)

end
