(* ===== verification/Fid_Protocol.thy ===== *)
theory Fid_Protocol
  imports Fid_Properties Conversations No_Panics
begin

text \<open>
  The life of a fid as the 9P protocol describes it, as an abstract transition system, and the
  refinement: what the server does to its table of fids in a session is a run of that system.
  The abstract state forgets descriptors and keeps, per fid, whether it is a file, a directory or
  something else, and whether it is open.
\<close>

subsection \<open>The protocol\<close>

type_synonym fid_table = "u32 \<Rightarrow> (file_type \<times> bool) option"

abbreviation present :: "fid_table \<Rightarrow> u32 \<Rightarrow> bool" where
  "present T n \<equiv> T n \<noteq> None"

abbreviation opened :: "fid_table \<Rightarrow> u32 \<Rightarrow> bool" where
  "opened T n \<equiv> (\<exists>ty. T n = Some (ty, True))"

abbreviation directory :: "fid_table \<Rightarrow> u32 \<Rightarrow> bool" where
  "directory T n \<equiv> (\<exists>b. T n = Some (Directory, b))"

text \<open>The requests the table does not forbid: all others are answered with an error.\<close>

fun permits :: "fid_table \<Rightarrow> Tmessage \<Rightarrow> bool" where
  "permits T (Tmessage.Version m) = True"
| "permits T (Tmessage.Flush m) = True"
| "permits T (Tmessage.Attach m) = (\<not> present T (tattach_fid m))"
| "permits T (Tmessage.Walk m) = (present T (twalk_fid m)
     \<and> (twalk_newfid m = twalk_fid m \<or> \<not> present T (twalk_newfid m)))"
| "permits T (Tmessage.Clunk m) = present T (tclunk_fid m)"
| "permits T (Tmessage.Lopen m) = present T (tlopen_fid m)"
| "permits T (Tmessage.Lcreate m) = directory T (tlcreate_fid m)"
| "permits T (Tmessage.Read m) = opened T (tread_fid m)"
| "permits T (Tmessage.Write m) = opened T (twrite_fid m)"
| "permits T (Tmessage.Readdir m) = (directory T (treaddir_fid m) \<and> opened T (treaddir_fid m))"
| "permits T (Tmessage.Fsync m) = opened T (tfsync_fid m)"
| "permits T (Tmessage.Lock m) = opened T (tlock_fid m)"
| "permits T (Tmessage.GetLock m) = opened T (tgetlock_fid m)"
| "permits T (Tmessage.Statfs m) = present T (tstatfs_fid m)"
| "permits T (Tmessage.Readlink m) = present T (treadlink_fid m)"
| "permits T (Tmessage.GetAttr m) = present T (tgetattr_fid m)"
| "permits T (Tmessage.SetAttr m) = present T (tsetattr_fid m)"
| "permits T (Tmessage.Link m) = (present T (tlink_fid m) \<and> present T (tlink_dfid m))"
| "permits T (Tmessage.Mkdir m) = present T (tmkdir_dfid m)"
| "permits T (Tmessage.RenameAt m) = (present T (trenameat_olddirfid m) \<and> present T (trenameat_newdirfid m))"
| "permits T (Tmessage.UnlinkAt m) = present T (tunlinkat_dirfd m)"
| "permits T _ = False"

text \<open>
  One step: a request, its reply, the table before and after.  Walking to no name makes a second
  fid for the same place.  The last rule is a weakness of the server: a failed creation can
  leave the fid open on the new file.
\<close>

inductive fid_step :: "Tmessage \<Rightarrow> Rmessage \<Rightarrow> fid_table \<Rightarrow> fid_table \<Rightarrow> bool" where
  denied: "fid_step m (Lerror e) T T"
| reset: "fid_step (Tmessage.Version m) (Rmessage.Version r) T Map.empty"
| attached: "permits T (Tmessage.Attach m) \<Longrightarrow> (ty = Directory) = (qid_ty (rattach_qid r) = P9_QTDIR) \<Longrightarrow>
    fid_step (Tmessage.Attach m) (Rmessage.Attach r) T (T(tattach_fid m \<mapsto> (ty, False)))"
| moved: "permits T (Tmessage.Walk m) \<Longrightarrow> length (rwalk_wqids r) = length (twalk_wnames m) \<Longrightarrow>
    (rwalk_wqids r \<noteq> [] \<longrightarrow> (ty = Directory) = (qid_ty (last (rwalk_wqids r)) = P9_QTDIR)) \<Longrightarrow>
    fid_step (Tmessage.Walk m) (Rmessage.Walk r) T (T(twalk_newfid m \<mapsto> (ty, False)))"
| stuck: "permits T (Tmessage.Walk m) \<Longrightarrow> 0 < length (rwalk_wqids r) \<Longrightarrow>
    length (rwalk_wqids r) < length (twalk_wnames m) \<Longrightarrow>
    fid_step (Tmessage.Walk m) (Rmessage.Walk r) T T"
| clunked: "permits T (Tmessage.Clunk m) \<Longrightarrow>
    fid_step (Tmessage.Clunk m) Rmessage.Clunk T (T(tclunk_fid m := None))"
| file_opened: "T (tlopen_fid m) = Some (ty, b) \<Longrightarrow>
    fid_step (Tmessage.Lopen m) (Rmessage.Lopen r) T (T(tlopen_fid m \<mapsto> (ty, True)))"
| created: "permits T (Tmessage.Lcreate m) \<Longrightarrow>
    fid_step (Tmessage.Lcreate m) (Rmessage.Lcreate r) T (T(tlcreate_fid m \<mapsto> (Regular, True)))"
| used: "permits T m \<Longrightarrow> changeable m = {} \<Longrightarrow> rmsg_type r = tmsg_type m + 1 \<Longrightarrow> fid_step m r T T"
| half_created: "permits T (Tmessage.Lcreate m) \<Longrightarrow>
    fid_step (Tmessage.Lcreate m) (Lerror e) T (T(tlcreate_fid m \<mapsto> (Regular, True)))"

inductive_cases fid_step_WalkE: "fid_step (Tmessage.Walk m) r T T'"
inductive_cases fid_step_LerrorE: "fid_step m (Lerror e) T T'"

text \<open>A sequence of exchanges; a request that did not decode changes nothing.\<close>

inductive fid_run :: "fid_table \<Rightarrow> exchange list \<Rightarrow> fid_table \<Rightarrow> bool" where
  silent: "fid_run T [] T"
| stepped: "fid_step m r T U \<Longrightarrow> fid_run U es V \<Longrightarrow> fid_run T ((tag, Ok m, r) # es) V"
| garbled: "fid_run T es V \<Longrightarrow> fid_run T ((tag, Err e, Lerror d) # es) V"

subsection \<open>The table of the server\<close>

definition fid_view :: "fid \<Rightarrow> file_type \<times> bool" where
  "fid_view f = (fid_filetype f, fid_file f \<noteq> None)"

definition table :: "server \<Rightarrow> fid_table" where
  "table sv = (\<lambda>n. map_option fid_view (bt_get (srv_fids sv) n))"

lemma table_simps:
  "(table sv n = None) = (\<not> has_fid sv n)" "opened (table sv) n = has_file sv n"
  "directory (table sv) n = is_directory sv n"
  by (auto simp: table_def fid_view_def has_fid_def has_file_def is_directory_def split: option.split)

lemma table_insert:
  "bt_ok fs \<Longrightarrow> table (sv\<lparr>srv_fids := bt_insert fs n f\<rparr>) = (table (sv\<lparr>srv_fids := fs\<rparr>))(n \<mapsto> fid_view f)"
  by (auto simp: table_def bt.get_insert fun_eq_iff)

lemma table_remove:
  "bt_ok (srv_fids sv) \<Longrightarrow> table (sv\<lparr>srv_fids := bt_remove (srv_fids sv) n\<rparr>) = (table sv)(n := None)"
  by (auto simp: table_def bt.get_remove fun_eq_iff)

lemma table_cfg [simp]: "table (sv\<lparr>srv_cfg := c\<rparr>) = table sv"
  by (simp add: table_def)

text \<open>A request that goes well was not forbidden.\<close>

lemma not_refused: "handle K m (sv, k) = (Ok r, w) \<Longrightarrow> refusal sv m = None"
  using refused [where sv = sv and m = m and K = K and k = k] by (cases "refusal sv m") (auto simp: fails_def)

lemma refusal_permits: "refusal sv m = None \<Longrightarrow> permits (table sv) m"
  by (cases m) (auto simp: table_simps simp del: not_None_eq split: if_splits)

subsection \<open>What each request that stores does to the table\<close>

text \<open>After a normal return the step must be one of the protocol; on an error nothing changed.\<close>

abbreviation simulates :: "Tmessage \<Rightarrow> ('k, 'a) handler \<Rightarrow> ('a \<Rightarrow> Rmessage) \<Rightarrow> server \<times> 'k \<Rightarrow> bool" where
  "simulates m h f w \<equiv> wp h (\<lambda>r v. fid_step m (f r) (table (fst w)) (table (fst v)))
    (\<lambda>_ v. \<forall>e. fid_step m (Lerror e) (table (fst w)) (table (fst v))) (\<lambda>_. True) w"

lemma table_refused: "table sv' = table sv \<Longrightarrow> fid_step m (Lerror e) (table sv) (table sv')"
  by (simp add: fid_step.denied)

lemma wp_insert_table:
  assumes "bt_ok (srv_fids sv)" and "Q ((table sv)(n \<mapsto> fid_view f))"
  shows "wp (insert_fid K n f) (\<lambda>_ v. Q (table (fst v))) E X (sv, k)"
  using wp_insert_any [where Q = "\<lambda>_ v. Q (table v)" and sv = sv and n = n and f = f] assms
  by (simp add: table_insert)

lemma close_all_Ok: "close_all K ds t = (Ok (), snd (close_all K ds t))"
  by (induction ds arbitrary: t) (simp_all add: io_return_apply io_bind_def close_def)

lemma wp_closes: "wp (close_all K ds) Q E X t = Q () (snd (close_all K ds t))"
  by (subst (1) wp_def, subst close_all_Ok) simp

lemma attach_simulates:
  assumes "bt_ok (srv_fids sv)" and "permits (table sv) (Tmessage.Attach m)"
  shows "simulates (Tmessage.Attach m) (attach K m) Rmessage.Attach (sv, k)"
proof -
  have free: "bt_get (srv_fids sv) (tattach_fid m) = None"
    using assms(2) by (simp add: table_def)
  have ins: "simulates (Tmessage.Attach m) (io_bind (insert_fid K (tattach_fid m)
      \<lparr>fid_path = d, fid_file = None, fid_filetype = file_type_from (st_mode st)\<rparr>)
      (\<lambda>_. io_return \<lparr>rattach_qid = qid_from st\<rparr>)) Rmessage.Attach (sv, t)" for d st t
    unfolding wp_bind wp_return fst_conv
    by (rule wp_insert_table [OF assms(1)], simp only: fid_view_def fid.select_convs simp_thms)
      (rule fid_step.attached [OF assms(2)], simp add: qid_directory)
  show ?thesis
    by (auto simp: attach_def handler_step free wp_bind [of "on_kernel a" for a] table_refused
        intro!: wp_kernel_kept ins [unfolded fst_conv] split: option.split)
qed

lemma walk_simulates:
  assumes "bt_ok (srv_fids sv)" and "permits (table sv) (Tmessage.Walk m)"
  shows "simulates (Tmessage.Walk m) (walk K m) Rmessage.Walk (sv, k)"
proof (rule wp_mono [OF walk_outcome], goal_cases)
  case (1 rep w)
  show ?case
  proof (cases "length (rwalk_wqids rep) = length (twalk_wnames m)")
    case True
    with 1 obtain f where f: "fid_file f = None"
        "fst w = sv\<lparr>srv_fids := bt_insert (srv_fids sv) (twalk_newfid m) f\<rparr>"
        "rwalk_wqids rep \<noteq> [] \<longrightarrow> (fid_filetype f = Directory) = (qid_ty (last (rwalk_wqids rep)) = P9_QTDIR)"
      by (auto simp: walked_def)
    have "table (fst w) = (table sv)(twalk_newfid m \<mapsto> (fid_filetype f, False))"
      using f(1,2) assms(1) by (simp add: table_insert fid_view_def)
    with f(3) True assms(2) show ?thesis by (simp only: fst_conv) (rule fid_step.moved, simp_all)
  next
    case False
    with 1 assms(2) show ?thesis by (auto simp: walked_def intro!: fid_step.stuck)
  qed
qed (simp_all add: table_refused)

lemma clunk_simulates:
  assumes "bt_ok (srv_fids sv)" and "permits (table sv) (Tmessage.Clunk m)"
  shows "simulates (Tmessage.Clunk m) (clunk K m) (\<lambda>_. Rmessage.Clunk) (sv, k)"
  using assms fid_step.clunked [OF assms(2)]
  by (auto simp: clunk_def handler_wp table_refused table_remove wp_on_kernel drop_fid_def
      wp_closes split: option.split)

lemma wp_clear_table: "wp (clear_fids K) (\<lambda>_ v. table (fst v) = Map.empty \<and> srv_cfg (fst v) = srv_cfg sv)
    (\<lambda>_ _. False) (\<lambda>_. True) (sv, k)"
  by (simp add: clear_fids_def wp_bind wp_get_server wp_put_fids wp_on_kernel wp_closes table_def bt.get_new)

lemma version_simulates: "simulates (Tmessage.Version m) (version K m) Rmessage.Version (sv, k)"
proof -
  have "wp (io_bind (clear_fids K) (\<lambda>_. io_bind get_server (\<lambda>sv.
       let msize = min (cfg_msize (srv_cfg sv)) (tversion_msize m) in
       io_bind (put_msize msize) (\<lambda>_.
       io_return \<lparr>rversion_msize = msize,
         rversion_version = (if tversion_version m = ascii ''9P2000.L'' then ascii ''9P2000.L''
           else ascii ''unknown'')\<rparr>))))
      (\<lambda>r v. fid_step (Tmessage.Version m) (Rmessage.Version r) (table sv) (table (fst v)))
      (\<lambda>_ v. \<forall>e. fid_step (Tmessage.Version m) (Lerror e) (table sv) (table (fst v))) (\<lambda>_. True) (sv, k)"
    unfolding wp_bind
  proof (rule wp_mono [OF wp_clear_table], goal_cases)
    case (1 x w)
    then show ?case by (cases w) (simp add: wp_get_server Let_def wp_bind wp_put_msize wp_return fid_step.reset)
  qed simp_all
  then show ?thesis by (simp add: version_def wp_throw table_refused)
qed

lemma assign_table:
  assumes "bt_ok (srv_fids sv)"
  shows "wp (assign_file K n f d) (\<lambda>g v. g = f\<lparr>fid_file := Some d\<rparr>
      \<and> srv_fids (fst v) = bt_insert (srv_fids sv) n (f\<lparr>fid_file := Some d\<rparr>)
      \<and> table (fst v) = (table sv)(n \<mapsto> (fid_filetype f, True))) E X (sv, k)"
  using assms
  by (simp add: assign_file_def wp_bind wp_set_fid wp_on_kernel wp_return wp_close close_all.simps
      table_insert fid_view_def split: option.split)

lemma lopen_simulates:
  assumes "bt_ok (srv_fids sv)"
  shows "simulates (Tmessage.Lopen m) (lopen K m) Rmessage.Lopen (sv, k)"
proof (cases "bt_get (srv_fids sv) (tlopen_fid m)")
  case (Some f)
  then have f: "table sv (tlopen_fid m) = Some (fid_filetype f, fid_file f \<noteq> None)"
    by (simp add: table_def fid_view_def)
  have asg: "simulates (Tmessage.Lopen m) (io_bind (assign_file K (tlopen_fid m) f d) (\<lambda>_. io_return r))
      Rmessage.Lopen (sv, t)" for d r t
    unfolding wp_bind wp_return
    by (rule wp_mono [OF assign_table [OF assms]]) (use fid_step.file_opened [of "table sv", OF f] in auto)
  show ?thesis
    by (auto simp: lopen_def handler_step Some wp_bind [of "on_kernel a" for a] table_refused
        intro!: wp_kernel_kept asg [unfolded fst_conv])
qed (simp add: lopen_def handler_step table_refused)

lemma lcreate_simulates:
  assumes "bt_ok (srv_fids sv)" and "permits (table sv) (Tmessage.Lcreate m)"
  shows "simulates (Tmessage.Lcreate m) (lcreate K m) Rmessage.Lcreate (sv, k)"
proof -
  let ?n = "tlcreate_fid m" and ?T = "(table sv)(tlcreate_fid m \<mapsto> (Regular, True))"
  obtain f where f: "bt_get (srv_fids sv) ?n = Some f" "fid_filetype f = Directory"
    using assms(2) by (auto simp: table_def fid_view_def)
  have steps: "fid_step (Tmessage.Lcreate m) (Rmessage.Lcreate r) (table sv) ?T"
    "fid_step (Tmessage.Lcreate m) (Lerror e) (table sv) ?T" for r e
    by (rule fid_step.created [OF assms(2)], rule fid_step.half_created [OF assms(2)])
  have stored: "table (v\<lparr>srv_fids := bt_insert (bt_insert (srv_fids sv) ?n a) ?n b\<rparr>) = ?T"
    if "fid_view b = (Regular, True)" for v :: server and a b
    using that assms(1) by (simp add: table_def bt.get_insert bt.inv_insert fun_eq_iff)
  have moved: "table (v\<lparr>srv_fids := bt_insert (bt_insert (bt_insert (srv_fids sv) ?n a) ?n b) ?n c\<rparr>) = ?T"
    if "fid_view c = (Regular, True)" for v :: server and a b c
    using that assms(1) by (simp add: table_def bt.get_insert bt.inv_insert fun_eq_iff)
  have tail: "wp (io_bind (set_fid ?n (g\<lparr>fid_filetype := Regular\<rparr>)) (\<lambda>_.
       io_bind (on_kernel (lookup K (fid_path f) name)) (\<lambda>path.
       io_bind (set_fid ?n (g\<lparr>fid_filetype := Regular, fid_path := path\<rparr>)) (\<lambda>_.
       io_bind (on_kernel (close K (fid_path f))) (\<lambda>_. io_return r)))))
      (\<lambda>r w. fid_step (Tmessage.Lcreate m) (Rmessage.Lcreate r) (table sv) (table (fst w)))
      (\<lambda>_ w. \<forall>e. fid_step (Tmessage.Lcreate m) (Lerror e) (table sv) (table (fst w))) (\<lambda>_. True) (v, t)"
    if "g = f\<lparr>fid_file := Some d\<rparr>" "srv_fids v = bt_insert (srv_fids sv) ?n g" for g d name r t and v :: server
    using that
    by (auto simp: handler_step wp_bind [of "on_kernel a" for a] stored moved steps fid_view_def intro!: wp_kernel_kept)
  have asg: "simulates (Tmessage.Lcreate m) (io_bind (assign_file K ?n f d) (\<lambda>g.
       io_bind (set_fid ?n (g\<lparr>fid_filetype := Regular\<rparr>)) (\<lambda>_.
       io_bind (on_kernel (lookup K (fid_path f) name)) (\<lambda>path.
       io_bind (set_fid ?n (g\<lparr>fid_filetype := Regular, fid_path := path\<rparr>)) (\<lambda>_.
       io_bind (on_kernel (close K (fid_path f))) (\<lambda>_. io_return r))))))
      Rmessage.Lcreate (sv, t)" for d name r t
    unfolding wp_bind [of "assign_file a b c d" for a b c d]
  proof (rule wp_mono [OF assign_table [OF assms(1)]], goal_cases)
    case (1 g w)
    then show ?case by (cases w) (simp only: fst_conv, rule tail [where d = d], simp_all)
  qed auto
  show ?thesis
    by (auto simp: lcreate_def Let_def handler_step f wp_bind [of "on_kernel a" for a] table_refused
        intro!: wp_kernel_kept asg [unfolded fst_conv] split: io_result.split)
qed

subsection \<open>The refinement\<close>

lemma handle_simulates:
  assumes "bt_ok (srv_fids sv)" and "handle K m (sv, k) = (r, (sv', k'))" and "r \<noteq> Panic"
    and "\<And>x. r = Ok x \<Longrightarrow> rmsg_type x = tmsg_type m + 1"
  shows "fid_step m (case r of Ok x \<Rightarrow> x | _ \<Rightarrow> Lerror e) (table sv) (table sv')"
proof (cases "refusal sv m")
  case None
  have p: "permits (table sv) m" by (rule refusal_permits [OF None])
  have sim: ?thesis if "handle K m = io_map g h" "simulates m h g (sv, k)" for g h
  proof -
    have "wp (handle K m) (\<lambda>x v. fid_step m x (table sv) (table (fst v)))
        (\<lambda>_ v. \<forall>e. fid_step m (Lerror e) (table sv) (table (fst v))) (\<lambda>_. True) (sv, k)"
      using that by (simp add: wp_map)
    with assms(2,3) show ?thesis by (cases r) (auto simp: wp_def)
  qed
  show ?thesis
  proof (cases "changeable m = {}")
    case True
    from untouchingD [OF handle_untouching [OF True] assms(2)] have "sv' = sv" by simp
    then show ?thesis
      using p True assms(3,4) by (cases r) (auto intro: fid_step.used fid_step.denied)
  next
    case False
    then show ?thesis
    proof (cases m)
      case (Version q)
      show ?thesis
        by (rule sim [of Rmessage.Version "version K q"]) (simp_all only: Version handle.simps version_simulates)
    next
      case (Attach q)
      from attach_simulates [OF assms(1) p [unfolded Attach]] show ?thesis
        by (intro sim [of Rmessage.Attach "attach K q"]) (simp_all only: Attach handle.simps)
    next
      case (Walk q)
      from walk_simulates [OF assms(1) p [unfolded Walk]] show ?thesis
        by (intro sim [of Rmessage.Walk "walk K q"]) (simp_all only: Walk handle.simps)
    next
      case (Clunk q)
      from clunk_simulates [OF assms(1) p [unfolded Clunk]] show ?thesis
        by (intro sim [of "\<lambda>_. Rmessage.Clunk" "clunk K q"]) (simp_all only: Clunk handle.simps)
    next
      case (Lopen q)
      from lopen_simulates [OF assms(1)] show ?thesis
        by (intro sim [of Rmessage.Lopen "lopen K q"]) (simp_all only: Lopen handle.simps)
    next
      case (Lcreate q)
      from lcreate_simulates [OF assms(1) p [unfolded Lcreate]] show ?thesis
        by (intro sim [of Rmessage.Lcreate "lcreate K q"]) (simp_all only: Lcreate handle.simps)
    qed simp_all
  qed
next
  case (Some d)
  from refused [OF Some, where K = K and k = k] assms(2) show ?thesis by (auto simp: fails_def intro: fid_step.denied)
qed

lemma respond_simulates:
  assumes "bt_ok (srv_fids sv)" and "msize_ok sv" and "wf_tmsg m"
    and "respond K (Ok m) (sv, k) = (Ok x, (sv', k'))"
  shows "fid_step m x (table sv) (table sv')"
proof -
  obtain r w where h: "handle K m (sv, k) = (r, w)" by (cases "handle K m (sv, k)")
  obtain sv1 k1 where w: "w = (sv1, k1)" by (cases w)
  have "MIN_MESSAGE_SIZE \<le> cfg_msize (srv_cfg sv)" "cfg_msize (srv_cfg sv) \<le> MAX_MESSAGE_SIZE"
    using assms(2) by (simp_all add: msize_ok_def)
  from handle_reply [OF assms(3) this, of K k] h
  have type: "rmsg_type y = tmsg_type m + 1" if "r = Ok y" for y
    using that by (simp add: wp_def good_reply_def)
  show ?thesis
  proof (cases r)
    case (Err e)
    obtain d where "error_to_rmessage e = Lerror d" by (auto simp: error_to_rmessage_def Let_def)
    with handle_simulates [OF assms(1) h [unfolded w] _ type, of d] assms(4) h w Err show ?thesis
      by (simp add: respond_def io_or_else_def io_return_apply)
  qed (use handle_simulates [OF assms(1) h [unfolded w] _ type] assms(4) h w in
      \<open>simp_all add: respond_def io_or_else_def\<close>)
qed

lemma respond_garbled:
  assumes "respond K (Err e) w = (Ok x, v)"
  shows "v = w \<and> (\<exists>d. x = Lerror d)"
  using assms by (auto simp: respond_def io_or_else_def io_throw_apply io_return_apply error_to_rmessage_def Let_def)

text \<open>
  Property C5.  In every session the table of fids lives by the protocol: its changes are those of
  the abstract system for the requests and replies on the wire.  A fid appears by an attach or by
  a walk that reaches its end, under a number that is free (or is walked itself); it is used only
  while it is there, read and written only while it is open, listed only as an open directory; it
  goes by a clunk or with a new version; and a request that is answered with an error changes
  nothing, but for the creation that fails half-way.
\<close>

theorem sessions_follow_the_fid_protocol:
  assumes "exchanges K s es t" and "msize_ok (ses_server s)" and "bt_ok (srv_fids (ses_server s))"
  shows "fid_run (table (ses_server s)) es (table (ses_server t))"
  using assms
proof (induction rule: exchanges.induct)
  case (exchange s f left r sv k es t)
  have kept: "server_kept (ses_server s) sv"
    using handle_message_world_kept [OF exchange.hyps(2)] by simp
  have "msize_ok sv" "bt_ok (srv_fids sv)"
    using msize_ok_kept [OF kept exchange.prems(1)] kept exchange.prems(2) by (simp_all add: server_kept_def)
  with exchange.IH have run: "fid_run (table sv) es (table (ses_server t))" by simp
  show ?case
  proof (cases "tframe_msg f")
    case (Ok m)
    have "wf_tmsg m" using decoded_request [OF exchange.hyps(1) Ok] by simp
    from respond_simulates [OF exchange.prems(2,1) this exchange.hyps(2) [unfolded Ok]] run
    show ?thesis unfolding Ok by (rule fid_run.stepped)
  next
    case (Err e)
    from respond_garbled [OF exchange.hyps(2) [unfolded Err]] obtain d where "sv = ses_server s" "r = Lerror d" by auto
    with run show ?thesis by (simp add: Err fid_run.garbled)
  next
    case Panic
    with exchange.hyps(2) show ?thesis by (simp add: respond_def io_or_else_def io_panic_apply)
  qed
qed (rule fid_run.silent)

text \<open>A session in which a client attaches fid 2.\<close>

abbreviation attach_two :: Tattach where
  "attach_two \<equiv> \<lparr>tattach_fid = 2, tattach_afid = 0, tattach_uname = [], tattach_aname = [], tattach_n_uname = 0\<rparr>"

definition attaching :: "int session" where
  "attaching = sample\<lparr>ses_in := frame_bytes TATTACH 5 (bytes_Tattach attach_two) @ [9]\<rparr>"

lemma attaching_exchanged:
  "\<exists>t. exchanges demo_kernel attaching
      [(5, Ok (Tmessage.Attach attach_two), Rmessage.Attach \<lparr>rattach_qid = qid_from demo_stat\<rparr>)] t
    \<and> table (ses_server t) = [1 \<mapsto> (Directory, False), 2 \<mapsto> (Directory, False)]"
proof -
  let ?sv = "demo_server\<lparr>srv_fids := bt_insert (srv_fids demo_server) 2
    \<lparr>fid_path = 5, fid_file = None, fid_filetype = Directory\<rparr>\<rparr>"
  have taken: "reader_take (unat (cfg_msize (srv_cfg (ses_server attaching)))) tframe_decode (ses_in attaching)
      = (Ok \<lparr>tframe_tag = 5, tframe_msg = Ok (Tmessage.Attach attach_two)\<rparr>, [9])"
    by (rule frame_is_taken) (simp_all add: wf_Tattach_def wf_string_def bytes_Tattach_def string_bytes_def
        attaching_def sample_def demo_server_def config_default_def MAX_MESSAGE_SIZE_def)
  have "respond demo_kernel (Ok (Tmessage.Attach attach_two)) (ses_server attaching, ses_kernel attaching)
      = (Ok (Rmessage.Attach \<lparr>rattach_qid = qid_from demo_stat\<rparr>), (?sv, 6))"
    using demo_attach by (simp add: respond_def io_or_else_def io_map_apply attaching_def sample_def)
  from exchanges.exchange [OF taken, simplified, OF this exchanges.quiet]
  obtain t where "exchanges demo_kernel attaching
      [(5, Ok (Tmessage.Attach attach_two), Rmessage.Attach \<lparr>rattach_qid = qid_from demo_stat\<rparr>)] t"
    and "ses_server t = ?sv" by (simp only: session.select_convs)
  moreover have "table ?sv = [1 \<mapsto> (Directory, False), 2 \<mapsto> (Directory, False)]"
    by (auto simp: table_def fid_view_def demo_server_def fun_eq_iff)
  ultimately show ?thesis by metis
qed

theorem sessions_follow_the_fid_protocol_witness:
  "fid_run [1 \<mapsto> (Directory, False)]
    [(5, Ok (Tmessage.Attach attach_two), Rmessage.Attach \<lparr>rattach_qid = qid_from demo_stat\<rparr>)]
    [1 \<mapsto> (Directory, False), 2 \<mapsto> (Directory, False)]"
proof -
  have start: "table (ses_server attaching) = [1 \<mapsto> (Directory, False)]" "bt_ok (srv_fids (ses_server attaching))"
    "msize_ok (ses_server attaching)"
    using sample_sizes by (auto simp: table_def fid_view_def attaching_def sample_def demo_server_def fun_eq_iff
        bt_ok_def msize_ok_def)
  obtain t where t: "exchanges demo_kernel attaching
      [(5, Ok (Tmessage.Attach attach_two), Rmessage.Attach \<lparr>rattach_qid = qid_from demo_stat\<rparr>)] t"
    "table (ses_server t) = [1 \<mapsto> (Directory, False), 2 \<mapsto> (Directory, False)]"
    using attaching_exchanged by blast
  from sessions_follow_the_fid_protocol [OF t(1) start(3,2)] show ?thesis by (simp only: start(1) t(2))
qed

end
