(* ===== verification/Failing_Streams.thy ===== *)
theory Failing_Streams
  imports Conversations
begin

text \<open>
  Rounds of the server on streams that can fail: a request stream that ends in a read error
  instead of an end of file, and a reply stream that takes so many bytes more and then fails.
  On streams that do not fail these are \<open>handle_message\<close> and \<open>main_loop\<close>.
\<close>

subsection \<open>Streams that fail\<close>

text \<open>
  The room of the reply stream: none when it takes everything, else the bytes it still takes and
  the error after them.  The encoders write piece by piece and stop at the first error; all that
  matters of the pieces is how many bytes get through.  Flushing a file does nothing.
\<close>

type_synonym room = "(nat \<times> io_error) option"

definition send :: "room \<Rightarrow> unit io_result \<times> u8 list \<Rightarrow> u8 list \<Rightarrow> unit io_result \<times> u8 list \<times> room" where
  "send room encoded out = (case encoded of (r, bs) \<Rightarrow> (case room of
     None \<Rightarrow> (r, out @ bs, None)
   | Some (n, e) \<Rightarrow> if length bs \<le> n then (r, out @ bs, Some (n - length bs, e))
       else (Err e, out @ take n bs, Some (0, e))))"

text \<open>
  A frame from a stream whose end is a read error: what the decoder does when it asks for a byte
  there.  (It does when one byte more would be taken from the stream as well.)  In the header the
  error is that of the frame; in the body it is that of the message, as the end of file is.
\<close>

definition asks_for_more :: "nat \<Rightarrow> u8 list \<Rightarrow> bool" where
  "asks_for_more n inp = (snd (reader_take n tframe_decode (inp @ [0])) = [])"

definition read_frame :: "io_error option \<Rightarrow> nat \<Rightarrow> Tframe reader" where
  "read_frame fault n inp = (case fault of
     Some e \<Rightarrow> if asks_for_more n inp
       then (case fst (reader_take n tframe_decode inp) of
           Ok f \<Rightarrow> Ok (f\<lparr>tframe_msg := Err e\<rparr>) | _ \<Rightarrow> Err e, [])
       else reader_take n tframe_decode inp
   | None \<Rightarrow> reader_take n tframe_decode inp)"

definition handle_message_over :: "'k kernel \<Rightarrow> io_error option \<Rightarrow> (room \<times> 'k session, unit) io" where
  "handle_message_over K fault = (\<lambda>(room, s).
    (case read_frame fault (unat (cfg_msize (srv_cfg (ses_server s)))) (ses_in s) of
       (Err e, left) \<Rightarrow> (Err e, (room, s\<lparr>ses_in := left\<rparr>))
     | (Panic, left) \<Rightarrow> (Panic, (room, s\<lparr>ses_in := left\<rparr>))
     | (Ok frame, left) \<Rightarrow>
        (case respond K (tframe_msg frame) (ses_server s, ses_kernel s) of
           (Ok rmsg, (sv, k)) \<Rightarrow>
             (case send room (rframe_encode \<lparr>rframe_tag = tframe_tag frame, rframe_msg = rmsg\<rparr> []) (ses_out s) of
                (r, out, room') \<Rightarrow>
                  (r, (room', \<lparr>ses_in = left, ses_out = out, ses_server = sv, ses_kernel = k\<rparr>)))
         | (Err e, (sv, k)) \<Rightarrow> (Err e, (room, s\<lparr>ses_in := left, ses_server := sv, ses_kernel := k\<rparr>))
         | (Panic, (sv, k)) \<Rightarrow> (Panic, (room, s\<lparr>ses_in := left, ses_server := sv, ses_kernel := k\<rparr>)))))"

lemma taken_shrinks:
  assumes "reader_take n tframe_decode inp = (Ok f, left)"
  shows "7 + length left \<le> length inp"
proof -
  from assms obtain rest where d: "tframe_decode (take n inp) = (Ok f, rest)" and left: "left = rest @ drop n inp"
    by (auto simp: reader_take_def split: prod.splits)
  have "length (take n inp) + length (drop n inp) = length inp" by (metis append_take_drop_id length_append)
  with tframe_decode_shrinks [OF d] left show ?thesis by (simp del: length_take length_drop)
qed

lemma read_frame_Ok:
  assumes "read_frame fault n inp = (Ok f, left)"
  obtains f0 left0 where "reader_take n tframe_decode inp = (Ok f0, left0)" and "tframe_tag f = tframe_tag f0"
    and "tframe_msg f = tframe_msg f0 \<or> (\<exists>e. tframe_msg f = Err e)" and "length left \<le> length left0"
  using assms that by (cases "reader_take n tframe_decode inp")
    (auto simp: read_frame_def split: option.splits if_splits io_result.splits)

lemma handle_message_over_shrinks:
  assumes "handle_message_over K fault (room, s) = (Ok (), (room', s'))"
  shows "length (ses_in s') < length (ses_in s)"
proof -
  from assms obtain f left where "read_frame fault (unat (cfg_msize (srv_cfg (ses_server s)))) (ses_in s) = (Ok f, left)"
    and "ses_in s' = left"
    by (auto simp: handle_message_over_def split: prod.splits io_result.splits)
  then show ?thesis by (elim read_frame_Ok) (auto dest: taken_shrinks)
qed

function main_loop_over :: "'k kernel \<Rightarrow> io_error option \<Rightarrow> room \<times> 'k session \<Rightarrow> outcome \<times> 'k session" where
  "main_loop_over K fault w = (case handle_message_over K fault w of
     (Ok _, w') \<Rightarrow> main_loop_over K fault w'
   | (Err e, w') \<Rightarrow> (Exit (if is_eof e then EX_OK else EX_SERVER_ERROR), snd w')
   | (Panic, w') \<Rightarrow> (Panicked, snd w'))"
  by pat_completeness auto

termination
proof (relation "measure (\<lambda>(K, fault, w). length (ses_in (snd w)))", goal_cases)
  case (2 K fault w r w' u)
  then show ?case
    using handle_message_over_shrinks [of K fault "fst w" "snd w" "fst w'" "snd w'"] by simp
qed simp

declare main_loop_over.simps [simp del]

subsection \<open>One round\<close>

lemma asks_broken:
  assumes "broken_header inp" and "7 \<le> n"
  shows "asks_for_more n inp = (length inp < 4 \<or> length inp < min 7 (declared_size inp))"
proof (cases "length inp < n")
  case False
  then have "drop n (inp @ [0]) \<noteq> []" by simp
  then have "\<not> asks_for_more n inp" by (auto simp: asks_for_more_def reader_take_def split: prod.split)
  with False assms show ?thesis by auto
next
  case True
  then have t: "asks_for_more n inp = (snd (tframe_decode (inp @ [0])) = [])"
    by (auto simp: asks_for_more_def reader_take_def split: prod.split)
  have size: "4 \<le> length inp \<Longrightarrow> declared_size (inp @ [0]) = declared_size inp"
    by (simp add: declared_size_def)
  show ?thesis
  proof (cases "broken_header (inp @ [0])")
    case b: True
    from assms(1) b show ?thesis unfolding t tframe_decode_broken_run [OF b]
      by (cases "4 \<le> length inp") (auto simp: size broken_header_def)
  next
    case False
    then obtain f left where d: "tframe_decode (inp @ [0]) = (Ok f, left)" using tframe_decode_whole by blast
    have "length inp = 6" "7 \<le> declared_size inp" using False assms(1) size by (auto simp: broken_header_def)
    with t d tframe_decode_shrinks [OF d] show ?thesis by auto
  qed
qed

text \<open>What a header is refused with.\<close>

definition header_error :: "io_error option \<Rightarrow> u8 list \<Rightarrow> io_error" where
  "header_error fault inp = (if 4 \<le> length inp \<and> declared_size inp < 4 then Kinded InvalidData
     else case fault of
       Some e \<Rightarrow> if length inp < 4 \<or> length inp < declared_size inp then e else Kinded UnexpectedEof
     | None \<Rightarrow> Kinded UnexpectedEof)"

lemma read_frame_broken:
  assumes "broken_header inp" and "7 \<le> n"
  shows "fst (read_frame fault n inp) = Err (header_error fault inp)"
proof -
  have sizes: "4 \<le> length (take n inp) \<longleftrightarrow> 4 \<le> length inp" "declared_size (take n inp) = declared_size inp"
    and b: "broken_header (take n inp)"
    using assms by (auto simp: declared_size_take broken_header_take)
  have "fst (reader_take n tframe_decode inp) = Err (Kinded
      (if 4 \<le> length inp \<and> declared_size inp < 4 then InvalidData else UnexpectedEof))"
    using tframe_decode_broken [OF b] unfolding sizes
    by (cases "tframe_decode (take n inp)") (simp add: reader_take_def)
  then show ?thesis using assms(1)
    by (auto simp: read_frame_def header_error_def asks_broken [OF assms] broken_header_def split: option.split)
qed

lemma read_frame_whole:
  assumes "\<not> broken_header inp" and "7 \<le> n"
  shows "\<exists>f left. read_frame fault n inp = (Ok f, left)"
proof -
  have "\<not> broken_header (take n inp)" using assms by (simp add: broken_header_take)
  then obtain f left where "reader_take n tframe_decode inp = (Ok f, left)"
    using tframe_decode_whole by (fastforce simp: reader_take_def)
  then show ?thesis by (auto simp: read_frame_def split: option.split)
qed

lemma respond_sendable:
  assumes "reader_take (unat (cfg_msize (srv_cfg sv))) tframe_decode inp = (Ok f0, left)" and "msize_ok sv"
    and "tframe_msg f = tframe_msg f0 \<or> (\<exists>e. tframe_msg f = Err e)" and "respond K (tframe_msg f) (sv, k) = (q, w)"
  shows "q = Panic \<or> (\<exists>r. q = Ok r \<and> wf_rmsg r)"
  using assms(3)
proof
  assume "tframe_msg f = tframe_msg f0"
  with respond_reply [OF assms(1), of K k] assms(2,4) show ?thesis
    by (auto simp: wp_def msize_ok_def error_reply good_reply_def split: io_result.splits)
next
  assume "\<exists>e. tframe_msg f = Err e"
  with assms(4) show ?thesis
    by (auto simp: respond_def io_or_else_def io_throw_apply io_return_apply error_reply)
qed

text \<open>A round on a whole header: the handler panics, or its reply is sent as far as the room goes.\<close>

lemma whole_round:
  assumes "\<not> broken_header (ses_in s)" and "msize_ok (ses_server s)"
    and "handle_message_over K fault (room, s) = (r, (room', s'))"
  obtains (panic) "r = Panic"
  | (sent) f left q sv k where
      "read_frame fault (unat (cfg_msize (srv_cfg (ses_server s)))) (ses_in s) = (Ok f, left)"
      and "respond K (tframe_msg f) (ses_server s, ses_kernel s) = (Ok q, (sv, k))" and "wf_rmsg q"
      and "send room (Ok (), reply_bytes_of (tframe_tag f, q)) (ses_out s) = (r, ses_out s', room')"
      and "ses_in s' = left" and "ses_server s' = sv" and "ses_kernel s' = k"
proof -
  let ?n = "unat (cfg_msize (srv_cfg (ses_server s)))"
  obtain f left where f: "read_frame fault ?n (ses_in s) = (Ok f, left)"
    using read_frame_whole [OF assms(1) msize_ok_7 [OF assms(2)]] by blast
  from read_frame_Ok [OF this] obtain f0 left0 where f0: "reader_take ?n tframe_decode (ses_in s) = (Ok f0, left0)"
    "tframe_msg f = tframe_msg f0 \<or> (\<exists>e. tframe_msg f = Err e)" by blast
  obtain q w where q: "respond K (tframe_msg f) (ses_server s, ses_kernel s) = (q, w)"
    by (cases "respond K (tframe_msg f) (ses_server s, ses_kernel s)")
  obtain sv k where w: "w = (sv, k)" by (cases w)
  from respond_sendable [OF f0(1) assms(2) f0(2) q] show thesis
  proof
    assume "q = Panic"
    with assms(3) f q w panic show thesis by (simp add: handle_message_over_def)
  next
    assume "\<exists>x. q = Ok x \<and> wf_rmsg x"
    then obtain x where x: "q = Ok x" "wf_rmsg x" by blast
    then have e: "rframe_encode \<lparr>rframe_tag = tframe_tag f, rframe_msg = x\<rparr> [] = (Ok (), reply_bytes_of (tframe_tag f, x))"
      by (simp add: rframe_encode_bytes reply_bytes_of_def)
    obtain r2 out2 room2 where snd: "send room (Ok (), reply_bytes_of (tframe_tag f, x)) (ses_out s) = (r2, out2, room2)"
      by (cases "send room (Ok (), reply_bytes_of (tframe_tag f, x)) (ses_out s)") auto
    from assms(3) have "r2 = r" "room2 = room'" "s' = \<lparr>ses_in = left, ses_out = out2, ses_server = sv, ses_kernel = k\<rparr>"
      unfolding handle_message_over_def by (simp_all add: f q w x(1) e snd)
    with sent [OF f q [unfolded x(1) w] x(2)] snd show thesis by simp
  qed
qed

subsection \<open>Streams that do not fail, and the end of a session\<close>

text \<open>How much of a reply gets through, and the result of the round.\<close>

definition sent_reply :: "room \<Rightarrow> u8 list \<Rightarrow> unit io_result \<times> u8 list" where
  "sent_reply room bs = (case room of
     Some (n, e) \<Rightarrow> if n < length bs then (Err e, take n bs) else (Ok (), bs)
   | None \<Rightarrow> (Ok (), bs))"

text \<open>
  Property C30.  What ends a session, on streams that can fail: a round of the main loop that does
  not panic fails exactly when the header is broken (cut short, or declaring fewer than 7 bytes),
  and then nothing is answered and nothing changed; or when the reply has no room any more, and then
  as much of it is sent as there is room for.  The error is a bad size's, the end of file's, or that
  of the stream that failed.  A failed round ends the program, with code 0 when its error is an
  unexpected end of file, and with 8 otherwise.
\<close>

theorem what_ends_a_session:
  assumes "msize_ok (ses_server s)" and "handle_message_over K fault (room, s) = (r, (room', s'))"
  shows "(broken_header (ses_in s) \<longrightarrow>
        r = Err (header_error fault (ses_in s)) \<and> s' = s\<lparr>ses_in := ses_in s'\<rparr> \<and> room' = room)
    \<and> (\<not> broken_header (ses_in s) \<and> r \<noteq> Panic \<longrightarrow>
        (\<exists>f rep. read_frame fault (unat (cfg_msize (srv_cfg (ses_server s)))) (ses_in s) = (Ok f, ses_in s')
          \<and> respond K (tframe_msg f) (ses_server s, ses_kernel s) = (Ok rep, (ses_server s', ses_kernel s'))
          \<and> (\<exists>part. sent_reply room (reply_bytes_of (tframe_tag f, rep)) = (r, part) \<and> ses_out s' = ses_out s @ part)))
    \<and> (\<forall>e. r = Err e \<longrightarrow> main_loop_over K fault (room, s) = (Exit (if e = Kinded UnexpectedEof then 0 else 8), s'))"
proof (intro conjI impI allI)
  let ?n = "unat (cfg_msize (srv_cfg (ses_server s)))"
  assume "broken_header (ses_in s)"
  from read_frame_broken [OF this msize_ok_7 [OF assms(1)], of fault] obtain left
    where "read_frame fault ?n (ses_in s) = (Err (header_error fault (ses_in s)), left)"
    by (metis prod.collapse)
  with assms(2) show "r = Err (header_error fault (ses_in s))" "s' = s\<lparr>ses_in := ses_in s'\<rparr>" "room' = room"
    by (auto simp: handle_message_over_def)
next
  let ?n = "unat (cfg_msize (srv_cfg (ses_server s)))"
  assume whole: "\<not> broken_header (ses_in s) \<and> r \<noteq> Panic"
  from whole_round [OF conjunct1 [OF whole] assms] obtain f rep where
    "read_frame fault ?n (ses_in s) = (Ok f, ses_in s')"
    "respond K (tframe_msg f) (ses_server s, ses_kernel s) = (Ok rep, (ses_server s', ses_kernel s'))"
    and sent: "send room (Ok (), reply_bytes_of (tframe_tag f, rep)) (ses_out s) = (r, ses_out s', room')"
    using whole by (metis (no_types))
  moreover from sent have "\<exists>part. sent_reply room (reply_bytes_of (tframe_tag f, rep)) = (r, part)
      \<and> ses_out s' = ses_out s @ part"
    by (auto simp: send_def sent_reply_def split: option.splits if_splits)
  ultimately show "\<exists>f rep. read_frame fault ?n (ses_in s) = (Ok f, ses_in s')
      \<and> respond K (tframe_msg f) (ses_server s, ses_kernel s) = (Ok rep, (ses_server s', ses_kernel s'))
      \<and> (\<exists>part. sent_reply room (reply_bytes_of (tframe_tag f, rep)) = (r, part) \<and> ses_out s' = ses_out s @ part)"
    by blast
next
  fix e assume "r = Err e"
  with assms(2) show "main_loop_over K fault (room, s) = (Exit (if e = Kinded UnexpectedEof then 0 else 8), s')"
    by (subst main_loop_over.simps) (simp add: is_eof_def EX_OK_def EX_SERVER_ERROR_def)
qed

text \<open>One byte of a header arrives, and then reading fails: the session ends with code 8.\<close>

theorem what_ends_a_session_witness:
  "main_loop_over demo_kernel (Some (Os 5)) (None, \<lparr>ses_in = [9], ses_out = [], ses_server = demo_server, ses_kernel = 5\<rparr>)
    = (Exit 8, \<lparr>ses_in = [], ses_out = [], ses_server = demo_server, ses_kernel = 5\<rparr>)"
proof -
  let ?s = "\<lparr>ses_in = [9], ses_out = [], ses_server = demo_server, ses_kernel = 5 :: int\<rparr>"
  have b: "broken_header (ses_in ?s)" and e: "header_error (Some (Os 5)) (ses_in ?s) = Os 5"
    by (simp_all add: broken_header_def header_error_def)
  have m: "msize_ok (ses_server ?s)"
    by (simp add: msize_ok_def demo_server_def config_default_def MIN_MESSAGE_SIZE_def MAX_MESSAGE_SIZE_def)
  obtain r room' s' where h: "handle_message_over demo_kernel (Some (Os 5)) (None, ?s) = (r, (room', s'))"
    by (cases "handle_message_over demo_kernel (Some (Os 5)) (None, ?s)") auto
  from what_ends_a_session [OF m h] b e have "r = Err (Os 5)" "s' = ?s\<lparr>ses_in := ses_in s'\<rparr>"
    and "main_loop_over demo_kernel (Some (Os 5)) (None, ?s) = (Exit 8, s')" by simp_all
  moreover have "ses_in s' = []"
    using h \<open>r = Err (Os 5)\<close> asks_broken [OF b, of "unat (cfg_msize (srv_cfg demo_server))"] msize_ok_7 [OF m]
    by (auto simp: handle_message_over_def read_frame_def split: prod.splits if_splits io_result.splits)
  ultimately show ?thesis by simp
qed

subsection \<open>A reply stream that breaks\<close>

text \<open>
  A round on a reply stream of some room, compared with one on a stream that takes everything: the
  same as long as the reply fits, and else cut off at the room.
\<close>

lemma read_frame_sound [simp]: "read_frame None = (\<lambda>n. reader_take n tframe_decode)"
  by (simp add: read_frame_def fun_eq_iff)

lemma round_over:
  assumes "msize_ok (ses_server s)" and "handle_message K s = (r, s0)"
  shows "(r \<noteq> Ok () \<and> ses_out s0 = ses_out s
      \<and> (\<forall>room. handle_message_over K None (room, s) = (r, (room, s0))))
    \<or> (r = Ok () \<and> (\<exists>bs. ses_out s0 = ses_out s @ bs
      \<and> (\<forall>room. handle_message_over K None (room, s) = (case send room (Ok (), bs) (ses_out s) of
        (r', out, room') \<Rightarrow> (r', (room', s0\<lparr>ses_out := out\<rparr>))))))"
proof -
  let ?n = "unat (cfg_msize (srv_cfg (ses_server s)))"
  obtain x left where x: "reader_take ?n tframe_decode (ses_in s) = (x, left)"
    by (cases "reader_take ?n tframe_decode (ses_in s)")
  show ?thesis
  proof (cases x)
    case (Ok f)
    obtain q sv k where q: "respond K (tframe_msg f) (ses_server s, ses_kernel s) = (q, (sv, k))"
      by (cases "respond K (tframe_msg f) (ses_server s, ses_kernel s)") auto
    from respond_sendable [OF x [unfolded Ok] assms(1) _ q] have "q = Panic \<or> (\<exists>rep. q = Ok rep \<and> wf_rmsg rep)" by simp
    then show ?thesis
    proof
      assume "q = Panic"
      with assms(2) x Ok q show ?thesis by (auto simp: handle_message_def handle_message_over_def)
    next
      assume "\<exists>rep. q = Ok rep \<and> wf_rmsg rep"
      with assms(2) x Ok q show ?thesis
        by (auto simp: handle_message_def handle_message_over_def rframe_encode_bytes)
    qed
  qed (use assms(2) x in \<open>auto simp: handle_message_def handle_message_over_def\<close>)
qed

lemma main_loop_over_ends:
  "handle_message_over K fault w = (r, (room', s')) \<Longrightarrow> r \<noteq> Ok () \<Longrightarrow> main_loop_over K fault w
    = (case r of Err e \<Rightarrow> Exit (if is_eof e then EX_OK else EX_SERVER_ERROR) | _ \<Rightarrow> Panicked, s')"
  by (subst main_loop_over.simps) (cases r; simp)

lemma main_loop_over_goes_on:
  "handle_message_over K fault w = (Ok (), w') \<Longrightarrow> main_loop_over K fault w = main_loop_over K fault w'"
  by (subst main_loop_over.simps) simp

definition cut_short :: "nat \<Rightarrow> io_error \<Rightarrow> u8 list \<Rightarrow> outcome \<times> 'k session \<Rightarrow> u8 list \<Rightarrow> outcome \<times> 'k session \<Rightarrow> bool" where
  "cut_short n e out whole w broken = (ses_out (snd whole) = out @ w
     \<and> (if length w \<le> n then broken = whole
        else fst broken = Exit (if is_eof e then EX_OK else EX_SERVER_ERROR) \<and> ses_out (snd broken) = out @ take n w))"

lemma main_loop_breaks:
  assumes "msize_ok (ses_server s)"
  shows "main_loop_over K None (None, s) = main_loop K s
    \<and> (\<exists>w. cut_short n e (ses_out s) (main_loop K s) w (main_loop_over K None (Some (n, e), s)))"
  using assms
proof (induction K s arbitrary: n rule: main_loop.induct)
  case (1 K s)
  obtain r s0 where h: "handle_message K s = (r, s0)" by (cases "handle_message K s")
  from round_over [OF "1.prems" h] show ?case
  proof (elim disjE conjE exE)
    assume o: "r \<noteq> Ok ()" "ses_out s0 = ses_out s" "\<forall>room. handle_message_over K None (room, s) = (r, (room, s0))"
    have "main_loop K s = (case r of Err e \<Rightarrow> Exit (if is_eof e then EX_OK else EX_SERVER_ERROR) | _ \<Rightarrow> Panicked, s0)"
      using o(1) h by (subst main_loop.simps) (cases r; simp)
    moreover have "main_loop_over K None (room, s) = main_loop K s" for room
      using main_loop_over_ends [OF o(3) [THEN spec] o(1)] calculation by simp
    ultimately show ?thesis using o(2) by (intro conjI exI [of _ "[]"]) (simp_all add: cut_short_def)
  next
    fix bs
    assume ok: "r = Ok ()" and out: "ses_out s0 = ses_out s @ bs"
      and over: "\<forall>room. handle_message_over K None (room, s) = (case send room (Ok (), bs) (ses_out s) of
        (r', out, room') \<Rightarrow> (r', (room', s0\<lparr>ses_out := out\<rparr>)))"
    have same: "s0\<lparr>ses_out := ses_out s @ bs\<rparr> = s0" using out by simp
    have loop: "main_loop K s = main_loop K s0" using h ok by (subst main_loop.simps) simp
    have "msize_ok (ses_server s0)"
      using handle_message_kept [of s K] h msize_ok_kept [OF _ "1.prems"] by simp
    note IH = "1.IH" [OF h [symmetric] ok this]
    have none: "main_loop_over K None (None, s) = main_loop_over K None (None, s0)"
      using over by (intro main_loop_over_goes_on) (simp add: send_def same)
    from IH obtain w where w: "cut_short (n - length bs) e (ses_out s0) (main_loop K s0) w
        (main_loop_over K None (Some (n - length bs, e), s0))" by blast
    have "cut_short n e (ses_out s) (main_loop K s) (bs @ w) (main_loop_over K None (Some (n, e), s))"
    proof (cases "length bs \<le> n")
      case True
      then have "main_loop_over K None (Some (n, e), s) = main_loop_over K None (Some (n - length bs, e), s0)"
        using over by (intro main_loop_over_goes_on) (simp add: send_def same)
      with w True loop out show ?thesis by (auto simp: cut_short_def)
    next
      case False
      then have "handle_message_over K None (Some (n, e), s) = (Err e, (Some (0, e), s0\<lparr>ses_out := ses_out s @ take n bs\<rparr>))"
        using over by (simp add: send_def)
      from main_loop_over_ends [OF this] False w loop out show ?thesis by (simp add: cut_short_def)
    qed
    with none IH loop show ?thesis by auto
  qed
qed

text \<open>
  Property C31.  A reply stream that breaks after \<open>n\<close> bytes: the session sends the first \<open>n\<close> bytes
  of what it sends on a stream that takes everything, and ends with code 8 there (or 0, if the error
  it is given is an unexpected end of file); when all of it fits, the session is the same.  With
  streams that do not fail, it is the session of \<open>main_loop\<close>.
\<close>

theorem broken_pipe_cuts_the_output:
  assumes "msize_ok (ses_server s)" and "main_loop K s = (code, u)" and "ses_out s = []"
    and "main_loop_over K None (Some (n, e), s) = (code', u')"
  shows "ses_out u' = take n (ses_out u)
    \<and> (if length (ses_out u) \<le> n then code' = code \<and> u' = u
       else code' = Exit (if e = Kinded UnexpectedEof then 0 else 8))
    \<and> main_loop_over K None (None, s) = (code, u)"
  using main_loop_breaks [OF assms(1), of K n e] assms(2-4)
  by (auto simp: cut_short_def is_eof_def EX_OK_def EX_SERVER_ERROR_def)

text \<open>The sample session, whose answer has 7 bytes, with room for 5 of them.\<close>

theorem broken_pipe_cuts_the_output_witness:
  "main_loop_over demo_kernel None (None, sample) = main_loop demo_kernel sample
    \<and> ses_out (snd (main_loop_over demo_kernel None (Some (5, Os EPIPE), sample)))
      = take 5 (ses_out (snd (main_loop demo_kernel sample)))"
proof -
  have "msize_ok (ses_server sample)" "ses_out sample = []"
    using sample_sizes by (simp_all add: msize_ok_def sample_def)
  then show ?thesis
    using broken_pipe_cuts_the_output [of sample demo_kernel _ _ 5 "Os EPIPE"] by (metis prod.collapse)
qed

end
