(* ===== verification/Unit_Tests.thy ===== *)
theory Unit_Tests
  imports Wire_Laws Dir_Records
begin

text \<open>
  The unit tests of \<^verbatim>\<open>wire_format.rs\<close> and \<^verbatim>\<open>read_dir.rs\<close>, run on the model: each test is the
  conjunction of its assertions.  A string literal is its UTF-8 bytes; a test that encodes into a
  buffer of the expected length encodes into an empty writer here and compares what was written.
\<close>

subsection \<open>Integers\<close>

definition test_integer_byte_size :: bool where
  "test_integer_byte_size =
    (1 = byte_size wire_u8 0 \<and> 2 = byte_size wire_u16 0 \<and> 4 = byte_size wire_u32 0 \<and> 8 = byte_size wire_u64 0)"

definition test_integer_decode :: bool where
  "test_integer_decode =
    (let buf = [0xef, 0xbe, 0xad, 0xde, 0x0d, 0xf0, 0xad, 0x8b] in
     fst (decode wire_u8 buf) = Ok 0xef \<and> fst (decode wire_u16 buf) = Ok 0xbeef
     \<and> fst (decode wire_u32 buf) = Ok 0xdeadbeef \<and> fst (decode wire_u64 buf) = Ok 0x8badf00ddeadbeef)"

definition test_integer_encode :: bool where
  "test_integer_encode =
    (let val = 0x8badf00ddeadbeef :: u64; expected = [0xef, 0xbe, 0xad, 0xde, 0x0d, 0xf0, 0xad, 0x8b] in
     encode wire_u8 (ucast val) [] = (Ok (), take 1 expected)
     \<and> encode wire_u16 (ucast val) [] = (Ok (), take 2 expected)
     \<and> encode wire_u32 (ucast val) [] = (Ok (), take 4 expected)
     \<and> encode wire_u64 val [] = (Ok (), take 8 expected))"

subsection \<open>Strings\<close>

definition s_google :: rust_string where
"s_google = [71, 111, 111, 103, 108, 101, 32, 86, 105, 100, 101, 111]"

definition s_chinese :: rust_string where
"s_chinese = [231, 189, 145, 233, 161, 181, 32, 229, 155, 190, 231, 137, 135, 32, 232, 181, 132, 232, 174,
    175, 230, 155, 180, 229, 164, 154, 32, 194, 187]"

definition s_greek :: rust_string where
"s_greek = [206, 160, 206, 177, 206, 179, 206, 186, 207, 140, 207, 131, 206, 188, 206, 185, 206, 191, 207,
    130, 32, 206, 153, 207, 131, 207, 132, 207, 140, 207, 130]"

definition s_russian :: rust_string where
"s_russian = [208, 159, 208, 190, 208, 184, 209, 129, 208, 186, 32, 209, 129, 209, 130, 209, 128, 208, 176,
    208, 189, 208, 184, 209, 134, 32, 208, 189, 208, 176, 32, 209, 128, 209, 131, 209, 129, 209, 129, 208,
    186, 208, 190, 208, 188]"

definition s_korean :: rust_string where
"s_korean = [236, 160, 132, 236, 178, 180, 236, 132, 156, 235, 185, 132, 236, 138, 164]"

definition test_strings :: "rust_string list" where
  "test_strings = [s_google, s_chinese, s_greek, s_russian, s_korean]"

definition test_string_byte_size :: bool where
  "test_string_byte_size = list_all (\<lambda>v. of_nat (size_of TYPE(16) + length v) = byte_size wire_string v) test_strings"

definition test_zero_length_string :: bool where
  "test_zero_length_string =
    (byte_size wire_string [] = of_nat (size_of TYPE(16)) \<and> encode wire_string [] [] = (Ok (), [0, 0])
     \<and> fst (decode wire_string [0, 0, 0x61, 0x61]) = Ok [])"

text \<open>\<^verbatim>\<open>expected.push(n as u8)\<close> for each byte of a number, from the lowest on.\<close>

definition pushed :: "nat \<Rightarrow> nat \<Rightarrow> u8 list" where
  "pushed bytes n = map (\<lambda>i. of_nat (drop_bit (8 * i) n)) [0..<bytes]"

definition test_string_encode :: bool where
  "test_string_encode =
    list_all (\<lambda>v. encode wire_string v [] = (Ok (), pushed 2 (length v) @ v)) test_strings"

definition test_string_decode :: bool where
  "test_string_decode =
    (fst (decode wire_string (12 # 0 # s_google)) = Ok s_google
     \<and> fst (decode wire_string (29 # 0 # s_chinese)) = Ok s_chinese
     \<and> fst (decode wire_string (31 # 0 # s_greek)) = Ok s_greek
     \<and> fst (decode wire_string (45 # 0 # s_russian)) = Ok s_russian
     \<and> fst (decode wire_string (15 # 0 # s_korean)) = Ok s_korean)"

definition test_invalid_string_decode :: bool where
  "test_invalid_string_decode = list_all (\<lambda>b. case fst (decode wire_string b) of Err _ \<Rightarrow> True | _ \<Rightarrow> False)
    [[0x06, 0x00, 0xed, 0xa0, 0x80, 0xed, 0xbf, 0xbf],
     [0x05, 0x00, 0xf8, 0x80, 0x80, 0x80, 0xbf],
     [0x04, 0x00, 0xf4, 0x90, 0x80, 0x80],
     [0x04, 0x00, 0x63, 0x61, 0x66, 0xe9],
     [0x04, 0x00, 0xb0, 0xa1, 0xb0, 0xa2]]"

subsection \<open>Vectors and data\<close>

definition test_vector_encode :: bool where
  "test_vector_encode =
    (let vals = [291, 18916, 2497, 22, 797162, 2119732, 3213929716] :: u32 list in
     encode (wire_vec wire_u32) vals []
       = (Ok (), pushed 2 (length vals) @ concat (map (\<lambda>v. pushed 4 (unat v)) vals)))"

definition test_vector_decode :: bool where
  "test_vector_decode =
    (let expected = [2498, 24, 897, 4097789579, 8498119, 684279, 961189198, 7] :: u32 list in
     fst (decode (wire_vec wire_u32) (pushed 2 (length expected) @ concat (map (\<lambda>v. pushed 4 (unat v)) expected)))
       = Ok expected)"

definition test_data_encode :: bool where
  "test_data_encode =
    (let vals = [169, 155, 79, 67, 182, 199, 25, 73, 129, 200] in
     encode wire_data vals [] = (Ok (), pushed 4 (length vals) @ vals))"

definition test_data_decode :: bool where
  "test_data_decode =
    (let expected = [219, 15, 8, 155, 194, 129, 79, 91, 46, 53, 173] in
     fst (decode wire_data (pushed 4 (length expected) @ expected)) = Ok expected)"

text \<open>
  Too long a string: \<^verbatim>\<open>"long"\<close> is pushed while the length is below 65535, which is 16384 times.
\<close>

definition long_str :: rust_string where
  "long_str = concat (replicate 16384 [108, 111, 110, 103]) @ [33]"

definition long_vec :: "u32 list" where
  "long_vec = replicate 0xFFFF 0x8badf00d @ [0x00bab10c]"

definition test_error_cases :: bool where
  "test_error_cases =
    ((case fst (encode wire_string long_str []) of Err _ \<Rightarrow> True | _ \<Rightarrow> False)
     \<and> (case fst (encode (wire_vec wire_u32) long_vec []) of Err _ \<Rightarrow> True | _ \<Rightarrow> False))"

subsection \<open>Derived structs\<close>

record Item =
  item_a :: u64
  item_b :: rust_string
  item_c :: "u16 list"
  item_buf :: data

definition wire_Item :: "Item wire" where
  "wire_Item = wire_struct
    (\<lambda>m. (item_a m, item_b m, item_c m, item_buf m))
    (\<lambda>(a, b, c, buf). \<lparr>item_a = a, item_b = b, item_c = c, item_buf = buf\<rparr>)
    (wire_pair wire_u64 (wire_pair wire_string (wire_pair (wire_vec wire_u16) wire_data)))"

definition item_fields :: "Item \<Rightarrow> u8 list" where
  "item_fields item = pushed 2 (length (item_b item)) @ item_b item
     @ pushed 2 (length (item_c item)) @ concat (map (\<lambda>v. pushed 2 (unat v)) (item_c item))
     @ pushed 4 (length (item_buf item)) @ item_buf item"

definition test_struct_encode :: bool where
  "test_struct_encode =
    (let item = \<lparr>item_a = 0xdead10cc00bab10c,
item_b = [229, 134, 187, 228, 189, 143, 239, 188, 140, 228, 184, 141, 232, 174, 184, 232, 181, 176, 33],
       item_c = [359, 492, 8891], item_buf = [254, 129, 0, 62, 49, 172]\<rparr> in
     encode wire_Item item [] = (Ok (), [0x0c, 0xb1, 0xba, 0x00, 0xcc, 0x10, 0xad, 0xde] @ item_fields item))"

definition test_struct_decode :: bool where
  "test_struct_decode =
    (let expected = \<lparr>item_a = 0xfaceb00c04044b1d,
item_b = [208, 158, 208, 179, 208, 190, 208, 189, 209, 140, 32, 208, 191, 208, 190, 32, 208, 179, 208, 190,
         209, 130, 208, 190, 208, 178, 208, 189, 208, 190, 209, 129, 209, 130, 208, 184, 33],
       item_c = [20067, 32449, 549, 4972, 77, 1987], item_buf = [126, 236, 79, 59, 6, 159]\<rparr> in
     fst (decode wire_Item ([0x1d, 0x4b, 0x04, 0x04, 0x0c, 0xb0, 0xce, 0xfa] @ item_fields expected)) = Ok expected)"

record Nested =
  nested_item :: Item
  nested_val :: "u64 list"

definition wire_Nested :: "Nested wire" where
  "wire_Nested = wire_struct (\<lambda>m. (nested_item m, nested_val m)) (\<lambda>(item, val). \<lparr>nested_item = item, nested_val = val\<rparr>)
    (wire_pair wire_Item (wire_vec wire_u64))"

definition build_encoded_buffer :: "Nested \<Rightarrow> u8 list" where
  "build_encoded_buffer n = pushed 8 (unat (item_a (nested_item n))) @ item_fields (nested_item n)
     @ pushed 2 (length (nested_val n)) @ concat (map (\<lambda>v. pushed 8 (unat v)) (nested_val n))"

definition test_nested_encode :: bool where
  "test_nested_encode =
    (let n = \<lparr>nested_item = \<lparr>item_a = 0xcafed00d8badf00d,
item_b = [233, 190, 141, 227, 129, 140, 230, 136, 145, 227, 129, 140, 230, 149, 181, 227, 130, 146, 229,
         150, 176, 227, 130, 137, 227, 129, 134, 33],
       item_c = [2679, 55919, 44, 38819, 792], item_buf = [129, 55, 200, 93, 7, 68]\<rparr>,
       nested_val = [1954978, 59, 4519, 15679]\<rparr> in
     encode wire_Nested n [] = (Ok (), build_encoded_buffer n))"

definition test_nested_decode :: bool where
  "test_nested_decode =
    (let expected = \<lparr>nested_item = \<lparr>item_a = 0x0ff1ce,
item_b = [233, 190, 141, 231, 165, 158, 227, 129, 174, 229, 137, 163, 227, 130, 146, 229, 150, 176, 227,
         130, 137, 227, 129, 136, 33],
       item_c = [21687, 159, 55, 9217, 192], item_buf = [189, 22, 7, 59, 235]\<rparr>,
       nested_val = [15679, 8619196, 319746, 123957, 77, 0, 492]\<rparr> in
     fst (decode wire_Nested (build_encoded_buffer expected)) = Ok expected)"

subsection \<open>Directory records\<close>

definition test_padded_cstrings :: bool where
  "test_padded_cstrings =
    (strip_padding (ascii ''.'' @ replicate 7 0) = Ok (ascii ''.'')
     \<and> strip_padding (ascii ''..'' @ replicate 6 0) = Ok (ascii ''..'')
     \<and> strip_padding (ascii ''normal cstring'' @ [0]) = Ok (ascii ''normal cstring'')
     \<and> strip_padding (replicate 4 0) = Ok []
     \<and> strip_padding (ascii ''interior'' @ [0] @ ascii ''nul bytes'' @ replicate 3 0) = Ok (ascii ''interior''))"

definition test_no_nul_byte :: bool where
  "test_no_nul_byte = (strip_padding (ascii ''no nul bytes in string'') = Panic)"

subsection \<open>The bytes the tests push are those of the wire format\<close>

lemma of_nat_drop_bit: "(of_nat (drop_bit k (unat w)) :: u8) = ucast (drop_bit k (w :: 'a::len word))"
proof -
  have "take_bit LENGTH('a) (unat w) = unat w" by (simp add: take_bit_nat_eq_self unsigned_less)
  then have "drop_bit k (unat w) = unat (drop_bit k w)" by (simp add: unsigned_drop_bit_eq)
  then show ?thesis by simp
qed

lemma pushed_uint: "bytes = size_of TYPE('a) \<Longrightarrow> pushed bytes (unat (w :: 'a::len word)) = uint_bytes w"
  by (simp only: pushed_def uint_bytes_def of_nat_drop_bit)

lemma pushed_nat:
  "n < 0x10000 \<Longrightarrow> pushed 2 n = uint_bytes (of_nat n :: u16)"
  "m < 0x100000000 \<Longrightarrow> pushed 4 m = uint_bytes (of_nat m :: u32)"
  using pushed_uint [of 2 "of_nat n :: u16"] pushed_uint [of 4 "of_nat m :: u32"]
  by (simp_all add: unat_of_nat take_bit_nat_eq_self)

lemmas pushed_words = pushed_uint [of 2, where 'a = 16, simplified] pushed_uint [of 4, where 'a = 32, simplified]
  pushed_uint [of 8, where 'a = 64, simplified]

lemmas bytes_of_numeral = uint_bytes_def upt_rec

lemma strings_fit: "list_all wf_string test_strings"
  by (simp add: test_strings_def wf_string_def s_google_def s_chinese_def s_greek_def s_russian_def s_korean_def
      in_range_def)

lemma run_integer_byte_size: test_integer_byte_size
  by (simp add: test_integer_byte_size_def wire_uint_def uint_byte_size_def)

lemma run_integer_encode: test_integer_encode
  by (simp add: test_integer_encode_def u8.encode_wf u16.encode_wf u32.encode_wf u64.encode_wf wf_uint_def
      bytes_of_numeral Let_def)

lemma run_integer_decode: test_integer_decode
proof -
  let ?buf = "[0xef, 0xbe, 0xad, 0xde, 0x0d, 0xf0, 0xad, 0x8b] :: u8 list"
  have "?buf = uint_bytes (0xef :: u8) @ tl ?buf" "?buf = uint_bytes (0xbeef :: u16) @ drop 2 ?buf"
    "?buf = uint_bytes (0xdeadbeef :: u32) @ drop 4 ?buf" "?buf = uint_bytes (0x8badf00ddeadbeef :: u64) @ []"
    by (simp_all add: bytes_of_numeral)
  then show ?thesis
    unfolding test_integer_decode_def Let_def
    by (metis u8.decode_bytes u16.decode_bytes u32.decode_bytes u64.decode_bytes wf_uint_def fst_conv)
qed

lemma run_string_byte_size: test_string_byte_size
  using strings_fit
  by (auto simp: test_string_byte_size_def list_all_iff wire_string_def string_byte_size_def)

lemma run_string_encode: test_string_encode
  using strings_fit
  by (auto simp: test_string_encode_def list_all_iff string.encode_wf string_bytes_def pushed_nat wf_string_def)

lemma string_lengths:
  "uint_bytes (of_nat (length s_google) :: u16) = [12, 0]"
  "uint_bytes (of_nat (length s_chinese) :: u16) = [29, 0]"
  "uint_bytes (of_nat (length s_greek) :: u16) = [31, 0]"
  "uint_bytes (of_nat (length s_russian) :: u16) = [45, 0]"
  "uint_bytes (of_nat (length s_korean) :: u16) = [15, 0]"
  by (simp_all add: s_google_def s_chinese_def s_greek_def s_russian_def s_korean_def bytes_of_numeral)

lemma decode_counted_string:
  assumes "wf_string v" and "uint_bytes (of_nat (length v) :: u16) = [b, 0]"
  shows "fst (decode wire_string (b # 0 # v)) = Ok v"
  using string.decode_bytes [OF assms(1), of "[]"] assms(2) by (simp add: string_bytes_def)

lemma run_string_decode: test_string_decode
  using strings_fit
  by (simp add: test_string_decode_def test_strings_def decode_counted_string string_lengths)

lemma run_zero_length_string: test_zero_length_string
proof -
  have fit: "wf_string []" by (simp add: wf_string_def)
  have none: "string_bytes [] = [0, 0]" by (simp add: string_bytes_def bytes_of_numeral)
  show ?thesis
    unfolding test_zero_length_string_def
    using string.encode_wf [OF fit, of "[]"] string.decode_bytes [OF fit, of "[0x61, 0x61]"]
    by (simp add: none) (simp add: wire_string_def string_byte_size_def)
qed

lemma decode_bad_string:
  assumes "inp = uint_bytes (of_nat (length v) :: u16) @ v" and "length v \<le> 0xFFFF" and "\<not> utf8_valid v"
  shows "fst (decode wire_string inp) = Err (Kinded InvalidData)"
  using assms by (simp add: wire_string_def string_decode_after_len unat_of_nat_u16)

lemma run_invalid_string_decode: test_invalid_string_decode
proof -
  have "fst (decode wire_string (b # 0 # v)) = Err (Kinded InvalidData)"
    if "uint_bytes (of_nat (length v) :: u16) = [b, 0]" "length v \<le> 0xFFFF" "\<not> utf8_valid v" for b v
    using that by (intro decode_bad_string [of _ v]) simp_all
  note bad = this
  show ?thesis
    unfolding test_invalid_string_decode_def
    by (simp only: list.pred_inject)
      (intro conjI TrueI; subst bad; simp add: bytes_of_numeral in_range_def)
qed

subsection \<open>Running the tests of vectors, data and structs\<close>

interpretation vec32: wire_strict "wire_vec wire_u32" "wf_vec wf_uint" "vec_bytes uint_bytes"
  by (rule wire_intros)+

lemma wf_vec_uint [simp]: "wf_vec wf_uint xs = (length xs \<le> 0xFFFF)"
  by (simp add: wf_vec_def wf_uint_def list_all_iff)

lemma pushed_vec:
  "length cs \<le> 0xFFFF \<Longrightarrow> pushed 2 (length cs) @ concat (map (\<lambda>v. pushed 2 (unat (v :: u16))) cs) = vec_bytes uint_bytes cs"
  "length ds \<le> 0xFFFF \<Longrightarrow> pushed 2 (length ds) @ concat (map (\<lambda>v. pushed 4 (unat (v :: u32))) ds) = vec_bytes uint_bytes ds"
  "length es \<le> 0xFFFF \<Longrightarrow> pushed 2 (length es) @ concat (map (\<lambda>v. pushed 8 (unat (v :: u64))) es) = vec_bytes uint_bytes es"
  by (simp_all add: vec_bytes_def pushed_nat pushed_words cong: map_cong)

lemma pushed_string: "length s \<le> 0xFFFF \<Longrightarrow> pushed 2 (length s) @ s = string_bytes s"
  by (simp add: string_bytes_def pushed_nat)

lemma pushed_data: "length d \<le> 0xFFFF \<Longrightarrow> pushed 4 (length d) @ d = data_bytes d"
  by (simp add: data_bytes_def pushed_nat)

lemma run_vector_encode: test_vector_encode
  unfolding test_vector_encode_def Let_def by (subst pushed_vec; simp add: vec32.encode_wf)

lemma run_vector_decode: test_vector_decode
  unfolding test_vector_decode_def Let_def
  by (subst pushed_vec; simp add: vec32.decode_bytes [where rest = "[]", simplified])

lemma run_data_encode: test_data_encode
  unfolding test_data_encode_def Let_def
  by (subst pushed_data; simp add: data.encode_wf wf_data_def MAX_DATA_LENGTH_nat)

lemma run_data_decode: test_data_decode
  unfolding test_data_decode_def Let_def
  by (subst pushed_data;
      simp add: data.decode_bytes [where rest = "[]", simplified] wf_data_def MAX_DATA_LENGTH_nat)

lemma run_error_cases: test_error_cases
proof -
  have "length (concat (replicate n [108, 111, 110, 103 :: u8])) = 4 * n" for n by (induction n) simp_all
  then have "length long_str > 0xFFFF" by (simp add: long_str_def)
  moreover have "length long_vec > 0xFFFF" by (simp only: long_vec_def length_append length_replicate) simp
  ultimately show ?thesis
    by (simp add: test_error_cases_def wire_string_def string_encode_def wire_vec_def vec_encode_def io_simps)
qed

definition wf_Item :: "Item \<Rightarrow> bool" where
  "wf_Item m = (wf_string (item_b m) \<and> length (item_c m) \<le> 0xFFFF \<and> wf_data (item_buf m))"

definition bytes_Item :: "Item \<Rightarrow> u8 list" where
  "bytes_Item m = uint_bytes (item_a m) @ string_bytes (item_b m) @ vec_bytes uint_bytes (item_c m)
    @ data_bytes (item_buf m)"

interpretation Item: wire_strict wire_Item wf_Item bytes_Item
  unfolding wire_Item_def
  by (rule wire_struct_strict, (rule wire_intros)+)
    (auto simp: wf_Item_def bytes_Item_def wf_pair_def pair_bytes_def wf_uint_def)

lemmas [wire_intros] = Item.wire_format_axioms

definition wf_Nested :: "Nested \<Rightarrow> bool" where
  "wf_Nested m = (wf_Item (nested_item m) \<and> length (nested_val m) \<le> 0xFFFF)"

definition bytes_Nested :: "Nested \<Rightarrow> u8 list" where
  "bytes_Nested m = bytes_Item (nested_item m) @ vec_bytes uint_bytes (nested_val m)"

interpretation Nested: wire_strict wire_Nested wf_Nested bytes_Nested
  unfolding wire_Nested_def
  by (rule wire_struct_strict, (rule wire_intros)+)
    (auto simp: wf_Nested_def bytes_Nested_def wf_pair_def pair_bytes_def)

lemma item_fields_bytes:
  "wf_string (item_b m) \<Longrightarrow> length (item_c m) \<le> 0xFFFF \<Longrightarrow> length (item_buf m) \<le> 0xFFFF \<Longrightarrow>
    uint_bytes (item_a m) @ item_fields m = bytes_Item m"
  using pushed_string [of "item_b m"] pushed_vec(1) [of "item_c m"] pushed_data [of "item_buf m"]
  by (simp add: item_fields_def bytes_Item_def wf_string_def flip: append_assoc)

lemma built_buffer_bytes:
  "wf_string (item_b (nested_item n)) \<Longrightarrow> length (item_c (nested_item n)) \<le> 0xFFFF \<Longrightarrow>
    length (item_buf (nested_item n)) \<le> 0xFFFF \<Longrightarrow> length (nested_val n) \<le> 0xFFFF \<Longrightarrow>
    build_encoded_buffer n = bytes_Nested n"
  using item_fields_bytes [of "nested_item n"] pushed_vec(3) [of "nested_val n"]
  by (simp add: build_encoded_buffer_def bytes_Nested_def pushed_words flip: append_assoc)

lemma Item_roundtrip:
  assumes "wf_string (item_b m)" "length (item_c m) \<le> 0xFFFF" "length (item_buf m) \<le> 0xFFFF"
    and "uint_bytes (item_a m) = a"
  shows "encode wire_Item m [] = (Ok (), a @ item_fields m)"
    and "fst (decode wire_Item (a @ item_fields m)) = Ok m"
proof -
  have "wf_Item m" using assms by (simp add: wf_Item_def wf_data_def MAX_DATA_LENGTH_nat)
  then show "encode wire_Item m [] = (Ok (), a @ item_fields m)"
    "fst (decode wire_Item (a @ item_fields m)) = Ok m"
    using item_fields_bytes [OF assms(1-3)] Item.decode_bytes [of m "[]"] assms(4)
    by (auto simp: Item.encode_wf)
qed

lemma Nested_roundtrip:
  assumes "wf_string (item_b (nested_item n))" "length (item_c (nested_item n)) \<le> 0xFFFF"
    "length (item_buf (nested_item n)) \<le> 0xFFFF" "length (nested_val n) \<le> 0xFFFF"
  shows "encode wire_Nested n [] = (Ok (), build_encoded_buffer n)"
    and "fst (decode wire_Nested (build_encoded_buffer n)) = Ok n"
proof -
  have "wf_Nested n" using assms by (simp add: wf_Nested_def wf_Item_def wf_data_def MAX_DATA_LENGTH_nat)
  then show "encode wire_Nested n [] = (Ok (), build_encoded_buffer n)"
    "fst (decode wire_Nested (build_encoded_buffer n)) = Ok n"
    using built_buffer_bytes [OF assms] Nested.decode_bytes [of n "[]"] by (auto simp: Nested.encode_wf)
qed

lemma run_struct_encode: test_struct_encode
  unfolding test_struct_encode_def Let_def
  by (rule Item_roundtrip(1)) (simp_all add: wf_string_def in_range_def bytes_of_numeral)

lemma run_struct_decode: test_struct_decode
  unfolding test_struct_decode_def Let_def
  by (rule Item_roundtrip(2)) (simp_all add: wf_string_def in_range_def bytes_of_numeral)

lemma run_nested_encode: test_nested_encode
  unfolding test_nested_encode_def Let_def
  by (rule Nested_roundtrip(1)) (simp_all add: wf_string_def in_range_def)

lemma run_nested_decode: test_nested_decode
  unfolding test_nested_decode_def Let_def
  by (rule Nested_roundtrip(2)) (simp_all add: wf_string_def in_range_def)

lemma run_padded_cstrings: test_padded_cstrings
  by (simp add: test_padded_cstrings_def strip_padding_def ascii_def)

lemma run_no_nul_byte: test_no_nul_byte
  by (simp add: test_no_nul_byte_def strip_padding_def ascii_def)

subsection \<open>All of them\<close>

text \<open>
  The model passes the repository's own unit tests of the wire format and of
  directory records: the encoders write and the decoders read back the tests' integers, strings
  (in five scripts), vectors, data, structs and nested structs in the bytes the tests spell out; bytes that are not
  UTF-8, a string of 65537 bytes and a vector of 65536 elements are refused; \<^verbatim>\<open>strip_padding\<close> cuts at the
  first NUL byte and panics where there is none.
\<close>

lemma unit_tests_pass:
  "test_integer_byte_size \<and> test_integer_decode \<and> test_integer_encode
   \<and> test_string_byte_size \<and> test_zero_length_string \<and> test_string_encode \<and> test_string_decode
   \<and> test_invalid_string_decode \<and> test_vector_encode \<and> test_vector_decode
   \<and> test_data_encode \<and> test_data_decode \<and> test_error_cases
   \<and> test_struct_encode \<and> test_struct_decode \<and> test_nested_encode \<and> test_nested_decode
   \<and> test_padded_cstrings \<and> test_no_nul_byte"
  by (intro conjI run_integer_byte_size run_integer_decode run_integer_encode
      run_string_byte_size run_zero_length_string run_string_encode run_string_decode
      run_invalid_string_decode run_vector_encode run_vector_decode
      run_data_encode run_data_decode run_error_cases
      run_struct_encode run_struct_decode run_nested_encode run_nested_decode
      run_padded_cstrings run_no_nul_byte)

end
