(* ===== verification/Spec2Isabelle.thy ===== *)
theory Spec2Isabelle
  imports Codec_Properties Session_Properties Reply_Properties Program_Properties Fid_Properties
    File_Properties Dir_Properties Plain_Requests No_Panics Conversations Fid_Protocol
    Failing_Streams Unit_Tests
begin

text \<open>
  The file server of the Qubes shared folders, \<^verbatim>\<open>qfsd\<close>: a program that speaks 9P2000.L
  over a pair of descriptors and serves one folder of its machine to another one.  This
  development models its Rust code (\<^verbatim>\<open>src/main.rs\<close> and the crate in \<^verbatim>\<open>p9/src\<close>),
  but for what the last paragraph lists, and proves what it does; paths below are relative to the
  source repository.

  \<^bold>\<open>The program.\<close>  \<^verbatim>\<open>main\<close> checks its arguments, opens the folder's server and loops over
  \<^verbatim>\<open>Server::handle_message\<close> until a request cannot be read.  One round decodes a request
  frame (\<^verbatim>\<open>Tframe\<close>) from at most the negotiated number of bytes, hands the message to one
  of 28 methods of \<^verbatim>\<open>Server\<close>, turns an error into \<^verbatim>\<open>Rlerror\<close>, and encodes one reply
  frame (\<^verbatim>\<open>Rframe\<close>) under the request's tag.  The server's state is a table of fids (a path
  descriptor, perhaps an open file, and a file type each), the descriptor of \<^verbatim>\<open>/proc\<close> and the
  configuration.

  \<^bold>\<open>The model.\<close>  Every fallible call is a function from a state to a Rust result (\<open>Ok\<close>,
  \<open>Err\<close>, \<open>Panic\<close>) and a state (\<open>io\<close> in \<open>P9_Prelude\<close>).  A reader is the list of bytes
  before end of file, a writer the bytes written so far.  The kernel is a parameter, a function
  from a system call and its own state to a result, an errno and the buffers it fills; nothing is
  assumed of it except as a named hypothesis of a theorem.  Arithmetic is that of the release
  build: it wraps at the width of its type.  Files are descriptors, and each place where Rust drops
  a \<^verbatim>\<open>File\<close> is an explicit \<open>Close\<close>.

  \<^bold>\<open>Theories and sources.\<close>
  \<^item> \<open>P9_Prelude\<close>, \<open>Text_Strings\<close>, \<open>BTree_Map\<close>: results, the state monad and its weakest
    preconditions; strings and UTF-8; the ordered map and its contract, the locale
    \<open>ordered_map\<close>.
  \<^item> \<open>Wire_Format\<close> (\<^verbatim>\<open>protocol/wire_format.rs\<close>): integers, strings, vectors, data, and the
    derived code of structs.  The trait \<^verbatim>\<open>WireFormat\<close> is the record \<open>wire\<close> and its contract the
    locale \<open>wire_format\<close> (\<open>wire_strict\<close> for codecs that refuse every cut input).  \<open>Wire_Laws\<close>
    interprets it for each implementation and derives the rules for structs.
  \<^item> \<open>T_Messages\<close>, \<open>R_Messages\<close>, \<open>Frames\<close> (\<^verbatim>\<open>protocol/messages.rs\<close>): each request and
    reply struct with an interpretation of the contract, then the two frames.  \<open>Frame_Correct\<close>
    holds their lemmas.
  \<^item> \<open>Kernel\<close> (\<^verbatim>\<open>lib.rs\<close> and libc), \<open>Read_Dir\<close> (\<^verbatim>\<open>server/read_dir.rs\<close>).
  \<^item> \<open>Server_Core\<close>, \<open>Server_Ops\<close>, \<open>Dispatch\<close> (\<^verbatim>\<open>server/mod.rs\<close>, \<^verbatim>\<open>main.rs\<close>,
    \<^verbatim>\<open>fuzzing.rs\<close>): file helpers and configuration; the state and its 28 request handlers, in the
    order of the code; start-up, dispatch, the main loop and the exit codes.
  \<^item> \<open>Descriptors\<close>, \<open>Handler_Contract\<close>, \<open>Handlers\<close>, \<open>Sessions\<close>: the audited kernel, which
    counts open descriptors and checks each call; the contracts \<open>handler\<close> and \<open>audited_handler\<close>,
    interpreted on every handler; and the reachable states of a session (\<open>serving\<close>), an
    inductive predicate.
  \<^item> \<open>Replies\<close>, \<open>Handler_Runs\<close>, \<open>Dir_Records\<close>, \<open>Demo_Kernel\<close>: weakest preconditions of the
    replies, rules to run a handler on given answers of the kernel and plans of calls (\<open>perform\<close>), the records of
    \<^verbatim>\<open>getdents64\<close> and their iteration, and the small kernel the witnesses use.
  \<^item> \<open>Failing_Streams\<close> (\<^verbatim>\<open>server/mod.rs\<close>, \<^verbatim>\<open>main.rs\<close>): the round and the main loop again, over a
    request stream that ends in a read error and a reply stream that takes so many bytes and fails.
  \<^item> \<open>Unit_Tests\<close> (the test modules of \<^verbatim>\<open>wire_format.rs\<close> and \<^verbatim>\<open>read_dir.rs\<close>): each test as the
    conjunction of its assertions.

  \<^bold>\<open>What is proved.\<close>
  \<^item> \<open>Codec_Properties\<close>: round trips of integers and frames, what the size field says, that a
    decoder never panics and stays inside the declared size, and what it does with every bad one.
  \<^item> \<open>Session_Properties\<close>: the descriptors that are open between two requests are exactly those
    of the fid table and \<^verbatim>\<open>/proc\<close>, for every kernel and every client.
  \<^item> \<open>Program_Properties\<close>: on a well-formed stream the program refines a server on messages
    (\<open>serve\<close>); which bytes end a session; what stays constant in a session; and
    the parsing of the arguments and of the configuration.
  \<^item> \<open>Reply_Properties\<close>: one reply per request, well formed, of the right type and tag, and its
    size against the negotiated one.
  \<^item> \<open>Fid_Properties\<close>: requests that are refused without a system call (\<open>refusal\<close>), which
    entries a request can change, and attach, walk, clunk and version.
  \<^item> \<open>Plain_Requests\<close>: the table of the requests that are one system call each (\<open>plain_call\<close>,
    \<open>plain_reply\<close>), which the handlers follow on every kernel, and a write read back over the wire.
  \<^item> \<open>File_Properties\<close>: open flags, open, read, creation, and the plan that setting attributes
    amounts to on every kernel (\<open>set_attr_plan\<close>).
  \<^item> \<open>Dir_Properties\<close>: the records of \<^verbatim>\<open>getdents64\<close>, iteration over them, listings, and the
    case-folded lookup, on a kernel that delivers a directory to its end (\<open>delivers\<close>), for listings
    with the attributes of each entry in between (\<open>reads_through\<close>).
  \<^item> \<open>No_Panics\<close>: a whole run ends with one of three exit codes, and does not panic, on every
    kernel whose directory records are laid out as documented (the locale \<open>orderly_kernel\<close>), with
    arguments that make sense (\<open>arguments_ok\<close>).  Every
    handler is shown \<open>calm\<close>: it does not panic and leaves its state sound.
  \<^item> \<open>Conversations\<close>: a session as the list of its exchanges (a decoded request and its reply); the
    bytes it sends are the well-typed replies of that list, as a client decodes them.
  \<^item> \<open>Fid_Protocol\<close>: the abstract protocol of fids, a step relation on requests, replies and a
    table of types and open flags, and the simulation of it by every session.
  \<^item> \<open>Failing_Streams\<close>: what ends a session, and with which code, on streams that can fail; a reply
    stream that breaks has carried a prefix of the session's output.
  \<^item> \<open>Unit_Tests\<close>: the model passes the repository's tests.

  \<^bold>\<open>Termination.\<close>  There is no fuel.  The main loop and the fuzzing loop end because a round that
  succeeds reads at least the 7 bytes of a header; the loop of \<^verbatim>\<open>readdir\<close> ends because each round
  that goes on fills at least 24 bytes of the room asked for; the walk is structural in the names.
  Only the case-folded search need not end (a kernel may deliver entries forever): it is a
  partial function, and it is proved to return on every directory that ends.  A search that does
  not return is a \<open>Panic\<close> of the call around it, so that theorems about \<open>Ok\<close> and \<open>Err\<close> say nothing
  of it.  The program itself starts its server with the default configuration, which does not fold
  case, so that \<open>program_never_panics\<close> also says that a run on a finite input ends.

  \<^bold>\<open>Not modelled.\<close>  The messages on standard error; read and write errors
  on the two streams outside \<open>Failing_Streams\<close>, and read errors that a later read does not meet
  again; the repetition of interrupted calls inside the standard library; allocation failure, and the
  difference between a vector's capacity and what was asked for (a byte vector gets exactly that);
  descriptors passed on the command line that are not open; the \<^verbatim>\<open>serde\<close> derives of the configuration,
  which nothing uses; the tokens the derive macro works on (its output is modelled); the tests in
  \<^verbatim>\<open>server/tests.rs\<close>, which work on a real file system.
  The Python tools, the RPC scripts, the policy and the packaging are not Rust and stay outside, as
  do the vendored crates.
\<close>

end
